(* ===== verification/PyValue.thy ===== *)
theory PyValue
  imports Prelude
begin

text \<open>
  The dynamic values the Python code works on: what \<open>json.loads\<close> returns and
  \<open>json.dumps\<close> accepts.  A dict is an association list in insertion order; the
  operations below keep its keys distinct, as Python does.  A float carries
  its exact rational value and the text \<open>repr\<close> gives it (NaN and the infinities
  are not represented).  Included are the parts of the language the code uses on
  such values: \<open>==\<close>, truth testing, \<open>str()\<close>, \<open>dict.get\<close>, item assignment,
  \<open>dict.update\<close>, \<open>dict.pop\<close> and \<open>json.dumps\<close> with sorted keys.
\<close>

named_theorems dict_simps \<open>lookup after update in dicts\<close>

datatype val =
    VNone
  | VBool bool
  | VInt int
  | VFloat rat string
  | VStr string
  | VList "val list"
  | VDict "(string \<times> val) list"

type_synonym dict = "(string \<times> val) list"

subsection \<open>Dictionaries\<close>

abbreviation dget :: "dict \<Rightarrow> string \<Rightarrow> val option" where
  "dget d k \<equiv> map_of d k"

text \<open>\<open>d.get(k)\<close> and \<open>d.get(k, default)\<close>.\<close>

definition dget_none :: "dict \<Rightarrow> string \<Rightarrow> val" where
  "dget_none d k = (case dget d k of None \<Rightarrow> VNone | Some v \<Rightarrow> v)"

definition dget_or :: "dict \<Rightarrow> string \<Rightarrow> val \<Rightarrow> val" where
  "dget_or d k v = (case dget d k of None \<Rightarrow> v | Some w \<Rightarrow> w)"

text \<open>\<open>d[k] = v\<close>, \<open>d.pop(k, None)\<close>, \<open>d.update(e)\<close>, \<open>d.setdefault(k, v)\<close>.\<close>

abbreviation dset :: "dict \<Rightarrow> string \<Rightarrow> val \<Rightarrow> dict" where
  "dset d k v \<equiv> AList.update k v d"

abbreviation dpop :: "dict \<Rightarrow> string \<Rightarrow> dict" where
  "dpop d k \<equiv> AList.delete k d"

fun dupdate :: "dict \<Rightarrow> dict \<Rightarrow> dict" where
  "dupdate d [] = d"
| "dupdate d ((k, v) # e) = dupdate (dset d k v) e"

definition dsetdefault :: "dict \<Rightarrow> string \<Rightarrow> val \<Rightarrow> dict" where
  "dsetdefault d k v = (case dget d k of None \<Rightarrow> dset d k v | Some _ \<Rightarrow> d)"

abbreviation dkeys :: "dict \<Rightarrow> string set" where
  "dkeys d \<equiv> fst ` set d"

definition dict_ok :: "dict \<Rightarrow> bool" where
  "dict_ok d \<longleftrightarrow> distinct (map fst d)"

lemma dget_dset [dict_simps, simp]:
  "dget (dset d k v) k' = (if k' = k then Some v else dget d k')"
  by (simp add: update_conv')

lemma dget_dpop [dict_simps, simp]:
  "dget (dpop d k) k' = (if k' = k then None else dget d k')"
  by (simp add: delete_conv')

lemma dget_none_dset [dict_simps, simp]:
  "dget_none (dset d k v) k' = (if k' = k then v else dget_none d k')"
  by (simp add: dget_none_def)

lemma dget_or_dset [dict_simps, simp]:
  "dget_or (dset d k v) k' w = (if k' = k then v else dget_or d k' w)"
  by (simp add: dget_or_def)

lemma dget_dupdate [dict_simps]:
  "dget (dupdate d e) k = (case dget (rev e) k of None \<Rightarrow> dget d k | Some v \<Rightarrow> Some v)"
  by (induction d e rule: dupdate.induct) (auto simp: map_add_def split: option.splits)

lemma dget_rev: "dict_ok d \<Longrightarrow> dget (rev d) k = dget d k"
  unfolding dict_ok_def
proof (induction d)
  case (Cons p d)
  obtain a b where p: "p = (a, b)" by (cases p)
  from Cons.prems p have "dget d a = None"
    by (force simp: map_of_eq_None_iff)
  with Cons p show ?case by (auto simp: map_add_def split: option.splits)
qed simp

lemma dget_dsetdefault [dict_simps]:
  "dget (dsetdefault d k v) k' =
     (if k' = k \<and> dget d k = None then Some v else dget d k')"
  by (auto simp: dsetdefault_def split: option.splits)

lemma dict_ok_dset [simp]: "dict_ok d \<Longrightarrow> dict_ok (dset d k v)"
  by (simp add: dict_ok_def distinct_update)

lemma dict_ok_dupdate: "dict_ok d \<Longrightarrow> dict_ok (dupdate d e)"
  by (induction d e rule: dupdate.induct) auto

lemma dkeys_dget: "k \<in> dkeys d \<longleftrightarrow> dget d k \<noteq> None"
  by (auto simp: map_of_eq_None_iff image_iff dest: map_of_SomeD weak_map_of_SomeI)

lemma dkeys_dset [simp]: "dkeys (dset d k v) = insert k (dkeys d)"
  by (simp add: dom_update)

lemma dkeys_dupdate: "dkeys (dupdate d e) = dkeys d \<union> dkeys e"
  by (induction d e rule: dupdate.induct) auto

lemma dget_frame_dupdate: "k \<notin> dkeys e \<Longrightarrow> dget (dupdate d e) k = dget d k"
  by (induction d e rule: dupdate.induct) auto

subsection \<open>Truth, equality, text\<close>

fun truthy :: "val \<Rightarrow> bool" where
  "truthy VNone = False"
| "truthy (VBool b) = b"
| "truthy (VInt i) = (i \<noteq> 0)"
| "truthy (VFloat r _) = (r \<noteq> 0)"
| "truthy (VStr s) = (s \<noteq> [])"
| "truthy (VList xs) = (xs \<noteq> [])"
| "truthy (VDict d) = (d \<noteq> [])"

text \<open>\<open>a or b\<close>.\<close>

definition py_or :: "val \<Rightarrow> val \<Rightarrow> val" where
  "py_or a b = (if truthy a then a else b)"

fun is_dict :: "val \<Rightarrow> bool" where
  "is_dict (VDict _) = True" | "is_dict _ = False"

fun is_list :: "val \<Rightarrow> bool" where
  "is_list (VList _) = True" | "is_list _ = False"

fun is_str :: "val \<Rightarrow> bool" where
  "is_str (VStr _) = True" | "is_str _ = False"

text \<open>\<open>type(v) is int\<close>: a bool is not one.\<close>

fun is_int :: "val \<Rightarrow> bool" where
  "is_int (VInt _) = True" | "is_int _ = False"

fun is_bool :: "val \<Rightarrow> bool" where
  "is_bool (VBool _) = True" | "is_bool _ = False"

fun as_dict :: "val \<Rightarrow> dict" where
  "as_dict (VDict d) = d" | "as_dict _ = []"

fun as_list :: "val \<Rightarrow> val list" where
  "as_list (VList xs) = xs" | "as_list _ = []"

fun as_str :: "val \<Rightarrow> string" where
  "as_str (VStr s) = s" | "as_str _ = []"

fun as_int :: "val \<Rightarrow> int" where
  "as_int (VInt i) = i" | "as_int _ = 0"

lemma is_dict_iff: "is_dict v \<longleftrightarrow> (\<exists>d. v = VDict d)" by (cases v) auto
lemma is_list_iff: "is_list v \<longleftrightarrow> (\<exists>xs. v = VList xs)" by (cases v) auto
lemma is_str_iff: "is_str v \<longleftrightarrow> (\<exists>s. v = VStr s)" by (cases v) auto
lemma is_int_iff: "is_int v \<longleftrightarrow> (\<exists>i. v = VInt i)" by (cases v) auto
lemma is_bool_iff: "is_bool v \<longleftrightarrow> (\<exists>b. v = VBool b)" by (cases v) auto

lemmas is_iffs = is_dict_iff is_list_iff is_str_iff is_int_iff is_bool_iff

text \<open>
  \<open>==\<close>: bools and numbers compare by value, dicts without regard to order.
\<close>

fun num_of :: "val \<Rightarrow> rat option" where
  "num_of (VBool b) = Some (if b then 1 else 0)"
| "num_of (VInt i) = Some (of_int i)"
| "num_of (VFloat r _) = Some r"
| "num_of _ = None"

fun py_eq :: "val \<Rightarrow> val \<Rightarrow> bool"
  and py_eq_list :: "val list \<Rightarrow> val list \<Rightarrow> bool"
  and py_sub_dict :: "dict \<Rightarrow> dict \<Rightarrow> bool" where
  "py_eq (VStr s) w = (w = VStr s)"
| "py_eq VNone w = (w = VNone)"
| "py_eq (VList xs) w = (case w of VList ys \<Rightarrow> py_eq_list xs ys | _ \<Rightarrow> False)"
| "py_eq (VDict d) w =
     (case w of VDict e \<Rightarrow> length d = length e \<and> py_sub_dict d e | _ \<Rightarrow> False)"
| "py_eq (VBool b) w = (num_of w = Some (if b then 1 else 0))"
| "py_eq (VInt i) w = (num_of w = Some (of_int i))"
| "py_eq (VFloat r t) w = (num_of w = Some r)"
| "py_eq_list [] ys = (ys = [])"
| "py_eq_list (x # xs) ys =
     (case ys of [] \<Rightarrow> False | y # ys' \<Rightarrow> py_eq x y \<and> py_eq_list xs ys')"
| "py_sub_dict [] e = True"
| "py_sub_dict ((k, v) # d) e =
     ((case map_of e k of None \<Rightarrow> False | Some w \<Rightarrow> py_eq v w) \<and> py_sub_dict d e)"

fun wf_val :: "val \<Rightarrow> bool" where
  "wf_val (VList xs) = list_all wf_val xs"
| "wf_val (VDict d) = (distinct (map fst d) \<and> list_all (\<lambda>p. wf_val (snd p)) d)"
| "wf_val _ = True"

lemma py_eq_list_pointwise: "py_eq_list xs ys \<longleftrightarrow> list_all2 py_eq xs ys"
  by (induction xs arbitrary: ys) (auto split: list.splits)

lemma py_sub_dict_pointwise:
  "py_sub_dict d e \<longleftrightarrow>
     (\<forall>(k, v) \<in> set d. \<exists>w. map_of e k = Some w \<and> py_eq v w)"
  by (induction d) (auto split: option.splits)

lemma py_eq_refl: "wf_val v \<Longrightarrow> py_eq v v"
proof (induction v)
  case (VList xs)
  then show ?case
    by (auto simp: py_eq_list_pointwise list.pred_set intro!: list_all2_all_nthI)
next
  case (VDict d)
  show ?case
    unfolding py_eq.simps val.case py_sub_dict_pointwise
  proof (intro conjI refl ballI, clarify)
    fix k v assume kv: "(k, v) \<in> set d"
    with VDict.prems have "map_of d k = Some v" and "wf_val v"
      by (auto simp: list.pred_set)
    moreover from kv \<open>wf_val v\<close> have "py_eq v v"
      using VDict.IH [of "(k, v)" v] by auto
    ultimately show "\<exists>w. map_of d k = Some w \<and> py_eq v w" by blast
  qed
qed auto

end
