(* ===== verification/Json.thy ===== *)
theory Json
  imports PyValue "HOL-Library.Multiset" "HOL-Library.List_Lexorder" "HOL-Library.Char_ord"
begin

text \<open>
  \<open>json.dumps\<close> as the code calls it: with or without \<open>sort_keys\<close>, with or without
  \<open>ensure_ascii\<close>, with the default or the compact separators.  The store bounds
  the size of what it writes by the length of this text.
\<close>

record json_style =
  ensure_ascii :: bool
  sorted_keys :: bool
  item_sep :: string
  key_sep :: string

text \<open>\<open>separators=(",", ":"), ensure_ascii=False\<close>, with and without \<open>sort_keys\<close>.\<close>

definition compact_sorted :: json_style where
  "compact_sorted = \<lparr>ensure_ascii = False, sorted_keys = True, item_sep = '','', key_sep = '':''\<rparr>"

definition compact_plain :: json_style where
  "compact_plain = \<lparr>ensure_ascii = False, sorted_keys = False, item_sep = '','', key_sep = '':''\<rparr>"

definition default_utf8 :: json_style where
  "default_utf8 = \<lparr>ensure_ascii = False, sorted_keys = False, item_sep = '', '', key_sep = '': ''\<rparr>"

definition default_sorted :: json_style where
  "default_sorted = \<lparr>ensure_ascii = True, sorted_keys = True, item_sep = '', '', key_sep = '': ''\<rparr>"

definition digit :: "nat \<Rightarrow> char" where
  "digit n = (if n < 10 then char_of (48 + n) else char_of (87 + n))"

fun nat_str :: "nat \<Rightarrow> string" where
  "nat_str n = (if n < 10 then [digit n] else nat_str (n div 10) @ [digit (n mod 10)])"

declare nat_str.simps [simp del]

definition int_str :: "int \<Rightarrow> string" where
  "int_str i = (if i < 0 then CHR ''-'' # nat_str (nat (- i)) else nat_str (nat i))"

text \<open>One character of a JSON string literal.\<close>

definition esc_char :: "bool \<Rightarrow> char \<Rightarrow> string" where
  "esc_char asc c =
     (let n = py_ord c in
      if n = 34 then [CHR 0x5C, CHR 0x22]
      else if n = 92 then [CHR 0x5C, CHR 0x5C]
      else if n = 10 then [CHR 0x5C, CHR ''n'']
      else if n = 13 then [CHR 0x5C, CHR ''r'']
      else if n = 9 then [CHR 0x5C, CHR ''t'']
      else if n = 12 then [CHR 0x5C, CHR ''f'']
      else if n = 8 then [CHR 0x5C, CHR ''b'']
      else if n < 32 \<or> asc \<and> 126 < n
      then CHR 0x5C # ''u00'' @ [digit (n div 16), digit (n mod 16)]
      else [c])"

definition json_str :: "bool \<Rightarrow> string \<Rightarrow> string" where
  "json_str asc s = CHR 0x22 # concat (map (esc_char asc) s) @ [CHR 0x22]"

fun intersperse_sep :: "string \<Rightarrow> string list \<Rightarrow> string" where
  "intersperse_sep sep [] = []"
| "intersperse_sep sep [x] = x"
| "intersperse_sep sep (x # y # xs) = x @ sep @ intersperse_sep sep (y # xs)"

text \<open>
  \<open>dumps st v\<close>; the fields of an object are rendered first and then ordered by
  key, which is the same text as ordering the fields first.
\<close>

fun dumps :: "json_style \<Rightarrow> val \<Rightarrow> string" where
  "dumps st VNone = ''null''"
| "dumps st (VBool b) = (if b then ''true'' else ''false'')"
| "dumps st (VInt i) = int_str i"
| "dumps st (VFloat r t) = t"
| "dumps st (VStr s) = json_str (ensure_ascii st) s"
| "dumps st (VList xs) =
     ''['' @ intersperse_sep (item_sep st) (map (dumps st) xs) @ '']''"
| "dumps st (VDict d) =
     (let fields = map (\<lambda>(k, v). (k, dumps st v)) d;
          ordered = (if sorted_keys st then sort_key fst fields else fields)
      in ''{'' @ intersperse_sep (item_sep st)
           (map (\<lambda>(k, t). json_str (ensure_ascii st) k @ key_sep st @ t) ordered) @ ''}'')"

lemma nat_str_nonempty [simp]: "nat_str n \<noteq> []"
  by (subst nat_str.simps) simp

lemma intersperse_sep_length:
  "length (intersperse_sep sep xs) =
     sum_list (map length xs) + length sep * (length xs - 1)"
  by (induction sep xs rule: intersperse_sep.induct) auto

text \<open>Sorting the keys does not change the length of the text.\<close>

lemma dumps_dict_length:
  "length (dumps st (VDict d)) =
     2 + sum_list (map (\<lambda>(k, v). length (json_str (ensure_ascii st) k) + length (key_sep st)
                          + length (dumps st v)) d)
       + length (item_sep st) * (length d - 1)"
proof -
  let ?fields = "map (\<lambda>(k, v). (k, dumps st v)) d"
  let ?w = "\<lambda>(k, t). length (json_str (ensure_ascii st) k) + length (key_sep st) + length t"
  have "sum_list (map ?w (sort_key fst ?fields)) = sum_list (map ?w ?fields)"
    by (simp only: sum_mset_sum_list [symmetric] mset_map mset_sort)
  moreover have "sum_list (map ?w ?fields) =
      sum_list (map (\<lambda>(k, v). length (json_str (ensure_ascii st) k) + length (key_sep st)
                          + length (dumps st v)) d)"
    by (simp add: comp_def case_prod_unfold)
  moreover have "length \<circ> (\<lambda>(k, t). json_str (ensure_ascii st) k @ key_sep st @ t) = ?w"
    by (auto simp: fun_eq_iff)
  ultimately show ?thesis
    by (simp add: intersperse_sep_length Let_def)
qed

end
