(* ===== verification/PyText.thy ===== *)
theory PyText
  imports Json
begin

text \<open>
  \<open>str()\<close> and \<open>repr()\<close> on dynamic values, as the code applies them to fields whose
  type it has not checked: \<open>str(block.get("text", ""))\<close> and the like.
\<close>

definition unprintable :: "nat \<Rightarrow> bool" where
  "unprintable n \<longleftrightarrow> n < 32 \<or> 127 \<le> n \<and> n \<le> 160 \<or> n = 173"

definition repr_char :: "nat \<Rightarrow> char \<Rightarrow> string" where
  "repr_char quote c =
     (let n = py_ord c in
      if n = quote \<or> n = 92 then [CHR 0x5C, c]
      else if n = 9 then [CHR 0x5C, CHR ''t'']
      else if n = 10 then [CHR 0x5C, CHR ''n'']
      else if n = 13 then [CHR 0x5C, CHR ''r'']
      else if unprintable n then [CHR 0x5C, CHR ''x'', digit (n div 16), digit (n mod 16)]
      else [c])"

definition repr_str :: "string \<Rightarrow> string" where
  "repr_str s =
     (let quote = (if CHR 0x27 \<in> set s \<and> CHR 0x22 \<notin> set s then CHR 0x22 else CHR 0x27)
      in quote # concat (map (repr_char (py_ord quote)) s) @ [quote])"

fun py_repr :: "val \<Rightarrow> string" where
  "py_repr VNone = ''None''"
| "py_repr (VBool b) = (if b then ''True'' else ''False'')"
| "py_repr (VInt i) = int_str i"
| "py_repr (VFloat r t) = t"
| "py_repr (VStr s) = repr_str s"
| "py_repr (VList xs) = ''['' @ intersperse_sep '', '' (map py_repr xs) @ '']''"
| "py_repr (VDict d) =
     ''{'' @ intersperse_sep '', '' (map (\<lambda>(k, v). repr_str k @ '': '' @ py_repr v) d) @ ''}''"

fun py_str :: "val \<Rightarrow> string" where
  "py_str (VStr s) = s"
| "py_str v = py_repr v"

text \<open>\<open>str(v or "")\<close>.\<close>

definition str_or_empty :: "val \<Rightarrow> string" where
  "str_or_empty v = py_str (py_or v (VStr []))"

lemma str_or_empty_str [simp]: "str_or_empty (VStr s) = s"
  by (simp add: str_or_empty_def py_or_def)

lemma str_or_empty_none [simp]: "str_or_empty VNone = []"
  by (simp add: str_or_empty_def py_or_def)

end
