(* ===== verification/WorkingMemory.thy ===== *)
theory WorkingMemory
  imports PyText
begin

text \<open>
  \<open>pony/runtime/working_memory.py\<close>: the summary of the current task and the list of
  recently used files, latest first.  \<open>canon\<close> stands for
  \<open>memory_service.canonicalize_path\<close> with the workspace root.
\<close>

definition TASK_SUMMARY_LIMIT :: nat where "TASK_SUMMARY_LIMIT = 300"
definition RECENT_FILES_LIMIT :: nat where "RECENT_FILES_LIMIT = 8"

record working_memory =
  wm_task_summary :: string
  wm_recent_files :: "string list"

definition normalize_task_summary :: "val \<Rightarrow> nat \<Rightarrow> string" where
  "normalize_task_summary summary limit =
     (if summary = VNone then [] else take limit (strip (py_str summary)))"

definition ensure_file_list :: "val \<Rightarrow> string list" where
  "ensure_file_list v =
     (case v of VList xs \<Rightarrow> filter (\<lambda>s. s \<noteq> []) (map (\<lambda>x. strip (py_str x)) xs) | _ \<Rightarrow> [])"

text \<open>\<open>list(dict.fromkeys(items))\<close>: the first of equal items stays.\<close>

definition dedupe_preserve_order :: "'a list \<Rightarrow> 'a list" where
  "dedupe_preserve_order xs = rev (remdups (rev xs))"

definition new_memory :: "(string \<Rightarrow> string) \<Rightarrow> val \<Rightarrow> val \<Rightarrow> working_memory" where
  "new_memory canon task_summary recent_files =
     (let paths = map (\<lambda>p. strip (canon p)) (ensure_file_list (py_or recent_files (VList [])))
      in \<lparr>wm_task_summary = normalize_task_summary task_summary TASK_SUMMARY_LIMIT,
          wm_recent_files = take RECENT_FILES_LIMIT (dedupe_preserve_order paths)\<rparr>)"

definition memory_to_dict :: "working_memory \<Rightarrow> dict" where
  "memory_to_dict m =
     [(''task_summary'', VStr (wm_task_summary m)),
      (''recent_files'', VList (map VStr (wm_recent_files m)))]"

definition memory_from_dict :: "(string \<Rightarrow> string) \<Rightarrow> val \<Rightarrow> working_memory" where
  "memory_from_dict canon data =
     (case data of
        VDict d \<Rightarrow>
          let source = (case dget_none d ''working'' of VDict w \<Rightarrow> w | _ \<Rightarrow> d);
              task_summary = dget_or source ''task_summary'' (dget_or source ''task'' (VStr []));
              recent_files = dget_or source ''recent_files'' (dget_or source ''files'' (VList []))
          in new_memory canon (if is_str task_summary then task_summary else VStr []) recent_files
      | _ \<Rightarrow> new_memory canon (VStr []) VNone)"

definition set_task_summary :: "val \<Rightarrow> working_memory \<Rightarrow> working_memory" where
  "set_task_summary summary m =
     m\<lparr>wm_task_summary := normalize_task_summary summary TASK_SUMMARY_LIMIT\<rparr>"

definition remember_file :: "(string \<Rightarrow> string) \<Rightarrow> string \<Rightarrow> working_memory \<Rightarrow> working_memory" where
  "remember_file canon path m =
     (let path = strip (canon path)
      in if path = [] then m
         else m\<lparr>wm_recent_files :=
           take RECENT_FILES_LIMIT (path # filter (\<lambda>p. p \<noteq> path) (wm_recent_files m))\<rparr>)"

subsection \<open>The list of files stays sound\<close>

definition memory_ok :: "(string \<Rightarrow> string) \<Rightarrow> working_memory \<Rightarrow> bool" where
  "memory_ok canon m \<longleftrightarrow>
     strip (wm_task_summary m) = wm_task_summary m \<and> length (wm_task_summary m) \<le> TASK_SUMMARY_LIMIT
     \<and> distinct (wm_recent_files m) \<and> length (wm_recent_files m) \<le> RECENT_FILES_LIMIT
     \<and> (\<forall>p \<in> set (wm_recent_files m). p \<noteq> [] \<and> strip p = p \<and> strip (canon p) = p)"

lemma dedupe_distinct [simp]: "distinct (dedupe_preserve_order xs)"
  by (simp add: dedupe_preserve_order_def)

lemma dedupe_set [simp]: "set (dedupe_preserve_order xs) = set xs"
  by (simp add: dedupe_preserve_order_def)

lemma dedupe_id: "distinct xs \<Longrightarrow> dedupe_preserve_order xs = xs"
  by (simp add: dedupe_preserve_order_def distinct_remdups_id)

lemma ensure_strs:
  "\<forall>p \<in> set xs. p \<noteq> [] \<and> strip p = p \<Longrightarrow> ensure_file_list (VList (map VStr xs)) = xs"
  by (induction xs) (auto simp: ensure_file_list_def)

text \<open>
  C38: A well-formed working memory (a stripped summary of at most 300 characters and at most
  eight distinct, canonical, non-empty paths) read back from the dictionary it is stored as
  is the same memory.
\<close>

theorem memory_roundtrip:
  assumes "memory_ok canon m"
  shows "memory_from_dict canon (VDict (memory_to_dict m)) = m"
proof -
  let ?files = "wm_recent_files m"
  have files: "ensure_file_list (VList (map VStr ?files)) = ?files"
    using assms ensure_strs [of ?files] by (simp add: memory_ok_def)
  have or: "ensure_file_list (py_or (VList (map VStr ?files)) (VList [])) = ?files"
    using files by (cases "?files") (simp_all add: py_or_def)
  have "map (\<lambda>p. strip (canon p)) ?files = ?files"
    using assms by (auto simp: memory_ok_def intro: map_idI)
  moreover have "normalize_task_summary (VStr (wm_task_summary m)) TASK_SUMMARY_LIMIT = wm_task_summary m"
    using assms by (simp add: memory_ok_def normalize_task_summary_def)
  moreover have "take RECENT_FILES_LIMIT (dedupe_preserve_order ?files) = ?files"
    using assms by (simp add: memory_ok_def dedupe_id)
  ultimately have "new_memory canon (VStr (wm_task_summary m)) (VList (map VStr ?files)) = m"
    unfolding new_memory_def Let_def or by simp
  then show ?thesis
    by (simp add: memory_from_dict_def memory_to_dict_def dget_none_def dget_or_def)
qed

theorem memory_roundtrip_witness:
  "memory_from_dict (\<lambda>p. p) (VDict (memory_to_dict
       \<lparr>wm_task_summary = ''fix it'', wm_recent_files = [''b.py'', ''a.py'']\<rparr>))
     = \<lparr>wm_task_summary = ''fix it'', wm_recent_files = [''b.py'', ''a.py'']\<rparr>"
proof (rule memory_roundtrip)
  show "memory_ok (\<lambda>p. p) \<lparr>wm_task_summary = ''fix it'', wm_recent_files = [''b.py'', ''a.py'']\<rparr>"
    by code_simp
qed

lemma remember_file_effect:
  assumes ok: "memory_ok canon m" and path: "q = strip (canon p)" "q \<noteq> []" "strip q = q" "strip (canon q) = q"
  shows "memory_ok canon (remember_file canon p m) \<and> hd (wm_recent_files (remember_file canon p m)) = q"
proof -
  let ?new = "q # filter (\<lambda>r. r \<noteq> q) (wm_recent_files m)"
  have eq: "remember_file canon p m = m\<lparr>wm_recent_files := take RECENT_FILES_LIMIT ?new\<rparr>"
    using path(2) unfolding remember_file_def Let_def path(1) [symmetric] by simp
  have "distinct ?new" using ok by (simp add: memory_ok_def)
  then have "distinct (take RECENT_FILES_LIMIT ?new)" by (rule distinct_take)
  moreover have "\<forall>r \<in> set ?new. r \<noteq> [] \<and> strip r = r \<and> strip (canon r) = r"
    using ok path(2-4) unfolding memory_ok_def by simp
  then have "\<forall>r \<in> set (take RECENT_FILES_LIMIT ?new). r \<noteq> [] \<and> strip r = r \<and> strip (canon r) = r"
    by (meson in_set_takeD)
  moreover have "hd (take RECENT_FILES_LIMIT ?new) = q" by (simp add: RECENT_FILES_LIMIT_def)
  ultimately show ?thesis
    using ok unfolding eq memory_ok_def by simp
qed

end
