(* ===== verification/TaskState.thy ===== *)
theory TaskState
  imports PyText
begin

text \<open>
  \<open>pony/state/task_state.py\<close>: the state of one request while the agent loop runs
  it.  A task starts running, counts model attempts and executed tools, and ends
  once: completed, stopped or failed, with a stop reason.
\<close>

datatype task_status = RUNNING | COMPLETED | STOPPED | FAILED

datatype stop_reason =
    NoStopReason
  | FINAL_ANSWER_RETURNED | STEP_LIMIT_REACHED | RETRY_LIMIT_REACHED
  | MODEL_ERROR | TOOL_TIMEOUT | APPROVAL_DENIED | DELEGATE_FAILED
  | PERSISTENCE_ERROR | RESUME_LOAD_ERROR | INTERRUPTED | RUNTIME_ERROR

fun status_text :: "task_status \<Rightarrow> string" where
  "status_text RUNNING = ''running''"
| "status_text COMPLETED = ''completed''"
| "status_text STOPPED = ''stopped''"
| "status_text FAILED = ''failed''"

fun stop_reason_text :: "stop_reason \<Rightarrow> string" where
  "stop_reason_text NoStopReason = []"
| "stop_reason_text FINAL_ANSWER_RETURNED = ''final_answer_returned''"
| "stop_reason_text STEP_LIMIT_REACHED = ''step_limit_reached''"
| "stop_reason_text RETRY_LIMIT_REACHED = ''retry_limit_reached''"
| "stop_reason_text MODEL_ERROR = ''model_error''"
| "stop_reason_text TOOL_TIMEOUT = ''tool_timeout''"
| "stop_reason_text APPROVAL_DENIED = ''approval_denied''"
| "stop_reason_text DELEGATE_FAILED = ''delegate_failed''"
| "stop_reason_text PERSISTENCE_ERROR = ''persistence_error''"
| "stop_reason_text RESUME_LOAD_ERROR = ''resume_load_error''"
| "stop_reason_text INTERRUPTED = ''interrupted''"
| "stop_reason_text RUNTIME_ERROR = ''runtime_error''"

record task_state =
  run_id :: string
  task_id :: string
  user_request :: string
  status :: string
  tool_steps :: int
  attempts :: int
  last_tool :: string
  stop_reason :: string
  final_answer :: string
  checkpoint_id :: string
  resume_status :: string

text \<open>
  \<open>TaskState.create\<close>; \<open>fresh_run_id\<close> is the generated id (time stamp and random
  suffix) used when none is given.
\<close>

definition create_task :: "string \<Rightarrow> string \<Rightarrow> string \<Rightarrow> string \<Rightarrow> task_state" where
  "create_task fresh_run_id task request given_run_id =
     \<lparr>run_id = (if given_run_id = [] then fresh_run_id else given_run_id),
      task_id = task, user_request = request, status = status_text RUNNING,
      tool_steps = 0, attempts = 0, last_tool = [], stop_reason = [],
      final_answer = [], checkpoint_id = [], resume_status = []\<rparr>"

definition record_attempt :: "task_state \<Rightarrow> task_state" where
  "record_attempt t = t\<lparr>attempts := attempts t + 1\<rparr>"

definition record_tool :: "string \<Rightarrow> task_state \<Rightarrow> task_state" where
  "record_tool name t = t\<lparr>tool_steps := tool_steps t + 1, last_tool := name\<rparr>"

definition stop_task :: "stop_reason \<Rightarrow> task_status \<Rightarrow> string \<Rightarrow> task_state \<Rightarrow> task_state" where
  "stop_task reason st answer t =
     (let t = t\<lparr>status := status_text st, stop_reason := stop_reason_text reason\<rparr>
      in if answer \<noteq> [] then t\<lparr>final_answer := answer\<rparr> else t)"

definition stop_step_limit :: "string \<Rightarrow> task_state \<Rightarrow> task_state" where
  "stop_step_limit answer t = stop_task STEP_LIMIT_REACHED STOPPED answer t"

definition stop_retry_limit :: "string \<Rightarrow> task_state \<Rightarrow> task_state" where
  "stop_retry_limit answer t = stop_task RETRY_LIMIT_REACHED STOPPED answer t"

definition stop_model_error :: "string \<Rightarrow> task_state \<Rightarrow> task_state" where
  "stop_model_error answer t = stop_task MODEL_ERROR FAILED answer t"

definition stop_persistence_error :: "string \<Rightarrow> task_state \<Rightarrow> task_state" where
  "stop_persistence_error answer t = stop_task PERSISTENCE_ERROR FAILED answer t"

definition stop_interrupted :: "string \<Rightarrow> task_state \<Rightarrow> task_state" where
  "stop_interrupted answer t = stop_task INTERRUPTED STOPPED answer t"

definition stop_runtime_error :: "string \<Rightarrow> task_state \<Rightarrow> task_state" where
  "stop_runtime_error answer t = stop_task RUNTIME_ERROR FAILED answer t"

definition finish_success :: "string \<Rightarrow> task_state \<Rightarrow> task_state" where
  "finish_success answer t =
     t\<lparr>status := status_text COMPLETED,
       stop_reason := stop_reason_text FINAL_ANSWER_RETURNED, final_answer := answer\<rparr>"

definition task_to_dict :: "task_state \<Rightarrow> dict" where
  "task_to_dict t =
     [(''run_id'', VStr (run_id t)), (''task_id'', VStr (task_id t)),
      (''user_request'', VStr (user_request t)), (''status'', VStr (status t)),
      (''tool_steps'', VInt (tool_steps t)), (''attempts'', VInt (attempts t)),
      (''last_tool'', VStr (last_tool t)), (''stop_reason'', VStr (stop_reason t)),
      (''final_answer'', VStr (final_answer t)), (''checkpoint_id'', VStr (checkpoint_id t)),
      (''resume_status'', VStr (resume_status t))]"

text \<open>
  \<open>int(v)\<close> on the values the file can hold: an int, a bool, a float (truncated
  towards zero) or decimal text (surrounding white space, a sign and digits;
  underscores between digits are not modelled); anything else raises.
\<close>

definition py_int_text :: "string \<Rightarrow> int option" where
  "py_int_text s =
     (let t = strip s;
          (neg, ds) = (case t of c # r \<Rightarrow> if c = CHR ''-'' then (True, r)
                                 else if c = CHR ''+'' then (False, r) else (False, t)
                       | [] \<Rightarrow> (False, []))
      in if ds = [] \<or> \<not> list_all is_digit ds then None
         else Some (let n = foldl (\<lambda>n c. 10 * n + int (py_ord c - 48)) 0 ds
                    in if neg then - n else n))"

fun py_int :: "val \<Rightarrow> int res" where
  "py_int (VInt i) = Inr i"
| "py_int (VBool b) = Inr (if b then 1 else 0)"
| "py_int (VFloat r _) = Inr (if 0 \<le> r then floor r else ceiling r)"
| "py_int (VStr s) = (case py_int_text s of None \<Rightarrow> Inl (ValueError ''int'') | Some i \<Rightarrow> Inr i)"
| "py_int _ = Inl (TypeError ''int'')"

definition task_from_dict :: "dict \<Rightarrow> task_state res" where
  "task_from_dict d =
     bindR (py_int (dget_or d ''tool_steps'' (VInt 0))) (\<lambda>steps.
     bindR (py_int (dget_or d ''attempts'' (VInt 0))) (\<lambda>tries. Inr
       \<lparr>run_id = py_str (dget_or d ''run_id'' (VStr [])),
        task_id = py_str (dget_or d ''task_id'' (VStr [])),
        user_request = py_str (dget_or d ''user_request'' (VStr [])),
        status = py_str (dget_or d ''status'' (VStr (status_text RUNNING))),
        tool_steps = steps, attempts = tries,
        last_tool = py_str (dget_or d ''last_tool'' (VStr [])),
        stop_reason = py_str (dget_or d ''stop_reason'' (VStr [])),
        final_answer = py_str (dget_or d ''final_answer'' (VStr [])),
        checkpoint_id = py_str (dget_or d ''checkpoint_id'' (VStr [])),
        resume_status = py_str (dget_or d ''resume_status'' (VStr []))\<rparr>))"

lemmas task_ops = record_attempt_def record_tool_def stop_task_def stop_step_limit_def
  stop_retry_limit_def stop_model_error_def stop_persistence_error_def stop_interrupted_def
  stop_runtime_error_def finish_success_def

text \<open>
  the dictionary written to \<open>task_state.json\<close> is read back to the same task state.
\<close>

theorem task_state_roundtrip: "task_from_dict (task_to_dict t) = Inr t"
  by (simp add: task_from_dict_def task_to_dict_def dget_or_def)

end
