(* ===== verification/Messages.thy ===== *)
theory Messages
  imports PyText
begin

text \<open>
  \<open>pony/agent/messages.py\<close>: the canonical transcript.  A message is a dict with a
  role, a content (text or a list of blocks) and private metadata; a tool call is
  one assistant message holding one \<open>tool_use\<close> block, followed at once by one user
  message holding the \<open>tool_result\<close> block with the same id.  \<open>validate_messages\<close> is
  the whole-transcript check the Session store runs before every write.
\<close>

definition mget :: "val \<Rightarrow> string \<Rightarrow> val" where
  "mget m k = dget_none (as_dict m) k"

definition merr :: "string \<Rightarrow> err" where
  "merr s = MessageValidationError s"

definition reasoning_keys :: "string set" where
  "reasoning_keys = {''id'', ''type'', ''encrypted_content'', ''summary'', ''content'', ''status''}"

definition valid_provider_state_item :: "val \<Rightarrow> bool" where
  "valid_provider_state_item item =
     (if \<not> is_dict item then False
      else
        let d = as_dict item; item_type = dget_none d ''type''
        in if item_type = VStr ''reasoning'' then
             (if \<not> dkeys d \<subseteq> reasoning_keys then False
              else
                let encrypted = dget_none d ''encrypted_content''
                in if \<not> is_str encrypted \<or> as_str encrypted = [] then False
                   else dget d ''content'' = None \<or> is_list (dget_none d ''content''))
           else if item_type = VStr ''thinking'' then
             dkeys d = {''type'', ''thinking'', ''signature''}
             \<and> is_str (dget_none d ''thinking'') \<and> is_str (dget_none d ''signature'')
             \<and> as_str (dget_none d ''signature'') \<noteq> []
           else if item_type = VStr ''redacted_thinking'' then
             dkeys d = {''type'', ''data''}
             \<and> is_str (dget_none d ''data'') \<and> as_str (dget_none d ''data'') \<noteq> []
           else False)"

subsection \<open>Building request views\<close>

text \<open>\<open>replace_latest_plain_user\<close>: the last user message with text content gets new text.\<close>

definition plain_user :: "dict \<Rightarrow> bool" where
  "plain_user m \<longleftrightarrow> dget_none m ''role'' = VStr ''user'' \<and> is_str (dget_none m ''content'')"

fun replace_first_plain_user :: "string \<Rightarrow> dict list \<Rightarrow> dict list option" where
  "replace_first_plain_user text [] = None"
| "replace_first_plain_user text (m # ms) =
     (if plain_user m then Some (dset m ''content'' (VStr text) # ms)
      else map_option (\<lambda>ms'. m # ms') (replace_first_plain_user text ms))"

definition replace_latest_plain_user :: "dict list \<Rightarrow> string \<Rightarrow> dict list res" where
  "replace_latest_plain_user messages rendered_user =
     (case replace_first_plain_user rendered_user (rev messages) of
        None \<Rightarrow> Inl (merr ''request view has no top-level plain user message'')
      | Some ms \<Rightarrow> Inr (rev ms))"

definition strip_pony_meta :: "dict list \<Rightarrow> dict list" where
  "strip_pony_meta messages = map (\<lambda>m. dpop m ''_pony_meta'') messages"

definition NL :: string where
  "NL = [CHR 0x0A]"

definition build_request_messages :: "dict list \<Rightarrow> string \<Rightarrow> string \<Rightarrow> dict list res" where
  "build_request_messages messages rendered_user runtime_feedback =
     (let feedback = strip runtime_feedback;
          content = (if feedback \<noteq> []
            then rendered_user @ NL @ NL @ ''<system-reminder>'' @ NL @ ''<pony:runtime_feedback>''
                 @ NL @ feedback @ NL @ ''</pony:runtime_feedback>'' @ NL @ ''</system-reminder>''
            else rendered_user)
      in bindR (replace_latest_plain_user messages content) (\<lambda>ms. Inr (strip_pony_meta ms)))"

subsection \<open>Tool pairs\<close>

definition is_error_status :: "string \<Rightarrow> bool" where
  "is_error_status s \<longleftrightarrow> s \<in> {''rejected'', ''error'', ''partial_success''}"

text \<open>\<open>{a: 1, ..., **result_meta}\<close> updates the literal's fields in order.\<close>

definition make_tool_pair ::
  "string \<Rightarrow> dict \<Rightarrow> string \<Rightarrow> string \<Rightarrow> string \<Rightarrow> string \<Rightarrow> string \<Rightarrow> dict \<Rightarrow> val list \<Rightarrow> val \<times> val" where
  "make_tool_pair name arguments tool_use_id result_content created_at tool_status effect_class
       result_meta provider_state =
     (let assistant =
            [(''role'', VStr ''assistant''),
             (''content'', VList [VDict
               [(''type'', VStr ''tool_use''), (''id'', VStr tool_use_id),
                (''name'', VStr name), (''input'', VDict arguments)]]),
             (''_pony_meta'', VDict
               [(''created_at'', VStr created_at), (''tool_use_id'', VStr tool_use_id)])];
          assistant = (if provider_state \<noteq> []
            then dset assistant ''_pony_provider_state'' (VList provider_state) else assistant);
          result_block =
            [(''type'', VStr ''tool_result''), (''tool_use_id'', VStr tool_use_id),
             (''content'', VStr result_content)];
          result_block = (if is_error_status tool_status
            then dset result_block ''is_error'' (VBool True) else result_block);
          metadata = dupdate
            [(''created_at'', VStr created_at), (''tool_use_id'', VStr tool_use_id),
             (''tool_status'', VStr tool_status), (''effect_class'', VStr effect_class)]
            result_meta
      in (VDict assistant,
          VDict [(''role'', VStr ''user''), (''content'', VList [VDict result_block]),
                 (''_pony_meta'', VDict metadata)]))"

subsection \<open>Text projections\<close>

definition block_text :: "val \<Rightarrow> string list" where
  "block_text block =
     (if \<not> is_dict block then []
      else
        let d = as_dict block; t = dget_none d ''type''
        in if t = VStr ''text'' then [py_str (dget_or d ''text'' (VStr []))]
           else if t = VStr ''tool_use'' then
             [py_str (dget_or d ''name'' (VStr [])),
              dumps default_sorted (dget_or d ''input'' (VDict []))]
           else if t = VStr ''tool_result'' then [py_str (dget_or d ''content'' (VStr []))]
           else [])"

definition message_content_text :: "val \<Rightarrow> string" where
  "message_content_text message =
     (case mget message ''content'' of
        VStr s \<Rightarrow> s
      | VList blocks \<Rightarrow> intersperse_sep NL (concat (map block_text blocks))
      | _ \<Rightarrow> [])"

definition block_lines :: "string \<Rightarrow> val \<Rightarrow> string list" where
  "block_lines role block =
     (let d = as_dict block; t = dget_none d ''type''
      in if t = VStr ''tool_use'' then
           [''[assistant:tool_use id='' @ py_str (dget_or d ''id'' (VStr [])) @ ''] ''
            @ py_str (dget_or d ''name'' (VStr [])) @ ''(''
            @ dumps default_sorted (dget_or d ''input'' (VDict [])) @ '')'']
         else if t = VStr ''tool_result'' then
           [''[user:tool_result id='' @ py_str (dget_or d ''tool_use_id'' (VStr [])) @ ''] ''
            @ py_str (dget_or d ''content'' (VStr []))]
         else if t = VStr ''text'' then
           [''['' @ role @ ''] '' @ py_str (dget_or d ''text'' (VStr []))]
         else [])"

definition render_transcript :: "val list \<Rightarrow> string" where
  "render_transcript messages =
     intersperse_sep NL (concat (map (\<lambda>m.
       let role = py_str (dget_or (as_dict m) ''role'' (VStr []))
       in case mget m ''content'' of
            VStr s \<Rightarrow> [''['' @ role @ ''] '' @ s]
          | VList blocks \<Rightarrow> concat (map (block_lines role) blocks)
          | _ \<Rightarrow> []) messages))"

definition message_metrics :: "(string \<Rightarrow> nat) \<Rightarrow> val list \<Rightarrow> nat \<times> nat \<times> nat" where
  "message_metrics token_of messages =
     (let values = map message_content_text messages
      in (length values, sum_list (map length values), sum_list (map token_of values)))"

subsection \<open>Validation\<close>

text \<open>\<open>_tool_block\<close>: the single block of a tool message.\<close>

definition tool_block :: "val \<Rightarrow> string \<Rightarrow> string \<Rightarrow> val res" where
  "tool_block message expected_type expected_role =
     (if mget message ''role'' \<noteq> VStr expected_role
      then Inl (merr (expected_type @ '' must use role='' @ expected_role))
      else case mget message ''content'' of
        VList [block] \<Rightarrow>
          if \<not> is_dict block \<or> mget block ''type'' \<noteq> VStr expected_type
          then Inl (merr (''invalid '' @ expected_type @ '' block'')) else Inr block
      | _ \<Rightarrow> Inl (merr (expected_type @ '' message must contain exactly one block'')))"

definition has_key :: "val \<Rightarrow> string \<Rightarrow> bool" where
  "has_key m k \<longleftrightarrow> dget (as_dict m) k \<noteq> None"

text \<open>The metadata checks the loop makes on a message and on a tool result.\<close>

definition check_meta :: "bool \<Rightarrow> val \<Rightarrow> err + unit" where
  "check_meta require_meta message =
     (if require_meta \<and> \<not> is_dict (mget message ''_pony_meta'')
      then Inl (merr ''_pony_meta must be an object'')
      else if \<not> require_meta \<and> has_key message ''_pony_meta''
        \<and> \<not> is_dict (mget message ''_pony_meta'')
      then Inl (merr ''_pony_meta must be an object'')
      else Inr ())"

definition check_head :: "bool \<Rightarrow> val \<Rightarrow> err + unit" where
  "check_head require_meta message =
     bindR (require (is_dict message) (merr ''message must be an object'')) (\<lambda>_.
     bindR (require (mget message ''role'' \<in> {VStr ''user'', VStr ''assistant''})
              (merr ''message role must be user or assistant'')) (\<lambda>_.
     check_meta require_meta message))"

definition no_provider_state :: "val \<Rightarrow> err + unit" where
  "no_provider_state message =
     require (\<not> has_key message ''_pony_provider_state'')
       (merr ''provider state requires an assistant tool_use'')"

definition first_type :: "val list \<Rightarrow> val" where
  "first_type content =
     (case content of b # _ \<Rightarrow> if is_dict b then mget b ''type'' else VStr [] | [] \<Rightarrow> VStr [])"

definition check_provider_state :: "val \<Rightarrow> err + unit" where
  "check_provider_state message =
     (case mget message ''_pony_provider_state'' of
        VNone \<Rightarrow> Inr ()
      | VList items \<Rightarrow>
          if 32 < length items \<or> list_ex (\<lambda>i. \<not> valid_provider_state_item i) items
          then Inl (merr ''invalid provider state'')
          else if 1024 * 1024 < utf8_len (dumps default_utf8 (VList items))
          then Inl (merr ''provider state too large'')
          else Inr ()
      | _ \<Rightarrow> Inl (merr ''invalid provider state''))"

text \<open>A \<open>tool_use\<close> message: its id, checked against the ids seen so far.\<close>

definition check_tool_use :: "string list \<Rightarrow> val \<Rightarrow> string res" where
  "check_tool_use seen message =
     bindR (tool_block message ''tool_use'' ''assistant'') (\<lambda>block.
     bindR (check_provider_state message) (\<lambda>_.
       let tool_use_id = mget block ''id''; name = mget block ''name''
       in if \<not> is_str tool_use_id \<or> as_str tool_use_id = [] \<or> as_str tool_use_id \<in> set seen
             \<or> \<not> is_str name \<or> as_str name = [] \<or> \<not> is_dict (mget block ''input'')
          then Inl (merr ''invalid or duplicate tool_use'')
          else Inr (as_str tool_use_id)))"

definition check_tool_result :: "bool \<Rightarrow> string \<Rightarrow> val \<Rightarrow> err + unit" where
  "check_tool_result require_meta tool_use_id message =
     bindR (require (is_dict message) (merr ''message must be an object'')) (\<lambda>_.
     bindR (check_meta require_meta message) (\<lambda>_.
     bindR (no_provider_state message) (\<lambda>_.
     bindR (tool_block message ''tool_result'' ''user'') (\<lambda>result.
     require (mget result ''tool_use_id'' = VStr tool_use_id)
       (merr ''tool_result id does not match'')))))"

definition text_block_ok :: "val \<Rightarrow> bool" where
  "text_block_ok block \<longleftrightarrow>
     is_dict block \<and> mget block ''type'' = VStr ''text'' \<and> is_str (mget block ''text'')"

fun validate_from :: "bool \<Rightarrow> string list \<Rightarrow> val list \<Rightarrow> err + unit" where
  "validate_from require_meta seen [] = Inr ()"
| "validate_from require_meta seen (message # rest) =
     bindR (check_head require_meta message) (\<lambda>_.
       case mget message ''content'' of
         VStr _ \<Rightarrow>
           bindR (no_provider_state message) (\<lambda>_. validate_from require_meta seen rest)
       | VList content \<Rightarrow>
           if content = [] then Inl (merr ''message content must be a string or blocks'')
           else if first_type content = VStr ''tool_use'' then
             bindR (check_tool_use seen message) (\<lambda>tool_use_id.
               case rest of
                 [] \<Rightarrow> Inl (merr ''orphan tool_use'')
               | result_message # rest' \<Rightarrow>
                   bindR (check_tool_result require_meta tool_use_id result_message)
                     (\<lambda>_. validate_from require_meta (tool_use_id # seen) rest'))
           else if first_type content = VStr ''tool_result''
           then Inl (merr ''orphan tool_result'')
           else bindR (no_provider_state message) (\<lambda>_.
             if list_ex (\<lambda>b. \<not> text_block_ok b) content
             then Inl (merr ''unsupported content block'')
             else validate_from require_meta seen rest)
       | _ \<Rightarrow> Inl (merr ''message content must be a string or blocks''))"

definition validate_messages :: "bool \<Rightarrow> val \<Rightarrow> err + unit" where
  "validate_messages require_meta messages =
     (case messages of
        VList ms \<Rightarrow> validate_from require_meta [] ms
      | _ \<Rightarrow> Inl (merr ''messages must be a list''))"

declare validate_from.simps [simp del]

subsection \<open>The transcript grammar\<close>

text \<open>
  What validation accepts, as a grammar: plain messages and call/answer pairs.
  A message is a call or an answer by the type of its first block.
\<close>

definition is_tool_use :: "val \<Rightarrow> bool" where
  "is_tool_use m \<longleftrightarrow> first_type (as_list (mget m ''content'')) = VStr ''tool_use''"

definition is_tool_result :: "val \<Rightarrow> bool" where
  "is_tool_result m \<longleftrightarrow> first_type (as_list (mget m ''content'')) = VStr ''tool_result''"

definition call_block :: "val \<Rightarrow> val" where
  "call_block m = hd (as_list (mget m ''content''))"

definition call_id :: "val \<Rightarrow> string" where
  "call_id m = as_str (mget (call_block m) ''id'')"

definition answers :: "val \<Rightarrow> val \<Rightarrow> bool" where
  "answers u r \<longleftrightarrow> is_tool_result r \<and> mget r ''role'' = VStr ''user''
     \<and> mget (call_block r) ''tool_use_id'' = VStr (call_id u)"

definition plain_message :: "bool \<Rightarrow> val \<Rightarrow> bool" where
  "plain_message require_meta m \<longleftrightarrow>
     check_head require_meta m = Inr () \<and> no_provider_state m = Inr ()
     \<and> (is_str (mget m ''content'')
        \<or> (\<exists>bs. mget m ''content'' = VList bs \<and> bs \<noteq> [] \<and> list_all text_block_ok bs))"

inductive transcript :: "bool \<Rightarrow> string list \<Rightarrow> val list \<Rightarrow> bool" for require_meta where
  nil: "transcript require_meta seen []"
| plain: "plain_message require_meta m \<Longrightarrow> transcript require_meta seen ms \<Longrightarrow>
    transcript require_meta seen (m # ms)"
| pair: "check_head require_meta u = Inr () \<Longrightarrow> check_tool_use seen u = Inr i \<Longrightarrow>
    check_tool_result require_meta i r = Inr () \<Longrightarrow>
    transcript require_meta (i # seen) ms \<Longrightarrow> transcript require_meta seen (u # r # ms)"

lemma tool_block_Inr:
  "tool_block m t role = Inr b \<Longrightarrow>
     mget m ''role'' = VStr role \<and> mget m ''content'' = VList [b]
     \<and> is_dict b \<and> mget b ''type'' = VStr t"
  by (auto simp: tool_block_def split: if_split_asm val.split_asm list.split_asm)

lemma check_tool_use_Inr:
  assumes "check_tool_use seen u = Inr i"
  shows "is_tool_use u \<and> call_id u = i \<and> i \<noteq> [] \<and> i \<notin> set seen \<and>
     (\<exists>b. mget u ''content'' = VList [b])"
proof -
  from assms obtain b where b: "tool_block u ''tool_use'' ''assistant'' = Inr b"
    by (auto simp: check_tool_use_def bindR_Inr_iff)
  from assms have "is_str (mget b ''id'')" "as_str (mget b ''id'') = i" "i \<noteq> []" "i \<notin> set seen"
    by (auto simp: check_tool_use_def b bindR_Inr_iff Let_def split: if_split_asm)
  with tool_block_Inr [OF b] show ?thesis
    by (simp add: is_tool_use_def call_id_def call_block_def first_type_def)
qed

lemma check_tool_result_Inr:
  assumes "check_tool_result rm (call_id u) r = Inr ()"
  shows "answers u r"
proof -
  from assms obtain b where b: "tool_block r ''tool_result'' ''user'' = Inr b"
    and "mget b ''tool_use_id'' = VStr (call_id u)"
    by (auto simp: check_tool_result_def bindR_Inr_iff require_Inr_iff split: if_split_asm)
  with tool_block_Inr [OF b] show ?thesis
    by (simp add: answers_def is_tool_result_def call_block_def first_type_def)
qed

lemma plain_message_not_tool:
  assumes "plain_message rm m" shows "\<not> is_tool_use m" "\<not> is_tool_result m"
  using assms
  by (auto simp: plain_message_def is_tool_use_def is_tool_result_def first_type_def
      text_block_ok_def is_str_iff split: list.splits)

lemma validate_from_plain:
  assumes "plain_message rm m"
  shows "validate_from rm seen (m # ms) = validate_from rm seen ms"
proof (cases "mget m ''content''")
  case (VStr s)
  with assms show ?thesis
    by (simp add: validate_from.simps plain_message_def)
next
  case (VList bs)
  with assms have ok: "check_head rm m = Inr ()" "no_provider_state m = Inr ()" "bs \<noteq> []"
      "list_all text_block_ok bs" by (auto simp: plain_message_def)
  moreover from ok VList plain_message_not_tool [OF assms]
  have "first_type bs \<noteq> VStr ''tool_use''" "first_type bs \<noteq> VStr ''tool_result''"
    by (simp_all add: is_tool_use_def is_tool_result_def)
  moreover from ok have "\<not> list_ex (\<lambda>b. \<not> text_block_ok b) bs"
    by (auto simp: list_ex_iff list_all_iff)
  ultimately show ?thesis using VList by (simp add: validate_from.simps)
qed (use assms in \<open>auto simp: plain_message_def\<close>)

lemma validate_from_Nil: "validate_from rm seen [] = Inr ()"
  by (simp add: validate_from.simps)

lemma validate_from_pair:
  assumes "check_head rm u = Inr ()" "check_tool_use seen u = Inr i"
    "check_tool_result rm i r = Inr ()"
  shows "validate_from rm seen (u # r # ms) = validate_from rm (i # seen) ms"
proof -
  from check_tool_use_Inr [OF assms(2)] obtain b where
    "mget u ''content'' = VList [b]" and "first_type [b] = VStr ''tool_use''"
    by (auto simp: is_tool_use_def)
  with assms show ?thesis by (simp add: validate_from.simps)
qed

lemma validate_from_ConsD:
  assumes "validate_from rm seen (m # ms) = Inr ()"
  shows "plain_message rm m \<and> validate_from rm seen ms = Inr () \<or>
    (\<exists>i r ms'. ms = r # ms' \<and> check_head rm m = Inr () \<and> check_tool_use seen m = Inr i
       \<and> check_tool_result rm i r = Inr () \<and> validate_from rm (i # seen) ms' = Inr ())"
proof -
  from assms have head: "check_head rm m = Inr ()"
    by (simp add: validate_from.simps bindR_Inr_iff)
  show ?thesis
  proof (cases "mget m ''content''")
    case (VStr s)
    with assms head show ?thesis
      by (auto simp: validate_from.simps plain_message_def bindR_Inr_iff)
  next
    case (VList bs)
    show ?thesis
    proof (cases "first_type bs = VStr ''tool_use''")
      case True
      with VList assms head show ?thesis
        by (cases ms) (auto simp: validate_from.simps bindR_Inr_iff split: if_split_asm)
    next
      case False
      with VList assms head show ?thesis
        by (auto simp: validate_from.simps bindR_Inr_iff plain_message_def list_ex_iff
            list_all_iff split: if_split_asm)
    qed
  qed (use assms head in \<open>simp_all add: validate_from.simps\<close>)
qed

lemma transcript_validate_from: "transcript rm seen ms \<Longrightarrow> validate_from rm seen ms = Inr ()"
  by (induction rule: transcript.induct)
    (simp_all add: validate_from_plain validate_from_pair, simp add: validate_from.simps)

lemma validate_from_transcript: "validate_from rm seen ms = Inr () \<Longrightarrow> transcript rm seen ms"
proof (induction ms arbitrary: seen rule: length_induct)
  case (1 ms)
  show ?case
  proof (cases ms)
    case (Cons m ms')
    from validate_from_ConsD [OF "1.prems" [unfolded Cons]] show ?thesis
      using "1.IH" Cons by (auto intro: transcript.intros)
  qed (simp add: transcript.nil)
qed

lemma validate_from_iff: "validate_from rm seen ms = Inr () \<longleftrightarrow> transcript rm seen ms"
  using transcript_validate_from validate_from_transcript by blast

text \<open>The ids of the calls, in order.\<close>

definition call_ids :: "val list \<Rightarrow> string list" where
  "call_ids ms = map call_id (filter is_tool_use ms)"

lemma answers_not_call: "answers u r \<Longrightarrow> \<not> is_tool_use r"
  by (simp add: answers_def is_tool_result_def is_tool_use_def)

lemma pair_facts:
  assumes "check_tool_use seen u = Inr i" "check_tool_result rm i r = Inr ()"
  shows "is_tool_use u" "call_id u = i" "answers u r" "\<not> is_tool_use r" "\<not> is_tool_result u"
    "i \<notin> set seen" "is_tool_result r"
proof -
  note u = check_tool_use_Inr [OF assms(1)]
  show "is_tool_use u" "call_id u = i" "i \<notin> set seen" using u by simp_all
  with assms(2) show r: "answers u r" by (auto intro: check_tool_result_Inr)
  then show "\<not> is_tool_use r" "is_tool_result r"
    by (simp_all add: answers_not_call) (simp add: answers_def)
  from u show "\<not> is_tool_result u" by (simp add: is_tool_use_def is_tool_result_def)
qed

lemma transcript_call_ids:
  "transcript rm seen ms \<Longrightarrow> distinct (call_ids ms) \<and> set (call_ids ms) \<inter> set seen = {}"
proof (induction rule: transcript.induct)
  case (plain m seen ms)
  with plain_message_not_tool(1) show ?case by (auto simp: call_ids_def)
next
  case (pair u seen i r ms)
  from pair_facts [OF pair.hyps(2,3)] pair.IH show ?case by (auto simp: call_ids_def)
qed (simp add: call_ids_def)

lemma transcript_append:
  "transcript rm seen xs \<Longrightarrow>
   validate_from rm seen (xs @ ys) = validate_from rm (rev (call_ids xs) @ seen) ys"
proof (induction rule: transcript.induct)
  case (plain m seen ms)
  with plain_message_not_tool(1) [OF plain.hyps(1)] show ?case
    by (simp add: validate_from_plain call_ids_def)
next
  case (pair u seen i r ms)
  with pair_facts [OF pair.hyps(2,3)] show ?case
    by (simp add: validate_from_pair call_ids_def)
qed (simp add: call_ids_def)

lemma transcript_calls_answered:
  "transcript rm seen ms \<Longrightarrow> j < length ms \<Longrightarrow> is_tool_use (ms ! j) \<Longrightarrow>
   Suc j < length ms \<and> answers (ms ! j) (ms ! Suc j)"
proof (induction arbitrary: j rule: transcript.induct)
  case (plain m seen ms)
  with plain_message_not_tool(1) [OF plain.hyps(1)] show ?case by (cases j) auto
next
  case (pair u seen i r ms)
  note facts = pair_facts [OF pair.hyps(2,3)]
  show ?case
  proof (cases j)
    case (Suc k)
    with facts pair.prems obtain l where "k = Suc l" by (cases k) auto
    with Suc pair.prems pair.IH [of l] show ?thesis by auto
  qed (use facts in auto)
qed simp

lemma transcript_answers_called:
  "transcript rm seen ms \<Longrightarrow> j < length ms \<Longrightarrow> is_tool_result (ms ! j) \<Longrightarrow>
   0 < j \<and> is_tool_use (ms ! (j - 1))"
proof (induction arbitrary: j rule: transcript.induct)
  case (plain m seen ms)
  with plain_message_not_tool(2) [OF plain.hyps(1)] obtain k where "j = Suc k" by (cases j) auto
  with plain.prems plain.IH [of k] show ?case by (cases k) auto
next
  case (pair u seen i r ms)
  note facts = pair_facts [OF pair.hyps(2,3)]
  with pair.prems obtain k where k: "j = Suc k" by (cases j) auto
  show ?case
  proof (cases k)
    case (Suc l)
    with k pair.prems pair.IH [of l] show ?thesis by (cases l) auto
  qed (use facts k in simp)
qed simp

subsection \<open>Tool pairs and request views\<close>

lemma make_tool_pair_shape:
  assumes "make_tool_pair name args tid content ts st eff meta ps = (u, r)"
  shows "mget u ''role'' = VStr ''assistant''" "mget r ''role'' = VStr ''user''"
    "mget u ''content'' = VList [VDict [(''type'', VStr ''tool_use''), (''id'', VStr tid),
       (''name'', VStr name), (''input'', VDict args)]]"
    "\<exists>blk. mget r ''content'' = VList [VDict blk] \<and> dget_none blk ''type'' = VStr ''tool_result''
       \<and> dget_none blk ''tool_use_id'' = VStr tid \<and> dget_none blk ''content'' = VStr content
       \<and> (dget blk ''is_error'' = (if is_error_status st then Some (VBool True) else None))"
    "is_dict u" "is_dict r" "is_dict (mget u ''_pony_meta'')" "is_dict (mget r ''_pony_meta'')"
    "\<not> has_key r ''_pony_provider_state''"
    "mget u ''_pony_provider_state'' = (if ps = [] then VNone else VList ps)"
  using assms
  by (auto simp: make_tool_pair_def Let_def mget_def dget_none_def has_key_def
      split: if_split_asm)

definition provider_state_fits :: "val list \<Rightarrow> bool" where
  "provider_state_fits ps \<longleftrightarrow> length ps \<le> 32 \<and> list_all valid_provider_state_item ps
     \<and> utf8_len (dumps default_utf8 (VList ps)) \<le> 1024 * 1024"

lemma check_provider_state_fits:
  assumes "provider_state_fits ps"
    and "mget m ''_pony_provider_state'' = (if ps = [] then VNone else VList ps)"
  shows "check_provider_state m = Inr ()"
  using assms
  by (auto simp: check_provider_state_def provider_state_fits_def list_ex_iff list_all_iff
      simp del: dumps.simps)

lemma make_tool_pair_checks:
  assumes p: "make_tool_pair name args tid content ts st eff meta ps = (u, r)"
    and ok: "name \<noteq> []" "tid \<noteq> []" "tid \<notin> set seen" "provider_state_fits ps"
  shows "check_head rm u = Inr ()" "check_tool_use seen u = Inr tid"
    "check_tool_result rm tid r = Inr ()"
proof -
  note shape = make_tool_pair_shape [OF p]
  show "check_head rm u = Inr ()"
    using shape by (simp add: check_head_def check_meta_def)
  have "tool_block u ''tool_use'' ''assistant'' = Inr (VDict
      [(''type'', VStr ''tool_use''), (''id'', VStr tid), (''name'', VStr name),
       (''input'', VDict args)])"
    using shape by (simp add: tool_block_def mget_def dget_none_def)
  moreover have "check_provider_state u = Inr ()"
    using ok shape by (intro check_provider_state_fits) auto
  ultimately show "check_tool_use seen u = Inr tid"
    using ok by (simp add: check_tool_use_def mget_def dget_none_def)
  from shape obtain blk where "mget r ''content'' = VList [VDict blk]"
      "dget_none blk ''type'' = VStr ''tool_result''" "dget_none blk ''tool_use_id'' = VStr tid"
    by blast
  with shape show "check_tool_result rm tid r = Inr ()"
    by (simp add: check_tool_result_def check_meta_def no_provider_state_def tool_block_def
        mget_def)
qed

lemma replace_first_plain_user_Some:
  "replace_first_plain_user t ms = Some ms' \<Longrightarrow>
     \<exists>xs m ys. ms = xs @ m # ys \<and> plain_user m \<and> list_all (\<lambda>x. \<not> plain_user x) xs
        \<and> ms' = xs @ dset m ''content'' (VStr t) # ys"
proof (induction ms arbitrary: ms')
  case (Cons a ms)
  show ?case
  proof (cases "plain_user a")
    case True
    with Cons.prems show ?thesis by (rule_tac x = "[]" in exI) auto
  next
    case False
    with Cons.prems obtain zs where zs: "replace_first_plain_user t ms = Some zs" "ms' = a # zs"
      by auto
    from Cons.IH [OF zs(1)] obtain xs m ys where
      "ms = xs @ m # ys" "plain_user m" "list_all (\<lambda>x. \<not> plain_user x) xs"
      "zs = xs @ dset m ''content'' (VStr t) # ys" by blast
    with zs False show ?thesis by (rule_tac x = "a # xs" in exI) auto
  qed
qed simp

lemma replace_first_plain_user_None:
  "replace_first_plain_user t ms = None \<longleftrightarrow> list_all (\<lambda>x. \<not> plain_user x) ms"
  by (induction ms) auto

lemma replace_latest_plain_user_Inr:
  assumes "replace_latest_plain_user ms t = Inr ms'"
  shows "\<exists>xs m ys. ms = xs @ m # ys \<and> plain_user m \<and> list_all (\<lambda>x. \<not> plain_user x) ys
        \<and> ms' = xs @ dset m ''content'' (VStr t) # ys"
proof -
  from assms have "replace_first_plain_user t (rev ms) = Some (rev ms')"
    by (auto simp: replace_latest_plain_user_def split: option.splits)
  from replace_first_plain_user_Some [OF this] obtain xs m ys where
    "rev ms = xs @ m # ys" "plain_user m" "list_all (\<lambda>x. \<not> plain_user x) xs"
    "rev ms' = xs @ dset m ''content'' (VStr t) # ys" by blast
  then show ?thesis
    by (rule_tac x = "rev ys" in exI) (auto simp: rev_eq_append_conv list_all_iff)
qed

lemma replace_latest_plain_user_Inl:
  "replace_latest_plain_user ms t = Inl e \<Longrightarrow> list_all (\<lambda>x. \<not> plain_user x) ms"
  by (auto simp: replace_latest_plain_user_def list_all_iff
      dest!: replace_first_plain_user_None [THEN iffD1] split: option.splits)

lemma strip_pony_meta_clean: "m \<in> set (strip_pony_meta ms) \<Longrightarrow> dget m ''_pony_meta'' = None"
  by (auto simp: strip_pony_meta_def)

end
