(* ===== verification/JsonParse.thy ===== *)
theory JsonParse
  imports Json
begin

text \<open>
  \<open>json.loads\<close> with the \<open>object_pairs_hook\<close> of the repository (\<open>_object_from_pairs\<close>
  in \<open>pony/state/session_store.py\<close> and \<open>pony/state/workflow.py\<close>), which refuses an
  object with a repeated key.  The scanner is the one of the standard library:
  the same white space, string escapes, number syntax and order of errors.
  Escapes above \<open>\\u00ff\<close> and the non-finite floats are outside the value type
  and count as malformed.

  The recursive calls are guarded by the remaining input getting shorter; the
  guard always holds, since every production consumes a character.
\<close>

datatype json_error = Malformed | DuplicateKey

definition json_ws :: "char \<Rightarrow> bool" where
  "json_ws c \<longleftrightarrow> py_ord c \<in> {9, 10, 13, 32}"

definition skip_ws :: "string \<Rightarrow> string" where
  "skip_ws s = dropWhile json_ws s"

definition hex_val :: "char \<Rightarrow> nat option" where
  "hex_val c =
     (let n = py_ord c in
      if is_digit c then Some (n - 48)
      else if 97 \<le> n \<and> n \<le> 102 then Some (n - 87)
      else if 65 \<le> n \<and> n \<le> 70 then Some (n - 55)
      else None)"

definition hex2 :: "char \<Rightarrow> char \<Rightarrow> char option" where
  "hex2 c d = (case (hex_val c, hex_val d) of
                 (Some m, Some n) \<Rightarrow> Some (char_of (16 * m + n))
               | _ \<Rightarrow> None)"

definition simple_escape :: "char \<Rightarrow> char option" where
  "simple_escape c =
     (if py_ord c \<in> {34, 92, 47} then Some c
      else if c = CHR ''b'' then Some (char_of (8::nat))
      else if c = CHR ''f'' then Some (char_of (12::nat))
      else if c = CHR ''n'' then Some (char_of (10::nat))
      else if c = CHR ''r'' then Some (char_of (13::nat))
      else if c = CHR ''t'' then Some (char_of (9::nat))
      else None)"

text \<open>The characters after an opening quote: the string and the rest after its closing quote.\<close>

fun scan_string :: "string \<Rightarrow> (string \<times> string) option" where
  "scan_string [] = None"
| "scan_string (c # s) =
     (if py_ord c = 34 then Some ([], s)
      else if py_ord c = 92 then
        (case s of
           [] \<Rightarrow> None
         | e # s' \<Rightarrow>
             if e = CHR ''u'' then
               (case s' of
                  z1 # z2 # h1 # h2 # s'' \<Rightarrow>
                    if z1 = CHR ''0'' \<and> z2 = CHR ''0'' then
                      (case hex2 h1 h2 of
                         None \<Rightarrow> None
                       | Some x \<Rightarrow> map_option (\<lambda>(t, r). (x # t, r)) (scan_string s''))
                    else None
                | _ \<Rightarrow> None)
             else (case simple_escape e of
                     None \<Rightarrow> None
                   | Some x \<Rightarrow> map_option (\<lambda>(t, r). (x # t, r)) (scan_string s')))
      else if py_ord c < 32 then None
      else map_option (\<lambda>(t, r). (c # t, r)) (scan_string s))"

fun digits_val :: "nat \<Rightarrow> string \<Rightarrow> nat" where
  "digits_val n [] = n"
| "digits_val n (c # s) = digits_val (10 * n + (py_ord c - 48)) s"

text \<open>\<open>(-?(?:0|[1-9]\d*))(\.\d+)?([eE][-+]?\d+)?\<close>: an int, or a float when either tail matched.\<close>

definition scan_frac :: "string \<Rightarrow> string \<times> string" where
  "scan_frac s =
     (case s of
        c # r \<Rightarrow>
          if c = CHR ''.'' \<and> takeWhile is_digit r \<noteq> []
          then (takeWhile is_digit r, dropWhile is_digit r) else ([], s)
      | [] \<Rightarrow> ([], s))"

definition scan_exp :: "string \<Rightarrow> (string \<times> string) option" where
  "scan_exp s =
     (case s of
        c # r \<Rightarrow>
          if c = CHR ''e'' \<or> c = CHR ''E'' then
            (let (sign, r') = (case r of
                                 x # r' \<Rightarrow> if x = CHR ''-'' \<or> x = CHR ''+'' then ([x], r') else ([], r)
                               | [] \<Rightarrow> ([], r));
                 ds = takeWhile is_digit r'
             in if ds = [] then None else Some (sign @ ds, dropWhile is_digit r'))
          else None
      | [] \<Rightarrow> None)"

definition exp_val :: "string \<Rightarrow> int" where
  "exp_val e =
     (case e of
        [] \<Rightarrow> 0
      | c # ds \<Rightarrow> if c = CHR ''-'' then - int (digits_val 0 ds)
                  else if c = CHR ''+'' then int (digits_val 0 ds)
                  else int (digits_val 0 e))"

definition pow10 :: "int \<Rightarrow> rat" where
  "pow10 e = (if 0 \<le> e then 10 ^ nat e else 1 / 10 ^ nat (- e))"

definition scan_number :: "string \<Rightarrow> (val \<times> string) option" where
  "scan_number s =
     (let (neg, r) = (case s of c # r \<Rightarrow> if c = CHR ''-'' then (True, r) else (False, s)
                              | [] \<Rightarrow> (False, s));
          ds = (case r of
                  c # r' \<Rightarrow> if c = CHR ''0'' then [c] else takeWhile is_digit r
                | [] \<Rightarrow> []);
          r1 = drop (length ds) r;
          (fr, r2) = scan_frac r1
      in if ds = [] then None
         else case scan_exp r2 of
             Some (ex, r3) \<Rightarrow>
               let m = of_nat (digits_val 0 (ds @ fr)) * pow10 (exp_val ex - int (length fr))
               in Some (VFloat (if neg then - m else m) (take (length s - length r3) s), r3)
           | None \<Rightarrow>
               if fr \<noteq> [] then
                 let m = of_nat (digits_val 0 (ds @ fr)) * pow10 (- int (length fr))
                 in Some (VFloat (if neg then - m else m) (take (length s - length r2) s), r2)
               else Some (VInt (if neg then - int (digits_val 0 ds) else int (digits_val 0 ds)), r2))"

definition scan_word :: "string \<Rightarrow> (val \<times> string) option" where
  "scan_word s =
     (if take 4 s = ''null'' then Some (VNone, drop 4 s)
      else if take 4 s = ''true'' then Some (VBool True, drop 4 s)
      else if take 5 s = ''false'' then Some (VBool False, drop 5 s)
      else None)"

definition opt_json :: "'a option \<Rightarrow> json_error + 'a" where
  "opt_json m = (case m of None \<Rightarrow> Inl Malformed | Some x \<Rightarrow> Inr x)"

function parse_value :: "string \<Rightarrow> json_error + val \<times> string"
  and parse_items :: "val list \<Rightarrow> string \<Rightarrow> json_error + val \<times> string"
  and parse_fields :: "dict \<Rightarrow> string \<Rightarrow> json_error + val \<times> string" where
  "parse_value s =
     (case s of
        [] \<Rightarrow> Inl Malformed
      | c # r \<Rightarrow>
          if py_ord c = 34 then
            (case scan_string r of None \<Rightarrow> Inl Malformed | Some (t, r') \<Rightarrow> Inr (VStr t, r'))
          else if c = CHR ''{'' then
            (case skip_ws r of
               [] \<Rightarrow> Inl Malformed
             | d # r' \<Rightarrow> if d = CHR ''}'' then Inr (VDict [], r')
                        else if length (d # r') < length s then parse_fields [] (d # r')
                        else Inl Malformed)
          else if c = CHR ''['' then
            (case skip_ws r of
               [] \<Rightarrow> Inl Malformed
             | d # r' \<Rightarrow> if d = CHR '']'' then Inr (VList [], r')
                        else if length (d # r') < length s then parse_items [] (d # r')
                        else Inl Malformed)
          else (case scan_word s of
                  Some x \<Rightarrow> Inr x
                | None \<Rightarrow> opt_json (scan_number s)))"
| "parse_items acc s =
     (case parse_value s of
        Inl e \<Rightarrow> Inl e
      | Inr (v, r) \<Rightarrow>
          (case skip_ws r of
             [] \<Rightarrow> Inl Malformed
           | d # r' \<Rightarrow>
               if d = CHR '']'' then Inr (VList (acc @ [v]), r')
               else if d = CHR '','' then
                 (if length (skip_ws r') < length s
                  then parse_items (acc @ [v]) (skip_ws r') else Inl Malformed)
               else Inl Malformed))"
| "parse_fields acc s =
     (case s of
        [] \<Rightarrow> Inl Malformed
      | q # r \<Rightarrow>
          if py_ord q \<noteq> 34 then Inl Malformed
          else case scan_string r of
            None \<Rightarrow> Inl Malformed
          | Some (k, r1) \<Rightarrow>
              (case skip_ws r1 of
                 [] \<Rightarrow> Inl Malformed
               | c # r2 \<Rightarrow>
                   if c \<noteq> CHR '':'' then Inl Malformed
                   else if \<not> length (skip_ws r2) < length s then Inl Malformed
                   else case parse_value (skip_ws r2) of
                     Inl e \<Rightarrow> Inl e
                   | Inr (v, r3) \<Rightarrow>
                       (case skip_ws r3 of
                          [] \<Rightarrow> Inl Malformed
                        | d # r4 \<Rightarrow>
                            if d = CHR ''}'' then
                              (if distinct (map fst (acc @ [(k, v)]))
                               then Inr (VDict (acc @ [(k, v)]), r4) else Inl DuplicateKey)
                            else if d = CHR '','' then
                              (if length (skip_ws r4) < length s
                               then parse_fields (acc @ [(k, v)]) (skip_ws r4)
                               else Inl Malformed)
                            else Inl Malformed)))"
  by pat_completeness auto
termination
  by (relation "measures [\<lambda>x. case x of Inl s \<Rightarrow> length s
                           | Inr (Inl (a, s)) \<Rightarrow> length s | Inr (Inr (a, s)) \<Rightarrow> length s,
                         \<lambda>x. case x of Inl s \<Rightarrow> 0 | Inr (Inl y) \<Rightarrow> 1 | Inr (Inr y) \<Rightarrow> 1]") auto

declare parse_value.simps [simp del] parse_items.simps [simp del] parse_fields.simps [simp del]

definition json_loads :: "string \<Rightarrow> json_error + val" where
  "json_loads s =
     (case parse_value (skip_ws s) of
        Inl e \<Rightarrow> Inl e
      | Inr (v, r) \<Rightarrow> if skip_ws r = [] then Inr v else Inl Malformed)"

end
