(* ===== verification/Workflow.thy ===== *)
theory Workflow
  imports JsonParse
begin

text \<open>
  \<open>pony/state/workflow.py\<close>: the workflow mode and the structured plan of the third
  session format, which the migration still reads.  \<open>validate_plan\<close> is the whole
  check, in the source's order, and returns the normalised plan.
\<close>

definition DEFAULT_WORKFLOW_MODE :: string where
  "DEFAULT_WORKFLOW_MODE = ''act''"

definition EMPTY_PLAN :: val where
  "EMPTY_PLAN = VDict [(''goal'', VStr []), (''items'', VList [])]"

definition MAX_PLAN_BYTES :: nat where
  "MAX_PLAN_BYTES = 12 * 1024"

definition MAX_PLAN_TEXT_CHARS :: nat where
  "MAX_PLAN_TEXT_CHARS = 300"

definition MAX_PLAN_ITEMS :: nat where
  "MAX_PLAN_ITEMS = 12"

text \<open>\<open>[A-Za-z0-9][A-Za-z0-9._-]{0,31}\<close> and \<open>[\x00-\x1f\x7f]\<close>.\<close>

definition id_char :: "char \<Rightarrow> bool" where
  "id_char c \<longleftrightarrow> is_alnum c \<or> c \<in> set ''._-''"

definition item_id_ok :: "string \<Rightarrow> bool" where
  "item_id_ok s =
     (case s of [] \<Rightarrow> False
      | c # r \<Rightarrow> is_alnum c \<and> list_all id_char r \<and> length r \<le> 31)"

definition has_control :: "string \<Rightarrow> bool" where
  "has_control s \<longleftrightarrow> list_ex (\<lambda>c. py_ord c < 32 \<or> py_ord c = 127) s"

definition validate_workflow_mode :: "val \<Rightarrow> string res" where
  "validate_workflow_mode value =
     (case value of
        VStr s \<Rightarrow> if s \<in> {''plan'', ''act'', ''review''} then Inr s
                  else Inl (ValueError ''invalid workflow mode'')
      | _ \<Rightarrow> Inl (ValueError ''invalid workflow mode''))"

text \<open>\<open>_STATUSES\<close>, \<open>_PLAN_FIELDS\<close> and \<open>_ITEM_FIELDS\<close>.\<close>

definition plan_statuses :: "string set" where
  "plan_statuses = {''pending'', ''in_progress'', ''completed''}"

definition plan_fields :: "string set" where
  "plan_fields = {''goal'', ''items''}"

definition item_fields :: "string set" where
  "item_fields = {''id'', ''text'', ''status''}"

definition plan_error :: "string \<Rightarrow> err" where
  "plan_error s = PlanValidationError (''invalid_plan: '' @ s)"

definition trimmed_text :: "string \<Rightarrow> bool" where
  "trimmed_text s \<longleftrightarrow> s \<noteq> [] \<and> s = strip s \<and> length s \<le> MAX_PLAN_TEXT_CHARS"

text \<open>One item: its normal form, or the first error; \<open>seen\<close> is \<open>seen_ids\<close>.\<close>

definition validate_plan_item :: "string list \<Rightarrow> val \<Rightarrow> (string \<times> string \<times> string) res" where
  "validate_plan_item seen item =
     (if \<not> is_dict item \<or> dkeys (as_dict item) \<noteq> item_fields
      then Inl (plan_error ''invalid item fields'')
      else
        let d = as_dict item;
            item_id = dget_none d ''id'';
            text = dget_none d ''text'';
            status = dget_none d ''status''
        in if \<not> is_str item_id \<or> \<not> item_id_ok (as_str item_id)
           then Inl (plan_error ''invalid item id'')
           else if as_str item_id \<in> set seen then Inl (plan_error ''duplicate item id'')
           else if \<not> is_str text \<or> \<not> trimmed_text (as_str text)
           then Inl (plan_error ''item text must be 1-300 trimmed characters'')
           else if has_control (as_str text) \<or> has_control (as_str item_id)
           then Inl (plan_error ''control character'')
           else if \<not> is_str status \<or> as_str status \<notin> plan_statuses
           then Inl (plan_error ''invalid item status'')
           else Inr (as_str item_id, as_str text, as_str status))"

definition plan_item_val :: "string \<times> string \<times> string \<Rightarrow> val" where
  "plan_item_val p = (case p of (i, t, s) \<Rightarrow>
     VDict [(''id'', VStr i), (''text'', VStr t), (''status'', VStr s)])"

fun validate_plan_items ::
  "(string \<times> string \<times> string) list \<Rightarrow> val list \<Rightarrow> (string \<times> string \<times> string) list res" where
  "validate_plan_items acc [] = Inr acc"
| "validate_plan_items acc (item # items) =
     bindR (validate_plan_item (map fst acc) item)
       (\<lambda>p. validate_plan_items (acc @ [p]) items)"

definition in_progress_count :: "(string \<times> string \<times> string) list \<Rightarrow> nat" where
  "in_progress_count ps = length (filter (\<lambda>p. snd (snd p) = ''in_progress'') ps)"

definition validate_plan :: "(val \<Rightarrow> val) option \<Rightarrow> val \<Rightarrow> val res" where
  "validate_plan redactor plan =
     (if \<not> is_dict plan \<or> dkeys (as_dict plan) \<noteq> plan_fields
      then Inl (plan_error ''plan fields must be goal and items'')
      else
        let goal = dget_none (as_dict plan) ''goal'';
            items = dget_none (as_dict plan) ''items''
        in if \<not> is_str goal \<or> \<not> is_list items then Inl (plan_error ''invalid goal or items'')
        else if goal = VStr [] \<and> items = VList [] then Inr EMPTY_PLAN
        else if \<not> trimmed_text (as_str goal)
        then Inl (plan_error ''goal must be 1-300 trimmed characters'')
        else if has_control (as_str goal) then Inl (plan_error ''control character'')
        else if \<not> (1 \<le> length (as_list items) \<and> length (as_list items) \<le> MAX_PLAN_ITEMS)
        then Inl (plan_error ''plan must contain 1-12 items'')
        else bindR (validate_plan_items [] (as_list items)) (\<lambda>normalized.
          if 1 < in_progress_count normalized
          then Inl (plan_error ''multiple in_progress items'')
          else
            let validated = VDict [(''goal'', goal),
                                   (''items'', VList (map plan_item_val normalized))]
            in if (case redactor of None \<Rightarrow> False
                   | Some r \<Rightarrow> \<not> py_eq (r validated) validated)
               then Inl (SensitivePlanError ''sensitive_content_block'')
               else if MAX_PLAN_BYTES < utf8_len (dumps compact_plain validated)
               then Inl (plan_error ''plan exceeds 12 KiB'')
               else Inr validated))"

definition parse_plan_json :: "(val \<Rightarrow> val) option \<Rightarrow> val \<Rightarrow> val res" where
  "parse_plan_json redactor plan_json =
     (if \<not> is_str plan_json then Inl (plan_error ''plan_json must be a string'')
      else if MAX_PLAN_BYTES < utf8_len (as_str plan_json)
      then Inl (plan_error ''plan exceeds 12 KiB'')
      else case json_loads (as_str plan_json) of
        Inl DuplicateKey \<Rightarrow> Inl (plan_error ''duplicate JSON key'')
      | Inl Malformed \<Rightarrow> Inl (plan_error ''malformed JSON'')
      | Inr value \<Rightarrow> validate_plan redactor value)"

subsection \<open>What an accepted plan is\<close>

text \<open>
  The declarative contract of a plan: the empty plan, or a bounded goal with one
  to twelve items whose ids are distinct and of which at most one is in progress.
\<close>

definition plan_item_ok :: "string \<times> string \<times> string \<Rightarrow> bool" where
  "plan_item_ok p = (case p of (i, t, s) \<Rightarrow>
     item_id_ok i \<and> trimmed_text t \<and> \<not> has_control t \<and> \<not> has_control i
     \<and> s \<in> plan_statuses)"

definition plan_ok :: "val \<Rightarrow> bool" where
  "plan_ok v \<longleftrightarrow> v = EMPTY_PLAN \<or>
     (\<exists>goal ps. v = VDict [(''goal'', VStr goal), (''items'', VList (map plan_item_val ps))]
        \<and> trimmed_text goal \<and> \<not> has_control goal
        \<and> 1 \<le> length ps \<and> length ps \<le> MAX_PLAN_ITEMS
        \<and> list_all plan_item_ok ps \<and> distinct (map fst ps)
        \<and> in_progress_count ps \<le> 1
        \<and> utf8_len (dumps compact_plain v) \<le> MAX_PLAN_BYTES)"

lemma validate_plan_item_Inr:
  "validate_plan_item seen item = Inr p \<Longrightarrow> plan_item_ok p \<and> fst p \<notin> set seen"
  by (auto simp: validate_plan_item_def plan_item_ok_def Let_def split: if_split_asm)

lemma validate_plan_items_Inr:
  "validate_plan_items acc items = Inr ps \<Longrightarrow>
   list_all plan_item_ok acc \<Longrightarrow> distinct (map fst acc) \<Longrightarrow>
   list_all plan_item_ok ps \<and> distinct (map fst ps) \<and> length ps = length acc + length items"
proof (induction items arbitrary: acc)
  case (Cons item items)
  from Cons.prems(1) obtain p where
    p: "validate_plan_item (map fst acc) item = Inr p" and
    rest: "validate_plan_items (acc @ [p]) items = Inr ps"
    by (auto simp: bindR_Inr_iff)
  from validate_plan_item_Inr [OF p] Cons.prems(2,3) Cons.IH [OF rest]
  show ?case by auto
qed simp

lemma validate_plan_Inr:
  assumes "validate_plan redactor plan = Inr v"
  shows "plan_ok v"
proof (cases "v = EMPTY_PLAN")
  case False
  let ?goal = "dget_none (as_dict plan) ''goal''"
  let ?items = "as_list (dget_none (as_dict plan) ''items'')"
  from assms False obtain ps where
    ps: "validate_plan_items [] ?items = Inr ps" and
    v: "v = VDict [(''goal'', ?goal), (''items'', VList (map plan_item_val ps))]" and
    ok: "is_str ?goal" "trimmed_text (as_str ?goal)" "\<not> has_control (as_str ?goal)"
      "1 \<le> length ?items" "length ?items \<le> MAX_PLAN_ITEMS" "in_progress_count ps \<le> 1"
      "utf8_len (dumps compact_plain v) \<le> MAX_PLAN_BYTES"
    by (auto simp: validate_plan_def Let_def bindR_Inr_iff not_less
        simp del: dumps.simps split: if_split_asm)
  from ok(1) obtain goal where "?goal = VStr goal" by (auto simp: is_str_iff)
  with v ok validate_plan_items_Inr [OF ps] show ?thesis
    by (auto simp: plan_ok_def simp del: dumps.simps)
qed (simp add: plan_ok_def)

text \<open>The redactor cannot pass anything it would change.\<close>

lemma validate_plan_redacted:
  "validate_plan (Some r) plan = Inr v \<Longrightarrow> v = EMPTY_PLAN \<or> py_eq (r v) v"
  by (auto simp: validate_plan_def Let_def bindR_Inr_iff simp del: dumps.simps
      split: if_split_asm)

lemma validate_plan_item_val:
  assumes "plan_item_ok p" and "fst p \<notin> set seen"
  shows "validate_plan_item seen (plan_item_val p) = Inr p"
  using assms
  by (cases p) (simp add: plan_item_ok_def validate_plan_item_def plan_item_val_def
      Let_def dget_none_def item_fields_def insert_commute)

lemma validate_plan_items_val:
  "list_all plan_item_ok ps \<Longrightarrow> distinct (map fst (acc @ ps)) \<Longrightarrow>
   validate_plan_items acc (map plan_item_val ps) = Inr (acc @ ps)"
proof (induction ps arbitrary: acc)
  case (Cons p ps)
  then have "validate_plan_item (map fst acc) (plan_item_val p) = Inr p"
    by (intro validate_plan_item_val) auto
  with Cons.IH [of "acc @ [p]"] Cons.prems show ?case by simp
qed simp

text \<open>Validation is the identity on its own results: a normal form.\<close>

lemma validate_plan_ok:
  assumes "plan_ok v"
  shows "validate_plan None v = Inr v"
proof (cases "v = EMPTY_PLAN")
  case True
  then show ?thesis by (simp add: validate_plan_def EMPTY_PLAN_def dget_none_def plan_fields_def)
next
  case False
  with assms obtain goal ps where
    v: "v = VDict [(''goal'', VStr goal), (''items'', VList (map plan_item_val ps))]" and
    ok: "trimmed_text goal" "\<not> has_control goal" "1 \<le> length ps" "length ps \<le> MAX_PLAN_ITEMS"
      "list_all plan_item_ok ps" "distinct (map fst ps)" "in_progress_count ps \<le> 1"
      "utf8_len (dumps compact_plain v) \<le> MAX_PLAN_BYTES"
    unfolding plan_ok_def by blast
  have "validate_plan_items [] (map plan_item_val ps) = Inr ps"
    using validate_plan_items_val [of ps "[]"] ok by simp
  moreover have "goal \<noteq> []" using ok by (simp add: trimmed_text_def)
  ultimately show ?thesis using ok v
    by (simp add: validate_plan_def Let_def dget_none_def plan_fields_def del: dumps.simps)
qed

end
