(* ===== verification/Permissions.thy ===== *)
theory Permissions
  imports PyValue
begin

text \<open>
  The permission modes and the tool policy of \<open>pony/tools/permissions.py\<close>: mode
  validation, the parsing of tool name lists, and \<open>decide_permission\<close>, the one
  function that turns trust, mode, effect class and an explicit session rule
  into allow, ask or deny.
\<close>

datatype permission_mode =
  DEFAULT | ACCEPT_EDITS | AUTO | BYPASS_PERMISSIONS | PLAN | DONT_ASK

datatype permission_decision = ALLOW | ASK | DENY

fun mode_value :: "permission_mode \<Rightarrow> string" where
  "mode_value DEFAULT = ''default''"
| "mode_value ACCEPT_EDITS = ''acceptEdits''"
| "mode_value AUTO = ''auto''"
| "mode_value BYPASS_PERMISSIONS = ''bypassPermissions''"
| "mode_value PLAN = ''plan''"
| "mode_value DONT_ASK = ''dontAsk''"

fun decision_value :: "permission_decision \<Rightarrow> string" where
  "decision_value ALLOW = ''allow''"
| "decision_value ASK = ''ask''"
| "decision_value DENY = ''deny''"

definition all_modes :: "permission_mode list" where
  "all_modes = [DEFAULT, ACCEPT_EDITS, AUTO, BYPASS_PERMISSIONS, PLAN, DONT_ASK]"

text \<open>\<open>PermissionMode(value)\<close>, \<open>PermissionDecision(value)\<close>: enum lookup by value.\<close>

definition mode_of :: "string \<Rightarrow> permission_mode option" where
  "mode_of s = find (\<lambda>m. mode_value m = s) all_modes"

definition decision_of :: "string \<Rightarrow> permission_decision option" where
  "decision_of s = find (\<lambda>d. decision_value d = s) [ALLOW, ASK, DENY]"

definition mutating_effects :: "string list" where
  "mutating_effects = [''workspace_write'', ''memory_write'', ''session_state'']"

definition validate_permission_mode :: "val \<Rightarrow> string res" where
  "validate_permission_mode value =
     (let value = (if value = VStr ''manual'' then VStr (mode_value DEFAULT) else value)
      in case value of
           VStr s \<Rightarrow> (case mode_of s of
                        Some m \<Rightarrow> Inr (mode_value m)
                      | None \<Rightarrow> Inl (ValueError ''invalid permission mode''))
         | _ \<Rightarrow> Inl (ValueError ''invalid permission mode''))"

definition display_permission_mode :: "val \<Rightarrow> string res" where
  "display_permission_mode value =
     bindR (validate_permission_mode value)
       (\<lambda>mode. Inr (if mode = mode_value DEFAULT then ''manual'' else mode))"

text \<open>\<open>re.split(r"[\s,]+", value.strip())\<close>.\<close>

definition name_sep :: "char \<Rightarrow> bool" where
  "name_sep c \<longleftrightarrow> py_space c \<or> c = CHR '',''"

function split_names :: "string \<Rightarrow> string list" where
  "split_names s =
     (case dropWhile (\<lambda>c. \<not> name_sep c) s of
        [] \<Rightarrow> [s]
      | c # rest \<Rightarrow> takeWhile (\<lambda>c. \<not> name_sep c) s # split_names (dropWhile name_sep rest))"
  by pat_completeness auto
termination
proof (relation "measure length")
  show "wf (measure length)" by simp
  fix s c and rest :: string
  assume "dropWhile (\<lambda>c. \<not> name_sep c) s = c # rest"
  then have "length (c # rest) \<le> length s"
    by (metis length_dropWhile_le)
  then show "(dropWhile name_sep rest, s) \<in> measure length"
    using length_dropWhile_le [of name_sep rest] by auto
qed

declare split_names.simps [simp del]

fun add_names :: "string list \<Rightarrow> string list \<Rightarrow> string list" where
  "add_names names [] = names"
| "add_names names (n # ns) =
     (if n \<noteq> [] \<and> n \<notin> set names then add_names (names @ [n]) ns else add_names names ns)"

definition parse_permission_tool_names :: "string list \<Rightarrow> string list" where
  "parse_permission_tool_names values =
     foldl (\<lambda>names v. add_names names (split_names (strip v))) [] values"

text \<open>
  \<open>decide_permission\<close>; \<open>mode\<close> and \<open>explicit\<close> arrive as raw strings and an unknown
  one is a denial.
\<close>

definition decide_permission ::
  "bool \<Rightarrow> string \<Rightarrow> string \<Rightarrow> string option \<Rightarrow> bool \<Rightarrow> bool \<Rightarrow> bool \<Rightarrow> permission_decision" where
  "decide_permission project_trusted mode effect_class explicit builtin_edit auto_allow plan_write =
     (case (mode_of mode,
            case explicit of None \<Rightarrow> Some None | Some e \<Rightarrow> map_option Some (decision_of e)) of
        (None, _) \<Rightarrow> DENY
      | (_, None) \<Rightarrow> DENY
      | (Some mode, Some explicit) \<Rightarrow>
          if \<not> project_trusted \<or> explicit = Some DENY then DENY
          else if effect_class \<notin> set mutating_effects \<union> {''read_only''} then DENY
          else
            let mutating = effect_class \<in> set mutating_effects in
            if mode = PLAN \<and> mutating then (if plan_write then ALLOW else ASK)
            else if explicit = Some ALLOW then ALLOW
            else if explicit = Some ASK then (if mode = DONT_ASK then DENY else ASK)
            else if \<not> mutating then ALLOW
            else if mode = BYPASS_PERMISSIONS then ALLOW
            else if mode = AUTO then (if auto_allow then ALLOW else DENY)
            else if mode = ACCEPT_EDITS \<and> effect_class = ''workspace_write'' \<and> builtin_edit
            then ALLOW
            else if mode = DONT_ASK then DENY
            else ASK)"

subsection \<open>Modes and their names\<close>

lemma mode_of_value [simp]: "mode_of (mode_value m) = Some m"
  by (cases m) (simp_all add: mode_of_def all_modes_def)

lemma mode_of_SomeD: "mode_of s = Some m \<Longrightarrow> s = mode_value m"
  by (auto simp: mode_of_def all_modes_def split: if_splits)

lemma decision_of_value [simp]: "decision_of (decision_value d) = Some d"
  by (cases d) (simp_all add: decision_of_def)

lemma decision_of_SomeD: "decision_of s = Some d \<Longrightarrow> s = decision_value d"
  by (auto simp: decision_of_def split: if_splits)

lemma mode_value_inject [simp]: "mode_value m = mode_value n \<longleftrightarrow> m = n"
  by (metis mode_of_value option.inject)

lemma mode_of_manual [simp]: "mode_of ''manual'' = None"
  by (simp add: mode_of_def all_modes_def)

lemma mode_of_default [simp]: "mode_of ''default'' = Some DEFAULT"
  by (simp add: mode_of_def all_modes_def)

lemma mode_value_not_manual [simp]: "mode_value m \<noteq> ''manual''" "''manual'' \<noteq> mode_value m"
  by (cases m; simp)+

lemma mode_value_nonempty [simp]: "mode_value m \<noteq> []"
  by (cases m) simp_all

lemma validate_permission_mode_Inr:
  "validate_permission_mode v = Inr s \<longleftrightarrow>
     (\<exists>m. s = mode_value m \<and> (v = VStr s \<or> v = VStr ''manual'' \<and> m = DEFAULT))"
  by (cases v)
    (auto simp: validate_permission_mode_def Let_def dest: mode_of_SomeD
      split: option.splits if_splits)

lemma validate_permission_mode_value [simp]:
  "validate_permission_mode (VStr (mode_value m)) = Inr (mode_value m)"
  by (auto simp: validate_permission_mode_Inr)

lemma validate_permission_mode_idem:
  "validate_permission_mode v = Inr s \<Longrightarrow> validate_permission_mode (VStr s) = Inr s"
  by (auto simp: validate_permission_mode_Inr)

subsection \<open>The policy\<close>

lemma effects_simps [simp]:
  "''read_only'' \<notin> set mutating_effects"
  "''workspace_write'' \<in> set mutating_effects"
  "''memory_write'' \<in> set mutating_effects"
  "''session_state'' \<in> set mutating_effects"
  by (simp_all add: mutating_effects_def)

lemma decide_permission_modes:
  "decide_permission True (mode_value m) eff None be aa pw =
     (if eff = ''read_only'' then ALLOW
      else if eff \<notin> set mutating_effects then DENY
      else case m of
        PLAN \<Rightarrow> if pw then ALLOW else ASK
      | BYPASS_PERMISSIONS \<Rightarrow> ALLOW
      | AUTO \<Rightarrow> if aa then ALLOW else DENY
      | ACCEPT_EDITS \<Rightarrow> if eff = ''workspace_write'' \<and> be then ALLOW else ASK
      | DONT_ASK \<Rightarrow> DENY
      | DEFAULT \<Rightarrow> ASK)"
  by (cases m) (auto simp del: mode_value.simps simp: decide_permission_def Let_def)

lemma decide_permission_explicit:
  "decide_permission True (mode_value m) eff (Some (decision_value d)) be aa pw =
     (if d = DENY \<or> eff \<noteq> ''read_only'' \<and> eff \<notin> set mutating_effects then DENY
      else if m = PLAN \<and> eff \<noteq> ''read_only'' then (if pw then ALLOW else ASK)
      else if d = ALLOW then ALLOW
      else if m = DONT_ASK then DENY else ASK)"
  by (cases d)
    (auto simp del: mode_value.simps decision_value.simps simp: decide_permission_def Let_def)

text \<open>
  Decisions ordered by strictness: allow, then ask, then deny.
\<close>

fun strictness :: "permission_decision \<Rightarrow> nat" where
  "strictness ALLOW = 0"
| "strictness ASK = 1"
| "strictness DENY = 2"

instantiation permission_decision :: linorder
begin

definition less_eq_permission_decision :: "permission_decision \<Rightarrow> permission_decision \<Rightarrow> bool" where
  "less_eq_permission_decision d e \<longleftrightarrow> strictness d \<le> strictness e"

definition less_permission_decision :: "permission_decision \<Rightarrow> permission_decision \<Rightarrow> bool" where
  "less_permission_decision d e \<longleftrightarrow> strictness d < strictness e"

instance
proof
  fix d e :: permission_decision
  show "d \<le> e \<Longrightarrow> e \<le> d \<Longrightarrow> d = e"
    by (cases d; cases e) (simp_all add: less_eq_permission_decision_def)
qed (auto simp: less_eq_permission_decision_def less_permission_decision_def)

end

lemma decision_bounds [simp]: "ALLOW \<le> (d :: permission_decision)" "(d :: permission_decision) \<le> DENY"
  by (cases d; simp add: less_eq_permission_decision_def)+

lemma decision_less [simp]: "\<not> ASK \<le> ALLOW" "\<not> DENY \<le> ALLOW" "\<not> DENY \<le> ASK" "ASK \<le> ASK"
  by (simp_all add: less_eq_permission_decision_def)

lemma decide_permission_explicit_mono:
  assumes "d \<le> e"
  shows "decide_permission True (mode_value m) eff (Some (decision_value d)) be aa pw
    \<le> decide_permission True (mode_value m) eff (Some (decision_value e)) be aa pw"
  using assms unfolding decide_permission_explicit by (cases d; cases e) auto

lemma decide_permission_denied_unless:
  assumes "decide_permission trusted mode eff explicit be aa pw \<noteq> DENY"
  shows "trusted \<and> (\<exists>m. mode = mode_value m) \<and> (\<forall>s. explicit = Some s \<longrightarrow> s \<noteq> decision_value DENY)
     \<and> (eff = ''read_only'' \<or> eff \<in> set mutating_effects)"
proof -
  from assms obtain m where m: "mode_of mode = Some m"
    by (cases "mode_of mode") (simp_all add: decide_permission_def)
  have "trusted \<and> (eff = ''read_only'' \<or> eff \<in> set mutating_effects)
    \<and> (\<forall>s. explicit = Some s \<longrightarrow> s \<noteq> decision_value DENY)"
  proof (cases explicit)
    case None
    with assms m show ?thesis
      by (simp add: decide_permission_def Let_def del: decision_value.simps split: if_split_asm)
  next
    case (Some s)
    with assms m obtain d where d: "decision_of s = Some d"
      by (cases "decision_of s") (simp_all add: decide_permission_def)
    with assms m Some have "trusted \<and> d \<noteq> DENY \<and> (eff = ''read_only'' \<or> eff \<in> set mutating_effects)"
      by (simp add: decide_permission_def Let_def del: decision_value.simps split: if_split_asm)
    with d Some show ?thesis by (auto simp del: decision_value.simps)
  qed
  with mode_of_SomeD [OF m] show ?thesis by blast
qed

text \<open>Mode and decision names stay folded in the proofs of the other theories.\<close>

declare mode_value.simps [simp del] decision_value.simps [simp del]

end
