(* ===== verification/SessionEntry.thy ===== *)
theory SessionEntry
  imports Messages Workflow Permissions
begin

text \<open>
  The entries of a session file, \<open>pony/state/session_store.py\<close>: the field tables,
  \<open>_validate_entry\<close>, \<open>_validate_header\<close>, the projection a header starts from and
  \<open>_apply_entry\<close>, which folds one entry into the projection.

  An entry in memory is a record; \<open>entry_val\<close> is the JSON object it is stored as,
  and validation works on that object, whatever it holds.
\<close>

definition sferr :: "string \<Rightarrow> err" where
  "sferr s = SessionFormatError s"

definition SESSION_FORMAT_VERSION :: int where "SESSION_FORMAT_VERSION = 5"
definition PREVIOUS_SESSION_FORMAT_VERSION :: int where "PREVIOUS_SESSION_FORMAT_VERSION = 4"
definition WORKFLOW_SESSION_FORMAT_VERSION :: int where "WORKFLOW_SESSION_FORMAT_VERSION = 3"
definition LEGACY_JSONL_SESSION_FORMAT_VERSION :: int where
  "LEGACY_JSONL_SESSION_FORMAT_VERSION = 2"
definition LEGACY_SESSION_FORMAT_VERSION :: int where "LEGACY_SESSION_FORMAT_VERSION = 1"
definition MAX_SESSION_ENTRY_BYTES :: nat where "MAX_SESSION_ENTRY_BYTES = 8 * 1024 * 1024"
definition MAX_SESSION_BYTES :: nat where "MAX_SESSION_BYTES = 512 * 1024 * 1024"
definition MAX_PLAN_TEXT_BYTES :: nat where "MAX_PLAN_TEXT_BYTES = 12 * 1024"

lemmas version_defs = SESSION_FORMAT_VERSION_def PREVIOUS_SESSION_FORMAT_VERSION_def
  WORKFLOW_SESSION_FORMAT_VERSION_def LEGACY_JSONL_SESSION_FORMAT_VERSION_def
  LEGACY_SESSION_FORMAT_VERSION_def

definition ENTRY_TYPES :: "string set" where
  "ENTRY_TYPES = {''message'', ''tool_exchange'', ''permission_mode_change'', ''plan_artifact'',
     ''compaction'', ''branch_summary'', ''task_checkpoint'', ''label'', ''rewind'',
     ''session_info'', ''context_recovery'', ''migration''}"

definition V3_ENTRY_TYPES :: "string set" where
  "V3_ENTRY_TYPES = (ENTRY_TYPES - {''permission_mode_change'', ''plan_artifact''})
     \<union> {''workflow_mode_change'', ''plan_update''}"

definition V2_ENTRY_TYPES :: "string set" where
  "V2_ENTRY_TYPES = (ENTRY_TYPES - {''permission_mode_change'', ''plan_artifact''})
     \<union> {''model_change''}"

definition REQUIRED_FIELDS :: "string set" where
  "REQUIRED_FIELDS = {''record_type'', ''format_version'', ''id'', ''created_at'',
     ''workspace_root'', ''messages'', ''working_memory'', ''memory'', ''recently_recalled'',
     ''checkpoints'', ''resume_state'', ''runtime_identity'', ''permission_mode''}"

definition V4_REQUIRED_FIELDS :: "string set" where
  "V4_REQUIRED_FIELDS = REQUIRED_FIELDS \<union> {''recovery''}"

definition PREVIOUS_REQUIRED_FIELDS :: "string set" where
  "PREVIOUS_REQUIRED_FIELDS =
     (V4_REQUIRED_FIELDS - {''permission_mode''}) \<union> {''workflow_mode'', ''active_plan''}"

definition LEGACY_REQUIRED_FIELDS :: "string set" where
  "LEGACY_REQUIRED_FIELDS = REQUIRED_FIELDS - {''permission_mode''}"

definition OPTIONAL_FIELDS :: "string set" where
  "OPTIONAL_FIELDS =
     {''provider_binding'', ''permission_rules'', ''plan_text'', ''plan_revision'', ''pre_plan_mode''}"

definition LEGACY_OPTIONAL_FIELDS :: "string set" where
  "LEGACY_OPTIONAL_FIELDS = OPTIONAL_FIELDS \<union> {''recovery''}"

definition DERIVED_CACHE_FIELDS :: "string set" where
  "DERIVED_CACHE_FIELDS = {''working_memory'', ''memory'', ''recently_recalled''}"

definition HEADER_PROJECTION_FIELDS :: "string set" where
  "HEADER_PROJECTION_FIELDS =
     {''record_type'', ''format_version'', ''id'', ''created_at'', ''workspace_root''}"

definition SESSION_INFO_FIELDS :: "string set" where
  "SESSION_INFO_FIELDS =
     (REQUIRED_FIELDS \<union> OPTIONAL_FIELDS)
     - {''messages'', ''permission_mode'', ''plan_text'', ''plan_revision'', ''pre_plan_mode''}
     - DERIVED_CACHE_FIELDS"

definition V4_SESSION_INFO_FIELDS :: "string set" where
  "V4_SESSION_INFO_FIELDS = SESSION_INFO_FIELDS \<union> {''recovery''}"

definition MUTABLE_SESSION_INFO_FIELDS :: "string set" where
  "MUTABLE_SESSION_INFO_FIELDS = {''resume_state'', ''runtime_identity'', ''permission_rules''}"

definition TASK_CHECKPOINT_FIELDS :: "string set" where
  "TASK_CHECKPOINT_FIELDS = {''checkpoint_id'', ''parent_checkpoint_id'', ''created_at'',
     ''goal'', ''status'', ''current_goal'', ''completed'', ''in_progress'', ''excluded'',
     ''blocker'', ''current_blocker'', ''next_steps'', ''next_step'', ''key_files'',
     ''read_files'', ''modified_files'', ''worktree_identity_digest'', ''context_usage'',
     ''label'', ''trigger'', ''freshness'', ''summary'', ''runtime_identity''}"

definition V4_TASK_CHECKPOINT_FIELDS :: "string set" where
  "V4_TASK_CHECKPOINT_FIELDS = TASK_CHECKPOINT_FIELDS \<union> {''workspace_checkpoint_id''}"

definition FEATURE_FLAG_FIELDS :: "string set" where
  "FEATURE_FLAG_FIELDS = {''memory''}"

definition HEADER_FIELDS :: "string set" where
  "HEADER_FIELDS = {''record_type'', ''format_version'', ''id'', ''created_at'',
     ''workspace_root'', ''worktree_identity''}"

definition WORKTREE_FIELDS :: "string set" where
  "WORKTREE_FIELDS = {''lexical_root'', ''git_common_dir'', ''git_dir'', ''root_device'',
     ''root_inode'', ''digest''}"

definition ENTRY_FIELDS :: "string set" where
  "ENTRY_FIELDS = {''record_type'', ''format_version'', ''id'', ''parent_id'', ''timestamp'',
     ''type'', ''data''}"

definition PROTOCOL_FAMILIES :: "string set" where
  "PROTOCOL_FAMILIES =
     {''anthropic_messages'', ''openai_chat_completions'', ''openai_responses'', ''ollama_chat''}"

record header =
  hversion :: int
  hid :: string
  created_at :: string
  workspace_root :: string
  worktree_identity :: val

record entry =
  efmt :: val
  eid :: string
  parent_id :: string
  timestamp :: string
  etype :: string
  edata :: dict

definition entry_val :: "entry \<Rightarrow> val" where
  "entry_val e =
     VDict [(''record_type'', VStr ''session_entry''), (''format_version'', efmt e),
            (''id'', VStr (eid e)), (''parent_id'', VStr (parent_id e)),
            (''timestamp'', VStr (timestamp e)), (''type'', VStr (etype e)),
            (''data'', VDict (edata e))]"

definition entry_of_val :: "val \<Rightarrow> entry" where
  "entry_of_val v =
     \<lparr>efmt = mget v ''format_version'', eid = as_str (mget v ''id''),
      parent_id = as_str (mget v ''parent_id''), timestamp = as_str (mget v ''timestamp''),
      etype = as_str (mget v ''type''), edata = as_dict (mget v ''data'')\<rparr>"

definition header_val :: "header \<Rightarrow> val" where
  "header_val h =
     VDict [(''record_type'', VStr ''session_header''), (''format_version'', VInt (hversion h)),
            (''id'', VStr (hid h)), (''created_at'', VStr (created_at h)),
            (''workspace_root'', VStr (workspace_root h)),
            (''worktree_identity'', worktree_identity h)]"

definition header_of_val :: "val \<Rightarrow> header" where
  "header_of_val v =
     \<lparr>hversion = as_int (mget v ''format_version''), hid = as_str (mget v ''id''),
      created_at = as_str (mget v ''created_at''),
      workspace_root = as_str (mget v ''workspace_root''),
      worktree_identity = mget v ''worktree_identity''\<rparr>"

text \<open>\<open>[A-Za-z0-9][A-Za-z0-9._-]*\<close> and \<open>[a-f0-9]{16,32}\<close>.\<close>

definition session_id_ok :: "string \<Rightarrow> bool" where
  "session_id_ok s = (case s of [] \<Rightarrow> False | c # r \<Rightarrow> is_alnum c \<and> list_all id_char r)"

definition session_id :: "val \<Rightarrow> string res" where
  "session_id value =
     (if session_id_ok (as_str value) then Inr (as_str value)
      else Inl (ValueError ''invalid session id''))"

definition entry_id_ok :: "string \<Rightarrow> bool" where
  "entry_id_ok s \<longleftrightarrow> 16 \<le> length s \<and> length s \<le> 32 \<and> list_all is_hex_lower s"

subsection \<open>Headers\<close>

definition worktree_facts :: "dict \<Rightarrow> dict" where
  "worktree_facts d = filter (\<lambda>p. fst p \<noteq> ''digest'') d"

definition validate_worktree_identity :: "(string \<Rightarrow> string) \<Rightarrow> val \<Rightarrow> err + unit" where
  "validate_worktree_identity sha256 value =
     (if \<not> is_dict value \<or> dkeys (as_dict value) \<noteq> WORKTREE_FIELDS
      then Inl (sferr ''invalid worktree identity'')
      else if list_ex (\<lambda>k. \<not> is_str (mget value k))
        [''lexical_root'', ''git_common_dir'', ''git_dir'', ''digest'']
      then Inl (sferr ''invalid worktree identity string'')
      else if list_ex (\<lambda>k. \<not> is_int (mget value k)) [''root_device'', ''root_inode'']
      then Inl (sferr ''invalid worktree identity number'')
      else if mget value ''digest'' \<noteq>
        VStr (sha256 (dumps (compact_sorted\<lparr>ensure_ascii := True\<rparr>)
                (VDict (worktree_facts (as_dict value)))))
      then Inl (sferr ''worktree identity digest mismatch'')
      else Inr ())"

definition validate_header :: "(string \<Rightarrow> string) \<Rightarrow> int \<Rightarrow> string \<Rightarrow> val \<Rightarrow> err + unit" where
  "validate_header sha256 version sid header =
     (if \<not> is_dict header \<or> dkeys (as_dict header) \<noteq> HEADER_FIELDS
      then Inl (sferr ''invalid session header fields'')
      else if mget header ''record_type'' \<noteq> VStr ''session_header''
      then Inl (sferr ''invalid session header type'')
      else if \<not> py_eq (VInt version) (mget header ''format_version'')
      then Inl (sferr ''invalid session header version'')
      else if mget header ''id'' \<noteq> VStr sid then Inl (sferr ''session header id mismatch'')
      else if list_ex (\<lambda>k. \<not> is_str (mget header k)) [''id'', ''created_at'', ''workspace_root'']
      then Inl (sferr ''invalid session header string'')
      else validate_worktree_identity sha256 (mget header ''worktree_identity''))"

subsection \<open>Entries\<close>

text \<open>\<open>_tool_exchange_plan\<close>: the plan a successful \<open>update_plan\<close> exchange carries.\<close>

definition tool_exchange_plan :: "(val \<Rightarrow> val) option \<Rightarrow> dict \<Rightarrow> val option res" where
  "tool_exchange_plan redactor data =
     (let assistant = dget_none data ''assistant''; result = dget_none data ''result''
      in if \<not> is_dict assistant \<or> \<not> is_dict result
         then Inl (sferr ''invalid tool exchange entry'')
         else
           let metadata = mget result ''_pony_meta'';
               assistant_metadata = mget assistant ''_pony_meta''
           in case (mget assistant ''content'', mget result ''content'') of
                (VList [call], VList [tool_result]) \<Rightarrow>
                  if \<not> is_dict call \<or> \<not> is_dict tool_result \<or> \<not> is_dict metadata
                    \<or> \<not> is_dict assistant_metadata then Inr None
                  else
                    let tool_use_id = mget call ''id''
                    in if mget call ''type'' \<noteq> VStr ''tool_use''
                         \<or> mget call ''name'' \<noteq> VStr ''update_plan''
                         \<or> mget metadata ''tool_status'' \<noteq> VStr ''ok''
                         \<or> mget metadata ''effect_class'' \<noteq> VStr ''session_state''
                         \<or> \<not> is_str tool_use_id
                         \<or> mget assistant_metadata ''tool_use_id'' \<noteq> tool_use_id
                         \<or> mget metadata ''tool_use_id'' \<noteq> tool_use_id
                         \<or> mget tool_result ''type'' \<noteq> VStr ''tool_result''
                         \<or> mget tool_result ''tool_use_id'' \<noteq> tool_use_id
                         \<or> mget tool_result ''is_error'' = VBool True
                       then Inr None
                       else
                         let arguments = mget call ''input''
                         in if \<not> is_dict arguments \<or> dkeys (as_dict arguments) \<noteq> {''plan_json''}
                            then Inl (sferr ''invalid update_plan arguments'')
                            else bindR (parse_plan_json redactor (mget arguments ''plan_json''))
                                   (\<lambda>p. Inr (Some p))
              | _ \<Rightarrow> Inr None)"

text \<open>\<open>raise SessionFormatError(str(exc)) from None\<close> around a validator raising \<open>ValueError\<close>.\<close>

fun err_text :: "err \<Rightarrow> string" where
  "err_text (ValueError s) = s"
| "err_text (PlanValidationError s) = s"
| "err_text (SensitivePlanError s) = s"
| "err_text (MessageValidationError s) = s"
| "err_text (SessionFormatError s) = s"
| "err_text _ = []"

definition as_session_error :: "err + 'a \<Rightarrow> err + 'a" where
  "as_session_error m = rebrand (\<lambda>e. sferr (err_text e)) m"

definition nonneg_int :: "val \<Rightarrow> bool" where
  "nonneg_int v \<longleftrightarrow> is_int v \<and> 0 \<le> as_int v"

definition compaction_data_ok :: "dict \<Rightarrow> bool" where
  "compaction_data_ok d \<longleftrightarrow>
     {''summary'', ''first_kept_entry_id'', ''tokens_before'', ''summary_tokens'',
      ''tail_tokens'', ''reason''} \<subseteq> dkeys d
     \<and> list_all (\<lambda>k. is_str (dget_none d k)) [''summary'', ''first_kept_entry_id'', ''reason'']
     \<and> list_all (\<lambda>k. nonneg_int (dget_none d k))
          [''tokens_before'', ''summary_tokens'', ''tail_tokens'']"

definition checkpoint_fields :: "int \<Rightarrow> string set" where
  "checkpoint_fields version =
     (if version \<in> {PREVIOUS_SESSION_FORMAT_VERSION, WORKFLOW_SESSION_FORMAT_VERSION}
      then V4_TASK_CHECKPOINT_FIELDS else TASK_CHECKPOINT_FIELDS)"

definition checkpoint_data_ok :: "int \<Rightarrow> dict \<Rightarrow> bool" where
  "checkpoint_data_ok version d \<longleftrightarrow>
     is_str (dget_none d ''checkpoint_id'') \<and> as_str (dget_none d ''checkpoint_id'') \<noteq> []
     \<and> is_dict (dget_none d ''checkpoint'')
     \<and> mget (dget_none d ''checkpoint'') ''checkpoint_id'' = dget_none d ''checkpoint_id''
     \<and> dkeys (as_dict (dget_none d ''checkpoint'')) \<subseteq> checkpoint_fields version"

definition modern_version :: "int \<Rightarrow> bool" where
  "modern_version version \<longleftrightarrow>
     version \<in> {SESSION_FORMAT_VERSION, PREVIOUS_SESSION_FORMAT_VERSION}"

definition check_permission_mode_change :: "int \<Rightarrow> dict \<Rightarrow> err + unit" where
  "check_permission_mode_change version d =
     (if \<not> modern_version version \<or> dkeys d \<notin> {{''mode''}, {''mode'', ''pre_mode''}}
      then Inl (sferr ''invalid permission mode entry data'')
      else as_session_error
        (bindR (validate_permission_mode (dget_none d ''mode'')) (\<lambda>mode.
           let pre_mode = dget_none d ''pre_mode''
           in if pre_mode = VNone then Inr ()
              else bindR (validate_permission_mode pre_mode) (\<lambda>pre_mode.
                require (mode = mode_value PLAN \<and> pre_mode \<noteq> mode)
                  (ValueError ''invalid pre-plan permission mode'')))))"

definition plan_artifact_ok :: "int \<Rightarrow> dict \<Rightarrow> bool" where
  "plan_artifact_ok version d \<longleftrightarrow>
     modern_version version \<and> dkeys d = {''text'', ''revision''}
     \<and> is_str (dget_none d ''text'')
     \<and> utf8_len (as_str (dget_none d ''text'')) \<le> MAX_PLAN_TEXT_BYTES
     \<and> is_int (dget_none d ''revision'') \<and> 1 \<le> as_int (dget_none d ''revision'')"

text \<open>The checks on \<open>data\<close> by entry type.\<close>

definition validate_entry_data :: "(val \<Rightarrow> val) option \<Rightarrow> int \<Rightarrow> string \<Rightarrow> dict \<Rightarrow> err + unit" where
  "validate_entry_data redactor version kind d =
     (if kind = ''compaction''
      then require (compaction_data_ok d) (sferr ''invalid compaction entry data'')
      else if kind = ''task_checkpoint''
      then require (checkpoint_data_ok version d) (sferr ''invalid task checkpoint entry data'')
      else if kind = ''tool_exchange''
      then bindR (require (dkeys d = {''assistant'', ''result''})
                    (sferr ''invalid tool exchange entry data'')) (\<lambda>_.
             if version = WORKFLOW_SESSION_FORMAT_VERSION
             then bindR (tool_exchange_plan redactor d) (\<lambda>_. Inr ()) else Inr ())
      else if kind = ''permission_mode_change'' then check_permission_mode_change version d
      else if kind = ''plan_artifact''
      then require (plan_artifact_ok version d) (sferr ''invalid plan artifact entry data'')
      else if kind = ''workflow_mode_change''
      then bindR (require (version = WORKFLOW_SESSION_FORMAT_VERSION \<and> dkeys d = {''mode''})
                    (sferr ''invalid workflow mode entry data'')) (\<lambda>_.
             bindR (as_session_error (validate_workflow_mode (dget_none d ''mode''))) (\<lambda>_. Inr ()))
      else if kind = ''plan_update''
      then bindR (require (version = WORKFLOW_SESSION_FORMAT_VERSION \<and> dkeys d = {''plan''})
                    (sferr ''invalid plan update entry data'')) (\<lambda>_.
             bindR (as_session_error (validate_plan None (dget_none d ''plan''))) (\<lambda>_. Inr ()))
      else Inr ())"

definition allowed_types :: "int \<Rightarrow> string set" where
  "allowed_types version =
     (if version = WORKFLOW_SESSION_FORMAT_VERSION then V3_ENTRY_TYPES
      else if version = LEGACY_JSONL_SESSION_FORMAT_VERSION then V2_ENTRY_TYPES
      else ENTRY_TYPES)"

text \<open>\<open>_validate_entry\<close>; an unhashable \<open>type\<close> makes the membership test raise.\<close>

definition validate_entry ::
  "(val \<Rightarrow> val) option \<Rightarrow> int \<Rightarrow> string set \<Rightarrow> val \<Rightarrow> err + unit" where
  "validate_entry redactor version known entry =
     (if \<not> is_dict entry \<or> dkeys (as_dict entry) \<noteq> ENTRY_FIELDS
      then Inl (sferr ''invalid session entry fields'')
      else if mget entry ''record_type'' \<noteq> VStr ''session_entry''
      then Inl (sferr ''invalid session entry type'')
      else if \<not> py_eq (VInt version) (mget entry ''format_version'')
      then Inl (sferr ''invalid session entry version'')
      else if \<not> is_str (mget entry ''id'') \<or> \<not> entry_id_ok (as_str (mget entry ''id''))
      then Inl (sferr ''invalid session entry id'')
      else if as_str (mget entry ''id'') \<in> known
      then Inl (sferr ''duplicate session entry id'')
      else if \<not> is_str (mget entry ''parent_id'')
        \<or> as_str (mget entry ''parent_id'') \<noteq> [] \<and> as_str (mget entry ''parent_id'') \<notin> known
      then Inl (sferr ''invalid session parent id'')
      else if \<not> is_str (mget entry ''timestamp'')
      then Inl (sferr ''invalid session entry timestamp'')
      else if is_list (mget entry ''type'') \<or> is_dict (mget entry ''type'')
      then Inl (TypeError ''unhashable type'')
      else if \<not> is_str (mget entry ''type'') \<or> as_str (mget entry ''type'') \<notin> allowed_types version
      then Inl (sferr ''invalid session entry kind'')
      else if \<not> is_dict (mget entry ''data'') then Inl (sferr ''invalid session entry data'')
      else validate_entry_data redactor version (as_str (mget entry ''type''))
             (as_dict (mget entry ''data'')))"

end
