(* ===== verification/SessionProjection.thy ===== *)
theory SessionProjection
  imports SessionEntry
begin

text \<open>
  The projection of a session (\<open>pony/state/session_store.py\<close>): the dict a header
  starts from (\<open>_base_projection\<close>), the fold of one entry into it
  (\<open>_apply_entry\<close>) and the whole-projection check (\<open>_validate_projection\<close>).
\<close>

definition empty_rules :: val where
  "empty_rules = VDict [(''allow'', VList []), (''ask'', VList []), (''deny'', VList [])]"

definition base_projection :: "header \<Rightarrow> dict" where
  "base_projection h =
     (let projection =
        [(''record_type'', VStr ''session''), (''format_version'', VInt SESSION_FORMAT_VERSION),
         (''id'', VStr (hid h)), (''created_at'', VStr (created_at h)),
         (''workspace_root'', VStr (workspace_root h)), (''messages'', VList []),
         (''working_memory'', VDict [(''task_summary'', VStr []), (''recent_files'', VList [])]),
         (''memory'', VDict [(''file_summaries'', VDict [])]),
         (''recently_recalled'', VList []), (''checkpoints'', VDict []),
         (''resume_state'', VDict []), (''runtime_identity'', VDict [])]
      in if modern_version (hversion h) then
           (let projection = dupdate projection
              [(''format_version'', VInt (hversion h)),
               (''permission_mode'', VStr (mode_value DEFAULT)),
               (''permission_rules'', empty_rules), (''plan_text'', VStr []),
               (''plan_revision'', VInt 0), (''pre_plan_mode'', VStr [])]
            in if hversion h = PREVIOUS_SESSION_FORMAT_VERSION
               then dset projection ''recovery'' (VDict [(''current_checkpoint_id'', VStr [])])
               else projection)
         else if hversion h = WORKFLOW_SESSION_FORMAT_VERSION then
           dupdate projection
             [(''format_version'', VInt (hversion h)),
              (''workflow_mode'', VStr DEFAULT_WORKFLOW_MODE), (''active_plan'', EMPTY_PLAN)]
         else dset projection ''format_version'' (VInt (hversion h)))"

subsection \<open>One entry\<close>

definition proj_messages :: "dict \<Rightarrow> val list" where
  "proj_messages p = as_list (dget_none p ''messages'')"

definition push_messages :: "dict \<Rightarrow> val list \<Rightarrow> dict" where
  "push_messages p ms = dset p ''messages'' (VList (proj_messages p @ ms))"

definition apply_message :: "dict \<Rightarrow> dict \<Rightarrow> dict res" where
  "apply_message p data =
     (let message = dget_none data ''message''
      in if \<not> is_dict message then Inl (sferr ''invalid message entry'')
         else Inr (push_messages p [message]))"

definition apply_tool_exchange :: "int \<Rightarrow> dict \<Rightarrow> dict \<Rightarrow> dict res" where
  "apply_tool_exchange version p data =
     (let assistant = dget_none data ''assistant''; result = dget_none data ''result''
      in if \<not> is_dict assistant \<or> \<not> is_dict result
         then Inl (sferr ''invalid tool exchange entry'')
         else
           let p = push_messages p [assistant, result]
           in if version = WORKFLOW_SESSION_FORMAT_VERSION
              then bindR (tool_exchange_plan None data) (\<lambda>plan.
                     case plan of None \<Rightarrow> Inr p | Some v \<Rightarrow> Inr (dset p ''active_plan'' v))
              else Inr p)"

definition apply_permission_mode_change :: "dict \<Rightarrow> dict \<Rightarrow> dict res" where
  "apply_permission_mode_change p data =
     (case dget p ''permission_mode'' of
        None \<Rightarrow> Inl (KeyError ''permission_mode'')
      | Some previous \<Rightarrow>
          bindR (validate_permission_mode (dget_none data ''mode'')) (\<lambda>mode.
            let entering = mode = mode_value PLAN \<and> previous \<noteq> VStr mode;
                leaving = previous = VStr (mode_value PLAN) \<and> VStr mode \<noteq> previous
            in bindR (if entering then
                        bindR (validate_permission_mode (dget_or data ''pre_mode'' previous))
                          (\<lambda>pre. Inr (dset p ''pre_plan_mode'' (VStr pre)))
                      else if leaving then Inr (dset p ''pre_plan_mode'' (VStr []))
                      else Inr p)
                 (\<lambda>p. Inr (dset p ''permission_mode'' (VStr mode)))))"

definition apply_plan_artifact :: "dict \<Rightarrow> dict \<Rightarrow> dict res" where
  "apply_plan_artifact p data =
     (case dget data ''text'' of
        None \<Rightarrow> Inl (KeyError ''text'')
      | Some text \<Rightarrow>
          (case dget data ''revision'' of
             None \<Rightarrow> Inl (KeyError ''revision'')
           | Some revision \<Rightarrow> Inr (dset (dset p ''plan_text'' text) ''plan_revision'' revision)))"

definition info_fields :: "int \<Rightarrow> string set" where
  "info_fields version =
     (if version \<in> {PREVIOUS_SESSION_FORMAT_VERSION, WORKFLOW_SESSION_FORMAT_VERSION}
      then V4_SESSION_INFO_FIELDS else SESSION_INFO_FIELDS)"

definition apply_session_info :: "int \<Rightarrow> dict \<Rightarrow> dict \<Rightarrow> dict res" where
  "apply_session_info version p data =
     (let values = dget_none data ''set''
      in if \<not> is_dict values \<or> ''messages'' \<in> dkeys (as_dict values)
         then Inl (sferr ''invalid session info entry'')
         else if \<not> dkeys (as_dict values) \<subseteq> info_fields version
         then Inl (sferr ''invalid session info field'')
         else Inr (dupdate p
           (filter (\<lambda>kv. fst kv \<notin> HEADER_PROJECTION_FIELDS) (as_dict values))))"

text \<open>The derived caches a checkpoint rebuilds from its goal and key files.\<close>

definition file_path :: "val \<Rightarrow> string" where
  "file_path item = py_str (dget_or (as_dict item) ''path'' (VStr []))"

definition file_summary :: "val \<Rightarrow> string" where
  "file_summary item = str_or_empty (dget_or (as_dict item) ''summary'' (VStr []))"

definition recent_files_of :: "val list \<Rightarrow> val list" where
  "recent_files_of key_files =
     take 8 (map (\<lambda>item. VStr (file_path item))
       (filter (\<lambda>item. is_dict item \<and> file_path item \<noteq> []) key_files))"

definition file_summaries_of :: "val list \<Rightarrow> dict" where
  "file_summaries_of key_files =
     foldl (\<lambda>d item. dset d (file_path item) (VStr (file_summary item))) []
       (filter (\<lambda>item. is_dict item \<and> file_path item \<noteq> [] \<and> strip (file_summary item) \<noteq> [])
         key_files)"

definition store_checkpoint :: "dict \<Rightarrow> string \<Rightarrow> val \<Rightarrow> dict res" where
  "store_checkpoint p checkpoint_id checkpoint =
     (case dget_or p ''checkpoints'' (VDict [(''current_id'', VStr []), (''items'', VDict [])]) of
        VDict checkpoints \<Rightarrow>
          (case dget_or checkpoints ''items'' (VDict []) of
             VDict items \<Rightarrow>
               let checkpoints = dset checkpoints ''items'' (VDict (dset items checkpoint_id checkpoint));
                   checkpoints = dset checkpoints ''current_id'' (VStr checkpoint_id)
               in Inr (dset p ''checkpoints'' (VDict checkpoints))
           | _ \<Rightarrow> Inl (TypeError ''checkpoint items''))
      | _ \<Rightarrow> Inl (AttributeError ''setdefault''))"

definition apply_task_checkpoint :: "dict \<Rightarrow> dict \<Rightarrow> dict res" where
  "apply_task_checkpoint p data =
     (let checkpoint_id = dget_none data ''checkpoint_id'';
          checkpoint = dget_none data ''checkpoint''
      in if \<not> is_str checkpoint_id \<or> \<not> is_dict checkpoint
         then Inl (sferr ''invalid task checkpoint entry'')
         else bindR (store_checkpoint p (as_str checkpoint_id) checkpoint) (\<lambda>p.
           let c = as_dict checkpoint;
               goal = str_or_empty (dget_or c ''goal'' (dget_or c ''current_goal'' (VStr [])));
               key_files = as_list (dget_or c ''key_files'' (VList []));
               p = dset p ''working_memory'' (VDict
                     [(''task_summary'', VStr (take 300 goal)),
                      (''recent_files'', VList (recent_files_of key_files))]);
               p = dset p ''memory'' (VDict
                     [(''file_summaries'', VDict (file_summaries_of key_files))]);
               p = dset p ''recently_recalled'' (VList []);
               runtime_identity = dget_none c ''runtime_identity''
           in Inr (if is_dict runtime_identity
                   then dset p ''runtime_identity'' runtime_identity else p)))"

definition apply_entry :: "int \<Rightarrow> dict \<Rightarrow> entry \<Rightarrow> dict res" where
  "apply_entry version p e =
     (let kind = etype e; data = edata e in
      if kind = ''message'' then apply_message p data
      else if kind = ''tool_exchange'' then apply_tool_exchange version p data
      else if kind = ''permission_mode_change'' then apply_permission_mode_change p data
      else if kind = ''plan_artifact'' then apply_plan_artifact p data
      else if kind = ''workflow_mode_change''
      then bindR (validate_workflow_mode (dget_none data ''mode''))
             (\<lambda>m. Inr (dset p ''workflow_mode'' (VStr m)))
      else if kind = ''plan_update''
      then bindR (validate_plan None (dget_none data ''plan''))
             (\<lambda>v. Inr (dset p ''active_plan'' v))
      else if kind = ''session_info'' then apply_session_info version p data
      else if kind = ''task_checkpoint'' then apply_task_checkpoint p data
      else Inr p)"

fun apply_entries :: "int \<Rightarrow> dict \<Rightarrow> entry list \<Rightarrow> dict res" where
  "apply_entries version p [] = Inr p"
| "apply_entries version p (e # es) =
     bindR (apply_entry version p e) (\<lambda>p. apply_entries version p es)"

lemma apply_entries_append:
  "apply_entries v p (es @ fs) = bindR (apply_entries v p es) (\<lambda>q. apply_entries v q fs)"
  by (induction es arbitrary: p) (simp_all add: bindR_assoc)

subsection \<open>The whole projection\<close>

definition required_fields :: "int \<Rightarrow> string set" where
  "required_fields version =
     (if version = SESSION_FORMAT_VERSION then REQUIRED_FIELDS
      else if version = PREVIOUS_SESSION_FORMAT_VERSION then V4_REQUIRED_FIELDS
      else if version = WORKFLOW_SESSION_FORMAT_VERSION then PREVIOUS_REQUIRED_FIELDS
      else LEGACY_REQUIRED_FIELDS)"

definition legacy_version :: "int \<Rightarrow> bool" where
  "legacy_version version \<longleftrightarrow>
     version = LEGACY_SESSION_FORMAT_VERSION \<or> version = LEGACY_JSONL_SESSION_FORMAT_VERSION"

definition optional_fields :: "int \<Rightarrow> string set" where
  "optional_fields version =
     (if legacy_version version then LEGACY_OPTIONAL_FIELDS else OPTIONAL_FIELDS)"

definition dict_fields :: "int \<Rightarrow> dict \<Rightarrow> string list" where
  "dict_fields version p =
     [''working_memory'', ''memory'', ''checkpoints'', ''resume_state'', ''runtime_identity'']
     @ (if version = PREVIOUS_SESSION_FORMAT_VERSION
           \<or> legacy_version version \<and> ''recovery'' \<in> dkeys p
        then [''recovery'']
        else if version = WORKFLOW_SESSION_FORMAT_VERSION then [''recovery'', ''active_plan'']
        else [])"

definition plan_state_ok :: "dict \<Rightarrow> bool" where
  "plan_state_ok p \<longleftrightarrow>
     (let plan_text = dget_or p ''plan_text'' (VStr []);
          plan_revision = dget_or p ''plan_revision'' (VInt 0);
          pre_plan_mode = dget_or p ''pre_plan_mode'' (VStr [])
      in is_str plan_text \<and> utf8_len (as_str plan_text) \<le> MAX_PLAN_TEXT_BYTES
         \<and> nonneg_int plan_revision
         \<and> (as_int plan_revision = 0) = (plan_text = VStr [])
         \<and> is_str pre_plan_mode)"

definition rule_lists :: "val \<Rightarrow> val list" where
  "rule_lists rules = concat (map (\<lambda>kv. as_list (snd kv)) (as_dict rules))"

definition permission_rules_ok :: "val \<Rightarrow> bool" where
  "permission_rules_ok rules \<longleftrightarrow>
     is_dict rules \<and> dkeys (as_dict rules) = {''allow'', ''ask'', ''deny''}
     \<and> list_all (\<lambda>kv. is_list (snd kv)) (as_dict rules)
     \<and> list_all (\<lambda>tool. is_str tool \<and> as_str tool \<noteq> []) (rule_lists rules)
     \<and> distinct (rule_lists rules)"

definition check_permission_state :: "dict \<Rightarrow> err + unit" where
  "check_permission_state p =
     bindR (as_session_error (validate_permission_mode (dget_none p ''permission_mode''))) (\<lambda>_.
     bindR (require (plan_state_ok p) (sferr ''invalid plan state'')) (\<lambda>_.
     bindR (if dget_or p ''pre_plan_mode'' (VStr []) \<noteq> VStr []
            then as_session_error (validate_permission_mode (dget_none p ''pre_plan_mode''))
            else Inr []) (\<lambda>_.
     require (permission_rules_ok (dget_or p ''permission_rules'' empty_rules))
       (sferr ''invalid permission rules''))))"

definition endpoint_hash_ok :: "string \<Rightarrow> bool" where
  "endpoint_hash_ok s \<longleftrightarrow>
     take 7 s = ''sha256:'' \<and> length s = 71 \<and> list_all is_hex_lower (drop 7 s)"

definition provider_binding_ok :: "val \<Rightarrow> bool" where
  "provider_binding_ok binding \<longleftrightarrow>
     is_dict binding
     \<and> dkeys (as_dict binding) = {''protocol_family'', ''model'', ''endpoint_hash''}
     \<and> list_all (\<lambda>kv. is_str (snd kv) \<and> as_str (snd kv) \<noteq> []) (as_dict binding)
     \<and> as_str (mget binding ''protocol_family'') \<in> PROTOCOL_FAMILIES
     \<and> endpoint_hash_ok (as_str (mget binding ''endpoint_hash''))"

definition validate_provider_binding :: "val \<Rightarrow> err + unit" where
  "validate_provider_binding binding =
     require (provider_binding_ok binding) (sferr ''invalid provider binding'')"

definition check_feature_flags :: "val \<Rightarrow> err + unit" where
  "check_feature_flags identity =
     (let flags = dget_or (as_dict identity) ''feature_flags'' (VDict [])
      in if \<not> is_dict flags then Inl (sferr ''invalid runtime identity feature flags'')
         else if \<not> dkeys (as_dict flags) \<subseteq> FEATURE_FLAG_FIELDS
           \<or> list_ex (\<lambda>kv. \<not> is_bool (snd kv)) (as_dict flags)
         then Inl (sferr ''unsupported runtime identity feature flag'')
         else Inr ())"

definition check_embedded_checkpoint :: "int \<Rightarrow> val \<Rightarrow> err + unit" where
  "check_embedded_checkpoint version checkpoint =
     bindR (require (is_dict checkpoint) (sferr ''invalid embedded checkpoint'')) (\<lambda>_.
     require (dkeys (as_dict checkpoint) \<subseteq> checkpoint_fields version)
       (sferr ''invalid embedded checkpoint fields''))"

definition embedded_checkpoints :: "dict \<Rightarrow> val list" where
  "embedded_checkpoints p =
     map snd (as_dict (dget_or (as_dict (dget_none p ''checkpoints'')) ''items'' (VDict [])))"

definition validate_projection :: "int \<Rightarrow> string \<Rightarrow> val \<Rightarrow> err + unit" where
  "validate_projection version sid payload =
     bindR (require (is_dict payload) (sferr ''session payload must be an object'')) (\<lambda>_.
     let p = as_dict payload in
     bindR (require (required_fields version \<subseteq> dkeys p
                \<and> dkeys p \<subseteq> required_fields version \<union> optional_fields version)
              (sferr ''session payload fields do not match current format'')) (\<lambda>_.
     bindR (require (dget_none p ''record_type'' = VStr ''session'')
              (sferr ''invalid session record type'')) (\<lambda>_.
     bindR (require (dget_none p ''format_version'' = VInt version)
              (sferr ''invalid session format version'')) (\<lambda>_.
     bindR (require (dget_none p ''id'' = VStr sid)
              (sferr ''session id does not match file name'')) (\<lambda>_.
     bindR (require (list_all (\<lambda>k. is_str (dget_none p k)) [''id'', ''created_at'', ''workspace_root''])
              (sferr ''invalid session string field'')) (\<lambda>_.
     bindR (require (list_all (\<lambda>k. is_dict (dget_none p k)) (dict_fields version p))
              (sferr ''invalid session object field'')) (\<lambda>_.
     bindR (require (is_list (dget_none p ''recently_recalled''))
              (sferr ''invalid session list field'')) (\<lambda>_.
     bindR (if version = SESSION_FORMAT_VERSION then check_permission_state p
            else if version = WORKFLOW_SESSION_FORMAT_VERSION then
              as_session_error
                (bindR (validate_workflow_mode (dget_none p ''workflow_mode'')) (\<lambda>_.
                 bindR (validate_plan None (dget_none p ''active_plan'')) (\<lambda>_. Inr ())))
            else Inr ()) (\<lambda>_.
     bindR (if dget_none p ''provider_binding'' = VNone then Inr ()
            else validate_provider_binding (dget_none p ''provider_binding'')) (\<lambda>_.
     bindR (each (check_embedded_checkpoint version) (embedded_checkpoints p)) (\<lambda>_.
     bindR (each check_feature_flags
              (dget_none p ''runtime_identity''
               # filter is_dict (map (\<lambda>c. mget c ''runtime_identity'') (embedded_checkpoints p)))) (\<lambda>_.
     rebrand (\<lambda>e. sferr (err_text e))
       (validate_messages True (dget_none p ''messages''))))))))))))))"

definition validate_session_info_updates :: "val \<Rightarrow> err + unit" where
  "validate_session_info_updates values =
     bindR (require (is_dict values \<and> dkeys (as_dict values) \<subseteq> MUTABLE_SESSION_INFO_FIELDS)
              (sferr ''invalid mutable session info fields'')) (\<lambda>_.
     bindR (require (list_all (\<lambda>kv. is_dict (snd kv)) (as_dict values))
              (sferr ''invalid mutable session info value'')) (\<lambda>_.
     if dget_none (as_dict values) ''runtime_identity'' = VNone then Inr ()
     else check_feature_flags (dget_none (as_dict values) ''runtime_identity'')))"

end
