(* ===== verification/ModelBudget.thy ===== *)
theory ModelBudget
  imports Messages
begin

text \<open>
  \<open>pony/agent/model_capabilities.py\<close>: the limits of a model, the budget of a
  request derived from them, and token accounting.

  The float arithmetic of the source is written as exact integer division:
  \<open>floor(n * 0.8)\<close> is \<open>4 n div 5\<close>, \<open>floor(n * 0.20)\<close> is \<open>n div 5\<close> and
  \<open>ceil(n * 1.05)\<close> is \<open>(21 n + 19) div 20\<close>.  The double results agree with these
  while \<open>n\<close> stays below \<open>2 ^ 50\<close>, since the exact products are either integers or
  at least a twentieth away from one.
\<close>

definition DEFAULT_CONTEXT_WINDOW :: int where "DEFAULT_CONTEXT_WINDOW = 128000"
definition DEFAULT_MAX_OUTPUT_TOKENS :: int where "DEFAULT_MAX_OUTPUT_TOKENS = 16384"
definition DEFAULT_RESERVE_TOKENS :: int where "DEFAULT_RESERVE_TOKENS = 16384"
definition DEFAULT_KEEP_RECENT_TOKENS :: int where "DEFAULT_KEEP_RECENT_TOKENS = 20000"
definition DEFAULT_SYSTEM_TOOLS_HARD_CAP :: int where "DEFAULT_SYSTEM_TOOLS_HARD_CAP = 24576"
definition DEFAULT_SOURCE_POOL_TOKENS :: int where "DEFAULT_SOURCE_POOL_TOKENS = 16384"
definition MIN_EFFECTIVE_INPUT_TOKENS :: int where "MIN_EFFECTIVE_INPUT_TOKENS = 16384"

lemmas budget_consts = DEFAULT_CONTEXT_WINDOW_def DEFAULT_MAX_OUTPUT_TOKENS_def
  DEFAULT_RESERVE_TOKENS_def DEFAULT_KEEP_RECENT_TOKENS_def DEFAULT_SYSTEM_TOOLS_HARD_CAP_def
  DEFAULT_SOURCE_POOL_TOKENS_def MIN_EFFECTIVE_INPUT_TOKENS_def

record model_capabilities =
  context_window :: int
  max_output_tokens :: int
  token_counter_mode :: string
  cap_source :: string

record model_budget =
  capabilities :: model_capabilities
  output_tokens :: int
  reserve_tokens :: int
  input_limit :: int
  system_tools_hard_cap :: int
  source_pool_tokens :: int
  keep_recent_tokens :: int

definition compaction_summary_tokens :: "model_budget \<Rightarrow> int" where
  "compaction_summary_tokens b =
     min ((4 * reserve_tokens b) div 5) (max 1024 (input_limit b div 4))"

definition split_turn_summary_tokens :: "model_budget \<Rightarrow> int" where
  "split_turn_summary_tokens b =
     min (reserve_tokens b div 2) (max 1024 (input_limit b div 8))"

definition branch_summary_tokens :: int where
  "branch_summary_tokens = 2048"

definition positive_int :: "val \<Rightarrow> string \<Rightarrow> int res" where
  "positive_int value name =
     (case value of
        VInt i \<Rightarrow> if i \<le> 0 then Inl (ValueError (name @ '' must be a positive integer'')) else Inr i
      | _ \<Rightarrow> Inl (ValueError (name @ '' must be a positive integer'')))"

text \<open>\<open>a if a is not None else b if b is not None else c\<close>.\<close>

definition first_set :: "val \<Rightarrow> val \<Rightarrow> int \<Rightarrow> val" where
  "first_set a b c = (if a \<noteq> VNone then a else if b \<noteq> VNone then b else VInt c)"

definition limit_source :: "val \<Rightarrow> val \<Rightarrow> string" where
  "limit_source cli config =
     (if cli \<noteq> VNone then ''cli'' else if config \<noteq> VNone then ''project'' else ''default'')"

definition resolve_model_capabilities :: "val \<Rightarrow> val \<Rightarrow> val \<Rightarrow> model_capabilities res" where
  "resolve_model_capabilities model_config window output =
     (let config = as_dict model_config;
          config_context = dget_none config ''context_window'';
          config_output = dget_none config ''output_limit'';
          context_source = limit_source window config_context;
          output_source = limit_source output config_output
      in bindR (positive_int (first_set window config_context DEFAULT_CONTEXT_WINDOW)
                  ''context_window'') (\<lambda>resolved_context.
         bindR (positive_int (first_set output config_output DEFAULT_MAX_OUTPUT_TOKENS)
                  ''max_output_tokens'') (\<lambda>resolved_output. Inr
           \<lparr>context_window = resolved_context, max_output_tokens = resolved_output,
            token_counter_mode = ''provider_usage_or_estimate'',
            cap_source = (if context_source = output_source then context_source else ''mixed'')\<rparr>)))"

definition build_model_budget ::
  "model_capabilities \<Rightarrow> val \<Rightarrow> val \<Rightarrow> val \<Rightarrow> val \<Rightarrow> val \<Rightarrow> model_budget res" where
  "build_model_budget caps output_limit reserve keep system_cap source_pool =
     bindR (positive_int (if output_limit = VNone then VInt (max_output_tokens caps)
                          else output_limit) ''output_limit'') (\<lambda>configured_output.
     bindR (positive_int reserve ''reserve_tokens'') (\<lambda>reserve.
     bindR (positive_int keep ''keep_recent_tokens'') (\<lambda>keep.
       let out = min configured_output (max_output_tokens caps);
           reserve = max reserve out;
           limit = context_window caps - reserve
       in if limit < MIN_EFFECTIVE_INPUT_TOKENS
          then Inl (ValueError ''model context window must leave at least 16384 input tokens after reserve'')
          else
            bindR (positive_int system_cap ''system_tools_hard_cap'') (\<lambda>system_cap.
            bindR (positive_int source_pool ''source_pool_tokens'') (\<lambda>pool. Inr
              \<lparr>capabilities = caps, output_tokens = out, reserve_tokens = reserve,
               input_limit = limit,
               system_tools_hard_cap = min system_cap (context_window caps div 5),
               source_pool_tokens =
                 (if context_window caps < DEFAULT_CONTEXT_WINDOW
                  then min pool (context_window caps div 8) else pool),
               keep_recent_tokens = keep\<rparr>)))))"

lemma positive_int_Inr: "positive_int v n = Inr i \<Longrightarrow> 0 < i"
  by (cases v) (auto simp: positive_int_def split: if_split_asm)

lemma build_model_budget_InrE:
  assumes "build_model_budget caps v1 v2 v3 v4 v5 = Inr b"
    and use: "\<And>o1 r k sc p. \<lbrakk> 0 < o1; 0 < r; 0 < k;
      \<not> context_window caps - max r (min o1 (max_output_tokens caps)) < MIN_EFFECTIVE_INPUT_TOKENS;
      b = \<lparr>capabilities = caps, output_tokens = min o1 (max_output_tokens caps),
        reserve_tokens = max r (min o1 (max_output_tokens caps)),
        input_limit = context_window caps - max r (min o1 (max_output_tokens caps)),
        system_tools_hard_cap = min sc (context_window caps div 5), source_pool_tokens = p,
        keep_recent_tokens = k\<rparr> \<rbrakk> \<Longrightarrow> P"
  shows P
proof -
  from assms(1) obtain o1 r k where pos: "0 < o1" "0 < r" "0 < k"
    and rest: "(if context_window caps - max r (min o1 (max_output_tokens caps)) < MIN_EFFECTIVE_INPUT_TOKENS
       then Inl (ValueError ''model context window must leave at least 16384 input tokens after reserve'')
       else bindR (positive_int v4 ''system_tools_hard_cap'') (\<lambda>system_cap.
            bindR (positive_int v5 ''source_pool_tokens'') (\<lambda>pool. Inr
              \<lparr>capabilities = caps, output_tokens = min o1 (max_output_tokens caps),
               reserve_tokens = max r (min o1 (max_output_tokens caps)),
               input_limit = context_window caps - max r (min o1 (max_output_tokens caps)),
               system_tools_hard_cap = min system_cap (context_window caps div 5),
               source_pool_tokens =
                 (if context_window caps < DEFAULT_CONTEXT_WINDOW
                  then min pool (context_window caps div 8) else pool),
               keep_recent_tokens = k\<rparr>))) = Inr b"
    unfolding build_model_budget_def Let_def bindR_Inr_iff [of "positive_int _ _"]
    by (elim exE conjE) (drule positive_int_Inr, drule positive_int_Inr, drule positive_int_Inr, blast)
  let ?small = "context_window caps - max r (min o1 (max_output_tokens caps)) < MIN_EFFECTIVE_INPUT_TOKENS"
  have large: "\<not> ?small"
    using rest by (cases ?small) (simp_all only: if_True sum.distinct not_False_eq_True)
  from rest large show P
    by (simp only: if_False bindR_Inr_iff sum.inject)
      (elim exE conjE, rule use [OF pos large], rule sym, assumption)
qed

definition automatic_compaction_keep_recent :: "model_budget \<Rightarrow> int \<Rightarrow> int res" where
  "automatic_compaction_keep_recent budget attempt =
     (if attempt < 0 then Inl (ValueError ''compaction_attempt must be a non-negative integer'')
      else
        let divisor = 2 ^ nat attempt;
            configured_target = keep_recent_tokens budget div divisor;
            capacity_target = input_limit budget div (4 * divisor)
        in Inr (max 1024 (min configured_target capacity_target)))"

subsection \<open>Counting\<close>

definition is_cjk :: "nat \<Rightarrow> bool" where
  "is_cjk n \<longleftrightarrow> 0x3400 \<le> n \<and> n \<le> 0x4DBF \<or> 0x4E00 \<le> n \<and> n \<le> 0x9FFF
     \<or> 0xF900 \<le> n \<and> n \<le> 0xFAFF \<or> 0x3040 \<le> n \<and> n \<le> 0x30FF \<or> 0xAC00 \<le> n \<and> n \<le> 0xD7AF"

text \<open>\<open>unicodedata.category(c) in {"Cc", "Cf", "Mn"}\<close> below 256: the controls and the soft hyphen.\<close>

definition structural_char :: "char \<Rightarrow> bool" where
  "structural_char c \<longleftrightarrow> py_ord c < 32 \<or> 127 \<le> py_ord c \<and> py_ord c < 160 \<or> py_ord c = 173"

definition ceil4 :: "nat \<Rightarrow> nat" where
  "ceil4 n = (n + 3) div 4"

definition estimate_text_tokens :: "string \<Rightarrow> nat" where
  "estimate_text_tokens value =
     (let cjk = length (filter (\<lambda>c. is_cjk (py_ord c)) value);
          other = length value - cjk;
          structural = length (filter structural_char value)
      in max 1 (cjk + ceil4 other + ceil4 structural))"

text \<open>
  A token accounting: the provider's counter, if there is one (\<open>None\<close> as its result
  is an exception), the usage anchor and the cache of entry costs.
\<close>

record usage_anchor =
  pinned_digest :: string
  message_digests :: "string list"
  anchor_tokens :: int

record accounting =
  provider_counter :: "(string \<Rightarrow> int option) option"
  usage_anchor :: "usage_anchor option"
  session_entry_tokens :: "(string \<times> int) list"

definition count_text :: "('a) accounting_scheme \<Rightarrow> string \<Rightarrow> int" where
  "count_text acc text =
     (case provider_counter acc of
        None \<Rightarrow> int (estimate_text_tokens text)
      | Some f \<Rightarrow> (case f text of
                     Some v \<Rightarrow> if 0 \<le> v then v else int (estimate_text_tokens text)
                   | None \<Rightarrow> int (estimate_text_tokens text)))"

fun json_structure :: "val \<Rightarrow> int" where
  "json_structure (VDict d) =
     1 + int (length d) + sum_list (map (\<lambda>p. json_structure (snd p)) d)"
| "json_structure (VList xs) = 1 + sum_list (map json_structure xs)"
| "json_structure _ = 0"

definition count_json :: "('a) accounting_scheme \<Rightarrow> val \<Rightarrow> int" where
  "count_json acc value = count_text acc (dumps compact_sorted value) + json_structure value"

definition count_message :: "('a) accounting_scheme \<Rightarrow> val \<Rightarrow> int" where
  "count_message acc message = count_json acc message + 4"

definition count_session_entry ::
  "accounting \<Rightarrow> string \<Rightarrow> val list \<Rightarrow> int option \<Rightarrow> int \<times> accounting" where
  "count_session_entry acc key messages fallback =
     (case map_of (session_entry_tokens acc) key of
        Some cached \<Rightarrow> (cached, acc)
      | None \<Rightarrow>
          let value = (case fallback of
                Some n \<Rightarrow> if provider_counter acc = None \<and> 0 \<le> n then n
                           else sum_list (map (count_message acc) messages)
              | None \<Rightarrow> sum_list (map (count_message acc) messages))
          in (value, acc\<lparr>session_entry_tokens := AList.update key value (session_entry_tokens acc)\<rparr>))"

record request_count =
  rc_total :: int
  rc_mode :: string
  rc_system :: int
  rc_tools :: int
  rc_messages :: int
  rc_candidate :: "string \<times> string list"

text \<open>\<open>_digest\<close>: SHA-256 of the stable JSON text, kept as the parameter \<open>sha256\<close>.\<close>

definition digest_of :: "(string \<Rightarrow> string) \<Rightarrow> val \<Rightarrow> string" where
  "digest_of sha256 v = sha256 (dumps compact_sorted v)"

definition anchor_matches :: "usage_anchor \<Rightarrow> string \<Rightarrow> string list \<Rightarrow> bool" where
  "anchor_matches anchor pinned digests \<longleftrightarrow>
     pinned_digest anchor = pinned
     \<and> length (message_digests anchor) \<le> length digests
     \<and> take (length (message_digests anchor)) digests = message_digests anchor"

definition count_request ::
  "(string \<Rightarrow> string) \<Rightarrow> accounting \<Rightarrow> val \<Rightarrow> val \<Rightarrow> val list \<Rightarrow> request_count" where
  "count_request sha256 acc system tools messages =
     (let system_tokens = count_json acc system;
          tools_tokens = count_json acc tools;
          message_tokens = map (count_message acc) messages;
          pinned = digest_of sha256 (VDict [(''system'', system), (''tools'', tools)]);
          digests = map (digest_of sha256) messages;
          mode = (if provider_counter acc \<noteq> None then ''provider_text'' else ''estimate'');
          total = system_tokens + tools_tokens + sum_list message_tokens;
          (total, mode) =
            (case usage_anchor acc of
               Some anchor \<Rightarrow>
                 if anchor_matches anchor pinned digests then
                   (let tail = sum_list (drop (length (message_digests anchor)) message_tokens)
                    in (anchor_tokens anchor + tail,
                        if tail \<noteq> 0 then ''provider_usage_plus_estimate'' else ''provider_usage''))
                 else if provider_counter acc = None then ((21 * total + 19) div 20, mode)
                 else (total, mode)
             | None \<Rightarrow>
                 if provider_counter acc = None then ((21 * total + 19) div 20, mode)
                 else (total, mode))
      in \<lparr>rc_total = max 1 total, rc_mode = mode, rc_system = system_tokens,
          rc_tools = tools_tokens, rc_messages = sum_list message_tokens,
          rc_candidate = (pinned, digests)\<rparr>)"

definition commit_provider_usage ::
  "accounting \<Rightarrow> val \<Rightarrow> string \<times> string list \<Rightarrow> bool \<times> accounting" where
  "commit_provider_usage acc usage candidate =
     (let input_tokens = dget_none (as_dict usage) ''input_tokens''
      in if \<not> is_int input_tokens \<or> as_int input_tokens < 0 then (False, acc)
         else (True, acc\<lparr>usage_anchor := Some
           \<lparr>pinned_digest = fst candidate, message_digests = snd candidate,
            anchor_tokens = as_int input_tokens\<rparr>\<rparr>))"

end
