(* ===== verification/SessionTree.thy ===== *)
theory SessionTree
  imports SessionProjection ModelBudget
begin

text \<open>
  The Session Tree of \<open>pony/state/session_store.py\<close>: the active path from the last
  entry to the root, its projection, parsing of stored rows, new entries, the
  incremental extension \<open>_extend_tree\<close> and the model-visible view.
\<close>

record session_tree =
  theader :: header
  tentries :: "entry list"
  tpath :: "entry list"
  tprojection :: dict
  testimates :: "(string \<times> nat) list"

definition leaf_of :: "entry list \<Rightarrow> string" where
  "leaf_of es = (if es = [] then [] else eid (last es))"

abbreviation leaf_id :: "session_tree \<Rightarrow> string" where
  "leaf_id t \<equiv> leaf_of (tentries t)"

subsection \<open>The active path\<close>

text \<open>\<open>by_id\<close>: later entries win, as in the dict comprehension.\<close>

definition by_id :: "entry list \<Rightarrow> string \<Rightarrow> entry option" where
  "by_id entries i = find (\<lambda>e. eid e = i) (rev entries)"

lemma by_id_SomeD: "by_id entries i = Some e \<Longrightarrow> e \<in> set entries \<and> eid e = i"
  by (auto simp: by_id_def find_Some_iff in_set_conv_nth) (metis length_rev nth_mem set_rev in_set_conv_nth)

function climb :: "entry list \<Rightarrow> string list \<Rightarrow> string \<Rightarrow> entry list res" where
  "climb entries seen i =
     (case by_id entries i of
        None \<Rightarrow> Inr []
      | Some current \<Rightarrow>
          if eid current \<in> set seen then Inl (sferr ''session tree cycle'')
          else if parent_id current = [] then Inr [current]
          else bindR (climb entries (eid current # seen) (parent_id current))
                 (\<lambda>path. Inr (path @ [current])))"
  by pat_completeness auto
termination
proof (relation "measure (\<lambda>(es, seen, i). length (filter (\<lambda>x. x \<notin> set seen) (map eid es)))")
  fix entries :: "entry list" and seen i current
  assume "by_id entries i = Some current" and new: "eid current \<notin> set seen"
  then have "eid current \<in> set (filter (\<lambda>x. x \<notin> set seen) (map eid entries))"
    by (auto dest: by_id_SomeD)
  then have "length (filter (\<lambda>x. x \<noteq> eid current) (filter (\<lambda>x. x \<notin> set seen) (map eid entries)))
      < length (filter (\<lambda>x. x \<notin> set seen) (map eid entries))"
    by (rule length_filter_less) simp
  then show "((entries, eid current # seen, parent_id current), entries, seen, i)
      \<in> measure (\<lambda>(es, seen, i). length (filter (\<lambda>x. x \<notin> set seen) (map eid es)))"
    by (simp add: conj_commute)
qed simp

declare climb.simps [simp del]

definition active_path :: "entry list \<Rightarrow> entry list res" where
  "active_path entries =
     (if entries = [] then Inr [] else climb entries [] (eid (last entries)))"

subsection \<open>Messages of an entry\<close>

definition entry_message_refs :: "entry \<Rightarrow> val list" where
  "entry_message_refs e =
     (let d = edata e in
      if etype e = ''message'' \<and> is_dict (dget_none d ''message'') then [dget_none d ''message'']
      else if etype e = ''tool_exchange'' \<and> is_dict (dget_none d ''assistant'')
        \<and> is_dict (dget_none d ''result'')
      then [dget_none d ''assistant'', dget_none d ''result'']
      else [])"

definition estimate_entry_tokens :: "entry \<Rightarrow> nat" where
  "estimate_entry_tokens e =
     sum_list (map (\<lambda>m. estimate_text_tokens (message_content_text m) + 12) (entry_message_refs e))"

definition estimates_of :: "entry list \<Rightarrow> (string \<times> nat) list" where
  "estimates_of es = fold (\<lambda>e d. AList.update (eid e) (estimate_entry_tokens e) d) es []"

subsection \<open>Projecting and parsing\<close>

definition project_tree :: "header \<Rightarrow> entry list \<Rightarrow> (entry list \<times> dict) res" where
  "project_tree h entries =
     bindR (active_path entries) (\<lambda>path.
     bindR (apply_entries (hversion h) (base_projection h) path) (\<lambda>projection.
     bindR (validate_projection (hversion h) (hid h) (VDict projection)) (\<lambda>_.
     Inr (path, projection))))"

text \<open>
  What the store needs of its surroundings: SHA-256, the identity of a worktree
  read from the file system (or the error reading it raised), and the redactor.
\<close>

record env =
  sha256 :: "string \<Rightarrow> string"
  worktree_identity_of :: "string \<Rightarrow> val res"
  redactor :: "val \<Rightarrow> val"

text \<open>\<open>_serialize_line\<close>: the size bound on a stored row (its text and a newline).\<close>

definition line_bytes :: "val \<Rightarrow> nat" where
  "line_bytes v = utf8_len (dumps compact_sorted v) + 1"

definition serialize_line :: "val \<Rightarrow> val res" where
  "serialize_line v =
     (if MAX_SESSION_ENTRY_BYTES < line_bytes v then Inl (ValueError ''session entry too large'')
      else Inr v)"

fun validate_rows ::
  "(val \<Rightarrow> val) option \<Rightarrow> int \<Rightarrow> string set \<Rightarrow> val list \<Rightarrow> entry list res" where
  "validate_rows redact version known [] = Inr []"
| "validate_rows redact version known (row # rows) =
     bindR (validate_entry redact version known row) (\<lambda>_.
     bindR (validate_rows redact version (insert (eid (entry_of_val row)) known) rows) (\<lambda>es.
     Inr (entry_of_val row # es)))"

text \<open>
  \<open>_parse_jsonl\<close> on decoded rows; the bytes of a session file are its rows, each
  followed by a newline.
\<close>

definition parse_rows :: "env \<Rightarrow> int \<Rightarrow> string \<Rightarrow> val list \<Rightarrow> session_tree res" where
  "parse_rows env version sid rows =
     (case rows of
        [] \<Rightarrow> Inl (sferr ''empty session tree'')
      | hrow # erows \<Rightarrow>
          if list_ex (\<lambda>r. MAX_SESSION_ENTRY_BYTES < line_bytes r) rows
          then Inl (sferr ''session entry too large'')
          else
            bindR (validate_header (sha256 env) version sid hrow) (\<lambda>_.
            let h = header_of_val hrow in
            bindR (worktree_identity_of env (workspace_root h)) (\<lambda>identity.
            bindR (require (py_eq identity (worktree_identity h))
                     (sferr ''session worktree identity mismatch'')) (\<lambda>_.
            bindR (validate_rows None version {} erows) (\<lambda>entries.
            bindR (project_tree h entries) (\<lambda>(path, projection).
            Inr \<lparr>theader = h, tentries = entries, tpath = path, tprojection = projection,
                 testimates = estimates_of entries\<rparr>))))))"

definition tree_rows :: "header \<Rightarrow> entry list \<Rightarrow> val list" where
  "tree_rows h es = header_val h # map entry_val es"

subsection \<open>New entries\<close>

text \<open>
  \<open>uuid4().hex[:24]\<close> and \<open>now()\<close> are a supply: the n-th call of \<open>_new_entry\<close> in an
  operation gets the n-th id and time stamp.
\<close>

type_synonym stamps = "nat \<Rightarrow> string \<times> string"

definition new_entry :: "stamps \<Rightarrow> nat \<Rightarrow> string \<Rightarrow> dict \<Rightarrow> string \<Rightarrow> entry" where
  "new_entry fresh n kind data parent =
     \<lparr>efmt = VInt SESSION_FORMAT_VERSION, eid = fst (fresh n), parent_id = parent,
      timestamp = snd (fresh n), etype = kind, edata = data\<rparr>"

definition starts_tool_exchange :: "val \<Rightarrow> bool" where
  "starts_tool_exchange m \<longleftrightarrow>
     mget m ''role'' = VStr ''assistant''
     \<and> (case mget m ''content'' of VList (b # _) \<Rightarrow> mget b ''type'' = VStr ''tool_use'' | _ \<Rightarrow> False)"

fun message_entries :: "stamps \<Rightarrow> nat \<Rightarrow> val list \<Rightarrow> string \<Rightarrow> entry list res" where
  "message_entries fresh n [] parent = Inr []"
| "message_entries fresh n [m] parent =
     (if starts_tool_exchange m then Inl (sferr ''tool call is missing its result'')
      else Inr [new_entry fresh n ''message'' [(''message'', m)] parent])"
| "message_entries fresh n (m # r # ms) parent =
     (if starts_tool_exchange m then
        (let e = new_entry fresh n ''tool_exchange'' [(''assistant'', m), (''result'', r)] parent
         in bindR (message_entries fresh (Suc n) ms (eid e)) (\<lambda>es. Inr (e # es)))
      else
        (let e = new_entry fresh n ''message'' [(''message'', m)] parent
         in bindR (message_entries fresh (Suc n) (r # ms) (eid e)) (\<lambda>es. Inr (e # es))))"

subsection \<open>Incremental extension\<close>

fun linear_from :: "string \<Rightarrow> entry list \<Rightarrow> bool" where
  "linear_from parent [] = True"
| "linear_from parent (e # es) = (parent_id e = parent \<and> linear_from (eid e) es)"

definition add_estimates :: "(string \<times> nat) list \<Rightarrow> entry list \<Rightarrow> (string \<times> nat) list" where
  "add_estimates d es = fold (\<lambda>e d. AList.update (eid e) (estimate_entry_tokens e) d) es d"

text \<open>
  \<open>_extend_tree\<close>: a linear append folds only the new entries into the projection;
  anything else projects the combined tree again.
\<close>

definition extend_tree :: "session_tree \<Rightarrow> entry list \<Rightarrow> session_tree res" where
  "extend_tree t es =
     (if es = [] then Inr t
      else if \<not> linear_from (leaf_id t) es then
        bindR (project_tree (theader t) (tentries t @ es)) (\<lambda>(path, projection).
          Inr \<lparr>theader = theader t, tentries = tentries t @ es, tpath = path,
               tprojection = projection, testimates = add_estimates (testimates t) es\<rparr>)
      else
        bindR (apply_entries (hversion (theader t)) (tprojection t) es) (\<lambda>projection.
          Inr \<lparr>theader = theader t, tentries = tentries t @ es, tpath = tpath t @ es,
               tprojection = projection, testimates = add_estimates (testimates t) es\<rparr>))"

end
