(* ===== verification/PonyTags.thy ===== *)
theory PonyTags
  imports PyText "HOL-Library.Sublist"
begin

text \<open>
  \<open>pony/context/escaping.py\<close>: breaking literal \<open><pony:\<close> and \<open></pony:\<close> prefixes in
  text that is put between structural tags, and \<open>str.replace\<close>, on which it rests.
  The mark is U+200B; as code points are below 256 here, it is written as its UTF-8
  encoding.
\<close>

text \<open>\<open>s.replace(old, new)\<close> for a non-empty \<open>old\<close>: left to right, without overlap.\<close>

function replace_all :: "string \<Rightarrow> string \<Rightarrow> string \<Rightarrow> string" where
  "replace_all old new [] = []"
| "replace_all old new (c # s) =
     (if old \<noteq> [] \<and> prefix old (c # s) then new @ replace_all old new (drop (length old) (c # s))
      else c # replace_all old new s)"
  by pat_completeness auto
termination by (relation "measure (\<lambda>(old, new, s). length s)") auto

lemma replace_all_hit:
  "prefix (c # q) s \<Longrightarrow> replace_all (c # q) new s = new @ replace_all (c # q) new (drop (length (c # q)) s)"
  by (cases s) simp_all

lemma replace_all_skip:
  "\<not> prefix (c # q) (d # s) \<Longrightarrow> replace_all (c # q) new (d # s) = d # replace_all (c # q) new s"
  by (simp only: replace_all.simps) simp

definition ZWSP :: string where
  "ZWSP = [CHR 0xE2, CHR 0x80, CHR 0x8B]"

definition escape_pony_tags :: "string \<Rightarrow> string" where
  "escape_pony_tags s =
     (if s = [] then s
      else replace_all ''</pony:'' (''</pony'' @ ZWSP @ '':'')
             (replace_all ''<pony:'' (''<pony'' @ ZWSP @ '':'') s))"

subsection \<open>Replacing never makes new occurrences\<close>

text \<open>
  Two texts clash when they differ at a position both have; then neither is a prefix
  of an extension of the other.
\<close>

definition clash :: "string \<Rightarrow> string \<Rightarrow> bool" where
  "clash q r \<longleftrightarrow> (\<exists>k < min (length q) (length r). q ! k \<noteq> r ! k)"

lemma clash_not_prefix:
  assumes "clash q r"
  shows "\<not> prefix q (r @ s)"
proof
  assume "prefix q (r @ s)"
  then obtain t where t: "r @ s = q @ t" by (auto simp: prefix_def)
  from assms obtain k where k: "k < length q" "k < length r" "q ! k \<noteq> r ! k"
    by (auto simp: clash_def)
  from k t have "(r @ s) ! k = r ! k" "(r @ s) ! k = q ! k"
    by (metis nth_append)+
  with k(3) show False by simp
qed

text \<open>
  A pattern \<open>c # q\<close> whose first character occurs nowhere else in it; the replacement
  \<open>c # r\<close> begins with the same character and has it nowhere else either.
\<close>

lemma prefix_of_replaced:
  assumes "c \<notin> set q'" "prefix q' (replace_all (c # q) (c # r) s)"
  shows "prefix q' s"
  using assms
proof (induction "c # q" "c # r" s arbitrary: q' rule: replace_all.induct)
  case (2 d s)
  show ?case
  proof (cases "prefix (c # q) (d # s)")
    case True
    with "2.prems" show ?thesis by (cases q') auto
  next
    case False
    from "2.prems"(2) have "prefix q' (d # replace_all (c # q) (c # r) s)"
      unfolding replace_all_skip [OF False] .
    with "2.prems"(1) "2.hyps"(2) False show ?thesis by (cases q') auto
  qed
qed simp

lemma sublist_Cons_prefix:
  "sublist p (x # xs) \<longleftrightarrow> prefix p (x # xs) \<or> sublist p xs"
  by (simp add: sublist_Cons_right)

lemma sublist_skip:
  assumes "c \<notin> set r" "sublist (c # q) (r @ s)"
  shows "sublist (c # q) s"
  using assms by (induction r) (auto simp: sublist_Cons_prefix)

lemma sublist_of_replaced:
  assumes "c \<notin> set r" "c \<notin> set q2" "clash q2 r"
    and "sublist (c # q2) (replace_all (c # q) (c # r) s)"
  shows "sublist (c # q2) s \<and> (q2 = q \<longrightarrow> False)"
  using assms(4)
proof (induction "c # q" "c # r" s rule: replace_all.induct)
  case (2 d s)
  show ?case
  proof (cases "prefix (c # q) (d # s)")
    case True
    let ?rest = "replace_all (c # q) (c # r) (drop (length (c # q)) (d # s))"
    from True "2.prems" have "sublist (c # q2) (c # (r @ ?rest))" by simp
    moreover have "\<not> prefix (c # q2) (c # (r @ ?rest))"
      using clash_not_prefix [OF assms(3)] by simp
    ultimately have "sublist (c # q2) (r @ ?rest)" by (simp only: sublist_Cons_prefix) blast
    from sublist_skip [OF assms(1) this] have "sublist (c # q2) ?rest" .
    with "2.hyps"(1) True have "sublist (c # q2) (drop (length q) s) \<and> (q2 = q \<longrightarrow> False)" by simp
    moreover have "sublist (drop (length q) s) (d # s)"
      by (metis sublist_drop sublist_order.order.trans sublist_Cons_prefix sublist_order.order.refl)
    ultimately show ?thesis by (meson sublist_order.order.trans)
  next
    case False
    from "2.prems" have "sublist (c # q2) (d # replace_all (c # q) (c # r) s)"
      unfolding replace_all_skip [OF False] .
    then consider "prefix (c # q2) (d # replace_all (c # q) (c # r) s)"
      | "sublist (c # q2) (replace_all (c # q) (c # r) s)"
      by (auto simp: sublist_Cons_prefix)
    then show ?thesis
    proof cases
      case 1
      with prefix_of_replaced [OF assms(2)] have "prefix (c # q2) (d # s)" by auto
      with False show ?thesis by (auto simp: sublist_Cons_prefix)
    next
      case 2
      with "2.hyps"(2) False show ?thesis by (auto simp: sublist_Cons_prefix)
    qed
  qed
qed simp

lemma escape_pony_tags_no_open: "\<not> sublist ''<pony:'' (escape_pony_tags s)"
  and escape_pony_tags_no_close: "\<not> sublist ''</pony:'' (escape_pony_tags s)"
proof -
  have open_text: "''<pony'' @ ZWSP @ '':'' = CHR ''<'' # (''pony'' @ ZWSP @ '':'')" by simp
  have close_text: "''</pony'' @ ZWSP @ '':'' = CHR ''<'' # (''/pony'' @ ZWSP @ '':'')" by simp
  have fresh: "CHR ''<'' \<notin> set (''pony'' @ ZWSP @ '':'')" "CHR ''<'' \<notin> set (''/pony'' @ ZWSP @ '':'')"
    by (simp_all add: ZWSP_def)
  have clashes: "clash ''pony:'' (''pony'' @ ZWSP @ '':'')" "clash ''/pony:'' (''/pony'' @ ZWSP @ '':'')"
    "clash ''pony:'' (''/pony'' @ ZWSP @ '':'')"
    by (auto simp: clash_def ZWSP_def intro: exI [of _ 4] exI [of _ 5] exI [of _ 0])
  let ?one = "replace_all ''<pony:'' (''<pony'' @ ZWSP @ '':'') s"
  have one: "\<not> sublist ''<pony:'' ?one"
    using sublist_of_replaced [OF fresh(1) _ clashes(1), of "''pony:''" s] unfolding open_text by auto
  show "\<not> sublist ''<pony:'' (escape_pony_tags s)"
    using sublist_of_replaced [OF fresh(2) _ clashes(3), of "''/pony:''" ?one] one
    unfolding escape_pony_tags_def close_text by (auto simp: open_text)
  show "\<not> sublist ''</pony:'' (escape_pony_tags s)"
    using sublist_of_replaced [OF fresh(2) _ clashes(2), of "''/pony:''" ?one]
    unfolding escape_pony_tags_def close_text by (auto simp: open_text)
qed

end
