(* ===== verification/ContextView.thy ===== *)
theory ContextView
  imports SessionTree PonyTags
begin

text \<open>
  The messages a model sees of a session tree: \<open>_summary_message\<close> and
  \<open>context_view_from_tree\<close> of \<open>pony/state/session_store.py\<close>.  Data the entry
  validation has checked to be a text (\<open>summary\<close>, \<open>first_kept_entry_id\<close>,
  \<open>reason\<close>) or an int (the token numbers) is read with \<open>text_item\<close> and
  \<open>int_item\<close>; the other fields are read as the code reads them.
\<close>

datatype summary_kind = COMPACTION | SPLIT_TURN | BRANCH

fun summary_tag :: "summary_kind \<Rightarrow> string" where
  "summary_tag COMPACTION = ''pony:session_summary''"
| "summary_tag SPLIT_TURN = ''pony:split_turn_summary''"
| "summary_tag BRANCH = ''pony:branch_summary''"

fun summary_origin :: "summary_kind \<Rightarrow> string" where
  "summary_origin COMPACTION = ''compaction_summary''"
| "summary_origin SPLIT_TURN = ''split_turn_summary''"
| "summary_origin BRANCH = ''branch_summary''"

definition summary_text :: "summary_kind \<Rightarrow> string \<Rightarrow> string" where
  "summary_text kind summary =
     ''<'' @ summary_tag kind @ ''>'' @ NL @ escape_pony_tags (strip summary)
     @ NL @ ''</'' @ summary_tag kind @ ''>''"

definition summary_message :: "string \<Rightarrow> string \<Rightarrow> string \<Rightarrow> summary_kind \<Rightarrow> val" where
  "summary_message summary entry_id created kind =
     VDict [(''role'', VStr ''user''),
            (''content'', VStr (summary_text kind summary)),
            (''_pony_meta'', VDict
              [(''created_at'', VStr created), (''origin'', VStr (summary_origin kind)),
               (''summary_entry_id'', VStr entry_id)])]"

record context_view =
  cv_messages :: "val list"
  cv_entries :: "entry list"
  cv_summary :: string
  cv_split_turn_summary :: string
  cv_branch_summary :: string
  cv_summary_tokens :: int
  cv_split_turn_summary_tokens :: int
  cv_branch_summary_tokens :: int
  cv_tail_tokens :: int
  cv_tokens_before :: int
  cv_first_kept_entry_id :: string
  cv_compaction_entry_id :: string
  cv_compaction_reason :: string
  cv_compression_ratio :: rat
  cv_branch_summary_entry_id :: string
  cv_canonical_message_count :: nat
  cv_canonical_last_message :: "val option"

definition text_item :: "dict \<Rightarrow> string \<Rightarrow> string res" where
  "text_item d k = (case dget d k of None \<Rightarrow> Inl (KeyError k) | Some v \<Rightarrow> Inr (as_str v))"

definition int_item :: "dict \<Rightarrow> string \<Rightarrow> int res" where
  "int_item d k = (case dget d k of None \<Rightarrow> Inl (KeyError k) | Some v \<Rightarrow> Inr (as_int v))"

text \<open>\<open>raw if type(raw) is int and raw >= 0 else 0\<close>.\<close>

definition nonneg_or_zero :: "val \<Rightarrow> int" where
  "nonneg_or_zero v = (if nonneg_int v then as_int v else 0)"

definition ratio_of :: "val \<Rightarrow> rat" where
  "ratio_of v = (case v of
      VInt i \<Rightarrow> if 0 \<le> i then of_int i else 1
    | VFloat r _ \<Rightarrow> if 0 \<le> r then r else 1
    | _ \<Rightarrow> 1)"

text \<open>The last index below the length with a property, as \<open>next(... reversed ...)\<close>.\<close>

definition last_index :: "(nat \<Rightarrow> 'a \<Rightarrow> bool) \<Rightarrow> 'a list \<Rightarrow> nat option" where
  "last_index P xs = find (\<lambda>i. P i (xs ! i)) (rev [0..<length xs])"

definition carries :: "entry \<Rightarrow> bool" where
  "carries e \<longleftrightarrow> entry_message_refs e \<noteq> []"

text \<open>What the compaction entry tells, and where the verbatim part begins.\<close>

record cut =
  cut_summary :: string
  cut_split :: string
  cut_summary_tokens :: int
  cut_split_tokens :: int
  cut_tail_tokens :: int
  cut_tokens_before :: int
  cut_first_kept :: string
  cut_id :: string
  cut_created :: string
  cut_reason :: string
  cut_ratio :: rat

definition no_cut :: cut where
  "no_cut = \<lparr>cut_summary = [], cut_split = [], cut_summary_tokens = 0, cut_split_tokens = 0,
     cut_tail_tokens = 0, cut_tokens_before = 0, cut_first_kept = [], cut_id = [],
     cut_created = [], cut_reason = ''not_compacted'', cut_ratio = 1\<rparr>"

definition read_cut :: "entry \<Rightarrow> cut res" where
  "read_cut e =
     (let data = edata e in
      bindR (text_item data ''summary'') (\<lambda>summary.
      bindR (int_item data ''summary_tokens'') (\<lambda>summary_tokens.
      bindR (int_item data ''tail_tokens'') (\<lambda>tail_tokens.
      bindR (int_item data ''tokens_before'') (\<lambda>tokens_before.
      bindR (text_item data ''first_kept_entry_id'') (\<lambda>first_kept.
      bindR (text_item data ''reason'') (\<lambda>reason.
      Inr \<lparr>cut_summary = summary,
           cut_split = str_or_empty (dget_or data ''split_turn_summary'' (VStr [])),
           cut_summary_tokens = summary_tokens,
           cut_split_tokens = nonneg_or_zero (dget_or data ''split_turn_summary_tokens'' (VInt 0)),
           cut_tail_tokens = tail_tokens, cut_tokens_before = tokens_before,
           cut_first_kept = first_kept, cut_id = eid e, cut_created = timestamp e,
           cut_reason = reason,
           cut_ratio = ratio_of (dget_or data ''compression_ratio'' (VFloat 1 ''1.0''))\<rparr>)))))))"

definition cut_start :: "entry list \<Rightarrow> nat \<Rightarrow> string \<Rightarrow> nat res" where
  "cut_start path compact_index first_kept =
     (if first_kept = [] then Inr compact_index
      else case find (\<lambda>i. eid (path ! i) = first_kept) [0..<compact_index] of
             None \<Rightarrow> Inl (sferr ''compaction kept entry is not on active path'')
           | Some i \<Rightarrow> Inr i)"

definition select_cut :: "entry list \<Rightarrow> (cut \<times> (nat \<times> entry) list) res" where
  "select_cut path =
     (case last_index (\<lambda>_ e. etype e = ''compaction'') path of
        None \<Rightarrow> Inr (no_cut, filter (\<lambda>(i, e). carries e) (enumerate 0 path))
      | Some c \<Rightarrow>
          bindR (read_cut (path ! c)) (\<lambda>k.
          bindR (cut_start path c (cut_first_kept k)) (\<lambda>start.
          Inr (k, filter (\<lambda>(i, e). carries e \<and>
                     (cut_first_kept k \<noteq> [] \<and> start \<le> i \<and> i < c \<or> c < i)) (enumerate 0 path)))))"

text \<open>The branch summary in force: the last one, after the compaction if there is one.\<close>

definition branch_index :: "entry list \<Rightarrow> nat option" where
  "branch_index path =
     (let compact = last_index (\<lambda>_ e. etype e = ''compaction'') path
      in last_index (\<lambda>i e. etype e = ''branch_summary''
           \<and> (case compact of None \<Rightarrow> True | Some c \<Rightarrow> c < i)) path)"

definition branch_text :: "entry \<Rightarrow> string" where
  "branch_text e = str_or_empty (dget_or (edata e) ''summary'' (VStr []))"

text \<open>The loop over the selected entries; the branch summary stands where it was made.\<close>

fun view_body :: "(nat \<times> val) option \<Rightarrow> (nat \<times> entry) list \<Rightarrow> val list" where
  "view_body None sel = concat (map (entry_message_refs \<circ> snd) sel)"
| "view_body (Some (b, m)) [] = [m]"
| "view_body (Some (b, m)) ((i, e) # sel) =
     (if b < i then m # entry_message_refs e @ view_body None sel
      else entry_message_refs e @ view_body (Some (b, m)) sel)"

definition cut_messages :: "cut \<Rightarrow> val list" where
  "cut_messages k =
     (if cut_summary k \<noteq> []
      then [summary_message (cut_summary k) (cut_id k) (cut_created k) COMPACTION] else [])
     @ (if cut_split k \<noteq> []
        then [summary_message (cut_split k) (cut_id k) (cut_created k) SPLIT_TURN] else [])"

definition branch_point :: "entry list \<Rightarrow> (nat \<times> val) option" where
  "branch_point path =
     (case branch_index path of
        None \<Rightarrow> None
      | Some b \<Rightarrow>
          if branch_text (path ! b) = [] then None
          else Some (b, summary_message (branch_text (path ! b)) (eid (path ! b))
                          (timestamp (path ! b)) BRANCH))"

definition view_of :: "entry list \<Rightarrow> val list \<Rightarrow> context_view res" where
  "view_of path canonical =
     bindR (select_cut path) (\<lambda>(k, sel).
     let branch = branch_index path in
     Inr \<lparr>cv_messages = cut_messages k @ view_body (branch_point path) sel,
          cv_entries = map snd sel,
          cv_summary = cut_summary k, cv_split_turn_summary = cut_split k,
          cv_branch_summary = (case branch of None \<Rightarrow> [] | Some b \<Rightarrow> branch_text (path ! b)),
          cv_summary_tokens = cut_summary_tokens k,
          cv_split_turn_summary_tokens = cut_split_tokens k,
          cv_branch_summary_tokens = (case branch of None \<Rightarrow> 0
            | Some b \<Rightarrow> nonneg_or_zero (dget_or (edata (path ! b)) ''summary_tokens'' (VInt 0))),
          cv_tail_tokens = cut_tail_tokens k, cv_tokens_before = cut_tokens_before k,
          cv_first_kept_entry_id = cut_first_kept k, cv_compaction_entry_id = cut_id k,
          cv_compaction_reason = cut_reason k, cv_compression_ratio = cut_ratio k,
          cv_branch_summary_entry_id = (case branch of None \<Rightarrow> [] | Some b \<Rightarrow> eid (path ! b)),
          cv_canonical_message_count = length canonical,
          cv_canonical_last_message = (if canonical = [] then None else Some (last canonical))\<rparr>)"

definition context_view_from_tree :: "session_tree \<Rightarrow> context_view res" where
  "context_view_from_tree t =
     (case dget (tprojection t) ''messages'' of
        None \<Rightarrow> Inl (KeyError ''messages'')
      | Some canonical \<Rightarrow> view_of (tpath t) (as_list canonical))"

end
