(* ===== verification/ActionCodec.thy ===== *)
theory ActionCodec
  imports PyText
begin

text \<open>
  \<open>pony/agent/action_codec.py\<close> with the \<open>Response\<close> of \<open>pony/providers/response.py\<close>:
  the decoding of one native provider response into exactly one action, a tool
  call, a final answer or a retry.
\<close>

datatype stop_kind = END_TURN | TOOL_USE | MAX_TOKENS | STOP_SEQUENCE | REFUSAL | UNKNOWN

record response =
  resp_stop :: stop_kind
  resp_content :: val
  resp_usage :: dict
  resp_provider_state :: "dict list"

record tool_action =
  ta_name :: string
  ta_arguments :: dict
  ta_tool_use_id :: "string option"
  ta_provider_state :: "dict list"

datatype action =
    ToolAction tool_action
  | FinalAction string bool
  | RetryAction string string string

definition EXCERPT_LIMIT :: nat where
  "EXCERPT_LIMIT = 160"

text \<open>\<open>_NOTICES\<close>.\<close>

fun notice_of :: "string \<Rightarrow> string" where
  "notice_of r =
     (if r = ''empty_response'' then ''Runtime notice: the model returned no actionable content. Return one tool call or a non-empty final answer.''
      else if r = ''invalid_native_tool'' then ''Runtime notice: the native tool call had an invalid name or arguments object. Return one valid tool call.''
      else if r = ''multiple_actions_not_supported'' then ''Runtime notice: Pony accepts exactly one tool call per model response. Return exactly one tool call and do not repeat the other calls.''
      else if r = ''stop_sequence'' then ''Runtime notice: the model stopped before completing an action. Return one tool call or a non-empty final answer.''
      else ''Runtime notice: the native provider response did not match the configured protocol. Return one native tool call or a non-empty final answer.'')"

declare notice_of.simps [simp del]

definition retry :: "string \<Rightarrow> val \<Rightarrow> action" where
  "retry reason raw = RetryAction reason (notice_of reason) (take EXCERPT_LIMIT (strip (py_str raw)))"

text \<open>\<open>list(v)\<close>: a list, the characters of a text, the keys of a dict; other values raise.\<close>

fun py_iter :: "val \<Rightarrow> val list option" where
  "py_iter (VList xs) = Some xs"
| "py_iter (VStr s) = Some (map (\<lambda>c. VStr [c]) s)"
| "py_iter (VDict d) = Some (map (\<lambda>p. VStr (fst p)) d)"
| "py_iter _ = None"

definition btype :: "val \<Rightarrow> val" where
  "btype b = dget_none (as_dict b) ''type''"

definition text_part :: "val \<Rightarrow> string list" where
  "text_part block =
     (if is_dict block \<and> btype block = VStr ''text''
      then let value = str_or_empty (dget_or (as_dict block) ''text'' (VStr []))
           in (if strip value \<noteq> [] then [strip value] else [])
      else [])"

definition supported_block :: "val \<Rightarrow> bool" where
  "supported_block block \<longleftrightarrow>
     is_dict block \<and> (btype block = VStr ''text'' \<or> btype block = VStr ''tool_use'')"

definition joined_text :: "val list \<Rightarrow> string \<times> bool" where
  "joined_text content =
     (intersperse_sep [CHR 0x0A] (concat (map text_part content)),
      list_ex (\<lambda>b. \<not> supported_block b) content)"

definition tool_blocks :: "val list \<Rightarrow> val list" where
  "tool_blocks content = filter (\<lambda>b. is_dict b \<and> btype b = VStr ''tool_use'') content"

definition native_action :: "val list \<Rightarrow> dict list \<Rightarrow> action" where
  "native_action blocks provider_state =
     (case blocks of
        [first] \<Rightarrow>
          let d = as_dict first;
              name = dget_none d ''name'';
              arguments = dget_none d ''input'';
              tool_use_id = dget_none d ''id''
          in if \<not> is_str name \<or> strip (as_str name) = [] \<or> \<not> is_dict arguments
             then retry ''invalid_native_tool'' first
             else if tool_use_id \<noteq> VNone \<and> \<not> is_str tool_use_id
             then retry ''invalid_native_tool'' first
             else ToolAction
               \<lparr>ta_name = strip (as_str name), ta_arguments = as_dict arguments,
                ta_tool_use_id = (if truthy tool_use_id then Some (as_str tool_use_id) else None),
                ta_provider_state = provider_state\<rparr>
      | _ \<Rightarrow> retry ''multiple_actions_not_supported'' (VList blocks))"

definition decode_action :: "response \<Rightarrow> action" where
  "decode_action response =
     (case py_iter (py_or (resp_content response) (VList [])) of
        None \<Rightarrow> retry ''provider_protocol_mismatch'' (resp_content response)
      | Some content \<Rightarrow>
          let (merged_text, saw_unsupported) = joined_text content;
              raw = py_or (VStr merged_text) (VList content);
              tools = tool_blocks content
          in if saw_unsupported then retry ''provider_protocol_mismatch'' raw
             else if tools \<noteq> [] then
               (if resp_stop response \<noteq> TOOL_USE
                then retry ''provider_protocol_mismatch'' (VList tools)
                else native_action tools (resp_provider_state response))
             else if resp_stop response = REFUSAL then
               FinalAction (if merged_text \<noteq> [] then merged_text
                            else ''The model declined this request.'') False
             else if resp_stop response = END_TURN \<and> merged_text \<noteq> []
             then FinalAction merged_text False
             else if resp_stop response = MAX_TOKENS \<and> merged_text \<noteq> []
             then FinalAction merged_text True
             else if resp_stop response = STOP_SEQUENCE
             then retry ''stop_sequence'' (VStr merged_text)
             else if merged_text = [] then retry ''empty_response'' (VStr [])
             else retry ''provider_protocol_mismatch'' raw)"

lemma retry_not_tool [simp]: "retry r v \<noteq> ToolAction a" "retry r v \<noteq> FinalAction t b"
  by (simp_all add: retry_def)

lemma native_action_ToolD:
  assumes "native_action blocks ps = ToolAction a"
  shows "length blocks = 1" "ta_name a \<noteq> []"
    "dget_none (as_dict (hd blocks)) ''input'' = VDict (ta_arguments a)"
    "ta_name a = strip (as_str (dget_none (as_dict (hd blocks)) ''name''))"
    "ta_provider_state a = ps" "ta_tool_use_id a \<noteq> Some []"
  using assms
  by (auto simp: native_action_def Let_def is_iffs split: list.splits if_split_asm)

lemma decode_action_ToolD:
  assumes "decode_action r = ToolAction a"
  shows "\<exists>content b. py_iter (py_or (resp_content r) (VList [])) = Some content
     \<and> list_all supported_block content \<and> resp_stop r = TOOL_USE
     \<and> tool_blocks content = [b] \<and> native_action [b] (resp_provider_state r) = ToolAction a"
proof -
  from assms obtain content where
    c: "py_iter (py_or (resp_content r) (VList [])) = Some content" and
    ok: "\<not> snd (joined_text content)" "resp_stop r = TOOL_USE" and
    n: "native_action (tool_blocks content) (resp_provider_state r) = ToolAction a"
    by (auto simp: decode_action_def Let_def split: option.splits prod.splits if_split_asm)
  from native_action_ToolD(1) [OF n] obtain b where b: "tool_blocks content = [b]"
    by (cases "tool_blocks content") auto
  from ok(1) have "list_all supported_block content"
    by (simp add: joined_text_def list_ex_iff list_all_iff)
  with c ok b n show ?thesis by auto
qed

lemma decode_action_FinalD:
  assumes "decode_action r = FinalAction t trunc"
  shows "t \<noteq> []" "resp_stop r \<in> {REFUSAL, END_TURN, MAX_TOKENS}"
    "trunc \<longleftrightarrow> resp_stop r = MAX_TOKENS"
  using assms
  by (auto simp: decode_action_def native_action_def Let_def
      split: option.splits prod.splits if_split_asm list.splits)

lemma decode_action_Retry_excerpt:
  "decode_action r = RetryAction reason notice ex \<Longrightarrow> length ex \<le> EXCERPT_LIMIT"
  by (auto simp: decode_action_def native_action_def retry_def Let_def
      split: option.splits prod.splits if_split_asm list.splits)

end
