(* ===== verification/CompactionPlan.thy ===== *)
theory CompactionPlan
  imports ContextView ActionCodec ModelBudget
begin

text \<open>
  The pure part of \<open>pony/agent/compaction.py\<close>: choosing the tail a compaction keeps
  verbatim, the text that is summarized, clipping a summary to its token cap, and
  the files a history touched.
\<close>

record compaction_plan =
  cp_previous_summary :: string
  cp_prefix_entries :: "entry list"
  cp_split_prefix_entries :: "entry list"
  cp_kept_entries :: "entry list"
  cp_first_kept_entry_id :: string
  cp_tokens_before :: int
  cp_prefix_tokens :: int
  cp_split_prefix_tokens :: int
  cp_tail_tokens :: int
  cp_keep_recent_tokens :: int

definition messages_of :: "entry list \<Rightarrow> val list" where
  "messages_of es = concat (map entry_message_refs es)"

definition prefix_messages :: "compaction_plan \<Rightarrow> val list" where
  "prefix_messages plan = messages_of (cp_prefix_entries plan)"

definition kept_messages :: "compaction_plan \<Rightarrow> val list" where
  "kept_messages plan = messages_of (cp_kept_entries plan)"

definition split_prefix_messages :: "compaction_plan \<Rightarrow> val list" where
  "split_prefix_messages plan = messages_of (cp_split_prefix_entries plan)"

subsection \<open>Turns\<close>

definition starts_turn :: "entry \<Rightarrow> bool" where
  "starts_turn e \<longleftrightarrow>
     (case entry_message_refs e of
        [] \<Rightarrow> False
      | m # _ \<Rightarrow> mget m ''role'' = VStr ''user'' \<and> is_str (mget m ''content''))"

fun turn_loop :: "entry list list \<Rightarrow> entry list \<Rightarrow> entry list \<Rightarrow> entry list list" where
  "turn_loop groups current [] = (if current = [] then groups else groups @ [current])"
| "turn_loop groups current (e # es) =
     (if starts_turn e \<and> current \<noteq> [] then turn_loop (groups @ [current]) [e] es
      else turn_loop groups (current @ [e]) es)"

definition turn_groups :: "entry list \<Rightarrow> entry list list" where
  "turn_groups es = turn_loop [] [] es"

subsection \<open>The plan\<close>

text \<open>\<open>costs_by_id\<close>, with the cache of the accounting threaded through.\<close>

fun entry_costs ::
  "(string \<times> nat) list \<Rightarrow> entry list \<Rightarrow> accounting \<Rightarrow> (string \<times> int) list
   \<Rightarrow> (string \<times> int) list \<times> accounting" where
  "entry_costs estimates [] acc costs = (costs, acc)"
| "entry_costs estimates (e # es) acc costs =
     (let (cost, acc) = count_session_entry acc (eid e) (entry_message_refs e)
                          (map_option int (map_of estimates (eid e)))
      in entry_costs estimates es acc (AList.update (eid e) cost costs))"

definition cost_in :: "(string \<times> int) list \<Rightarrow> entry \<Rightarrow> int" where
  "cost_in costs e = (case map_of costs (eid e) of None \<Rightarrow> 0 | Some n \<Rightarrow> n)"

definition group_cost :: "(string \<times> int) list \<Rightarrow> entry list \<Rightarrow> int" where
  "group_cost costs es = sum_list (map (cost_in costs) es)"

text \<open>
  The loops that grow a tail towards the front while it stays within the target:
  \<open>grow_tail cost target xs i tail\<close> is the new start and the new cost of the tail.
\<close>

fun grow_tail :: "('a \<Rightarrow> int) \<Rightarrow> int \<Rightarrow> 'a list \<Rightarrow> nat \<Rightarrow> int \<Rightarrow> nat \<times> int" where
  "grow_tail cost target xs 0 tail = (0, tail)"
| "grow_tail cost target xs (Suc i) tail =
     (let candidate = cost (xs ! i)
      in if target < tail + candidate then (Suc i, tail)
         else grow_tail cost target xs i (tail + candidate))"

definition split_turn ::
  "(string \<times> int) list \<Rightarrow> int \<Rightarrow> entry list \<Rightarrow> nat \<times> int" where
  "split_turn costs target oversized =
     grow_tail (cost_in costs) target oversized (length oversized - 1) (cost_in costs (last oversized))"

text \<open>The prefix, the split prefix, the kept entries and the cost of the tail.\<close>

definition choose_tail ::
  "(string \<times> int) list \<Rightarrow> int \<Rightarrow> entry list list \<Rightarrow> entry list \<times> entry list \<times> entry list \<times> int" where
  "choose_tail costs target groups =
     (let (group_index, tail_tokens) =
            grow_tail (group_cost costs) target groups (length groups - 1)
              (group_cost costs (last groups))
      in if target < tail_tokens \<and> 1 < length (last groups) then
           let (split_at, split_tail) = split_turn costs target (last groups)
           in (concat (butlast groups), take split_at (last groups), drop split_at (last groups),
               split_tail)
         else (concat (take group_index groups), [], concat (drop group_index groups), tail_tokens))"

definition has_context_control :: "session_tree \<Rightarrow> bool" where
  "has_context_control t \<longleftrightarrow>
     list_ex (\<lambda>e. etype e = ''compaction'' \<or> etype e = ''branch_summary'') (tpath t)"

text \<open>\<open>"\n\n".join(...)\<close>.\<close>

definition NL2 :: string where
  "NL2 = NL @ NL"

definition previous_summary_of :: "context_view option \<Rightarrow> string" where
  "previous_summary_of view =
     (case view of
        None \<Rightarrow> []
      | Some v \<Rightarrow> intersperse_sep NL2 (filter (\<lambda>part. part \<noteq> [])
          [strip (cv_summary v), strip (cv_split_turn_summary v)]))"

definition plan_view :: "session_tree \<Rightarrow> context_view option res" where
  "plan_view t =
     (if has_context_control t then bindR (context_view_from_tree t) (\<lambda>v. Inr (Some v))
      else Inr None)"

definition plan_entries :: "session_tree \<Rightarrow> context_view option \<Rightarrow> entry list" where
  "plan_entries t view =
     (case view of Some v \<Rightarrow> cv_entries v | None \<Rightarrow> filter carries (tpath t))"

definition tokens_before_of :: "accounting \<Rightarrow> (string \<times> int) list \<Rightarrow> context_view option \<Rightarrow> int" where
  "tokens_before_of acc costs view =
     (case view of
        Some v \<Rightarrow> sum_list (map (count_message acc) (cv_messages v))
      | None \<Rightarrow> sum_list (map snd costs))"

definition build_compaction_plan ::
  "session_tree \<Rightarrow> accounting \<Rightarrow> int \<Rightarrow> (compaction_plan \<times> accounting) res" where
  "build_compaction_plan t acc keep_recent =
     bindR (plan_view t) (\<lambda>view.
     let entries = plan_entries t view in
     if length entries < 2
     then Inl (CompactionNoProgress ''compaction_no_progress: not enough active history'')
     else
       let target = max 1 keep_recent;
           (costs, acc) = entry_costs (testimates t) entries acc [];
           (pre, split, kept, tail_tokens) = choose_tail costs target (turn_groups entries)
       in if pre = [] \<and> split = []
          then Inl (CompactionNoProgress
                 ''compaction_no_progress: active tail already fits keep_recent_tokens'')
          else Inr
            (\<lparr>cp_previous_summary = previous_summary_of view, cp_prefix_entries = pre,
              cp_split_prefix_entries = split, cp_kept_entries = kept,
              cp_first_kept_entry_id = eid (hd kept),
              cp_tokens_before = tokens_before_of acc costs view,
              cp_prefix_tokens = group_cost costs pre,
              cp_split_prefix_tokens = group_cost costs split,
              cp_tail_tokens = tail_tokens, cp_keep_recent_tokens = target\<rparr>, acc))"

subsection \<open>The text that is summarized\<close>

definition tagged :: "string \<Rightarrow> string \<Rightarrow> string" where
  "tagged tag text = ''<'' @ tag @ ''>'' @ NL @ text @ NL @ ''</'' @ tag @ ''>''"

definition render_summary_input :: "compaction_plan \<Rightarrow> string \<Rightarrow> bool \<Rightarrow> string" where
  "render_summary_input plan focus split =
     intersperse_sep NL2
       ((if strip (cp_previous_summary plan) \<noteq> [] \<and> \<not> split
         then [tagged ''previous_summary'' (strip (cp_previous_summary plan))] else [])
        @ [tagged ''history_to_compact''
             (render_transcript (if split then split_prefix_messages plan else prefix_messages plan))]
        @ (if strip focus \<noteq> [] then [tagged ''focus'' (strip focus)] else [])
        @ [if split
           then ''The remainder of this same turn remains available verbatim. Summarize only this turn prefix so it can be continued correctly.''
           else ''The recent tail remains available verbatim. Summarize only the material above so work can continue correctly.''])"

definition slice_inner :: "nat \<Rightarrow> nat \<Rightarrow> string \<Rightarrow> string" where
  "slice_inner front back s = drop front (take (length s - back) s)"

definition response_text :: "response \<Rightarrow> string res" where
  "response_text response =
     (case py_iter (py_or (resp_content response) (VList [])) of
        None \<Rightarrow> Inl (TypeError ''content'')
      | Some blocks \<Rightarrow>
          let value = strip (intersperse_sep NL (concat (map text_part blocks)))
          in Inr (if prefix ''<final>'' value \<and> suffix ''</final>'' value
                  then strip (slice_inner (length ''<final>'') (length ''</final>'') value)
                  else value))"

subsection \<open>Clipping\<close>

text \<open>The binary search for the longest prefix within the cap.\<close>

function clip_search :: "(string \<Rightarrow> int) \<Rightarrow> int \<Rightarrow> string \<Rightarrow> nat \<Rightarrow> nat \<Rightarrow> nat" where
  "clip_search tok hard_cap value low high =
     (if low < high then
        let middle = (low + high + 1) div 2
        in if tok (take middle value) \<le> hard_cap then clip_search tok hard_cap value middle high
           else clip_search tok hard_cap value low (middle - 1)
      else low)"
  by pat_completeness auto
termination by (relation "measure (\<lambda>(_, _, _, low, high). high - low)") auto

declare clip_search.simps [simp del]

text \<open>\<open>s.rsplit("\n", 1)[0]\<close> for a text with a newline.\<close>

definition before_last_newline :: "string \<Rightarrow> string" where
  "before_last_newline s = rev (tl (dropWhile (\<lambda>c. c \<noteq> CHR 0x0A) (rev s)))"

definition clip_tokens :: "string \<Rightarrow> accounting \<Rightarrow> int \<Rightarrow> string" where
  "clip_tokens text acc hard_cap =
     (let value = strip text
      in if count_text acc value \<le> hard_cap then value
         else
           let low = clip_search (count_text acc) hard_cap value 0 (length value);
               clipped = rstrip (take low value)
           in if CHR 0x0A \<in> set clipped then
                let line_clipped = rstrip (before_last_newline clipped)
                in if line_clipped \<noteq> [] then line_clipped else clipped
              else clipped)"

subsection \<open>Files\<close>

definition write_tools :: "string set" where
  "write_tools = {''write_file'', ''edit_file'', ''apply_patch'', ''delete_file''}"

definition path_text :: "val \<Rightarrow> string list" where
  "path_text v = (if is_str v \<and> strip (as_str v) \<noteq> [] then [strip (as_str v)] else [])"

definition block_paths :: "val \<Rightarrow> string list" where
  "block_paths block =
     (let arguments = as_dict (mget block ''input'')
      in concat (map (\<lambda>key. path_text (dget_none arguments key)) [''path'', ''file'', ''target''])
         @ concat (map path_text (as_list (dget_none arguments ''paths''))))"

definition add_new :: "string list \<Rightarrow> string list \<Rightarrow> string list" where
  "add_new paths bucket = foldl (\<lambda>b p. if p \<in> set b then b else b @ [p]) bucket paths"

definition add_block_files :: "val \<Rightarrow> string list \<times> string list \<Rightarrow> string list \<times> string list" where
  "add_block_files block buckets =
     (if mget block ''type'' \<noteq> VStr ''tool_use'' then buckets
      else if str_or_empty (dget_or (as_dict block) ''name'' (VStr [])) \<in> write_tools
      then (fst buckets, add_new (block_paths block) (snd buckets))
      else (add_new (block_paths block) (fst buckets), snd buckets))"

definition entry_blocks :: "entry \<Rightarrow> val list" where
  "entry_blocks e =
     (case entry_message_refs e of [] \<Rightarrow> [] | m # _ \<Rightarrow> as_list (mget m ''content''))"

definition file_facts :: "entry list \<Rightarrow> string list \<times> string list" where
  "file_facts es =
     foldl (\<lambda>buckets block. add_block_files block buckets) ([], []) (concat (map entry_blocks es))"

end
