(* ===== verification/TreeFacts.thy ===== *)
theory TreeFacts
  imports SessionTree
begin

text \<open>
  Facts about well-formed session trees: in an entry list where every parent is an
  earlier entry, climbing to the root always succeeds, an appended entry extends
  the path of its parent, and the path to an entry of a path is its prefix.
\<close>

fun wf_from :: "string set \<Rightarrow> entry list \<Rightarrow> bool" where
  "wf_from known [] = True"
| "wf_from known (e # es) =
     (entry_id_ok (eid e) \<and> eid e \<notin> known \<and> (parent_id e = [] \<or> parent_id e \<in> known)
      \<and> wf_from (insert (eid e) known) es)"

abbreviation wf_entries :: "entry list \<Rightarrow> bool" where
  "wf_entries es \<equiv> wf_from {} es"

abbreviation ids :: "entry list \<Rightarrow> string set" where
  "ids es \<equiv> eid ` set es"

lemma entry_id_ok_nonempty [simp]: "\<not> entry_id_ok []"
  by (simp add: entry_id_ok_def)

lemma wf_from_append:
  "wf_from known (es @ fs) \<longleftrightarrow> wf_from known es \<and> wf_from (known \<union> ids es) fs"
  by (induction es arbitrary: known) (auto simp: insert_commute)

lemma wf_from_distinct:
  "wf_from known es \<Longrightarrow> distinct (map eid es) \<and> ids es \<inter> known = {}"
  by (induction es arbitrary: known) auto

lemma wf_from_parent:
  "wf_from known es \<Longrightarrow> e \<in> set es \<Longrightarrow> parent_id e = [] \<or> parent_id e \<in> known \<union> ids es"
  by (induction es arbitrary: known) auto

lemma wf_from_id: "wf_from known es \<Longrightarrow> e \<in> set es \<Longrightarrow> entry_id_ok (eid e)"
  by (induction es arbitrary: known) auto

lemma by_id_None: "by_id es i = None \<longleftrightarrow> i \<notin> ids es"
  by (auto simp: by_id_def find_None_iff)

lemma by_id_snoc: "by_id (es @ [e]) i = (if eid e = i then Some e else by_id es i)"
  by (simp add: by_id_def)

lemma by_id_append: "ids fs \<inter> ids es = {} \<Longrightarrow> i \<in> ids es \<Longrightarrow> by_id (es @ fs) i = by_id es i"
proof (induction fs rule: rev_induct)
  case (snoc f fs)
  then show ?case
    by (simp add: by_id_snoc append_assoc [symmetric] del: append_assoc) blast
qed simp

lemma by_id_unique: "distinct (map eid es) \<Longrightarrow> e \<in> set es \<Longrightarrow> by_id es (eid e) = Some e"
proof (induction es rule: rev_induct)
  case (snoc f es)
  then show ?case by (auto simp: by_id_snoc image_iff)
qed simp

lemma climb_None: "i \<notin> ids es \<Longrightarrow> climb es seen i = Inr []"
  by (subst climb.simps) (simp add: by_id_None [THEN iffD2])

lemma climb_root [simp]: "wf_entries es \<Longrightarrow> climb es seen [] = Inr []"
  by (rule climb_None) (auto dest: wf_from_id)

lemma climb_append:
  "wf_entries es \<Longrightarrow> ids fs \<inter> ids es = {} \<Longrightarrow> i \<in> ids es \<Longrightarrow>
   climb (es @ fs) seen i = climb es seen i"
proof (induction es seen i rule: climb.induct)
  case (1 es seen i)
  from "1.prems" obtain cur where cur: "by_id es i = Some cur"
    by (cases "by_id es i") (auto simp: by_id_None)
  have mem: "cur \<in> set es" using by_id_SomeD [OF cur] by simp
  have "by_id (es @ fs) i = Some cur"
    using by_id_append [OF "1.prems"(2,3)] cur by simp
  moreover have "parent_id cur \<noteq> [] \<Longrightarrow> parent_id cur \<in> ids es"
    using wf_from_parent [OF "1.prems"(1) mem] by auto
  ultimately show ?case
    using cur "1.IH" [OF cur] "1.prems"
    by (simp add: climb.simps [of "es @ fs"] climb.simps [of es])
qed

lemma climb_snoc:
  assumes wf: "wf_entries (es @ [e])" and fresh: "eid e \<notin> set seen"
  shows "climb (es @ [e]) seen (eid e) =
     bindR (climb es (eid e # seen) (parent_id e)) (\<lambda>p. Inr (p @ [e]))"
proof -
  from wf have es: "wf_entries es" and new: "eid e \<notin> ids es"
    and par: "parent_id e = [] \<or> parent_id e \<in> ids es"
    by (auto simp: wf_from_append)
  have step: "climb (es @ [e]) seen (eid e) =
      (if parent_id e = [] then Inr [e]
       else bindR (climb (es @ [e]) (eid e # seen) (parent_id e)) (\<lambda>p. Inr (p @ [e])))"
    using fresh by (simp add: climb.simps [of "es @ [e]" seen "eid e"] by_id_snoc)
  show ?thesis
  proof (cases "parent_id e = []")
    case True
    then show ?thesis using step es by simp
  next
    case False
    with par have "climb (es @ [e]) (eid e # seen) (parent_id e)
        = climb es (eid e # seen) (parent_id e)"
      using climb_append [OF es, of "[e]"] new by simp
    with step False show ?thesis by simp
  qed
qed

lemma climb_total:
  "wf_entries es \<Longrightarrow> set seen \<inter> ids es = {} \<Longrightarrow>
   climb es seen i = climb es [] i \<and> (\<exists>p. climb es [] i = Inr p)"
proof (induction es arbitrary: seen i rule: rev_induct)
  case Nil
  then show ?case by (simp add: climb_None)
next
  case (snoc e es)
  from snoc.prems(1) have es: "wf_entries es" and new: "eid e \<notin> ids es"
    by (auto simp: wf_from_append)
  from snoc.prems(2) have sep: "set seen \<inter> ids es = {}" and e: "eid e \<notin> set seen" by auto
  consider "i = eid e" | "i \<in> ids es" | "i \<noteq> eid e \<and> i \<notin> ids es" by blast
  then show ?case
  proof cases
    case 1
    have "climb es (eid e # seen) (parent_id e) = climb es [] (parent_id e)"
      and "climb es [eid e] (parent_id e) = climb es [] (parent_id e)"
      and "\<exists>p. climb es [] (parent_id e) = Inr p"
      using snoc.IH [OF es, of "eid e # seen" "parent_id e"]
        snoc.IH [OF es, of "[eid e]" "parent_id e"] sep new by simp_all
    then show ?thesis
      using 1 climb_snoc [OF snoc.prems(1) e] climb_snoc [OF snoc.prems(1), of "[]"] by auto
  next
    case 2
    then show ?thesis
      using climb_append [OF es, of "[e]"] new snoc.IH [OF es sep] by simp
  next
    case 3
    then show ?thesis by (simp add: climb_None)
  qed
qed

text \<open>The path to an entry of a well-formed tree, as a total function.\<close>

definition path_to :: "entry list \<Rightarrow> string \<Rightarrow> entry list" where
  "path_to es i = (case climb es [] i of Inr p \<Rightarrow> p | Inl _ \<Rightarrow> [])"

lemma climb_path_to: "wf_entries es \<Longrightarrow> climb es [] i = Inr (path_to es i)"
  using climb_total [of es "[]" i] by (auto simp: path_to_def)

lemma path_to_root [simp]: "wf_entries es \<Longrightarrow> path_to es [] = []"
  by (simp add: path_to_def)

lemma path_to_snoc:
  assumes "wf_entries (es @ [e])"
  shows "path_to (es @ [e]) (eid e) = path_to es (parent_id e) @ [e]"
proof -
  from assms have es: "wf_entries es" and "eid e \<notin> ids es" by (auto simp: wf_from_append)
  then have "climb es [eid e] (parent_id e) = Inr (path_to es (parent_id e))"
    using climb_total [of es "[eid e]" "parent_id e"] climb_path_to [OF es] by simp
  then show ?thesis
    using climb_snoc [OF assms, of "[]"] climb_path_to [OF assms, of "eid e"] by simp
qed

lemma path_to_old:
  assumes "wf_entries (es @ fs)" and "i = [] \<or> i \<in> ids es"
  shows "path_to (es @ fs) i = path_to es i"
proof -
  from assms(1) have es: "wf_entries es" and "ids fs \<inter> ids es = {}"
    using wf_from_distinct [of "ids es" fs] by (auto simp: wf_from_append)
  with assms show ?thesis
    using climb_append [OF es, of fs i "[]"] by (auto simp: path_to_def)
qed

lemma active_path_eq: "wf_entries es \<Longrightarrow> active_path es = Inr (path_to es (leaf_of es))"
  by (auto simp: active_path_def leaf_of_def climb_path_to)

lemma leaf_of_snoc [simp]: "leaf_of (es @ [e]) = eid e"
  by (simp add: leaf_of_def)

lemma leaf_of_append: "fs \<noteq> [] \<Longrightarrow> leaf_of (es @ fs) = leaf_of fs"
  by (simp add: leaf_of_def)

lemma leaf_of_cases: "leaf_of es = [] \<or> leaf_of es \<in> ids es"
  by (auto simp: leaf_of_def)

lemma path_to_linear:
  "wf_entries (es @ fs) \<Longrightarrow> linear_from i fs \<Longrightarrow> fs \<noteq> [] \<Longrightarrow>
   path_to (es @ fs) (leaf_of fs) = path_to es i @ fs"
proof (induction fs arbitrary: es i)
  case (Cons f fs)
  from Cons.prems have wf1: "wf_entries (es @ [f])" by (auto simp: wf_from_append)
  have step: "path_to (es @ [f]) (eid f) = path_to es i @ [f]"
    using path_to_snoc [OF wf1] Cons.prems(2) by simp
  show ?case
  proof (cases "fs = []")
    case True
    with step show ?thesis by (simp add: leaf_of_def)
  next
    case False
    with Cons.prems Cons.IH [of "es @ [f]" "eid f"] step show ?thesis
      by (simp add: leaf_of_def)
  qed
qed simp

text \<open>The path to an entry that is itself on a path is that path's prefix.\<close>

lemma path_to_prefix:
  "wf_entries es \<Longrightarrow> path_to es i = xs @ a # ys \<Longrightarrow> path_to es (eid a) = xs @ [a]"
proof (induction es arbitrary: i xs a ys rule: rev_induct)
  case Nil
  then show ?case by (simp add: path_to_def climb_None)
next
  case (snoc e es)
  from snoc.prems(1) have es: "wf_entries es" and new: "eid e \<notin> ids es"
    by (auto simp: wf_from_append)
  have old: "path_to es j = xs' @ b # ys' \<Longrightarrow> path_to (es @ [e]) (eid b) = xs' @ [b]"
    for j xs' b ys'
  proof -
    assume p: "path_to es j = xs' @ b # ys'"
    have "path_to es (eid b) = xs' @ [b]" using snoc.IH [OF es p] .
    moreover from this have "eid b \<in> ids es"
      by (metis append_is_Nil_conv climb_None not_Cons_self2 path_to_def sum.case(2))
    ultimately show ?thesis using path_to_old [OF snoc.prems(1), of "eid b"] by simp
  qed
  consider "i = eid e" | "i \<in> ids es" | "i \<noteq> eid e \<and> i \<notin> ids es" by blast
  then show ?case
  proof cases
    case 1
    then have p: "path_to es (parent_id e) @ [e] = xs @ a # ys"
      using path_to_snoc [OF snoc.prems(1)] snoc.prems(2) by simp
    show ?thesis
    proof (cases ys rule: rev_cases)
      case Nil
      with p 1 snoc.prems(2) show ?thesis by simp
    next
      case (snoc zs z)
      with p have "path_to es (parent_id e) = xs @ a # zs" by auto
      then show ?thesis by (rule old)
    qed
  next
    case 2
    with path_to_old [OF snoc.prems(1), of i] snoc.prems(2)
    have "path_to es i = xs @ a # ys" by simp
    then show ?thesis by (rule old)
  next
    case 3
    then have "path_to (es @ [e]) i = []" by (simp add: path_to_def climb_None)
    with snoc.prems(2) show ?thesis by simp
  qed
qed

text \<open>A path is a parent chain from a root to its target, inside the tree.\<close>

lemma path_to_leaf:
  assumes "wf_entries es" and "i \<in> ids es"
  shows "leaf_of (path_to es i) = i"
proof -
  from assms obtain cur where cur: "by_id es i = Some cur" "eid cur = i"
    by (cases "by_id es i") (auto simp: by_id_None dest: by_id_SomeD)
  have "climb es [] i = (if parent_id cur = [] then Inr [cur]
      else bindR (climb es [eid cur] (parent_id cur)) (\<lambda>p. Inr (p @ [cur])))"
    by (subst climb.simps) (simp add: cur)
  with climb_path_to [OF assms(1), of i] have "\<exists>p. Inr (path_to es i) = Inr (p @ [cur])"
    by (cases "climb es [eid cur] (parent_id cur)")
      (auto dest: sym [of _ "path_to es i"] split: if_split_asm)
  then obtain p where "path_to es i = p @ [cur]" by auto
  with cur show ?thesis by simp
qed

lemma linear_from_snoc:
  "linear_from i (es @ [e]) \<longleftrightarrow>
     linear_from i es \<and> parent_id e = (if es = [] then i else leaf_of es)"
  by (induction es arbitrary: i) (auto simp: leaf_of_def)

lemma path_to_chain:
  "wf_entries es \<Longrightarrow> linear_from [] (path_to es i) \<and> set (path_to es i) \<subseteq> set es"
proof (induction es arbitrary: i rule: rev_induct)
  case Nil
  then show ?case by (simp add: path_to_def climb_None)
next
  case (snoc e es)
  from snoc.prems(1) have es: "wf_entries es" and par: "parent_id e = [] \<or> parent_id e \<in> ids es"
    by (auto simp: wf_from_append)
  consider "i = eid e" | "i \<in> ids es" | "i \<noteq> eid e \<and> i \<notin> ids es" by blast
  then show ?case
  proof cases
    case 1
    have "parent_id e = (if path_to es (parent_id e) = [] then []
        else leaf_of (path_to es (parent_id e)))"
      using par path_to_leaf [OF es, of "parent_id e"] path_to_root [OF es]
      by (auto simp: leaf_of_def)
    with 1 path_to_snoc [OF snoc.prems] snoc.IH [OF es, of "parent_id e"] show ?thesis
      by (auto simp: linear_from_snoc)
  next
    case 2
    with path_to_old [OF snoc.prems, of i] snoc.IH [OF es, of i] show ?thesis by auto
  next
    case 3
    then show ?thesis by (simp add: path_to_def climb_None)
  qed
qed

end
