(* ===== verification/ProjectionFacts.thy ===== *)
theory ProjectionFacts
  imports TreeFacts
begin

text \<open>
  What one entry can change of a projection: the messages grow by the entry's
  messages only, the identity of the session never changes, the permission state
  moves only by a permission entry and stays consistent, and the plan moves only by
  a plan artifact.
\<close>

named_theorems apply_frames \<open>fields an entry leaves alone\<close>

lemma info_fields_excluded [simp]:
  "''messages'' \<notin> info_fields v" "''permission_mode'' \<notin> info_fields v"
  "''pre_plan_mode'' \<notin> info_fields v" "''plan_text'' \<notin> info_fields v"
  "''plan_revision'' \<notin> info_fields v"
  by (simp_all add: info_fields_def SESSION_INFO_FIELDS_def V4_SESSION_INFO_FIELDS_def)

lemma apply_session_info_frame [apply_frames]:
  assumes "apply_session_info v p d = Inr q"
    and "k \<notin> info_fields v \<or> k \<in> HEADER_PROJECTION_FIELDS"
  shows "dget q k = dget p k"
proof -
  let ?d = "filter (\<lambda>kv. fst kv \<notin> HEADER_PROJECTION_FIELDS) (as_dict (dget_none d ''set''))"
  from assms(1) have "q = dupdate p ?d" "dkeys (as_dict (dget_none d ''set'')) \<subseteq> info_fields v"
    by (auto simp: apply_session_info_def Let_def split: if_split_asm)
  moreover from this(2) assms(2) have "k \<notin> dkeys ?d" by auto
  ultimately show ?thesis by (simp add: dget_frame_dupdate)
qed

lemma apply_message_frame [apply_frames]:
  "apply_message p d = Inr q \<Longrightarrow> k \<noteq> ''messages'' \<Longrightarrow> dget q k = dget p k"
  by (auto simp: apply_message_def push_messages_def Let_def split: if_split_asm)

lemma apply_tool_exchange_frame [apply_frames]:
  "apply_tool_exchange v p d = Inr q \<Longrightarrow> k \<noteq> ''messages'' \<Longrightarrow> k \<noteq> ''active_plan'' \<Longrightarrow>
   dget q k = dget p k"
  by (auto simp: apply_tool_exchange_def push_messages_def Let_def bindR_Inr_iff
      split: if_split_asm option.split_asm)

lemma apply_plan_artifact_frame [apply_frames]:
  "apply_plan_artifact p d = Inr q \<Longrightarrow> k \<noteq> ''plan_text'' \<Longrightarrow> k \<noteq> ''plan_revision'' \<Longrightarrow>
   dget q k = dget p k"
  by (auto simp: apply_plan_artifact_def split: option.split_asm)

lemma apply_permission_mode_change_frame [apply_frames]:
  "apply_permission_mode_change p d = Inr q \<Longrightarrow> k \<noteq> ''permission_mode'' \<Longrightarrow>
   k \<noteq> ''pre_plan_mode'' \<Longrightarrow> dget q k = dget p k"
  by (auto simp: apply_permission_mode_change_def Let_def bindR_Inr_iff
      split: if_split_asm option.split_asm)

lemma store_checkpoint_frame:
  "store_checkpoint p i c = Inr q \<Longrightarrow> k \<noteq> ''checkpoints'' \<Longrightarrow> dget q k = dget p k"
  by (auto simp: store_checkpoint_def Let_def split: val.split_asm)

lemma apply_task_checkpoint_frame [apply_frames]:
  assumes "apply_task_checkpoint p d = Inr q"
    and "k \<notin> {''checkpoints'', ''working_memory'', ''memory'', ''recently_recalled'',
              ''runtime_identity''}"
  shows "dget q k = dget p k"
proof -
  from assms(1) obtain p' where "store_checkpoint p (as_str (dget_none d ''checkpoint_id''))
      (dget_none d ''checkpoint'') = Inr p'"
    and "dget q k = dget p' k"
    using assms(2) by (auto simp: apply_task_checkpoint_def Let_def bindR_Inr_iff
        split: if_split_asm)
  with assms(2) store_checkpoint_frame show ?thesis by auto
qed

lemma not_header_fields [simp]:
  "''messages'' \<notin> HEADER_PROJECTION_FIELDS" "''active_plan'' \<notin> HEADER_PROJECTION_FIELDS"
  "''plan_text'' \<notin> HEADER_PROJECTION_FIELDS" "''plan_revision'' \<notin> HEADER_PROJECTION_FIELDS"
  "''permission_mode'' \<notin> HEADER_PROJECTION_FIELDS"
  "''pre_plan_mode'' \<notin> HEADER_PROJECTION_FIELDS"
  "''workflow_mode'' \<notin> HEADER_PROJECTION_FIELDS"
  "''checkpoints'' \<notin> HEADER_PROJECTION_FIELDS" "''working_memory'' \<notin> HEADER_PROJECTION_FIELDS"
  "''memory'' \<notin> HEADER_PROJECTION_FIELDS" "''recently_recalled'' \<notin> HEADER_PROJECTION_FIELDS"
  "''runtime_identity'' \<notin> HEADER_PROJECTION_FIELDS"
  by (simp_all add: HEADER_PROJECTION_FIELDS_def)

text \<open>One entry, by kind: an elimination rule for \<open>apply_entry\<close>.\<close>

lemma apply_entry_cases:
  assumes "apply_entry v p e = Inr q"
  obtains (message) "etype e = ''message''" "apply_message p (edata e) = Inr q"
  | (exchange) "etype e = ''tool_exchange''" "apply_tool_exchange v p (edata e) = Inr q"
  | (mode) "etype e = ''permission_mode_change''"
      "apply_permission_mode_change p (edata e) = Inr q"
  | (artifact) "etype e = ''plan_artifact''" "apply_plan_artifact p (edata e) = Inr q"
  | (workflow) m where "etype e = ''workflow_mode_change''" "q = dset p ''workflow_mode'' m"
  | (plan) m where "etype e = ''plan_update''" "q = dset p ''active_plan'' m"
  | (info) "etype e = ''session_info''" "apply_session_info v p (edata e) = Inr q"
  | (checkpoint) "etype e = ''task_checkpoint''" "apply_task_checkpoint p (edata e) = Inr q"
  | (none) "q = p" "etype e \<notin> {''message'', ''tool_exchange'', ''permission_mode_change'',
      ''plan_artifact'', ''session_info'', ''task_checkpoint''}"
proof -
  from assms consider
      "etype e = ''message'' \<and> apply_message p (edata e) = Inr q"
    | "etype e = ''tool_exchange'' \<and> apply_tool_exchange v p (edata e) = Inr q"
    | "etype e = ''permission_mode_change'' \<and> apply_permission_mode_change p (edata e) = Inr q"
    | "etype e = ''plan_artifact'' \<and> apply_plan_artifact p (edata e) = Inr q"
    | "etype e = ''workflow_mode_change'' \<and> (\<exists>m. q = dset p ''workflow_mode'' m)"
    | "etype e = ''plan_update'' \<and> (\<exists>m. q = dset p ''active_plan'' m)"
    | "etype e = ''session_info'' \<and> apply_session_info v p (edata e) = Inr q"
    | "etype e = ''task_checkpoint'' \<and> apply_task_checkpoint p (edata e) = Inr q"
    | "q = p \<and> etype e \<notin> {''message'', ''tool_exchange'', ''permission_mode_change'',
        ''plan_artifact'', ''session_info'', ''task_checkpoint''}"
    unfolding apply_entry_def Let_def bindR_Inr_iff
    by (simp split: if_split_asm) (auto simp: bindR_Inr_iff)
  then show thesis using that by cases auto
qed

subsection \<open>Messages\<close>

lemma apply_message_refs:
  "apply_message p (edata e) = Inr q \<Longrightarrow> etype e = ''message'' \<Longrightarrow>
   proj_messages q = proj_messages p @ entry_message_refs e"
  by (auto simp: apply_message_def push_messages_def proj_messages_def entry_message_refs_def
      Let_def split: if_split_asm)

lemma apply_tool_exchange_refs:
  "apply_tool_exchange v p (edata e) = Inr q \<Longrightarrow> etype e = ''tool_exchange'' \<Longrightarrow>
   proj_messages q = proj_messages p @ entry_message_refs e"
  by (auto simp: apply_tool_exchange_def push_messages_def proj_messages_def
      entry_message_refs_def Let_def bindR_Inr_iff split: if_split_asm option.split_asm)

lemma entry_message_refs_other:
  "etype e \<noteq> ''message'' \<Longrightarrow> etype e \<noteq> ''tool_exchange'' \<Longrightarrow> entry_message_refs e = []"
  by (simp add: entry_message_refs_def)

lemma proj_messages_frame: "dget q ''messages'' = dget p ''messages'' \<Longrightarrow> proj_messages q = proj_messages p"
  by (simp add: proj_messages_def dget_none_def)

lemma apply_entry_messages:
  assumes "apply_entry v p e = Inr q"
  shows "proj_messages q = proj_messages p @ entry_message_refs e"
  using assms
proof (cases rule: apply_entry_cases)
  case message
  then show ?thesis by (blast intro: apply_message_refs)
next
  case exchange
  then show ?thesis by (blast intro: apply_tool_exchange_refs)
next
  case info
  then show ?thesis
    by (simp add: entry_message_refs_other proj_messages_frame [OF apply_session_info_frame [OF info(2)]])
next
  case mode
  then show ?thesis
    by (simp add: entry_message_refs_other
        proj_messages_frame [OF apply_permission_mode_change_frame [OF mode(2)]])
next
  case artifact
  then show ?thesis
    by (simp add: entry_message_refs_other
        proj_messages_frame [OF apply_plan_artifact_frame [OF artifact(2)]])
next
  case checkpoint
  then show ?thesis
    by (simp add: entry_message_refs_other
        proj_messages_frame [OF apply_task_checkpoint_frame [OF checkpoint(2)]])
qed (simp_all add: entry_message_refs_other proj_messages_def)

lemma apply_entries_messages:
  "apply_entries v p es = Inr q \<Longrightarrow>
   proj_messages q = proj_messages p @ concat (map entry_message_refs es)"
  by (induction es arbitrary: p) (auto simp: bindR_Inr_iff dest: apply_entry_messages)

subsection \<open>Identity\<close>

lemma apply_entry_header:
  assumes "apply_entry v p e = Inr q" and k: "k \<in> HEADER_PROJECTION_FIELDS"
  shows "dget q k = dget p k"
proof -
  from k have ne: "k \<noteq> ''messages''" "k \<noteq> ''active_plan''" "k \<noteq> ''plan_text''"
    "k \<noteq> ''plan_revision''" "k \<noteq> ''permission_mode''" "k \<noteq> ''pre_plan_mode''"
    "k \<noteq> ''workflow_mode''" "k \<noteq> ''checkpoints''" "k \<noteq> ''working_memory''"
    "k \<noteq> ''memory''" "k \<noteq> ''recently_recalled''" "k \<noteq> ''runtime_identity''"
    by (metis not_header_fields)+
  from assms(1) show ?thesis
    by (cases rule: apply_entry_cases)
      (simp_all add: ne k apply_message_frame apply_tool_exchange_frame
        apply_permission_mode_change_frame apply_plan_artifact_frame
        apply_task_checkpoint_frame apply_session_info_frame)
qed

lemma apply_entries_header:
  "apply_entries v p es = Inr q \<Longrightarrow> k \<in> HEADER_PROJECTION_FIELDS \<Longrightarrow> dget q k = dget p k"
  by (induction es arbitrary: p) (auto simp: bindR_Inr_iff dest: apply_entry_header)

subsection \<open>Permission state\<close>

definition mode_in :: "dict \<Rightarrow> string \<Rightarrow> bool" where
  "mode_in p s \<longleftrightarrow> dget p ''permission_mode'' = Some (VStr s)"

definition pre_in :: "dict \<Rightarrow> string \<Rightarrow> bool" where
  "pre_in p s \<longleftrightarrow> dget p ''pre_plan_mode'' = Some (VStr s)"

text \<open>
  A consistent permission state: a known mode, and a remembered mode exactly while
  the mode is plan; the remembered mode is never plan itself.
\<close>

definition perm_inv :: "dict \<Rightarrow> bool" where
  "perm_inv p \<longleftrightarrow>
     (\<exists>m. mode_in p (mode_value m)
        \<and> (if m = PLAN then \<exists>r. r \<noteq> PLAN \<and> pre_in p (mode_value r) else pre_in p []))"

lemma perm_frame:
  assumes "apply_entry v p e = Inr q" "etype e \<noteq> ''permission_mode_change''"
  shows "dget q ''permission_mode'' = dget p ''permission_mode''"
    "dget q ''pre_plan_mode'' = dget p ''pre_plan_mode''"
  using assms(1)
  by (cases rule: apply_entry_cases; use assms(2) in \<open>simp add: apply_message_frame
    apply_tool_exchange_frame apply_permission_mode_change_frame apply_plan_artifact_frame
    apply_task_checkpoint_frame apply_session_info_frame\<close>)+

lemma check_permission_mode_changeD:
  assumes "check_permission_mode_change v d = Inr ()" "dget_none d ''pre_mode'' \<noteq> VNone"
  shows "\<exists>r. validate_permission_mode (dget_none d ''pre_mode'') = Inr (mode_value r) \<and> r \<noteq> PLAN
     \<and> validate_permission_mode (dget_none d ''mode'') = Inr (mode_value PLAN)"
proof -
  from assms have "bindR (validate_permission_mode (dget_none d ''mode'')) (\<lambda>mode.
      bindR (validate_permission_mode (dget_none d ''pre_mode'')) (\<lambda>pre_mode.
        require (mode = mode_value PLAN \<and> pre_mode \<noteq> mode)
          (ValueError ''invalid pre-plan permission mode''))) = Inr ()"
    by (simp add: check_permission_mode_change_def as_session_error_def rebrand_Inr_iff Let_def
        split: if_split_asm)
  then obtain s where s: "validate_permission_mode (dget_none d ''mode'') = Inr (mode_value PLAN)"
      "validate_permission_mode (dget_none d ''pre_mode'') = Inr s" "s \<noteq> mode_value PLAN"
    by (simp add: bindR_Inr_iff require_Inr_iff) blast
  from s(2) obtain r where "s = mode_value r" by (simp add: validate_permission_mode_Inr) blast
  with s show ?thesis by auto
qed

lemma apply_permission_mode_change_inv:
  assumes inv: "perm_inv p" and chk: "check_permission_mode_change v d = Inr ()"
    and app: "apply_permission_mode_change p d = Inr q"
  shows "perm_inv q"
proof -
  from inv obtain m where m: "mode_in p (mode_value m)"
    and pre: "if m = PLAN then \<exists>r. r \<noteq> PLAN \<and> pre_in p (mode_value r) else pre_in p []"
    by (auto simp: perm_inv_def)
  from app m obtain n where n: "validate_permission_mode (dget_none d ''mode'') = Inr (mode_value n)"
    by (auto simp: apply_permission_mode_change_def mode_in_def bindR_Inr_iff
        validate_permission_mode_Inr)
  consider (enter) "n = PLAN" "m \<noteq> PLAN" | (leave) "m = PLAN" "n \<noteq> PLAN"
    | (keep) "m = PLAN \<longleftrightarrow> n = PLAN" by blast
  then show ?thesis
  proof cases
    case enter
    with app m n obtain r where
      r: "validate_permission_mode (dget_or d ''pre_mode'' (VStr (mode_value m))) = Inr r"
      and q: "q = dset (dset p ''pre_plan_mode'' (VStr r)) ''permission_mode'' (VStr (mode_value n))"
      by (auto simp: apply_permission_mode_change_def mode_in_def bindR_Inr_iff Let_def
          split: if_split_asm)
    have "\<exists>s. r = mode_value s \<and> s \<noteq> PLAN"
    proof (cases "dget d ''pre_mode''")
      case None
      with r enter show ?thesis by (auto simp: dget_or_def)
    next
      case (Some w)
      show ?thesis
      proof (cases "w = VNone")
        case True
        with Some r show ?thesis by (simp add: dget_or_def validate_permission_mode_Inr)
      next
        case False
        with Some check_permission_mode_changeD [OF chk] r show ?thesis
          by (auto simp: dget_or_def dget_none_def)
      qed
    qed
    with q enter show ?thesis
      unfolding perm_inv_def mode_in_def pre_in_def by (intro exI [of _ PLAN]) auto
  next
    case leave
    with app m n have q: "q = dset (dset p ''pre_plan_mode'' (VStr []))
        ''permission_mode'' (VStr (mode_value n))"
      by (simp add: apply_permission_mode_change_def mode_in_def Let_def)
    with leave show ?thesis
      unfolding perm_inv_def mode_in_def pre_in_def by (intro exI [of _ n]) simp
  next
    case keep
    with app m n have "q = dset p ''permission_mode'' (VStr (mode_value n))"
      by (simp add: apply_permission_mode_change_def mode_in_def Let_def split: if_split_asm)
    with keep pre show ?thesis
      unfolding perm_inv_def mode_in_def pre_in_def by (intro exI [of _ n]) auto
  qed
qed

lemma validate_entry_data_mode:
  "validate_entry_data r v ''permission_mode_change'' d = check_permission_mode_change v d"
  by (simp add: validate_entry_data_def)

lemma apply_entry_perm_inv:
  assumes "perm_inv p" "validate_entry_data r v (etype e) (edata e) = Inr ()"
    and app: "apply_entry v p e = Inr q"
  shows "perm_inv q"
proof (cases "etype e = ''permission_mode_change''")
  case True
  with app have "apply_permission_mode_change p (edata e) = Inr q"
    by (cases rule: apply_entry_cases) auto
  with True assms show ?thesis
    by (auto simp: validate_entry_data_mode intro: apply_permission_mode_change_inv)
next
  case False
  from perm_frame [OF app this] have "perm_inv q = perm_inv p"
    unfolding perm_inv_def mode_in_def pre_in_def by (simp only:)
  with assms(1) show ?thesis by simp
qed

definition entry_data_ok :: "int \<Rightarrow> entry \<Rightarrow> bool" where
  "entry_data_ok v e \<longleftrightarrow> (\<exists>r. validate_entry_data r v (etype e) (edata e) = Inr ())"

lemma apply_entries_perm_inv:
  "apply_entries v p es = Inr q \<Longrightarrow> perm_inv p \<Longrightarrow> list_all (entry_data_ok v) es \<Longrightarrow> perm_inv q"
  by (induction es arbitrary: p)
    (auto simp: bindR_Inr_iff entry_data_ok_def dest: apply_entry_perm_inv)

lemma base_projection_perm_inv: "modern_version (hversion h) \<Longrightarrow> perm_inv (base_projection h)"
  unfolding perm_inv_def
  by (rule exI [of _ DEFAULT]) (simp add: base_projection_def Let_def mode_in_def pre_in_def)

lemma base_projection_messages: "proj_messages (base_projection h) = []"
  by (simp add: base_projection_def Let_def proj_messages_def dget_none_def)

subsection \<open>Plan state\<close>

lemma plan_frame:
  assumes "apply_entry v p e = Inr q" "etype e \<noteq> ''plan_artifact''"
  shows "dget q ''plan_text'' = dget p ''plan_text''"
    "dget q ''plan_revision'' = dget p ''plan_revision''"
  using assms(1)
  by (cases rule: apply_entry_cases; use assms(2) in \<open>simp add: apply_message_frame
    apply_tool_exchange_frame apply_permission_mode_change_frame apply_plan_artifact_frame
    apply_task_checkpoint_frame apply_session_info_frame\<close>)+

end
