(* ===== verification/TreeTheorems.thy ===== *)
theory TreeTheorems
  imports ProjectionFacts
begin

text \<open>
  Parsing and extending session trees: what the row checks establish, and that the
  incremental extension \<open>_extend_tree\<close> computes the tree a fresh parse of the
  extended file gives.
\<close>

subsection \<open>Stored form\<close>

lemma entry_of_entry_val [simp]: "entry_of_val (entry_val e) = e"
  by (simp add: entry_of_val_def entry_val_def mget_def dget_none_def)

lemma header_of_header_val [simp]: "header_of_val (header_val h) = h"
  by (simp add: header_of_val_def header_val_def mget_def dget_none_def)

lemma mget_entry_val [simp]:
  "mget (entry_val e) ''record_type'' = VStr ''session_entry''"
  "mget (entry_val e) ''format_version'' = efmt e"
  "mget (entry_val e) ''id'' = VStr (eid e)"
  "mget (entry_val e) ''parent_id'' = VStr (parent_id e)"
  "mget (entry_val e) ''timestamp'' = VStr (timestamp e)"
  "mget (entry_val e) ''type'' = VStr (etype e)"
  "mget (entry_val e) ''data'' = VDict (edata e)"
  by (simp_all add: entry_val_def mget_def dget_none_def)

lemma entry_val_fields [simp]:
  "is_dict (entry_val e)" "dkeys (as_dict (entry_val e)) = ENTRY_FIELDS"
  by (auto simp: entry_val_def ENTRY_FIELDS_def)

text \<open>What a validated entry is.\<close>

definition entry_ok :: "(val \<Rightarrow> val) option \<Rightarrow> int \<Rightarrow> string set \<Rightarrow> entry \<Rightarrow> bool" where
  "entry_ok redact v known e \<longleftrightarrow>
     py_eq (VInt v) (efmt e) \<and> entry_id_ok (eid e) \<and> eid e \<notin> known
     \<and> (parent_id e = [] \<or> parent_id e \<in> known) \<and> etype e \<in> allowed_types v
     \<and> validate_entry_data redact v (etype e) (edata e) = Inr ()"

lemma validate_entry_val_iff:
  "validate_entry redact v known (entry_val e) = Inr u \<longleftrightarrow> entry_ok redact v known e"
  by (simp add: validate_entry_def entry_ok_def del: py_eq.simps)

lemma validate_entry_row:
  assumes "validate_entry redact v known row = Inr u"
  shows "entry_ok redact v known (entry_of_val row)"
  using assms
  by (auto simp: validate_entry_def entry_ok_def entry_of_val_def simp del: py_eq.simps
      split: if_split_asm)

fun entries_ok :: "(val \<Rightarrow> val) option \<Rightarrow> int \<Rightarrow> string set \<Rightarrow> entry list \<Rightarrow> bool" where
  "entries_ok redact v known [] = True"
| "entries_ok redact v known (e # es) =
     (entry_ok redact v known e \<and> entries_ok redact v (insert (eid e) known) es)"

lemma validate_rows_ok: "validate_rows redact v known rows = Inr es \<Longrightarrow> entries_ok redact v known es"
  by (induction rows arbitrary: known es) (auto simp: bindR_Inr_iff dest: validate_entry_row)

lemma validate_rows_val:
  "validate_rows redact v known (map entry_val es) = Inr fs \<longleftrightarrow>
     fs = es \<and> entries_ok redact v known es"
  by (induction es arbitrary: known fs)
    (auto simp: bindR_Inr_iff validate_entry_val_iff)

lemma entries_ok_append:
  "entries_ok redact v known (es @ fs) \<longleftrightarrow>
     entries_ok redact v known es \<and> entries_ok redact v (known \<union> ids es) fs"
  by (induction es arbitrary: known) auto

lemma entries_ok_wf: "entries_ok redact v known es \<Longrightarrow> wf_from known es"
  by (induction es arbitrary: known) (auto simp: entry_ok_def)

lemma entries_ok_data: "entries_ok redact v known es \<Longrightarrow> list_all (entry_data_ok v) es"
  by (induction es arbitrary: known) (auto simp: entry_ok_def entry_data_ok_def)

text \<open>The plan redactor matters for format 3 only.\<close>

lemma validate_entry_data_redactor:
  "v \<noteq> WORKFLOW_SESSION_FORMAT_VERSION \<Longrightarrow>
   validate_entry_data redact v kind d = validate_entry_data None v kind d"
  by (simp add: validate_entry_data_def)

lemma entries_ok_redactor:
  "v \<noteq> WORKFLOW_SESSION_FORMAT_VERSION \<Longrightarrow> entries_ok redact v known es \<Longrightarrow>
   entries_ok None v known es"
  by (induction es arbitrary: known)
    (auto simp: entry_ok_def validate_entry_data_redactor [of v redact])

subsection \<open>Parsed trees\<close>

definition lines_ok :: "entry list \<Rightarrow> bool" where
  "lines_ok es \<longleftrightarrow> list_all (\<lambda>e. line_bytes (entry_val e) \<le> MAX_SESSION_ENTRY_BYTES) es"

lemma lines_ok_append [simp]: "lines_ok (es @ fs) \<longleftrightarrow> lines_ok es \<and> lines_ok fs"
  by (simp add: lines_ok_def)

text \<open>What parsing establishes of a tree, whatever file it came from.\<close>

definition tree_ok :: "int \<Rightarrow> session_tree \<Rightarrow> bool" where
  "tree_ok v t \<longleftrightarrow>
     hversion (theader t) = v \<and> entries_ok None v {} (tentries t)
     \<and> project_tree (theader t) (tentries t) = Inr (tpath t, tprojection t)
     \<and> testimates t = estimates_of (tentries t)"

lemma long_row_iff:
  "list_ex (\<lambda>r. MAX_SESSION_ENTRY_BYTES < line_bytes r) (map entry_val es) \<longleftrightarrow> \<not> lines_ok es"
  by (induction es) (auto simp: lines_ok_def)

lemma validate_header_val:
  "validate_header s v i row = Inr () \<Longrightarrow>
   hid (header_of_val row) = i \<and> (is_int (mget row ''format_version'') \<longrightarrow> hversion (header_of_val row) = v)"
  by (auto simp: validate_header_def header_of_val_def is_int_iff split: if_split_asm)

lemma validate_rows_append:
  "validate_rows redact v known (rows @ rows') =
     bindR (validate_rows redact v known rows) (\<lambda>es.
     bindR (validate_rows redact v (known \<union> ids es) rows') (\<lambda>fs. Inr (es @ fs)))"
proof (induction rows arbitrary: known)
  case Nil
  show ?case by (cases "validate_rows redact v known rows'") simp_all
next
  case (Cons row rows)
  show ?case
    by (cases "validate_entry redact v known row";
        cases "validate_rows redact v (insert (eid (entry_of_val row)) known) rows")
      (simp_all add: Cons.IH bindR_assoc)
qed

lemma parse_rows_Inr_iff:
  "parse_rows env v i rows = Inr t \<longleftrightarrow>
     (\<exists>hrow erows identity. rows = hrow # erows
        \<and> \<not> list_ex (\<lambda>r. MAX_SESSION_ENTRY_BYTES < line_bytes r) rows
        \<and> validate_header (sha256 env) v i hrow = Inr ()
        \<and> theader t = header_of_val hrow
        \<and> worktree_identity_of env (workspace_root (theader t)) = Inr identity
        \<and> py_eq identity (worktree_identity (theader t))
        \<and> validate_rows None v {} erows = Inr (tentries t)
        \<and> project_tree (theader t) (tentries t) = Inr (tpath t, tprojection t)
        \<and> testimates t = estimates_of (tentries t))"
  by (cases t; cases rows)
    (auto simp: parse_rows_def Let_def bindR_Inr_iff simp del: py_eq.simps split: if_split_asm)

lemma parse_rows_ok:
  assumes "parse_rows env v i rows = Inr t" "is_int (mget (hd rows) ''format_version'')"
  shows "tree_ok v t \<and> hid (theader t) = i"
  using assms by (auto simp: parse_rows_Inr_iff tree_ok_def dest: validate_rows_ok validate_header_val)

subsection \<open>What a parsed tree satisfies\<close>

lemma project_treeD:
  assumes "project_tree h es = Inr (path, p)" "wf_entries es"
  shows "path = path_to es (leaf_of es)"
    and "apply_entries (hversion h) (base_projection h) path = Inr p"
    and "validate_projection (hversion h) (hid h) (VDict p) = Inr ()"
  using assms by (auto simp: project_tree_def bindR_Inr_iff active_path_eq)

lemma tree_okD:
  assumes "tree_ok v t"
  shows "wf_entries (tentries t)" "list_all (entry_data_ok v) (tentries t)"
    "tpath t = path_to (tentries t) (leaf_id t)"
    "apply_entries v (base_projection (theader t)) (tpath t) = Inr (tprojection t)"
    "validate_projection v (hid (theader t)) (VDict (tprojection t)) = Inr ()"
    "hversion (theader t) = v"
proof -
  from assms have ok: "entries_ok None v {} (tentries t)" "hversion (theader t) = v"
    and pr: "project_tree (theader t) (tentries t) = Inr (tpath t, tprojection t)"
    by (auto simp: tree_ok_def)
  show wf: "wf_entries (tentries t)" by (rule entries_ok_wf [OF ok(1)])
  show "list_all (entry_data_ok v) (tentries t)" by (rule entries_ok_data [OF ok(1)])
  show "tpath t = path_to (tentries t) (leaf_id t)"
    "apply_entries v (base_projection (theader t)) (tpath t) = Inr (tprojection t)"
    "validate_projection v (hid (theader t)) (VDict (tprojection t)) = Inr ()"
    using project_treeD [OF pr wf] ok(2) by simp_all
  show "hversion (theader t) = v" by (rule ok(2))
qed

lemma tree_ok_path_entries: "tree_ok v t \<Longrightarrow> set (tpath t) \<subseteq> set (tentries t)"
  using path_to_chain [OF tree_okD(1)] tree_okD(3) by metis

lemma tree_ok_messages:
  assumes "tree_ok v t"
  shows "proj_messages (tprojection t) = concat (map entry_message_refs (tpath t))"
  using apply_entries_messages [OF tree_okD(4) [OF assms]] by (simp add: base_projection_messages)

lemma tree_ok_perm_inv:
  assumes "tree_ok v t" "modern_version v"
  shows "perm_inv (tprojection t)"
proof (rule apply_entries_perm_inv [OF tree_okD(4) [OF assms(1)]])
  show "perm_inv (base_projection (theader t))"
    using assms tree_okD(6) [OF assms(1)] by (simp add: base_projection_perm_inv)
  show "list_all (entry_data_ok v) (tpath t)"
    using tree_okD(2) [OF assms(1)] tree_ok_path_entries [OF assms(1)]
    by (auto simp: list_all_iff)
qed

lemma tree_ok_header:
  assumes "tree_ok v t" "k \<in> HEADER_PROJECTION_FIELDS"
  shows "dget (tprojection t) k = dget (base_projection (theader t)) k"
  by (rule apply_entries_header [OF tree_okD(4) [OF assms(1)] assms(2)])

subsection \<open>Extension\<close>

lemma estimates_of_append: "estimates_of (es @ fs) = add_estimates (estimates_of es) fs"
  by (simp add: estimates_of_def add_estimates_def)

lemma extend_tree_fields:
  assumes "extend_tree t es = Inr t'"
  shows "theader t' = theader t" "tentries t' = tentries t @ es"
    "testimates t' = add_estimates (testimates t) es"
  using assms
  by (auto simp: extend_tree_def bindR_Inr_iff add_estimates_def split: if_split_asm prod.split_asm)

lemma linear_path:
  assumes "wf_entries (es @ fs)" "linear_from (leaf_of es) fs" "fs \<noteq> []"
  shows "path_to (es @ fs) (leaf_of (es @ fs)) = path_to es (leaf_of es) @ fs"
  using path_to_linear [OF assms] assms(3) by (simp add: leaf_of_append)

lemma extend_tree_projects:
  assumes ok: "tree_ok v t" and wf: "wf_entries (tentries t @ es)"
    and ext: "extend_tree t es = Inr t'"
    and val: "validate_projection v (hid (theader t)) (VDict (tprojection t')) = Inr ()"
  shows "project_tree (theader t) (tentries t @ es) = Inr (tpath t', tprojection t')"
proof (cases "es = [] \<or> \<not> linear_from (leaf_id t) es")
  case True
  then show ?thesis
    using ext ok by (auto simp: extend_tree_def bindR_Inr_iff tree_ok_def
      split: prod.split_asm if_split_asm)
next
  case False
  with ext have p: "apply_entries v (tprojection t) es = Inr (tprojection t')"
    and path: "tpath t' = tpath t @ es"
    using tree_okD(6) [OF ok] by (auto simp: extend_tree_def bindR_Inr_iff)
  have "active_path (tentries t @ es) = Inr (tpath t')"
    using linear_path [OF wf] False path tree_okD(3) [OF ok] by (simp add: active_path_eq [OF wf])
  moreover have "apply_entries v (base_projection (theader t)) (tpath t') = Inr (tprojection t')"
    using p tree_okD(4) [OF ok] by (simp add: path apply_entries_append)
  ultimately show ?thesis
    using val tree_okD(6) [OF ok] by (simp add: project_tree_def)
qed

lemma extend_tree_ok:
  assumes ok: "tree_ok v t" and v: "v \<noteq> WORKFLOW_SESSION_FORMAT_VERSION"
    and es: "entries_ok redact v (ids (tentries t)) es"
    and ext: "extend_tree t es = Inr t'"
    and val: "validate_projection v (hid (theader t)) (VDict (tprojection t')) = Inr ()"
  shows "tree_ok v t'"
proof -
  from ok have old: "entries_ok None v {} (tentries t)" by (simp add: tree_ok_def)
  then have new: "entries_ok None v {} (tentries t @ es)"
    using entries_ok_redactor [OF v es] by (simp add: entries_ok_append)
  have "project_tree (theader t) (tentries t @ es) = Inr (tpath t', tprojection t')"
    by (rule extend_tree_projects [OF ok entries_ok_wf [OF new] ext val])
  with new ok show ?thesis
    by (simp add: tree_ok_def extend_tree_fields [OF ext] estimates_of_append)
qed

text \<open>
  Parsing the extended file gives exactly the incrementally extended tree: the
  cached tree never differs from the file.
\<close>

lemma parse_rows_append:
  assumes p: "parse_rows env v i rows = Inr t" and ok: "tree_ok v t"
    and v: "v \<noteq> WORKFLOW_SESSION_FORMAT_VERSION"
    and es: "entries_ok redact v (ids (tentries t)) es" and lines: "lines_ok es"
    and ext: "extend_tree t es = Inr t'"
    and val: "validate_projection v (hid (theader t)) (VDict (tprojection t')) = Inr ()"
  shows "parse_rows env v i (rows @ map entry_val es) = Inr t'"
proof -
  have ok': "tree_ok v t'" by (rule extend_tree_ok [OF ok v es ext val])
  note fields = extend_tree_fields [OF ext]
  from p obtain hrow erows identity where rows: "rows = hrow # erows"
    and long: "\<not> list_ex (\<lambda>r. MAX_SESSION_ENTRY_BYTES < line_bytes r) rows"
    and h: "validate_header (sha256 env) v i hrow = Inr ()" "theader t = header_of_val hrow"
      "worktree_identity_of env (workspace_root (theader t)) = Inr identity"
      "py_eq identity (worktree_identity (theader t))"
    and es0: "validate_rows None v {} erows = Inr (tentries t)"
    unfolding parse_rows_Inr_iff by blast
  have new: "validate_rows None v (ids (tentries t)) (map entry_val es) = Inr es"
    using entries_ok_redactor [OF v es] by (simp add: validate_rows_val)
  show ?thesis
    unfolding parse_rows_Inr_iff
  proof (rule exI [of _ hrow], rule exI [of _ "erows @ map entry_val es"],
      rule exI [of _ identity], intro conjI)
    show "\<not> list_ex (\<lambda>r. MAX_SESSION_ENTRY_BYTES < line_bytes r) (rows @ map entry_val es)"
      using long lines by (simp add: long_row_iff)
    show "validate_rows None v {} (erows @ map entry_val es) = Inr (tentries t')"
      using es0 new by (simp add: validate_rows_append fields)
    show "project_tree (theader t') (tentries t') = Inr (tpath t', tprojection t')"
      "testimates t' = estimates_of (tentries t')"
      using ok' by (simp_all add: tree_ok_def)
  qed (use rows h fields in \<open>simp_all del: py_eq.simps\<close>)
qed

text \<open>Branching off an entry of the active path keeps exactly the path up to it.\<close>

lemma extend_tree_branch:
  assumes ok: "tree_ok v t" and wf: "wf_entries (tentries t @ e # es)"
    and path: "tpath t = xs @ a # ys" and parent: "parent_id e = eid a"
    and lin: "linear_from (eid e) es" and ext: "extend_tree t (e # es) = Inr t'"
    and val: "validate_projection v (hid (theader t)) (VDict (tprojection t')) = Inr ()"
  shows "tpath t' = xs @ a # e # es"
proof -
  let ?old = "tentries t"
  have "project_tree (theader t) (?old @ e # es) = Inr (tpath t', tprojection t')"
    by (rule extend_tree_projects [OF ok wf ext val])
  then have "tpath t' = path_to (?old @ e # es) (leaf_of (?old @ e # es))"
    using wf by (rule project_treeD(1))
  also have "\<dots> = path_to ?old (eid a) @ e # es"
    using path_to_linear [OF wf, of "eid a"] parent lin by (simp add: leaf_of_append)
  also have "path_to ?old (eid a) = xs @ [a]"
    using path_to_prefix [OF tree_okD(1) [OF ok]] path tree_okD(3) [OF ok] by metis
  finally show ?thesis by simp
qed

end
