(* ===== verification/SessionStore.thy ===== *)
theory SessionStore
  imports TreeTheorems JsonParse PyText
begin

text \<open>
  The class \<open>SessionStore\<close> of \<open>pony/state/session_store.py\<close>: reading a session
  through the tree cache, appending entries, and the public operations that guard,
  build and append them.

  A session file is its complete rows (decoded), the unterminated text after the
  last newline, and a signature that every change of the file renews.  Each public
  operation holds the store's file lock from its first read to its last write, so
  it is one step here: a function of the store that returns its result (or the
  error it raised) and the store it leaves, which on an error too holds whatever
  was done before the raise.
\<close>

record sfile =
  frows :: "val list"
  ftail :: string
  fsig :: nat

record store =
  disk :: "string \<Rightarrow> sfile option"
  legacy_ids :: "string set"
  tree_cache :: "string \<Rightarrow> (nat \<times> session_tree) option"

type_synonym 'a op = "store \<Rightarrow> 'a res \<times> store"

definition lift :: "'a res \<Rightarrow> 'a op" where
  "lift r s = (r, s)"

definition bindO :: "'a op \<Rightarrow> ('a \<Rightarrow> 'b op) \<Rightarrow> 'b op" where
  "bindO m f s = (case m s of (Inl e, s') \<Rightarrow> (Inl e, s') | (Inr x, s') \<Rightarrow> f x s')"

definition requireO :: "bool \<Rightarrow> err \<Rightarrow> unit op" where
  "requireO c e = lift (require c e)"

subsection \<open>Reading\<close>

definition file_bytes :: "sfile \<Rightarrow> nat" where
  "file_bytes f = sum_list (map line_bytes (frows f)) + utf8_len (ftail f)"

text \<open>\<open>_jsonl_format_version\<close>: the version in the first line, complete or not.\<close>

definition decode_json :: "string \<Rightarrow> val res" where
  "decode_json raw =
     (case json_loads raw of
        Inr v \<Rightarrow> Inr v
      | Inl Malformed \<Rightarrow> Inl (sferr ''failed to decode session'')
      | Inl DuplicateKey \<Rightarrow> Inl (sferr ''duplicate session key''))"

definition first_line :: "sfile \<Rightarrow> val res" where
  "first_line f = (case frows f of r # _ \<Rightarrow> Inr r | [] \<Rightarrow> decode_json (ftail f))"

definition jsonl_format_version :: "sfile \<Rightarrow> int res" where
  "jsonl_format_version f =
     bindR (first_line f) (\<lambda>header.
       if \<not> is_dict header then Inl (AttributeError ''get'')
       else case mget header ''format_version'' of
              VInt v \<Rightarrow> Inr v
            | _ \<Rightarrow> Inl (sferr ''invalid session header version''))"

definition parse_jsonl :: "env \<Rightarrow> int \<Rightarrow> string \<Rightarrow> sfile \<Rightarrow> session_tree res" where
  "parse_jsonl env version sid f =
     (if frows f = [] \<and> ftail f = [] then Inl (sferr ''empty session tree'')
      else if ftail f \<noteq> [] then Inl (SessionTailRepairRequired sid)
      else parse_rows env version sid (frows f))"

definition older_versions :: "int set" where
  "older_versions = {LEGACY_JSONL_SESSION_FORMAT_VERSION, PREVIOUS_SESSION_FORMAT_VERSION,
     WORKFLOW_SESSION_FORMAT_VERSION}"

definition parse_current :: "env \<Rightarrow> string \<Rightarrow> sfile \<Rightarrow> session_tree res" where
  "parse_current env sid f =
     (if MAX_SESSION_BYTES < file_bytes f then Inl (ValueError ''private file too large'')
      else bindR (jsonl_format_version f) (\<lambda>version.
        if version \<noteq> SESSION_FORMAT_VERSION then
          (if version \<in> older_versions then Inl (SessionMigrationRequired sid)
           else Inl (sferr ''invalid session header version''))
        else parse_jsonl env SESSION_FORMAT_VERSION sid f))"

definition read_tree :: "env \<Rightarrow> string \<Rightarrow> session_tree op" where
  "read_tree env sid s =
     (case disk s sid of
        None \<Rightarrow> (Inl (FileNotFoundError sid), s)
      | Some f \<Rightarrow>
          (case tree_cache s sid of
             Some (sig, t) \<Rightarrow>
               if sig = fsig f then (Inr t, s)
               else (case parse_current env sid f of
                       Inl e \<Rightarrow> (Inl e, s)
                     | Inr t \<Rightarrow> (Inr t, s\<lparr>tree_cache := (tree_cache s)(sid \<mapsto> (fsig f, t))\<rparr>))
           | None \<Rightarrow>
               (case parse_current env sid f of
                  Inl e \<Rightarrow> (Inl e, s)
                | Inr t \<Rightarrow> (Inr t, s\<lparr>tree_cache := (tree_cache s)(sid \<mapsto> (fsig f, t))\<rparr>))))"

definition load_tree :: "env \<Rightarrow> string \<Rightarrow> session_tree op" where
  "load_tree env sid s =
     bindO (lift (session_id (VStr sid))) (\<lambda>sid s.
       if disk s sid = None then
         (if sid \<in> legacy_ids s then (Inl (SessionMigrationRequired sid), s)
          else (Inl (FileNotFoundError sid), s))
       else read_tree env sid s) s"

definition load_projection :: "env \<Rightarrow> string \<Rightarrow> dict op" where
  "load_projection env sid = bindO (load_tree env sid) (\<lambda>t. lift (Inr (tprojection t)))"

subsection \<open>Appending\<close>

definition check_entries :: "(val \<Rightarrow> val) option \<Rightarrow> session_tree \<Rightarrow> entry list \<Rightarrow> err + unit" where
  "check_entries redact t es =
     bindR (validate_rows redact SESSION_FORMAT_VERSION (ids (tentries t)) (map entry_val es))
       (\<lambda>_. Inr ())"

definition append_rows :: "string \<Rightarrow> val list \<Rightarrow> session_tree \<Rightarrow> unit op" where
  "append_rows sid rows t s =
     (case disk s sid of
        None \<Rightarrow> (Inl (ValueError ''private file changed''), s)
      | Some f \<Rightarrow>
          if MAX_SESSION_BYTES < file_bytes f + sum_list (map line_bytes rows)
          then (Inl (ValueError ''private file too large''), s)
          else
            (let f' = f\<lparr>frows := frows f @ rows, fsig := Suc (fsig f)\<rparr>
             in (Inr (), s\<lparr>disk := (disk s)(sid \<mapsto> f'),
                           tree_cache := (tree_cache s)(sid \<mapsto> (fsig f', t))\<rparr>)))"

definition append_entries :: "env \<Rightarrow> string \<Rightarrow> entry list \<Rightarrow> unit op" where
  "append_entries env sid es =
     (if es = [] then lift (Inr ())
      else bindO (read_tree env sid) (\<lambda>t.
        bindO (lift (check_entries (Some (redactor env)) t es)) (\<lambda>_.
        bindO (lift (extend_tree t es)) (\<lambda>extended.
        bindO (lift (validate_projection SESSION_FORMAT_VERSION sid (VDict (tprojection extended)))) (\<lambda>_.
        bindO (lift (each (\<lambda>e. bindR (serialize_line (entry_val e)) (\<lambda>_. Inr ())) es)) (\<lambda>_.
        append_rows sid (map entry_val es) extended))))))"

text \<open>\<open>_carry_provider_binding_across_branch\<close>; \<open>n\<close> stamps are already used.\<close>

definition carry_provider_binding ::
  "stamps \<Rightarrow> nat \<Rightarrow> session_tree \<Rightarrow> entry list \<Rightarrow> entry list res" where
  "carry_provider_binding fresh n t es =
     (let current = dget_none (tprojection t) ''provider_binding''
      in if \<not> is_dict current then Inr es
         else bindR (extend_tree t es) (\<lambda>branched.
           if py_eq (dget_none (tprojection branched) ''provider_binding'') current then Inr es
           else Inr (es @ [new_entry fresh n ''session_info''
                  [(''set'', VDict [(''provider_binding'', current)])] (eid (last es))])))"

subsection \<open>Operations\<close>

text \<open>An expected value that is not given (\<open>None\<close>) is not compared.\<close>

definition expects :: "val option \<Rightarrow> val \<Rightarrow> bool" where
  "expects expected actual \<longleftrightarrow> (case expected of None \<Rightarrow> True | Some e \<Rightarrow> py_eq actual e)"

definition expects_leaf :: "string option \<Rightarrow> session_tree \<Rightarrow> bool" where
  "expects_leaf expected t \<longleftrightarrow> expected = None \<or> expected = Some (leaf_id t)"

definition message_list :: "val \<Rightarrow> val list res" where
  "message_list v = (case v of VList xs \<Rightarrow> Inr xs | _ \<Rightarrow> Inl (TypeError ''messages''))"

definition changed_fields :: "dict \<Rightarrow> dict \<Rightarrow> dict" where
  "changed_fields updates projection =
     filter (\<lambda>kv. \<not> py_eq (snd kv) (dget_none projection (fst kv))) updates"

text \<open>The entries of a batch and, when state changed, a \<open>session_info\<close> entry after them.\<close>

definition leaf_after :: "string \<Rightarrow> entry list \<Rightarrow> string" where
  "leaf_after leaf es = (if es = [] then leaf else leaf_of es)"

definition with_state_change :: "stamps \<Rightarrow> nat \<Rightarrow> string \<Rightarrow> entry list \<Rightarrow> dict \<Rightarrow> entry list" where
  "with_state_change fresh n leaf es changed =
     es @ (if changed = [] then []
           else [new_entry fresh n ''session_info'' [(''set'', VDict changed)] (leaf_after leaf es)])"

text \<open>The part of \<open>append_messages\<close> under the lock; \<open>n\<close> stamps are already used.\<close>

definition append_batch ::
  "env \<Rightarrow> stamps \<Rightarrow> nat \<Rightarrow> string \<Rightarrow> val list \<Rightarrow> dict \<Rightarrow> string option \<Rightarrow> val option \<Rightarrow> string op" where
  "append_batch env fresh n sid safe_messages safe_state expected_leaf expected_binding =
     bindO (read_tree env sid) (\<lambda>t.
     bindO (requireO (expects expected_binding (dget_none (tprojection t) ''provider_binding''))
              (sferr ''model_session_mismatch'')) (\<lambda>_.
     bindO (requireO (expects_leaf expected_leaf t)
              (sferr ''session changed before message append'')) (\<lambda>_.
     bindO (lift (message_entries fresh n safe_messages (leaf_id t))) (\<lambda>entries.
     bindO (lift (check_entries None t entries)) (\<lambda>_.
     let changed = changed_fields safe_state (tprojection t);
         entries = with_state_change fresh (n + length entries) (leaf_id t) entries changed
     in bindO (append_entries env sid entries) (\<lambda>_.
        lift (Inr (leaf_after (leaf_id t) entries))))))))"

definition append_messages ::
  "env \<Rightarrow> stamps \<Rightarrow> string \<Rightarrow> val list \<Rightarrow> dict \<Rightarrow> string option \<Rightarrow> val option \<Rightarrow> string option op" where
  "append_messages env fresh sid messages state_updates expected_leaf expected_binding =
     bindO (lift (session_id (VStr sid))) (\<lambda>sid.
     bindO (lift (rebrand (\<lambda>e. sferr (err_text e)) (validate_messages True (VList messages)))) (\<lambda>_.
     bindO (lift (message_entries fresh 0 messages [])) (\<lambda>raw_entries.
     bindO (lift (validate_rows (Some (redactor env)) SESSION_FORMAT_VERSION {}
                    (map entry_val raw_entries))) (\<lambda>_.
     bindO (lift (message_list (redactor env (VList messages)))) (\<lambda>safe_messages.
     if safe_messages = [] \<and> state_updates = [] \<and> expected_leaf = None \<and> expected_binding = None
     then lift (Inr None)
     else
       let safe_state = redactor env (VDict state_updates) in
       bindO (lift (validate_session_info_updates safe_state)) (\<lambda>_.
       bindO (lift (case expected_binding of
                      Some b \<Rightarrow> if b = VNone then Inr () else validate_provider_binding b
                    | None \<Rightarrow> Inr ())) (\<lambda>_.
       bindO (append_batch env fresh (length raw_entries) sid safe_messages (as_dict safe_state)
                expected_leaf expected_binding) (\<lambda>leaf. lift (Inr (Some leaf))))))))))"

definition set_provider_model ::
  "env \<Rightarrow> stamps \<Rightarrow> string \<Rightarrow> val \<Rightarrow> val \<Rightarrow> string \<Rightarrow> entry option op" where
  "set_provider_model env fresh sid binding expected expected_leaf =
     bindO (lift (session_id (VStr sid))) (\<lambda>sid.
     let candidate = redactor env binding in
     bindO (lift (validate_provider_binding candidate)) (\<lambda>_.
     bindO (lift (validate_provider_binding expected)) (\<lambda>_.
     bindO (read_tree env sid) (\<lambda>t.
     let current = dget_none (tprojection t) ''provider_binding'' in
     bindO (requireO (py_eq current expected \<and> leaf_id t = expected_leaf)
              (sferr ''model_session_mismatch'')) (\<lambda>_.
     bindO (requireO (mget candidate ''protocol_family'' = mget current ''protocol_family''
                \<and> mget candidate ''endpoint_hash'' = mget current ''endpoint_hash'')
              (sferr ''model_session_mismatch'')) (\<lambda>_.
     if py_eq candidate current then lift (Inr None)
     else
       let e = new_entry fresh 0 ''session_info''
                 [(''set'', VDict [(''provider_binding'', candidate)])] (leaf_id t)
       in bindO (append_entries env sid [e]) (\<lambda>_. lift (Inr (Some e)))))))))"

definition control_kinds :: "string set" where
  "control_kinds = ENTRY_TYPES - {''message'', ''tool_exchange'', ''session_info'', ''plan_artifact''}"

definition append_control ::
  "env \<Rightarrow> stamps \<Rightarrow> string \<Rightarrow> string \<Rightarrow> val \<Rightarrow> string option \<Rightarrow> string option \<Rightarrow> entry op" where
  "append_control env fresh sid kind data parent expected_leaf =
     bindO (requireO (kind \<in> control_kinds) (ValueError ''invalid control entry type'')) (\<lambda>_.
     bindO (lift (session_id (VStr sid))) (\<lambda>sid.
     bindO (lift (if kind = ''permission_mode_change'' then
                    bindR (require (is_dict data \<and> dkeys (as_dict data) = {''mode''})
                             (sferr ''invalid permission mode entry data'')) (\<lambda>_.
                    bindR (validate_permission_mode (mget data ''mode'')) (\<lambda>_. Inr ()))
                  else Inr ())) (\<lambda>_.
     bindO (read_tree env sid) (\<lambda>t.
     bindO (requireO (expects_leaf expected_leaf t)
              (sferr ''session changed before control append'')) (\<lambda>_.
     let target = (case parent of None \<Rightarrow> leaf_id t | Some p \<Rightarrow> p) in
     bindO (requireO (target = [] \<or> target \<in> ids (tentries t)) (sferr ''unknown parent entry'')) (\<lambda>_.
     let safe = redactor env data in
     bindO (requireO (is_dict safe) (sferr ''control entry data must be an object'')) (\<lambda>_.
     let e = new_entry fresh 0 kind (as_dict safe) target in
     bindO (lift (check_entries None t [e])) (\<lambda>_.
     bindO (lift (if kind = ''rewind'' then carry_provider_binding fresh 1 t [e] else Inr [e])) (\<lambda>entries.
     bindO (append_entries env sid entries) (\<lambda>_. lift (Inr e)))))))))))"

text \<open>\<open>rules.values()\<close>: drop the tool from every list, then add it to its new one.\<close>

definition rule_remove :: "string \<Rightarrow> dict \<Rightarrow> dict" where
  "rule_remove tool rules = map (\<lambda>(k, v). (k, VList (remove1 (VStr tool) (as_list v)))) rules"

definition rule_update :: "dict \<Rightarrow> string \<times> string \<Rightarrow> dict" where
  "rule_update rules u =
     (let rules = rule_remove (fst u) rules
      in if snd u = ''remove'' then rules
         else dset rules (snd u)
                (VList (as_list (dget_none rules (snd u)) @ [VStr (fst u)])))"

definition rules_sorted :: "dict \<Rightarrow> dict" where
  "rules_sorted rules =
     map (\<lambda>(k, v). (k, VList (map VStr (sort (map as_str (as_list v)))))) rules"

definition update_rules :: "dict \<Rightarrow> (string \<times> string) list \<Rightarrow> dict" where
  "update_rules rules updates = rules_sorted (foldl rule_update rules updates)"

definition rule_behaviors :: "string set" where
  "rule_behaviors = {''allow'', ''ask'', ''deny'', ''remove''}"

definition check_mode_arguments :: "val \<Rightarrow> val \<Rightarrow> (string option \<times> string option) res" where
  "check_mode_arguments mode pre_mode =
     bindR (if mode = VNone then Inr None
            else bindR (validate_permission_mode mode) (\<lambda>m. Inr (Some m))) (\<lambda>m.
     if pre_mode = VNone then Inr (m, None)
     else bindR (validate_permission_mode pre_mode) (\<lambda>p.
       if m \<noteq> Some (mode_value PLAN) \<or> m = Some p
       then Inl (ValueError ''invalid pre-plan permission mode'') else Inr (m, Some p)))"

definition mode_change_data :: "string \<Rightarrow> string option \<Rightarrow> dict" where
  "mode_change_data mode pre =
     (''mode'', VStr mode) # (case pre of None \<Rightarrow> [] | Some p \<Rightarrow> [(''pre_mode'', VStr p)])"

definition mode_entries ::
  "stamps \<Rightarrow> session_tree \<Rightarrow> string option \<Rightarrow> string option \<Rightarrow> entry list" where
  "mode_entries fresh t mode pre_mode =
     (case mode of
        None \<Rightarrow> []
      | Some m \<Rightarrow> if dget_none (tprojection t) ''permission_mode'' = VStr m then []
                  else [new_entry fresh 0 ''permission_mode_change''
                          (mode_change_data m pre_mode) (leaf_id t)])"

definition projected_rules :: "dict \<Rightarrow> dict" where
  "projected_rules p = as_dict (dget_or p ''permission_rules'' empty_rules)"

definition clean_updates :: "(string \<times> string) list \<Rightarrow> (string \<times> string) list" where
  "clean_updates us = map (\<lambda>(tool, behavior). (strip tool, behavior)) us"

definition first_entry :: "entry list \<Rightarrow> entry option" where
  "first_entry es = (case es of [] \<Rightarrow> None | e # _ \<Rightarrow> Some e)"

definition rules_unchanged :: "session_tree \<Rightarrow> val \<Rightarrow> bool" where
  "rules_unchanged t rules \<longleftrightarrow> py_eq rules (dget_none (tprojection t) ''permission_rules'')"

definition rule_entries :: "stamps \<Rightarrow> session_tree \<Rightarrow> entry list \<Rightarrow> val \<Rightarrow> val \<Rightarrow> entry list" where
  "rule_entries fresh t modes rules safe =
     (if rules_unchanged t rules then []
      else [new_entry fresh (length modes) ''session_info''
              [(''set'', VDict [(''permission_rules'', safe)])] (leaf_after (leaf_id t) modes)])"

text \<open>The part of \<open>update_permissions\<close> under the lock.\<close>

definition append_permissions ::
  "env \<Rightarrow> stamps \<Rightarrow> string \<Rightarrow> string option \<Rightarrow> string option \<Rightarrow> (string \<times> string) list
     \<Rightarrow> (entry option \<times> val option) op" where
  "append_permissions env fresh sid mode pre_mode updates =
     bindO (read_tree env sid) (\<lambda>t.
     let modes = mode_entries fresh t mode pre_mode;
         rules = VDict (update_rules (projected_rules (tprojection t)) updates);
         safe = redactor env rules
     in bindO (lift (if rules_unchanged t rules then Inr ()
                     else validate_session_info_updates (VDict [(''permission_rules'', safe)]))) (\<lambda>_.
        bindO (append_entries env sid (modes @ rule_entries fresh t modes rules safe)) (\<lambda>_.
        lift (Inr (first_entry modes, if rules_unchanged t rules then None else Some safe)))))"

definition update_permissions ::
  "env \<Rightarrow> stamps \<Rightarrow> string \<Rightarrow> val \<Rightarrow> val \<Rightarrow> (string \<times> string) list \<Rightarrow> (entry option \<times> val option) op" where
  "update_permissions env fresh sid mode pre_mode rule_updates =
     bindO (lift (session_id (VStr sid))) (\<lambda>sid.
     bindO (lift (check_mode_arguments mode pre_mode)) (\<lambda>modes.
     bindO (requireO (list_all (\<lambda>u. fst u \<noteq> []) (clean_updates rule_updates))
              (ValueError ''permission rule tool is required'')) (\<lambda>_.
     bindO (requireO (list_all (\<lambda>u. snd u \<in> rule_behaviors) (clean_updates rule_updates))
              (ValueError ''invalid permission rule behavior'')) (\<lambda>_.
     append_permissions env fresh sid (fst modes) (snd modes) (clean_updates rule_updates)))))"

definition set_permission_mode ::
  "env \<Rightarrow> stamps \<Rightarrow> string \<Rightarrow> val \<Rightarrow> val \<Rightarrow> entry option op" where
  "set_permission_mode env fresh sid mode pre_mode =
     bindO (update_permissions env fresh sid mode pre_mode []) (\<lambda>r. lift (Inr (fst r)))"

definition set_permission_rules ::
  "env \<Rightarrow> stamps \<Rightarrow> string \<Rightarrow> (string \<times> string) list \<Rightarrow> val option op" where
  "set_permission_rules env fresh sid updates =
     bindO (update_permissions env fresh sid VNone VNone updates) (\<lambda>r. lift (Inr (snd r)))"

definition set_permission_rule ::
  "env \<Rightarrow> stamps \<Rightarrow> string \<Rightarrow> string \<Rightarrow> string \<Rightarrow> val option op" where
  "set_permission_rule env fresh sid tool behavior =
     set_permission_rules env fresh sid [(tool, behavior)]"

text \<open>The plan is compared and replaced under the lock.\<close>

record plan_expectation =
  expected_leaf_id :: "string option"
  expected_plan_text :: "val option"
  expected_revision :: "val option"
  expected_permission_mode :: "val option"

definition plan_unchanged :: "plan_expectation \<Rightarrow> session_tree \<Rightarrow> bool" where
  "plan_unchanged x t \<longleftrightarrow>
     expects_leaf (expected_leaf_id x) t
     \<and> expects (expected_plan_text x) (dget_or (tprojection t) ''plan_text'' (VStr []))
     \<and> expects (expected_revision x) (dget_or (tprojection t) ''plan_revision'' (VInt 0))
     \<and> expects (expected_permission_mode x) (dget_none (tprojection t) ''permission_mode'')"

definition set_plan_text ::
  "env \<Rightarrow> stamps \<Rightarrow> string \<Rightarrow> val \<Rightarrow> plan_expectation \<Rightarrow> entry option op" where
  "set_plan_text env fresh sid text expectation =
     bindO (lift (session_id (VStr sid))) (\<lambda>sid.
     bindO (requireO (is_str text) (ValueError ''plan text must be a string'')) (\<lambda>_.
     bindO (requireO (utf8_len (as_str text) \<le> MAX_PLAN_TEXT_BYTES)
              (ValueError ''plan text exceeds limit'')) (\<lambda>_.
     bindO (read_tree env sid) (\<lambda>t.
     bindO (requireO (plan_unchanged expectation t)
              (PlanApprovalChanged ''plan changed while editing'')) (\<lambda>_.
     if dget_or (tprojection t) ''plan_text'' (VStr []) = text then lift (Inr None)
     else
       let revision = as_int (dget_or (tprojection t) ''plan_revision'' (VInt 0)) + 1;
           safe = redactor env (VDict [(''text'', text), (''revision'', VInt revision)])
       in bindO (requireO (is_dict safe) (sferr ''invalid session entry data'')) (\<lambda>_.
          let e = new_entry fresh 0 ''plan_artifact'' (as_dict safe) (leaf_id t)
          in bindO (append_entries env sid [e]) (\<lambda>_. lift (Inr (Some e)))))))))"

definition exit_plan_mode ::
  "env \<Rightarrow> stamps \<Rightarrow> string \<Rightarrow> val \<Rightarrow> val \<Rightarrow> string \<Rightarrow> entry op" where
  "exit_plan_mode env fresh sid plan_text plan_revision expected_leaf =
     bindO (lift (session_id (VStr sid))) (\<lambda>sid.
     bindO (read_tree env sid) (\<lambda>t.
     let p = tprojection t in
     bindO (requireO (leaf_id t = expected_leaf
                \<and> dget_none p ''permission_mode'' = VStr (mode_value PLAN)
                \<and> py_eq (dget_or p ''plan_text'' (VStr [])) plan_text
                \<and> py_eq (dget_or p ''plan_revision'' (VInt 0)) plan_revision)
              (PlanApprovalChanged ''plan changed during approval'')) (\<lambda>_.
     bindO (lift (validate_permission_mode
              (py_or (dget_none p ''pre_plan_mode'') (VStr (mode_value AUTO))))) (\<lambda>target.
     let e = new_entry fresh 0 ''permission_mode_change'' (mode_change_data target None) (leaf_id t)
     in bindO (append_entries env sid [e]) (\<lambda>_. lift (Inr e))))))"

definition append_task_checkpoint ::
  "env \<Rightarrow> stamps \<Rightarrow> string \<Rightarrow> dict \<Rightarrow> string option \<Rightarrow> entry op" where
  "append_task_checkpoint env fresh sid checkpoint parent =
     (let checkpoint_id = str_or_empty (dget_or checkpoint ''checkpoint_id'' (VStr []))
      in bindO (requireO (checkpoint_id \<noteq> []) (ValueError ''task checkpoint id is required'')) (\<lambda>_.
         append_control env fresh sid ''task_checkpoint''
           (VDict [(''checkpoint_id'', VStr checkpoint_id), (''checkpoint'', VDict checkpoint)])
           parent None))"

definition rewind_data :: "string \<Rightarrow> string \<Rightarrow> string \<Rightarrow> dict" where
  "rewind_data entry_id summary checkpoint_id =
     [(''target_entry_id'', VStr entry_id), (''summary'', VStr summary),
      (''target_checkpoint_id'', VStr checkpoint_id)]"

definition rewind ::
  "env \<Rightarrow> stamps \<Rightarrow> string \<Rightarrow> string \<Rightarrow> string \<Rightarrow> string \<Rightarrow> string option \<Rightarrow> entry op" where
  "rewind env fresh sid entry_id summary checkpoint_id expected_leaf =
     append_control env fresh sid ''rewind'' (VDict (rewind_data entry_id summary checkpoint_id))
       (Some entry_id) expected_leaf"

definition rewind_with_summary ::
  "env \<Rightarrow> stamps \<Rightarrow> string \<Rightarrow> string \<Rightarrow> val \<Rightarrow> string \<Rightarrow> string \<Rightarrow> (entry \<times> entry) op" where
  "rewind_with_summary env fresh sid entry_id summary_data checkpoint_id expected_leaf =
     bindO (lift (session_id (VStr sid))) (\<lambda>sid.
     bindO (requireO (is_dict summary_data) (sferr ''branch summary data must be an object'')) (\<lambda>_.
     let summary = str_or_empty (dget_or (as_dict summary_data) ''summary'' (VStr []));
         safe_rewind = redactor env (VDict (rewind_data entry_id summary checkpoint_id));
         safe_summary = redactor env summary_data in
     bindO (requireO (is_dict safe_summary) (sferr ''branch summary data must be an object'')) (\<lambda>_.
     bindO (read_tree env sid) (\<lambda>t.
     bindO (requireO (leaf_id t = expected_leaf) (sferr ''session changed before rewind'')) (\<lambda>_.
     bindO (requireO (entry_id \<in> ids (tentries t)) (sferr ''unknown parent entry'')) (\<lambda>_.
     bindO (requireO (is_dict safe_rewind) (sferr ''invalid session entry data'')) (\<lambda>_.
     let r = new_entry fresh 0 ''rewind'' (as_dict safe_rewind) entry_id;
         b = new_entry fresh 1 ''branch_summary'' (as_dict safe_summary) (eid r) in
     bindO (lift (check_entries None t [r, b])) (\<lambda>_.
     bindO (lift (carry_provider_binding fresh 2 t [r, b])) (\<lambda>entries.
     bindO (append_entries env sid entries) (\<lambda>_. lift (Inr (r, b))))))))))))"

definition fork :: "env \<Rightarrow> stamps \<Rightarrow> string \<Rightarrow> string \<Rightarrow> string option \<Rightarrow> entry op" where
  "fork env fresh sid entry_id expected_leaf =
     append_control env fresh sid ''rewind''
       (VDict [(''target_entry_id'', VStr entry_id), (''reason'', VStr ''fork'')])
       (Some entry_id) expected_leaf"

definition label :: "env \<Rightarrow> stamps \<Rightarrow> string \<Rightarrow> string \<Rightarrow> string option \<Rightarrow> entry op" where
  "label env fresh sid text entry_id =
     append_control env fresh sid ''label'' (VDict [(''label'', VStr text)]) entry_id None"

text \<open>\<open>repair_tail\<close>: cut the file back to its last complete row.\<close>

definition repair_tail :: "env \<Rightarrow> string \<Rightarrow> bool op" where
  "repair_tail env sid =
     bindO (lift (session_id (VStr sid))) (\<lambda>sid s.
       case disk s sid of
         None \<Rightarrow> (Inl (FileNotFoundError sid), s)
       | Some f \<Rightarrow>
           if MAX_SESSION_BYTES < file_bytes f then (Inl (ValueError ''private file too large''), s)
           else bindO (lift (jsonl_format_version f)) (\<lambda>version.
             if version \<in> older_versions then lift (Inl (SessionMigrationRequired sid))
             else if ftail f = [] then lift (Inr False)
             else if frows f = [] then lift (Inl (sferr ''session has no valid JSONL prefix''))
             else bindO (lift (jsonl_format_version (f\<lparr>ftail := []\<rparr>))) (\<lambda>version.
               if version \<notin> insert SESSION_FORMAT_VERSION older_versions
               then lift (Inl (sferr ''invalid session header version''))
               else bindO (lift (parse_jsonl env version sid (f\<lparr>ftail := []\<rparr>))) (\<lambda>_ s.
                 (Inr True, s\<lparr>disk := (disk s)(sid \<mapsto> f\<lparr>ftail := [], fsig := Suc (fsig f)\<rparr>),
                              tree_cache := (tree_cache s)(sid := None)\<rparr>)))) s)"

end
