(* ===== verification/AgentState.thy ===== *)
theory AgentState
  imports WorkingMemory TaskState Compaction
begin

text \<open>
  The state one turn of the agent works on (\<open>pony/agent/loop.py\<close>), the exceptions it
  meets, and the accounting the loop keeps: usage totals, the model execution report
  and the one-correction rule for rejected tool calls.

  The state is in two parts.  The \<open>agent_part\<close> is what the loop shares with the rest of
  the runtime: the session store, the session dictionary in memory, the working memory
  and the world outside.  The loop's own part (task state, usage, execution report,
  session guard, write block) is written by nothing else.
\<close>

named_theorems act_simps \<open>unfolding of agent actions\<close>

subsection \<open>Exceptions\<close>

text \<open>
  \<open>Raised\<close> holds the exceptions of the session store and of compaction.  A provider
  transport error has its code, its text and whether it may be retried; any other
  exception its class name, its text and its \<open>committed\<close> attribute.
\<close>

datatype exn =
    Raised err
  | SessionCommitError exn
  | ContextBudgetExceeded string
  | ProviderTransportError string string bool
  | RuntimeError string
  | OSError string
  | OtherError string string bool
  | KeyboardInterrupt

fun committed :: "exn \<Rightarrow> bool" where
  "committed (SessionCommitError cause) = committed cause"
| "committed (OtherError _ _ c) = c"
| "committed _ = False"

fun is_session_format_error :: "exn \<Rightarrow> bool" where
  "is_session_format_error (Raised e) =
     (case e of SessionFormatError _ \<Rightarrow> True | PlanApprovalChanged _ \<Rightarrow> True
      | SessionMigrationRequired _ \<Rightarrow> True | SessionTailRepairRequired _ \<Rightarrow> True
      | UnsupportedLegacyEntry _ \<Rightarrow> True | _ \<Rightarrow> False)"
| "is_session_format_error _ = False"

fun is_os_error :: "exn \<Rightarrow> bool" where
  "is_os_error (Raised e) = (case e of FileNotFoundError _ \<Rightarrow> True | _ \<Rightarrow> False)"
| "is_os_error (OSError _) = True"
| "is_os_error _ = False"

fun is_commit_error :: "exn \<Rightarrow> bool" where
  "is_commit_error (SessionCommitError _) = True" | "is_commit_error _ = False"

fun cause_of :: "exn \<Rightarrow> exn" where
  "cause_of (SessionCommitError cause) = cause" | "cause_of e = e"

definition exn_text :: "exn \<Rightarrow> string" where
  "exn_text e = (case e of Raised r \<Rightarrow> err_text r | ContextBudgetExceeded t \<Rightarrow> t
     | ProviderTransportError _ t _ \<Rightarrow> t | RuntimeError t \<Rightarrow> t | OSError t \<Rightarrow> t
     | OtherError _ t _ \<Rightarrow> t | _ \<Rightarrow> [])"

definition lower_case :: "string \<Rightarrow> string" where
  "lower_case s = map (\<lambda>c. if is_upper c then char_of (py_ord c + 32) else c) s"

definition contains_text :: "string \<Rightarrow> string \<Rightarrow> bool" where
  "contains_text s part \<longleftrightarrow> (\<exists>k \<in> set [0..<length s + 1]. take (length part) (drop k s) = part)"

definition is_context_length_error :: "exn \<Rightarrow> bool" where
  "is_context_length_error e \<longleftrightarrow>
     (case e of ProviderTransportError code _ _ \<Rightarrow>
        lower_case code \<in> {''context_length_exceeded'', ''context_window_exceeded'', ''context_too_long''}
      | _ \<Rightarrow> False)
     \<or> list_ex (contains_text (lower_case (exn_text e)))
         [''context_length_exceeded'', ''maximum context length'', ''context window exceeded'',
          ''prompt too long'']"

subsection \<open>The agent's state\<close>

record 'w agent_part =
  ap_store :: store
  ap_session :: dict
  ap_memory :: working_memory
  ap_resume :: dict
  ap_turn :: "string option"
  ap_skill :: "string option"
  ap_request_metadata :: dict
  ap_tool_metadata :: dict
  ap_anchor :: "(string \<times> string list) option"
  ap_accounting :: accounting
  ap_clock :: nat
  ap_world :: 'w

record session_guard =
  guard_leaf :: string
  guard_binding :: val

record usage_totals =
  us_sum :: "string \<Rightarrow> int"
  us_cache_hit :: bool

text \<open>A counter dictionary is its value at each key, 0 where it has none.\<close>

record tool_report =
  tr_calls :: int
  tr_allowed :: int
  tr_denied :: int
  tr_names :: "string \<Rightarrow> int"
  tr_statuses :: "string \<Rightarrow> int"
  tr_changed_paths :: "string list"
  tr_partial :: int

record model_execution =
  me_attempts :: int
  me_turns :: int
  me_failures :: int
  me_retries :: int
  me_origins :: "string \<Rightarrow> int"
  me_transport_attempts :: int
  me_transport_retries :: int
  me_evidence_complete :: bool
  me_failure_reasons :: "string \<Rightarrow> int"
  me_tools :: tool_report

record 'w loop =
  lp_agent :: "'w agent_part"
  lp_task :: task_state
  lp_usage :: usage_totals
  lp_exec :: model_execution
  lp_guard :: session_guard
  lp_blocked :: "exn option"
  lp_errors :: "exn list"

text \<open>An action returns a value or raises, and leaves a state in either case.\<close>

type_synonym ('s, 'a) act = "'s \<Rightarrow> (exn + 'a) \<times> 's"

definition ret :: "'a \<Rightarrow> ('s, 'a) act" where
  "ret x s = (Inr x, s)"

definition raise :: "exn \<Rightarrow> ('s, 'a) act" where
  "raise e s = (Inl e, s)"

definition bindA :: "('s, 'a) act \<Rightarrow> ('a \<Rightarrow> ('s, 'b) act) \<Rightarrow> ('s, 'b) act" where
  "bindA m f s = (case m s of (Inl e, s') \<Rightarrow> (Inl e, s') | (Inr x, s') \<Rightarrow> f x s')"

definition read :: "('s \<Rightarrow> 'a) \<Rightarrow> ('s, 'a) act" where
  "read f s = (Inr (f s), s)"

definition modify :: "('s \<Rightarrow> 's) \<Rightarrow> ('s, unit) act" where
  "modify f s = (Inr (), f s)"

definition attempt :: "('s, 'a) act \<Rightarrow> ('s, exn + 'a) act" where
  "attempt m s = (case m s of (r, s') \<Rightarrow> (Inr r, s'))"

definition whenA :: "bool \<Rightarrow> ('s, unit) act \<Rightarrow> ('s, unit) act" where
  "whenA c m = (if c then m else ret ())"

text \<open>Work on the shared part, on the store alone, and on the shared session.\<close>

definition on_agent :: "('w agent_part, 'a) act \<Rightarrow> ('w loop, 'a) act" where
  "on_agent m l = (case m (lp_agent l) of (r, a) \<Rightarrow> (r, l\<lparr>lp_agent := a\<rparr>))"

definition on_store :: "'a op \<Rightarrow> ('w loop, 'a) act" where
  "on_store m = on_agent (\<lambda>a. case m (ap_store a) of
     (Inl e, s) \<Rightarrow> (Inl (Raised e), a\<lparr>ap_store := s\<rparr>)
   | (Inr x, s) \<Rightarrow> (Inr x, a\<lparr>ap_store := s\<rparr>))"

definition on_session :: "(dict \<Rightarrow> dict) \<Rightarrow> ('w loop, unit) act" where
  "on_session f = on_agent (modify (\<lambda>a. a\<lparr>ap_session := f (ap_session a)\<rparr>))"

definition on_task :: "(task_state \<Rightarrow> task_state) \<Rightarrow> ('w loop, unit) act" where
  "on_task f = modify (\<lambda>l. l\<lparr>lp_task := f (lp_task l)\<rparr>)"

definition on_exec :: "(model_execution \<Rightarrow> model_execution) \<Rightarrow> ('w loop, unit) act" where
  "on_exec f = modify (\<lambda>l. l\<lparr>lp_exec := f (lp_exec l)\<rparr>)"

definition the_agent :: "('w loop, 'w agent_part) act" where
  "the_agent = read lp_agent"

text \<open>The number of the next effect, which names its time stamps and random ids.\<close>

definition tick :: "('w loop, nat) act" where
  "tick = on_agent (\<lambda>a. (Inr (ap_clock a), a\<lparr>ap_clock := Suc (ap_clock a)\<rparr>))"

text \<open>\<open>d[k]\<close>.\<close>

definition item :: "dict \<Rightarrow> string \<Rightarrow> ('s, val) act" where
  "item d k = (case dget d k of None \<Rightarrow> raise (Raised (KeyError k)) | Some v \<Rightarrow> ret v)"

subsection \<open>Accounting\<close>

definition bump :: "string \<Rightarrow> (string \<Rightarrow> int) \<Rightarrow> string \<Rightarrow> int" where
  "bump k c = c(k := c k + 1)"

definition usage_sum_keys :: "string list" where
  "usage_sum_keys = [''input_tokens'', ''output_tokens'', ''total_tokens'', ''cached_tokens'',
     ''cache_creation_input_tokens'', ''cache_read_input_tokens'']"

definition attempt_origins :: "string list" where
  "attempt_origins = [''initial'', ''tool_followup'', ''retry_action'', ''model_retry'']"

definition empty_usage_totals :: usage_totals where
  "empty_usage_totals = \<lparr>us_sum = (\<lambda>_. 0), us_cache_hit = False\<rparr>"

definition empty_model_execution :: model_execution where
  "empty_model_execution =
     \<lparr>me_attempts = 0, me_turns = 0, me_failures = 0, me_retries = 0, me_origins = (\<lambda>_. 0),
      me_transport_attempts = 0, me_transport_retries = 0, me_evidence_complete = True,
      me_failure_reasons = (\<lambda>_. 0),
      me_tools = \<lparr>tr_calls = 0, tr_allowed = 0, tr_denied = 0, tr_names = (\<lambda>_. 0),
        tr_statuses = (\<lambda>_. 0), tr_changed_paths = [], tr_partial = 0\<rparr>\<rparr>"

definition add_usage :: "usage_totals \<Rightarrow> dict \<Rightarrow> usage_totals" where
  "add_usage totals usage =
     (let added = foldl (\<lambda>c k. case dget_none usage k of VInt i \<Rightarrow> c(k := c k + i) | _ \<Rightarrow> c)
                   (us_sum totals) usage_sum_keys;
          input = dget_none usage ''input_tokens'';
          output = dget_none usage ''output_tokens'';
          added = (if \<not> is_int (dget_none usage ''total_tokens'') \<and> is_int input \<and> is_int output
                  then added(''total_tokens'' := added ''total_tokens'' + (as_int input + as_int output))
                  else added)
      in \<lparr>us_sum = added, us_cache_hit = us_cache_hit totals \<or> truthy (dget_none usage ''cache_hit'')\<rparr>)"

text \<open>\<open>_transport_evidence\<close> of the client's \<open>last_transport_attempts\<close> (\<open>None\<close> when absent).\<close>

definition transport_evidence :: "val \<Rightarrow> (int \<times> int) option" where
  "transport_evidence tried =
     (case tried of VInt n \<Rightarrow> if n < 0 then None else Some (n, max 0 (n - 1)) | _ \<Rightarrow> None)"

definition record_transport :: "val \<Rightarrow> model_execution \<Rightarrow> model_execution" where
  "record_transport tried x =
     (case transport_evidence tried of
        None \<Rightarrow> x\<lparr>me_evidence_complete := False\<rparr>
      | Some (n, r) \<Rightarrow> x\<lparr>me_transport_attempts := me_transport_attempts x + n,
                         me_transport_retries := me_transport_retries x + r\<rparr>)"

definition failure_reason :: "string \<Rightarrow> exn \<Rightarrow> string" where
  "failure_reason phase e =
     (case e of ProviderTransportError code _ _ \<Rightarrow> code
      | _ \<Rightarrow> if phase = ''response_processing'' then ''response_processing'' else ''provider_error'')"

definition count_failure :: "string \<Rightarrow> val \<Rightarrow> model_execution \<Rightarrow> model_execution" where
  "count_failure reason tried x =
     (let x = record_transport tried x
      in x\<lparr>me_failures := me_failures x + 1, me_failure_reasons := bump reason (me_failure_reasons x)\<rparr>)"

definition count_model_request :: "string \<Rightarrow> bool \<Rightarrow> model_execution \<Rightarrow> model_execution" where
  "count_model_request origin retried x =
     x\<lparr>me_attempts := me_attempts x + 1, me_origins := bump origin (me_origins x),
       me_retries := me_retries x + (if retried then 1 else 0)\<rparr>"

definition count_tool :: "string \<Rightarrow> string \<Rightarrow> val \<Rightarrow> tool_report \<Rightarrow> tool_report" where
  "count_tool name tool_status affected r =
     r\<lparr>tr_calls := tr_calls r + 1,
       tr_allowed := tr_allowed r + (if tool_status \<noteq> ''rejected'' then 1 else 0),
       tr_denied := tr_denied r + (if tool_status = ''rejected'' then 1 else 0),
       tr_names := bump name (tr_names r), tr_statuses := bump tool_status (tr_statuses r),
       tr_changed_paths := foldl (\<lambda>ps v. case v of VStr p \<Rightarrow> if p \<in> set ps then ps else ps @ [p] | _ \<Rightarrow> ps)
         (tr_changed_paths r) (as_list affected),
       tr_partial := tr_partial r + (if tool_status = ''partial_success'' then 1 else 0)\<rparr>"

definition record_tool_report :: "string \<Rightarrow> dict \<Rightarrow> ('w loop, unit) act" where
  "record_tool_report name metadata =
     bindA (item metadata ''tool_status'') (\<lambda>tool_status.
     on_exec (\<lambda>x. x\<lparr>me_tools := count_tool name (py_str tool_status)
       (dget_or metadata ''affected_paths'' (VList [])) (me_tools x)\<rparr>))"

subsection \<open>One correction per rejected tool and category\<close>

definition rejection_notice :: "string \<Rightarrow> string option" where
  "rejection_notice code =
     (if code = ''invalid_arguments'' then Some
        (''Runtime notice: the preceding tool call was rejected before it ran because ''
         @ ''its arguments did not satisfy the visible tool schema. Do not repeat that ''
         @ ''call. Return exactly one valid tool call using the supplied schema, or a ''
         @ ''non-empty final answer.'')
      else if code = ''workspace_entry_unsafe'' then Some
        (''Runtime notice: the preceding tool call was rejected because its workspace ''
         @ ''entry is unsafe. Do not retry that path. Choose a safe workspace entry from ''
         @ ''the current context or visible tools, make exactly one valid tool call, or ''
         @ ''return a non-empty final answer.'')
      else None)"

definition REJECTION_CORRECTION_LIMIT_TEXT :: string where
  "REJECTION_CORRECTION_LIMIT_TEXT =
     ''Stopped after the same tool/rejection category remained after one correction. ''
     @ ''Use a valid different tool call or return a final answer in a new turn.''"

definition rejection_correction :: "dict \<Rightarrow> (string \<times> string) option" where
  "rejection_correction metadata =
     (if dget_none metadata ''tool_status'' \<noteq> VStr ''rejected'' then None
      else
        let code = str_or_empty (dget_or metadata ''tool_error_code'' (VStr []))
        in case rejection_notice code of None \<Rightarrow> None | Some notice \<Rightarrow> Some (code, notice))"

definition advance_rejection_correction ::
  "string \<Rightarrow> dict \<Rightarrow> (string \<times> string) list \<Rightarrow> string \<times> string option \<times> (string \<times> string) list" where
  "advance_rejection_correction name metadata seen =
     (case rejection_correction metadata of
        None \<Rightarrow> ([], None, seen)
      | Some (code, notice) \<Rightarrow>
          if (name, code) \<notin> set seen then (notice, None, (name, code) # seen)
          else ([], Some REJECTION_CORRECTION_LIMIT_TEXT, seen))"

end
