(* ===== verification/AgentSession.thy ===== *)
theory AgentSession
  imports AgentState
begin

text \<open>
  What the agent loop needs from its surroundings, and how it reads and writes the
  session: the guard that ties every model request to one stored leaf and provider
  binding, and the commit of messages (\<open>pony/agent/loop.py\<close>).

  \<open>services\<close> collects the runtime the loop calls: the operating system (time stamps,
  random ids, run files), the provider client, and the components that have theories of
  their own or none (context manager, tool executor, checkpoint, report).  A service
  that works for the agent is an action on the shared part of the state.  The n-th
  effect gets its stamps and faults by the number n.  A fault is an error of the file
  system during an append, with whether the rows had landed.
\<close>

record request =
  rq_system :: val
  rq_tools :: val
  rq_messages :: val
  rq_breakpoints :: val

text \<open>A model call: its outcome and what the streaming preview recorded.\<close>

record model_call =
  mc_outcome :: "exn + response"
  mc_streaming :: dict

record tool_result =
  tl_content :: string
  tl_metadata :: dict

text \<open>What a compaction reports of one of its model calls.\<close>

record call_report =
  rp_kind :: string
  rp_outcome :: string
  rp_usage :: "dict option"
  rp_error :: exn
  rp_retry :: bool
  rp_transport :: val

record 'w services =
  sv_env :: env
  sv_session_id :: string
  sv_client_binding :: val
  sv_canon :: "string \<Rightarrow> string"
  sv_max_steps :: int
  sv_stamps :: "nat \<Rightarrow> stamps"
  sv_now :: "nat \<Rightarrow> string"
  sv_hex :: "nat \<Rightarrow> string"
  sv_fault :: "nat \<Rightarrow> (bool \<times> exn) option"
  sv_redact_text :: "string \<Rightarrow> string"
  sv_terminal_text :: "string \<Rightarrow> string"
  sv_contains_secret :: "string \<Rightarrow> bool"
  sv_request_id :: "val \<Rightarrow> string"
  sv_tool_effect :: "string \<Rightarrow> string option"
  sv_shell_policy :: "val \<Rightarrow> dict \<Rightarrow> dict"
  sv_project_view :: "val \<Rightarrow> dict"
  sv_inline_tokens :: int
  sv_preview_result :: "string \<Rightarrow> string \<Rightarrow> string option \<Rightarrow> string"
  sv_visible_tools :: "string \<Rightarrow> int"
  sv_stream :: bool
  sv_compaction_enabled :: bool
  sv_budget :: model_budget
  sv_skip_turns :: int
  sv_compactor :: "nat \<Rightarrow> Compaction.agent"
  sv_reports :: "nat \<Rightarrow> call_report list"
  sv_start_run :: "task_state \<Rightarrow> ('w, unit) act"
  sv_trace :: "string \<Rightarrow> task_state \<Rightarrow> ('w, unit) act"
  sv_write_task :: "task_state \<Rightarrow> ('w, unit) act"
  sv_write_result :: "string \<Rightarrow> string \<Rightarrow> ('w, unit) act"
  sv_write_report :: "task_state \<Rightarrow> dict \<Rightarrow> ('w, unit) act"
  sv_transport :: "'w \<Rightarrow> val"
  sv_provider_metadata :: "'w \<Rightarrow> val"
  sv_resolution :: "('w agent_part, bool) act"
  sv_preflight :: "string \<Rightarrow> ('w agent_part, dict) act"
  sv_inject :: "string \<Rightarrow> ('w agent_part, val \<times> dict) act"
  sv_build :: "val \<Rightarrow> dict \<Rightarrow> dict \<Rightarrow> string \<Rightarrow> ('w agent_part, request \<times> dict) act"
  sv_complete :: "request \<Rightarrow> 'w agent_part \<Rightarrow> model_call \<times> 'w agent_part"
  sv_execute :: "string \<Rightarrow> dict \<Rightarrow> ('w agent_part, tool_result) act"
  sv_checkpoint :: "task_state \<Rightarrow> string \<Rightarrow> string \<Rightarrow> string list \<Rightarrow> ('w agent_part, string) act"
  sv_report :: "task_state \<Rightarrow> usage_totals \<Rightarrow> model_execution \<Rightarrow> ('w agent_part, dict) act"

subsection \<open>The world and the run files\<close>

definition on_world :: "('w, 'a) act \<Rightarrow> ('w loop, 'a) act" where
  "on_world m = on_agent (\<lambda>a. case m (ap_world a) of (r, w) \<Rightarrow> (r, a\<lparr>ap_world := w\<rparr>))"

definition emit_trace :: "'w services \<Rightarrow> string \<Rightarrow> ('w loop, unit) act" where
  "emit_trace sv event = bindA (read lp_task) (\<lambda>t. on_world (sv_trace sv event t))"

definition write_task_state :: "'w services \<Rightarrow> ('w loop, unit) act" where
  "write_task_state sv = bindA (read lp_task) (\<lambda>t. on_world (sv_write_task sv t))"

definition transport_attempts :: "'w services \<Rightarrow> ('w loop, val) act" where
  "transport_attempts sv = bindA the_agent (\<lambda>a. ret (sv_transport sv (ap_world a)))"

definition record_model_failure :: "'w services \<Rightarrow> string \<Rightarrow> exn \<Rightarrow> val \<Rightarrow> ('w loop, unit) act" where
  "record_model_failure sv phase e tried =
     bindA (on_exec (count_failure (failure_reason phase e) tried)) (\<lambda>_.
     bindA (attempt (emit_trace sv ''model_failed'')) (\<lambda>_. ret ()))"

text \<open>\<open>_run_compaction_observer\<close>: how the run accounts for the model calls of a compaction.\<close>

definition without_request_id :: "dict \<Rightarrow> dict" where
  "without_request_id usage = dpop usage ''request_id''"

definition count_usage :: "dict \<Rightarrow> ('w loop, unit) act" where
  "count_usage usage = modify (\<lambda>l. l\<lparr>lp_usage := add_usage (lp_usage l) usage\<rparr>)"

definition observe :: "'w services \<Rightarrow> call_report \<Rightarrow> ('w loop, unit) act" where
  "observe sv r =
     (if rp_outcome r = ''requested'' then
        bindA (on_task record_attempt) (\<lambda>_.
        bindA (on_exec (count_model_request (rp_kind r) (rp_retry r))) (\<lambda>_.
        bindA (write_task_state sv) (\<lambda>_.
        emit_trace sv ''model_requested'')))
      else if rp_outcome r = ''failed'' then
        bindA (case rp_usage r of None \<Rightarrow> ret ()
               | Some usage \<Rightarrow> count_usage (without_request_id usage)) (\<lambda>_.
        record_model_failure sv ''provider_complete'' (rp_error r) (rp_transport r))
      else if rp_outcome r \<noteq> ''completed'' then
        raise (Raised (ValueError ''unknown compaction model outcome''))
      else
        bindA (count_usage (case rp_usage r of None \<Rightarrow> [] | Some usage \<Rightarrow> without_request_id usage)) (\<lambda>_.
        bindA (on_exec (record_transport (rp_transport r))) (\<lambda>_.
        emit_trace sv ''model_auxiliary_completed'')))"

fun observe_all :: "'w services \<Rightarrow> call_report list \<Rightarrow> ('w loop, unit) act" where
  "observe_all sv [] = ret ()"
| "observe_all sv (r # rs) = bindA (observe sv r) (\<lambda>_. observe_all sv rs)"

subsection \<open>The session guard\<close>

definition block_with :: "exn \<Rightarrow> ('w loop, unit) act" where
  "block_with e = modify (\<lambda>l. l\<lparr>lp_blocked := Some e\<rparr>)"

definition block_session_writes :: "exn \<Rightarrow> ('w loop, unit) act" where
  "block_session_writes cause = whenA (committed cause) (block_with cause)"

definition session_writes_blocked :: "'w loop \<Rightarrow> bool" where
  "session_writes_blocked l \<longleftrightarrow> lp_blocked l \<noteq> None"

definition block_and_raise :: "exn \<Rightarrow> exn \<Rightarrow> ('w loop, 'a) act" where
  "block_and_raise cause e = bindA (block_with cause) (\<lambda>_. raise e)"

definition stored_tree :: "'w services \<Rightarrow> ('w loop, session_tree) act" where
  "stored_tree sv = on_store (load_tree (sv_env sv) (sv_session_id sv))"

definition binding_of :: "session_tree \<Rightarrow> val" where
  "binding_of t = dget_none (tprojection t) ''provider_binding''"

definition mismatch :: exn where
  "mismatch = Raised (sferr ''model_session_mismatch'')"

definition capture_model_session_guard :: "'w services \<Rightarrow> ('w loop, session_guard) act" where
  "capture_model_session_guard sv =
     bindA (stored_tree sv) (\<lambda>t.
       if \<not> py_eq (binding_of t) (sv_client_binding sv) then block_and_raise mismatch mismatch
       else ret \<lparr>guard_leaf = leaf_id t, guard_binding = binding_of t\<rparr>)"

definition same_guard :: "session_guard \<Rightarrow> session_guard \<Rightarrow> bool" where
  "same_guard g h \<longleftrightarrow> guard_leaf g = guard_leaf h \<and> py_eq (guard_binding g) (guard_binding h)"

definition session_changed :: exn where
  "session_changed = Raised (sferr ''session changed before model request'')"

definition validate_model_session_guard :: "'w services \<Rightarrow> ('w loop, unit) act" where
  "validate_model_session_guard sv =
     bindA (capture_model_session_guard sv) (\<lambda>current.
     bindA (read lp_guard) (\<lambda>guard.
       if \<not> same_guard current guard then block_and_raise session_changed session_changed
       else ret ()))"

definition move_guard :: "string \<Rightarrow> ('w loop, unit) act" where
  "move_guard leaf = modify (\<lambda>l. l\<lparr>lp_guard := (lp_guard l)\<lparr>guard_leaf := leaf\<rparr>\<rparr>)"

definition advance_session_guard :: "'w services \<Rightarrow> ('w loop, unit) act" where
  "advance_session_guard sv =
     bindA (stored_tree sv) (\<lambda>t.
     bindA (read lp_guard) (\<lambda>guard.
       if \<not> py_eq (binding_of t) (guard_binding guard)
       then block_and_raise mismatch (SessionCommitError mismatch)
       else move_guard (leaf_id t)))"

subsection \<open>Committing messages\<close>

definition redact_fields :: "env \<Rightarrow> string list \<Rightarrow> dict \<Rightarrow> dict" where
  "redact_fields env ks d =
     foldl (\<lambda>d k. dset d k (redactor env (dget_or d k (VDict [])))) d ks"

definition state_fields :: "env \<Rightarrow> dict \<Rightarrow> dict" where
  "state_fields env d =
     map (\<lambda>k. (k, redactor env (dget_or d k (VDict [])))) [''resume_state'', ''runtime_identity'']"

definition session_messages :: "dict \<Rightarrow> val list" where
  "session_messages d = as_list (dget_or d ''messages'' (VList []))"

text \<open>The append under the store's lock, which the file system may fail.\<close>

definition append_to_session ::
  "'w services \<Rightarrow> val list \<Rightarrow> dict \<Rightarrow> bool \<Rightarrow> ('w loop, string option) act" where
  "append_to_session sv messages updates guarded =
     bindA tick (\<lambda>n.
     bindA (read lp_guard) (\<lambda>g l.
       let a = lp_agent l in
       case append_messages (sv_env sv) (sv_stamps sv n) (sv_session_id sv) messages updates
              (if guarded then Some (guard_leaf g) else None)
              (if guarded then Some (guard_binding g) else None) (ap_store a) of
         (Inl e, s) \<Rightarrow> (Inl (Raised e), l\<lparr>lp_agent := a\<lparr>ap_store := s\<rparr>\<rparr>)
       | (Inr leaf, s) \<Rightarrow>
           (case sv_fault sv n of
              None \<Rightarrow> (Inr leaf, l\<lparr>lp_agent := a\<lparr>ap_store := s\<rparr>\<rparr>)
            | Some (landed, e) \<Rightarrow>
                (Inl e, if landed then l\<lparr>lp_agent := a\<lparr>ap_store := s\<rparr>\<rparr> else l))))"

definition adopt_session :: "'w services \<Rightarrow> dict \<Rightarrow> ('w loop, unit) act" where
  "adopt_session sv session = on_agent (modify (\<lambda>a.
     a\<lparr>ap_session := session,
       ap_memory := memory_from_dict (sv_canon sv) (dget_none session ''working_memory'')\<rparr>))"

definition holds_commit :: "dict \<Rightarrow> val list \<Rightarrow> dict \<Rightarrow> bool" where
  "holds_commit persisted messages updates \<longleftrightarrow>
     (messages = [] \<or>
      (let stored = session_messages persisted
       in py_eq_list (drop (length stored - length messages) stored) messages))
     \<and> list_all (\<lambda>(k, v). py_eq (dget_none persisted k) v) updates"

text \<open>
  After an append that failed although it may have been written, the file decides:
  if it holds the batch and the state, the commit has succeeded after all.
\<close>

definition recover_commit ::
  "'w services \<Rightarrow> exn \<Rightarrow> val list \<Rightarrow> dict \<Rightarrow> ('w loop, unit) act" where
  "recover_commit sv e messages updates =
     bindA (attempt (on_store (load_projection (sv_env sv) (sv_session_id sv)))) (\<lambda>r.
       case r of
         Inl _ \<Rightarrow> bindA (block_session_writes e) (\<lambda>_. raise (SessionCommitError e))
       | Inr persisted \<Rightarrow>
           bindA (adopt_session sv persisted) (\<lambda>_.
             if holds_commit persisted messages updates then ret ()
             else raise (SessionCommitError e)))"

definition extend_session :: "val list \<Rightarrow> dict \<Rightarrow> ('w loop, unit) act" where
  "extend_session messages updates =
     on_session (\<lambda>d. dupdate (dset d ''messages'' (VList (session_messages d @ messages))) updates)"

definition finish_commit ::
  "'w services \<Rightarrow> val list \<Rightarrow> dict \<Rightarrow> bool \<Rightarrow> exn + string option \<Rightarrow> ('w loop, unit) act" where
  "finish_commit sv messages updates guarded result =
     (case result of
        Inr leaf \<Rightarrow>
          bindA (case leaf of None \<Rightarrow> ret () | Some i \<Rightarrow> whenA guarded (move_guard i)) (\<lambda>_.
          extend_session messages updates)
      | Inl e \<Rightarrow>
          if e = KeyboardInterrupt then raise e
          else
            bindA (whenA (guarded \<and> is_session_format_error e) (block_with e)) (\<lambda>_.
            if committed e then recover_commit sv e messages updates
            else raise (SessionCommitError e)))"

definition commit_session :: "'w services \<Rightarrow> val list \<Rightarrow> bool \<Rightarrow> ('w loop, unit) act" where
  "commit_session sv messages guarded =
     bindA (read lp_blocked) (\<lambda>blocked.
       case blocked of
         Some cause \<Rightarrow> raise (SessionCommitError cause)
       | None \<Rightarrow>
           let safe = map (redactor (sv_env sv)) messages in
           bindA (on_session (redact_fields (sv_env sv)
                    [''working_memory'', ''memory'', ''recently_recalled''])) (\<lambda>_.
           bindA (on_agent (modify (\<lambda>a. a\<lparr>ap_memory := memory_from_dict (sv_canon sv)
                    (dget_none (ap_session a) ''working_memory'')\<rparr>))) (\<lambda>_.
           bindA the_agent (\<lambda>a.
           let updates = state_fields (sv_env sv) (ap_session a) in
           bindA (attempt (append_to_session sv safe updates guarded)) (\<lambda>result.
           finish_commit sv safe updates guarded result)))))"

definition sync_working_memory :: "('w loop, unit) act" where
  "sync_working_memory = on_agent (modify (\<lambda>a.
     a\<lparr>ap_session := dset (ap_session a) ''working_memory'' (VDict (memory_to_dict (ap_memory a)))\<rparr>))"

definition new_plain_message :: "'w services \<Rightarrow> string \<Rightarrow> string \<Rightarrow> string \<Rightarrow> ('w loop, val) act" where
  "new_plain_message sv role text origin =
     bindA tick (\<lambda>n. ret (VDict
       [(''role'', VStr role), (''content'', VStr text),
        (''_pony_meta'', VDict ((''created_at'', VStr (sv_now sv n))
           # (if origin = [] then [] else [(''origin'', VStr origin)])))]))"

subsection \<open>The permission turn\<close>

definition begin_permission_turn :: "('w loop, unit) act" where
  "begin_permission_turn =
     bindA the_agent (\<lambda>a.
       if ap_turn a \<noteq> None then raise (RuntimeError ''permission_turn_active'')
       else bindA (item (ap_session a) ''permission_mode'') (\<lambda>mode.
         on_agent (modify (\<lambda>a. a\<lparr>ap_turn := Some (as_str mode)\<rparr>))))"

definition end_permission_turn :: "('w loop, unit) act" where
  "end_permission_turn = on_agent (modify (\<lambda>a. a\<lparr>ap_turn := None\<rparr>))"

definition refresh_permission_turn_after_plan_exit :: "('w loop, unit) act" where
  "refresh_permission_turn_after_plan_exit =
     bindA the_agent (\<lambda>a.
       if ap_turn a \<noteq> Some ''plan'' then raise (RuntimeError ''permission_turn_not_in_plan'')
       else bindA (item (ap_session a) ''permission_mode'') (\<lambda>mode.
         if mode = VStr ''plan'' then raise (RuntimeError ''plan_mode_still_active'')
         else on_agent (modify (\<lambda>a. a\<lparr>ap_turn := Some (as_str mode)\<rparr>))))"

definition current_permission_mode :: "'w agent_part \<Rightarrow> val" where
  "current_permission_mode a =
     (case ap_turn a of Some mode \<Rightarrow> VStr mode | None \<Rightarrow> dget_none (ap_session a) ''permission_mode'')"

end
