(* ===== verification/AgentLoop.thy ===== *)
theory AgentLoop
  imports AgentSession ActionCodec
begin

text \<open>
  The agent control loop of \<open>pony/agent/loop.py\<close>: one turn builds a request, asks the
  model, decodes one action, runs a tool or answers, and repeats within its bounds;
  every way a turn can end is finalized once.  Each function is an action on the state
  of \<open>AgentSession\<close>.  Payloads of trace events, durations and the pause before a retry
  are left out; the order of the events and every error they can raise are kept.
\<close>

subsection \<open>Actions the model may ask for\<close>

definition safe_tool_name :: "'w services \<Rightarrow> string \<Rightarrow> string" where
  "safe_tool_name sv name = (if sv_tool_effect sv name \<noteq> None then name else ''unknown_tool'')"

definition effect_class_of :: "'w services \<Rightarrow> string \<Rightarrow> string" where
  "effect_class_of sv name =
     (case sv_tool_effect sv name of None \<Rightarrow> ''workspace_write'' | Some effect \<Rightarrow> effect)"

definition json_sorted :: "val \<Rightarrow> string" where
  "json_sorted v = dumps utf8_sorted v"

definition blocked_metadata :: "'w services \<Rightarrow> val \<Rightarrow> string \<Rightarrow> dict \<Rightarrow> dict" where
  "blocked_metadata sv mode name arguments =
     (let effect = effect_class_of sv name
      in [(''tool_status'', VStr ''rejected''), (''tool_error_code'', VStr ''sensitive_content_block''),
          (''security_event_type'', VStr ''sensitive_access_block''), (''risk_level'', VStr ''high''),
          (''effect_class'', VStr effect), (''read_only'', VBool (effect = ''read_only'')),
          (''affected_paths'', VList []), (''workspace_changed'', VBool False), (''diff_summary'', VList [])]
         @ (if name = ''run_shell'' then sv_shell_policy sv mode arguments else []))"

definition sanitize_tool :: "'w services \<Rightarrow> val \<Rightarrow> tool_action \<Rightarrow> tool_action \<times> tool_result option" where
  "sanitize_tool sv mode tool =
     (let tool = tool\<lparr>ta_name := safe_tool_name sv (ta_name tool)\<rparr>;
          original = VDict (ta_arguments tool);
          safe = redactor (sv_env sv) original;
          blocked = (\<not> py_eq safe original \<or> sv_contains_secret sv (json_sorted original))
      in if \<not> blocked then (tool, None)
         else
           let safe = (if sv_contains_secret sv (json_sorted safe) then VDict [] else safe)
           in (tool\<lparr>ta_arguments := as_dict safe\<rparr>,
               Some \<lparr>tl_content = ''error: sensitive_content_block'',
                     tl_metadata = blocked_metadata sv mode (ta_name tool) (ta_arguments tool)\<rparr>))"

definition project_terminal :: "'w services \<Rightarrow> string \<Rightarrow> string" where
  "project_terminal sv text = sv_terminal_text sv (sv_redact_text sv (sv_terminal_text sv text))"

definition sanitize_action :: "'w services \<Rightarrow> val \<Rightarrow> action \<Rightarrow> action \<times> tool_result option" where
  "sanitize_action sv mode a =
     (case a of
        FinalAction text truncated \<Rightarrow> (FinalAction (project_terminal sv text) truncated, None)
      | RetryAction reason notice excerpt \<Rightarrow>
          (RetryAction reason (project_terminal sv notice) (project_terminal sv excerpt), None)
      | ToolAction tool \<Rightarrow> (case sanitize_tool sv mode tool of (tool, blocked) \<Rightarrow> (ToolAction tool, blocked)))"

subsection \<open>Building the request\<close>

definition compaction_agent :: "'w services \<Rightarrow> nat \<Rightarrow> Compaction.agent" where
  "compaction_agent sv n = (sv_compactor sv n)\<lparr>ag_env := sv_env sv, ag_session := sv_session_id sv,
     ag_budget := sv_budget sv\<rparr>"

text \<open>\<open>agent.compact_session\<close> under the guard's leaf; its reports come before its append.\<close>

definition compact :: "'w services \<Rightarrow> string \<Rightarrow> int \<Rightarrow> ('w loop, compaction_result) act" where
  "compact sv reason keep_recent =
     bindA tick (\<lambda>n.
     bindA (observe_all sv (sv_reports sv n)) (\<lambda>_.
     bindA (read lp_guard) (\<lambda>g.
     bindA the_agent (\<lambda>a.
     bindA (on_store (compact_session (compaction_agent sv n) (sv_stamps sv n) (ap_accounting a)
              [] reason (Some keep_recent) (Some (guard_leaf g)))) (\<lambda>(r, acc).
     bindA (on_agent (modify (\<lambda>a. a\<lparr>ap_accounting := acc\<rparr>))) (\<lambda>_. ret r))))))"

fun is_budget_error :: "exn \<Rightarrow> bool" where
  "is_budget_error (ContextBudgetExceeded _) = True" | "is_budget_error _ = False"

fun is_compaction_error :: "exn \<Rightarrow> bool" where
  "is_compaction_error (Raised e) =
     (case e of CompactionError _ \<Rightarrow> True | CompactionNoProgress _ \<Rightarrow> True | _ \<Rightarrow> False)"
| "is_compaction_error _ = False"

fun is_no_progress :: "exn \<Rightarrow> bool" where
  "is_no_progress (Raised e) = (case e of CompactionNoProgress _ \<Rightarrow> True | _ \<Rightarrow> False)"
| "is_no_progress _ = False"

definition compact_for_budget :: "'w services \<Rightarrow> nat \<Rightarrow> exn \<Rightarrow> ('w loop, unit) act" where
  "compact_for_budget sv n budget_error =
     (case automatic_compaction_keep_recent (sv_budget sv) (int n) of
        Inl e \<Rightarrow> raise (Raised e)
      | Inr keep_recent \<Rightarrow>
          bindA (attempt (compact sv ''budget_exceeded'' keep_recent)) (\<lambda>r.
            case r of
              Inr result \<Rightarrow>
                bindA (move_guard (eid (cr_entry result))) (\<lambda>_. emit_trace sv ''context_compacted'')
            | Inl e \<Rightarrow>
                if is_no_progress e then ret ()
                else if is_compaction_error e then raise budget_error
                else raise e))"

text \<open>
  \<open>for compaction_attempt in range(3)\<close>: the attempts left are counted down, so that
  \<open>n\<close> is the number of the attempt.
\<close>

fun build_request_within ::
  "'w services \<Rightarrow> val \<Rightarrow> dict \<Rightarrow> dict \<Rightarrow> string \<Rightarrow> nat \<Rightarrow> nat \<Rightarrow> ('w loop, request \<times> dict) act" where
  "build_request_within sv snapshot telemetry preflight feedback n left =
     bindA (attempt (on_agent (sv_build sv snapshot telemetry preflight feedback))) (\<lambda>r.
       case r of
         Inr built \<Rightarrow> ret built
       | Inl e \<Rightarrow>
           (case left of
              Suc rest \<Rightarrow>
                if is_budget_error e \<and> sv_compaction_enabled sv
                then bindA (compact_for_budget sv n e) (\<lambda>_.
                       build_request_within sv snapshot telemetry preflight feedback (Suc n) rest)
                else raise e
            | 0 \<Rightarrow> raise e))"

declare build_request_within.simps [simp del]

text \<open>\<open>xs[-n:]\<close>.\<close>

definition py_tail :: "int \<Rightarrow> 'a list \<Rightarrow> 'a list" where
  "py_tail n xs = (if 0 < n then drop (nat (int (length xs) - n)) xs else drop (nat (- n)) xs)"

definition remember_recall :: "'w services \<Rightarrow> val list \<Rightarrow> ('w loop, unit) act" where
  "remember_recall sv paths =
     whenA (paths \<noteq> [])
       (bindA (on_session (\<lambda>d. dset d ''recently_recalled''
                (VList (py_tail (sv_skip_turns sv + 1)
                   (as_list (dget_none d ''recently_recalled'') @ [VList paths]))))) (\<lambda>_.
        commit_session sv [] True))"

definition set_request_metadata :: "dict \<Rightarrow> ('w loop, unit) act" where
  "set_request_metadata d = on_agent (modify (\<lambda>a. a\<lparr>ap_request_metadata := d\<rparr>))"

definition empty_streaming :: dict where
  "empty_streaming = [(''requested'', VBool True), (''committed'', VBool False),
     (''preview_emitted'', VBool False), (''first_preview_ms'', VNone)]"

definition mark_streaming :: "'w services \<Rightarrow> dict \<Rightarrow> ('w loop, dict) act" where
  "mark_streaming sv metadata =
     (if sv_stream sv
      then let metadata = dset metadata ''streaming'' (VDict empty_streaming)
           in bindA (set_request_metadata metadata) (\<lambda>_. ret metadata)
      else ret metadata)"

definition trace_resume :: "'w services \<Rightarrow> int \<Rightarrow> dict \<Rightarrow> ('w loop, unit) act" where
  "trace_resume sv n metadata =
     (if n = 1 \<and> dget_none metadata ''resume_status'' = VStr ''partial-stale''
      then emit_trace sv ''checkpoint_freshness_mismatch''
      else if n = 1 \<and> dget_none metadata ''resume_status'' = VStr ''workspace-mismatch''
      then emit_trace sv ''runtime_identity_mismatch''
      else ret ())"

definition announce_request ::
  "'w services \<Rightarrow> int \<Rightarrow> string \<Rightarrow> dict \<Rightarrow> ('w loop, dict) act" where
  "announce_request sv n origin metadata =
     bindA (whenA (n = 1) (on_task (\<lambda>t. t\<lparr>resume_status :=
              py_str (dget_or metadata ''resume_status'' (VStr (resume_status t)))\<rparr>))) (\<lambda>_.
     bindA (on_task record_attempt) (\<lambda>_.
     bindA (on_exec (count_model_request origin (origin = ''model_retry''))) (\<lambda>_.
     bindA (write_task_state sv) (\<lambda>_.
     bindA (emit_trace sv ''prompt_built'') (\<lambda>_.
     bindA (mark_streaming sv metadata) (\<lambda>metadata.
     bindA (trace_resume sv n metadata) (\<lambda>_.
     bindA (emit_trace sv ''model_requested'') (\<lambda>_. ret metadata))))))))"

definition build_attempt_request ::
  "'w services \<Rightarrow> int \<Rightarrow> string \<Rightarrow> string \<Rightarrow> val \<Rightarrow> dict \<Rightarrow> dict \<Rightarrow> ('w loop, request \<times> dict) act" where
  "build_attempt_request sv n origin feedback snapshot telemetry preflight =
     bindA (build_request_within sv snapshot telemetry preflight feedback 0 2) (\<lambda>(request, metadata).
     let recalled = as_list (dget_none metadata ''recall_commit_paths'');
         metadata = dpop metadata ''recall_commit_paths'' in
     bindA (set_request_metadata metadata) (\<lambda>_.
     bindA (remember_recall sv recalled) (\<lambda>_.
     bindA (announce_request sv n origin metadata) (\<lambda>metadata. ret (request, metadata)))))"

subsection \<open>Asking the model\<close>

definition note_streaming :: "'w services \<Rightarrow> dict \<Rightarrow> dict \<Rightarrow> ('w loop, dict) act" where
  "note_streaming sv streaming metadata =
     (if sv_stream sv
      then let metadata = dset metadata ''streaming'' (VDict streaming)
           in bindA (set_request_metadata metadata) (\<lambda>_. ret metadata)
      else ret metadata)"

definition commit_anchor :: "dict \<Rightarrow> ('w loop, unit) act" where
  "commit_anchor usage = on_agent (modify (\<lambda>a.
     case ap_anchor a of None \<Rightarrow> a
     | Some candidate \<Rightarrow>
         a\<lparr>ap_accounting := snd (commit_provider_usage (ap_accounting a) (VDict usage) candidate)\<rparr>))"

definition provider_facts :: "'w services \<Rightarrow> string \<Rightarrow> 'w \<Rightarrow> dict \<Rightarrow> dict" where
  "provider_facts sv request_id w metadata =
     (let metadata = (if request_id \<noteq> []
            then dset metadata ''provider_request_id'' (VStr request_id) else metadata);
          metadata = (case transport_evidence (sv_transport sv w) of
            None \<Rightarrow> metadata | Some (n, _) \<Rightarrow> dset metadata ''last_transport_attempts'' (VInt n))
      in case sv_provider_metadata sv w of
           VDict d \<Rightarrow> dupdate metadata (filter (\<lambda>(k, _). k \<noteq> ''streaming'') d)
         | _ \<Rightarrow> metadata)"

definition record_response ::
  "'w services \<Rightarrow> response \<Rightarrow> dict \<Rightarrow> ('w loop, (action \<times> tool_result option) \<times> dict) act" where
  "record_response sv response metadata =
     (let usage = resp_usage response;
          request_id = sv_request_id sv (dget_none usage ''request_id'');
          usage = without_request_id usage in
      bindA (count_usage usage) (\<lambda>_.
      bindA (commit_anchor usage) (\<lambda>_.
      bindA the_agent (\<lambda>a.
      let decided = sanitize_action sv (current_permission_mode a) (decode_action response);
          metadata = provider_facts sv request_id (ap_world a) metadata in
      bindA (set_request_metadata metadata) (\<lambda>_.
      bindA (attempt (bindA (emit_trace sv ''action_decoded'') (\<lambda>_. emit_trace sv ''model_turn''))) (\<lambda>r.
      bindA (transport_attempts sv) (\<lambda>tried.
      case r of
        Inl e \<Rightarrow>
          if e = KeyboardInterrupt then raise e
          else bindA (record_model_failure sv ''response_processing'' e tried) (\<lambda>_. raise e)
      | Inr _ \<Rightarrow>
          bindA (on_exec (\<lambda>x. (record_transport tried x)\<lparr>me_turns := me_turns x + 1\<rparr>)) (\<lambda>_.
          ret (decided, metadata)))))))))"

text \<open>\<open>_complete_model_attempt\<close> returns the model's error (\<open>Inl\<close>) or the decoded action.\<close>

type_synonym model_answer = "exn + action \<times> tool_result option"

definition complete_model_attempt ::
  "'w services \<Rightarrow> request \<Rightarrow> dict \<Rightarrow> ('w loop, model_answer \<times> dict) act" where
  "complete_model_attempt sv request metadata =
     bindA (on_agent (\<lambda>a. case sv_complete sv request a of (call, a) \<Rightarrow> (Inr call, a))) (\<lambda>call.
     bindA (note_streaming sv (mc_streaming call) metadata) (\<lambda>metadata.
     case mc_outcome call of
       Inl e \<Rightarrow>
         bindA (transport_attempts sv) (\<lambda>tried.
         bindA (record_model_failure sv ''provider_complete'' e tried) (\<lambda>_.
         if e = KeyboardInterrupt then raise e else ret (Inl e, metadata)))
     | Inr response \<Rightarrow>
         bindA (record_response sv response metadata) (\<lambda>(decided, metadata).
         ret (Inr decided, metadata))))"

definition streaming_attempt_committed :: "dict \<Rightarrow> bool" where
  "streaming_attempt_committed metadata \<longleftrightarrow>
     dget_none (as_dict (dget_none metadata ''streaming'')) ''committed'' = VBool True"

subsection \<open>Running a tool\<close>

definition inline_view :: dict where
  "inline_view = [(''delivery'', VStr ''inline''), (''truncated'', VBool False)]"

definition preview_view :: "bool \<Rightarrow> dict" where
  "preview_view recoverable =
     [(''delivery'', VStr ''preview''), (''truncated'', VBool True),
      (''reasons'', VList [VStr ''tokens'']), (''recoverable'', VBool recoverable)]"

text \<open>
  \<open>_prepare_tool_result\<close>: the text shown to the model, the metadata of the pair and the
  view of the result.  An error while the raw result is saved only loses the raw copy.
\<close>

fun is_storage_error :: "exn \<Rightarrow> bool" where
  "is_storage_error (OSError _) = True"
| "is_storage_error (RuntimeError _) = True"
| "is_storage_error (Raised e) = (case e of ValueError _ \<Rightarrow> True | FileNotFoundError _ \<Rightarrow> True | _ \<Rightarrow> False)"
| "is_storage_error _ = False"

definition save_raw_result :: "'w services \<Rightarrow> string \<Rightarrow> string \<Rightarrow> ('w loop, string option) act" where
  "save_raw_result sv hash content =
     bindA (attempt (on_world (sv_write_result sv hash content))) (\<lambda>r.
       case r of
         Inr _ \<Rightarrow> ret (Some (''tool_result:'' @ hash))
       | Inl e \<Rightarrow> (if is_storage_error e then ret None else raise e))"

definition prepare_tool_result ::
  "'w services \<Rightarrow> string \<Rightarrow> val \<Rightarrow> ('w loop, string \<times> dict \<times> dict) act" where
  "prepare_tool_result sv content result_view =
     bindA the_agent (\<lambda>a.
     let safe = sv_redact_text sv content;
         view = sv_project_view sv result_view
     in if dget_none view ''delivery'' = VStr ''page'' \<and> dget_none view ''truncated'' = VBool False
        then ret (safe, [(''digest_applied'', VBool False), (''source_hash'', VNone)], view)
        else if count_text (ap_accounting a) safe \<le> sv_inline_tokens sv
        then ret (safe, [(''digest_applied'', VBool False), (''source_hash'', VNone)], inline_view)
        else
          let hash = sha256 (sv_env sv) safe in
          bindA (save_raw_result sv hash safe) (\<lambda>raw_id.
          ret (sv_preview_result sv safe hash raw_id,
               [(''digest_applied'', VBool True), (''source_hash'', VStr hash)],
               preview_view (raw_id \<noteq> None))))"

definition set_tool_metadata :: "dict \<Rightarrow> ('w loop, unit) act" where
  "set_tool_metadata d = on_agent (modify (\<lambda>a. a\<lparr>ap_tool_metadata := d\<rparr>))"

text \<open>\<open>Pony.execute_tool\<close>: the executor's result, redacted and remembered.\<close>

definition execute_tool :: "'w services \<Rightarrow> string \<Rightarrow> dict \<Rightarrow> ('w loop, tool_result) act" where
  "execute_tool sv name args =
     bindA (on_agent (sv_execute sv name args)) (\<lambda>result.
     let safe = \<lparr>tl_content = sv_redact_text sv (tl_content result),
                 tl_metadata = as_dict (redactor (sv_env sv) (VDict (tl_metadata result)))\<rparr>
     in bindA (set_tool_metadata (tl_metadata safe)) (\<lambda>_. ret safe))"

definition trace_interrupted :: "'w services \<Rightarrow> string \<Rightarrow> ('w loop, unit) act" where
  "trace_interrupted sv name =
     bindA the_agent (\<lambda>a.
       let metadata = ap_tool_metadata a in
       whenA (truthy (dget_none metadata ''tool_status''))
         (bindA (record_tool_report name metadata) (\<lambda>_.
          bindA (attempt (emit_trace sv ''tool_interrupted'')) (\<lambda>_. ret ()))))"

definition execute_or_block ::
  "'w services \<Rightarrow> string \<Rightarrow> dict \<Rightarrow> tool_result option \<Rightarrow> ('w loop, tool_result) act" where
  "execute_or_block sv name args blocked =
     (case blocked of
        Some result \<Rightarrow> bindA (set_tool_metadata (tl_metadata result)) (\<lambda>_. ret result)
      | None \<Rightarrow>
          bindA (set_tool_metadata []) (\<lambda>_.
          bindA (attempt (execute_tool sv name args)) (\<lambda>r.
            case r of
              Inr result \<Rightarrow> ret result
            | Inl e \<Rightarrow> bindA (trace_interrupted sv name) (\<lambda>_. raise e))))"

definition blocked_facts :: "tool_result option \<Rightarrow> dict \<Rightarrow> ('w loop, dict) act" where
  "blocked_facts blocked metadata =
     (case blocked of None \<Rightarrow> ret []
      | Some _ \<Rightarrow>
          bindA (item metadata ''tool_error_code'') (\<lambda>code.
          bindA (item metadata ''security_event_type'') (\<lambda>event.
          ret [(''tool_error_code'', code), (''security_event_type'', event)])))"

text \<open>The two places of the session a failed commit puts back.\<close>

definition file_summaries :: "dict \<Rightarrow> ('w loop, val) act" where
  "file_summaries session =
     bindA (item session ''memory'') (\<lambda>m. item (as_dict m) ''file_summaries'')"

definition restore_memory :: "working_memory \<Rightarrow> val \<Rightarrow> ('w loop, unit) act" where
  "restore_memory memory summaries =
     bindA (on_agent (modify (\<lambda>a. a\<lparr>ap_memory := memory\<rparr>))) (\<lambda>_.
     bindA sync_working_memory (\<lambda>_.
     on_session (\<lambda>d. dset d ''memory''
       (VDict (dset (as_dict (dget_none d ''memory'')) ''file_summaries'' summaries)))))"

definition commit_pair ::
  "'w services \<Rightarrow> val list \<Rightarrow> working_memory \<Rightarrow> val \<Rightarrow> ('w loop, unit) act" where
  "commit_pair sv pair memory summaries =
     bindA (attempt (commit_session sv pair True)) (\<lambda>r.
       case r of
         Inr _ \<Rightarrow> ret ()
       | Inl e \<Rightarrow>
           bindA (whenA (is_commit_error e \<and> \<not> committed e) (restore_memory memory summaries)) (\<lambda>_.
           raise e))"

definition finish_tool :: "'w services \<Rightarrow> string \<Rightarrow> dict \<Rightarrow> ('w loop, int) act" where
  "finish_tool sv name metadata =
     (let consumed = (dget_none metadata ''tool_status'' \<noteq> VStr ''rejected'') in
      bindA (whenA consumed (on_task (record_tool name))) (\<lambda>_.
      bindA (write_task_state sv) (\<lambda>_.
      bindA (emit_trace sv ''tool_executed'') (\<lambda>_.
      bindA (emit_trace sv ''tool_finished'') (\<lambda>_.
      ret (if consumed then 1 else 0))))))"

definition settle_tool ::
  "'w services \<Rightarrow> tool_action \<Rightarrow> string \<Rightarrow> tool_result option \<Rightarrow> working_memory \<Rightarrow> val \<Rightarrow> tool_result
   \<Rightarrow> ('w loop, dict) act" where
  "settle_tool sv tool tool_use_id blocked memory summaries result =
     (let name = ta_name tool;
          metadata = tl_metadata result in
      bindA (record_tool_report name metadata) (\<lambda>_.
      bindA (item metadata ''effect_class'') (\<lambda>effect.
      bindA (whenA (py_str effect = ''session_state'') (advance_session_guard sv)) (\<lambda>_.
      bindA (prepare_tool_result sv (tl_content result) (dget_none metadata ''result_view''))
        (\<lambda>(display, facts, view).
      bindA (blocked_facts blocked metadata) (\<lambda>more_facts.
      bindA tick (\<lambda>n.
      bindA (item metadata ''tool_status'') (\<lambda>tool_status.
      let (call, answer) = make_tool_pair name (ta_arguments tool) tool_use_id display (sv_now sv n)
            (py_str tool_status) (py_str effect) (dupdate facts more_facts)
            (map VDict (ta_provider_state tool)) in
      bindA (commit_pair sv [call, answer] memory summaries) (\<lambda>_.
      ret (dset metadata ''result_view'' (VDict view)))))))))))"

text \<open>The call up to the commit of its pair; its result is the metadata of the tool.\<close>

definition perform_tool ::
  "'w services \<Rightarrow> tool_action \<Rightarrow> tool_result option \<Rightarrow> ('w loop, dict) act" where
  "perform_tool sv tool blocked =
     bindA tick (\<lambda>n.
     let tool_use_id = (case ta_tool_use_id tool of Some i \<Rightarrow> i | None \<Rightarrow> ''toolu_'' @ take 12 (sv_hex sv n)) in
     bindA (emit_trace sv ''tool_started'') (\<lambda>_.
     bindA the_agent (\<lambda>a.
     bindA (file_summaries (ap_session a)) (\<lambda>summaries.
     bindA (execute_or_block sv (ta_name tool) (ta_arguments tool) blocked) (\<lambda>result.
     settle_tool sv tool tool_use_id blocked (ap_memory a) summaries result)))))"

definition apply_tool_action ::
  "'w services \<Rightarrow> tool_action \<Rightarrow> tool_result option \<Rightarrow> ('w loop, int) act" where
  "apply_tool_action sv tool blocked =
     bindA (perform_tool sv tool blocked) (\<lambda>metadata. finish_tool sv (ta_name tool) metadata)"

end
