(* ===== verification/AgentRun.thy ===== *)
theory AgentRun
  imports AgentLoop
begin

text \<open>
  One turn from the user's message to the finalized run: the attempt loop of
  \<open>_run_agent_attempts\<close>, the recovery after a model error, the stop at each bound, the
  finalization, and \<open>AgentLoop.run\<close> around them (\<open>pony/agent/loop.py\<close>).
\<close>

subsection \<open>One attempt\<close>

record outcome =
  oc_final :: string
  oc_trigger :: string
  oc_terminal :: "val option"
  oc_primary :: "exn option"

record loop_vars =
  lv_feedback :: string
  lv_tool_steps :: int
  lv_origin :: string
  lv_model_retries :: nat
  lv_retry_actions :: nat
  lv_recoveries :: nat
  lv_corrections :: "(string \<times> string) list"
  lv_preflight :: dict

datatype progress = Continue loop_vars | Return outcome

definition runtime_terminal_text :: "string \<Rightarrow> string" where
  "runtime_terminal_text reason =
     (if reason = ''model_error'' then ''The model request failed. This turn was stopped.''
      else if reason = ''interrupted'' then ''This turn was interrupted before completion.''
      else if reason = ''persistence_error''
        then ''This turn stopped because session state could not be saved.''
      else ''This turn stopped because the runtime failed.'')"

definition runtime_terminal_message :: "'w services \<Rightarrow> string \<Rightarrow> ('w loop, val) act" where
  "runtime_terminal_message sv reason =
     new_plain_message sv ''assistant'' (runtime_terminal_text reason) ''runtime_terminal''"

definition MODEL_RETRIES :: nat where "MODEL_RETRIES = 2"

definition max_attempts :: "'w services \<Rightarrow> int" where
  "max_attempts sv = max (sv_max_steps sv * 3) (sv_max_steps sv + 4)"

text \<open>Stop the task, answer the user with the reason, and return.\<close>

definition answer_and_return :: "'w services \<Rightarrow> string \<Rightarrow> ('w loop, outcome) act" where
  "answer_and_return sv final =
     bindA (new_plain_message sv ''assistant'' final []) (\<lambda>m.
     bindA (commit_session sv [m] True) (\<lambda>_.
     bindA (read lp_task) (\<lambda>t.
     ret \<lparr>oc_final = final, oc_trigger = stop_reason t, oc_terminal = None, oc_primary = None\<rparr>)))"

definition stop_with ::
  "'w services \<Rightarrow> (string \<Rightarrow> task_state \<Rightarrow> task_state) \<Rightarrow> string \<Rightarrow> ('w loop, outcome) act" where
  "stop_with sv stop final =
     bindA (on_task (stop final)) (\<lambda>_. answer_and_return sv final)"

definition recovery_keep_recent :: "'w services \<Rightarrow> int" where
  "recovery_keep_recent sv =
     max 1024 (min (keep_recent_tokens (sv_budget sv) div 2) (input_limit (sv_budget sv) div 4))"

definition recovery_data :: "int \<Rightarrow> compaction_result \<Rightarrow> dict" where
  "recovery_data n r =
     [(''failed_attempt'', VInt n), (''compaction_entry_id'', VStr (eid (cr_entry r))),
      (''tokens_before'', VInt (cr_tokens_before r)), (''tokens_after'', VInt (cr_tokens_after r))]"

text \<open>Compact after the provider refused the length; a compaction that fails changes nothing.\<close>

definition recover_context :: "'w services \<Rightarrow> int \<Rightarrow> ('w loop, bool) act" where
  "recover_context sv n =
     bindA (attempt (compact sv ''provider_context_error'' (recovery_keep_recent sv))) (\<lambda>r.
       case r of
         Inl e \<Rightarrow> (if is_compaction_error e then ret False else raise e)
       | Inr result \<Rightarrow>
           bindA tick (\<lambda>k.
           bindA (on_store (append_control (sv_env sv) (sv_stamps sv k) (sv_session_id sv)
                    ''context_recovery'' (VDict (recovery_data n result)) None
                    (Some (eid (cr_entry result))))) (\<lambda>entry.
           bindA (move_guard (eid entry)) (\<lambda>_.
           bindA (emit_trace sv ''context_recovery'') (\<lambda>_. ret True)))))"

definition may_recover :: "'w services \<Rightarrow> int \<Rightarrow> loop_vars \<Rightarrow> dict \<Rightarrow> exn \<Rightarrow> bool" where
  "may_recover sv n v metadata e \<longleftrightarrow>
     \<not> streaming_attempt_committed metadata \<and> is_context_length_error e
     \<and> lv_recoveries v < 1 \<and> n < max_attempts sv"

definition may_retry :: "'w services \<Rightarrow> int \<Rightarrow> loop_vars \<Rightarrow> dict \<Rightarrow> exn \<Rightarrow> bool" where
  "may_retry sv n v metadata e \<longleftrightarrow>
     \<not> streaming_attempt_committed metadata
     \<and> (case e of ProviderTransportError _ _ retryable \<Rightarrow> retryable | _ \<Rightarrow> False)
     \<and> lv_model_retries v < MODEL_RETRIES \<and> n < max_attempts sv"

definition retry_or_stop :: "'w services \<Rightarrow> int \<Rightarrow> loop_vars \<Rightarrow> dict \<Rightarrow> exn \<Rightarrow> ('w loop, progress) act" where
  "retry_or_stop sv n v metadata e =
     (if may_retry sv n v metadata e
      then ret (Continue (v\<lparr>lv_model_retries := lv_model_retries v + 1, lv_origin := ''model_retry''\<rparr>))
      else
        let final = runtime_terminal_text ''model_error'' in
        bindA (on_task (stop_model_error final)) (\<lambda>_.
        bindA (runtime_terminal_message sv ''model_error'') (\<lambda>m.
        ret (Return \<lparr>oc_final = final, oc_trigger = ''model_error'', oc_terminal = Some m,
                     oc_primary = Some e\<rparr>))))"

definition handle_model_error ::
  "'w services \<Rightarrow> int \<Rightarrow> loop_vars \<Rightarrow> dict \<Rightarrow> exn \<Rightarrow> ('w loop, progress) act" where
  "handle_model_error sv n v metadata e =
     (if may_recover sv n v metadata e
      then bindA (recover_context sv n) (\<lambda>recovered.
             if recovered
             then ret (Continue (v\<lparr>lv_recoveries := lv_recoveries v + 1, lv_origin := ''model_retry''\<rparr>))
             else retry_or_stop sv n v metadata e)
      else retry_or_stop sv n v metadata e)"

text \<open>After \<open>exit_plan_mode\<close> the turn goes on in the mode that was restored.\<close>

definition leave_plan_mode :: "'w services \<Rightarrow> string \<Rightarrow> dict \<Rightarrow> ('w loop, dict) act" where
  "leave_plan_mode sv name preflight =
     bindA the_agent (\<lambda>a.
       if name = ''exit_plan_mode'' \<and> dget_none (ap_tool_metadata a) ''tool_status'' = VStr ''ok''
          \<and> dget_none (ap_session a) ''permission_mode'' \<noteq> VStr ''plan''
       then
         bindA refresh_permission_turn_after_plan_exit (\<lambda>_.
         bindA the_agent (\<lambda>a.
           let mode = current_permission_mode a in
           ret (dset (dset preflight ''permission_mode'' mode)
                  ''tool_count'' (VInt (sv_visible_tools sv (as_str mode))))))
       else ret preflight)"

definition after_tool :: "'w services \<Rightarrow> loop_vars \<Rightarrow> string \<Rightarrow> ('w loop, progress) act" where
  "after_tool sv v name =
     bindA the_agent (\<lambda>a.
       if truthy (dget_none (ap_tool_metadata a) ''effect_observation_unknown'')
       then bindA (stop_with sv stop_runtime_error
                ''Stopped because workspace effects could not be verified.'') (\<lambda>oc. ret (Return oc))
       else
         bindA (leave_plan_mode sv name (lv_preflight v)) (\<lambda>preflight.
         bindA the_agent (\<lambda>a.
           let (feedback, stop, seen) =
                 advance_rejection_correction name (ap_tool_metadata a) (lv_corrections v) in
           case stop of
             Some final \<Rightarrow> bindA (stop_with sv stop_retry_limit final) (\<lambda>oc. ret (Return oc))
           | None \<Rightarrow>
               ret (Continue (v\<lparr>lv_feedback := feedback, lv_corrections := seen,
                 lv_preflight := preflight, lv_origin := ''tool_followup''\<rparr>)))))"

definition handle_retry :: "'w services \<Rightarrow> loop_vars \<Rightarrow> dict \<Rightarrow> string \<Rightarrow> ('w loop, progress) act" where
  "handle_retry sv v metadata notice =
     (if streaming_attempt_committed metadata
      then bindA (stop_with sv stop_retry_limit
             (''Stopped after a malformed streamed response without a valid ''
              @ ''tool call or final answer.'')) (\<lambda>oc. ret (Return oc))
      else if 1 \<le> lv_retry_actions v
      then bindA (stop_with sv stop_retry_limit
             (''Stopped after repeated malformed model responses without ''
              @ ''a valid tool call or final answer.'')) (\<lambda>oc. ret (Return oc))
      else
        bindA (write_task_state sv) (\<lambda>_.
        ret (Continue (v\<lparr>lv_retry_actions := lv_retry_actions v + 1, lv_feedback := notice,
          lv_origin := ''retry_action''\<rparr>))))"

definition handle_final :: "'w services \<Rightarrow> string \<Rightarrow> ('w loop, progress) act" where
  "handle_final sv text =
     bindA (answer_and_return sv text) (\<lambda>_.
     bindA (on_task (finish_success text)) (\<lambda>_.
     ret (Return \<lparr>oc_final = text, oc_trigger = ''run_finished'', oc_terminal = None, oc_primary = None\<rparr>)))"

definition handle_action ::
  "'w services \<Rightarrow> loop_vars \<Rightarrow> dict \<Rightarrow> action \<times> tool_result option \<Rightarrow> ('w loop, progress) act" where
  "handle_action sv v metadata decided =
     (let v = v\<lparr>lv_model_retries := 0, lv_feedback := []\<rparr> in
      case fst decided of
        ToolAction tool \<Rightarrow>
          bindA (apply_tool_action sv tool (snd decided)) (\<lambda>k.
          after_tool sv (v\<lparr>lv_tool_steps := lv_tool_steps v + k\<rparr>) (ta_name tool))
      | RetryAction _ notice _ \<Rightarrow> handle_retry sv v metadata notice
      | FinalAction text _ \<Rightarrow> handle_final sv text)"

text \<open>Up to the model call: the guard is captured, then the request is built under it.\<close>

definition prepare_attempt ::
  "'w services \<Rightarrow> val \<Rightarrow> dict \<Rightarrow> int \<Rightarrow> loop_vars \<Rightarrow> ('w loop, request \<times> dict) act" where
  "prepare_attempt sv snapshot telemetry n v =
     bindA (capture_model_session_guard sv) (\<lambda>g.
     bindA (modify (\<lambda>l. l\<lparr>lp_guard := g\<rparr>)) (\<lambda>_.
     build_attempt_request sv n (lv_origin v) (lv_feedback v) snapshot telemetry (lv_preflight v)))"

text \<open>The body of the loop; \<open>n\<close> is the number of this attempt.\<close>

definition attempt_step ::
  "'w services \<Rightarrow> val \<Rightarrow> dict \<Rightarrow> int \<Rightarrow> loop_vars \<Rightarrow> ('w loop, progress) act" where
  "attempt_step sv snapshot telemetry n v =
     bindA (prepare_attempt sv snapshot telemetry n v) (\<lambda>(request, metadata).
     bindA (validate_model_session_guard sv) (\<lambda>_.
     bindA (complete_model_attempt sv request metadata) (\<lambda>(answer, metadata).
     case answer of
       Inl e \<Rightarrow> handle_model_error sv n v metadata e
     | Inr decided \<Rightarrow>
         bindA (validate_model_session_guard sv) (\<lambda>_. handle_action sv v metadata decided))))"

subsection \<open>The loop\<close>

definition stop_at_limit :: "'w services \<Rightarrow> int \<Rightarrow> loop_vars \<Rightarrow> ('w loop, outcome) act" where
  "stop_at_limit sv n v =
     (if max_attempts sv \<le> n \<and> lv_tool_steps v < sv_max_steps sv
      then stop_with sv stop_retry_limit
             (''Stopped after too many malformed model responses without a valid ''
              @ ''tool call or final answer.'')
      else stop_with sv stop_step_limit
             ''Stopped after reaching the step limit without a final answer.'')"

function attempt_loop ::
  "'w services \<Rightarrow> val \<Rightarrow> dict \<Rightarrow> int \<Rightarrow> loop_vars \<Rightarrow> ('w loop, outcome) act" where
  "attempt_loop sv snapshot telemetry n v l =
     (if lv_tool_steps v < sv_max_steps sv \<and> n < max_attempts sv
      then (case attempt_step sv snapshot telemetry (n + 1) v l of
              (Inl e, l) \<Rightarrow> (Inl e, l)
            | (Inr (Return oc), l) \<Rightarrow> (Inr oc, l)
            | (Inr (Continue v), l) \<Rightarrow> attempt_loop sv snapshot telemetry (n + 1) v l)
      else stop_at_limit sv n v l)"
  by pat_completeness auto
termination
  by (relation "measure (\<lambda>(sv, _, _, n, _, _). nat (max_attempts sv - n))") auto

declare attempt_loop.simps [simp del]

definition start_agent_run ::
  "'w services \<Rightarrow> string \<Rightarrow> ('w loop, dict \<times> val \<times> dict) act" where
  "start_agent_run sv said =
     bindA (read lp_task) (\<lambda>t.
     bindA (on_world (sv_start_run sv t)) (\<lambda>_.
     bindA (emit_trace sv ''run_started'') (\<lambda>_.
     bindA (on_agent (sv_resolution sv)) (\<lambda>resolved.
     bindA (whenA resolved (emit_trace sv ''provider_resolved'')) (\<lambda>_.
     bindA (on_agent (sv_preflight sv said)) (\<lambda>preflight.
     bindA (on_agent (sv_inject sv said)) (\<lambda>(snapshot, telemetry).
     ret (preflight, snapshot, telemetry))))))))"

definition first_vars :: "dict \<Rightarrow> loop_vars" where
  "first_vars preflight =
     \<lparr>lv_feedback = [], lv_tool_steps = 0, lv_origin = ''initial'', lv_model_retries = 0,
      lv_retry_actions = 0, lv_recoveries = 0, lv_corrections = [], lv_preflight = preflight\<rparr>"

definition run_agent_attempts :: "'w services \<Rightarrow> string \<Rightarrow> ('w loop, outcome) act" where
  "run_agent_attempts sv said =
     bindA (start_agent_run sv said) (\<lambda>(preflight, snapshot, telemetry).
     attempt_loop sv snapshot telemetry 0 (first_vars preflight))"

subsection \<open>Finalization\<close>

text \<open>\<open>attempt(label, operation)\<close>: an exception is collected; an interrupt is not.\<close>

definition collect :: "('w loop, 'a) act \<Rightarrow> ('w loop, 'a option) act" where
  "collect m =
     bindA (attempt m) (\<lambda>r.
       case r of
         Inr x \<Rightarrow> ret (Some x)
       | Inl e \<Rightarrow>
           if e = KeyboardInterrupt then raise e
           else bindA (modify (\<lambda>l. l\<lparr>lp_errors := lp_errors l @ [cause_of e]\<rparr>)) (\<lambda>_. ret None))"

definition create_resume_checkpoint ::
  "'w services \<Rightarrow> string \<Rightarrow> string \<Rightarrow> ('w loop, unit) act" where
  "create_resume_checkpoint sv said trigger =
     bindA (read (\<lambda>l. (lp_task l, tr_changed_paths (me_tools (lp_exec l))))) (\<lambda>(t, paths).
     bindA (attempt (on_agent (sv_checkpoint sv t said trigger paths))) (\<lambda>r.
       case r of
         Inl e \<Rightarrow>
           if e = KeyboardInterrupt then raise e
           else bindA (block_session_writes e) (\<lambda>_.
             if is_os_error e \<or> committed e then raise (SessionCommitError e) else raise e)
       | Inr i \<Rightarrow>
           bindA (on_task (\<lambda>t. t\<lparr>checkpoint_id := i\<rparr>)) (\<lambda>_.
           bindA (write_task_state sv) (\<lambda>_. emit_trace sv ''checkpoint_created''))))"

definition commit_terminal :: "'w services \<Rightarrow> outcome \<Rightarrow> ('w loop, unit) act" where
  "commit_terminal sv oc =
     bindA (read session_writes_blocked) (\<lambda>blocked.
       case oc_terminal oc of
         None \<Rightarrow> ret ()
       | Some m \<Rightarrow>
           whenA (\<not> (case oc_primary oc of None \<Rightarrow> False | Some e \<Rightarrow> committed e) \<and> \<not> blocked)
             (bindA (collect (commit_session sv [m] False)) (\<lambda>_. ret ())))"

definition final_checkpoint :: "'w services \<Rightarrow> string \<Rightarrow> outcome \<Rightarrow> ('w loop, unit) act" where
  "final_checkpoint sv said oc =
     bindA (read session_writes_blocked) (\<lambda>blocked.
     whenA (\<not> blocked)
       (bindA (collect (create_resume_checkpoint sv said (oc_trigger oc))) (\<lambda>made.
        whenA (made = None \<and> oc_primary oc = None)
          (bindA (on_task (stop_persistence_error [])) (\<lambda>_.
           bindA (collect (write_task_state sv)) (\<lambda>_. ret ()))))))"

definition finish_report :: "'w services \<Rightarrow> ('w loop, unit) act" where
  "finish_report sv =
     bindA (read (\<lambda>l. (lp_task l, lp_usage l, lp_exec l))) (\<lambda>(t, usage, exec).
     bindA (collect (on_agent (sv_report sv t usage exec))) (\<lambda>report.
     bindA (read (\<lambda>l. length (lp_errors l))) (\<lambda>failed.
       case report of
         None \<Rightarrow> ret ()
       | Some d \<Rightarrow>
           let d = dset d ''finalization'' (VDict
                 [(''status'', VStr (if failed = 0 then ''complete'' else ''incomplete'')),
                  (''error_count'', VInt (int failed))]) in
           bindA (collect (on_world (sv_write_report sv t
                    (as_dict (redactor (sv_env sv) (VDict d)))))) (\<lambda>_. ret ()))))"

text \<open>The steps of the finalization; the result says whether its report failed after the trace.\<close>

definition close_run :: "'w services \<Rightarrow> string \<Rightarrow> outcome \<Rightarrow> ('w loop, bool) act" where
  "close_run sv said oc =
     bindA (commit_terminal sv oc) (\<lambda>_.
     bindA (collect (write_task_state sv)) (\<lambda>_.
     bindA (final_checkpoint sv said oc) (\<lambda>_.
     bindA (collect (emit_trace sv ''run_finished'')) (\<lambda>finished.
     bindA (read (\<lambda>l. length (lp_errors l))) (\<lambda>before.
     bindA (finish_report sv) (\<lambda>_.
     read (\<lambda>l. finished \<noteq> None \<and> before < length (lp_errors l))))))))"

definition trace_late_failure :: "'w services \<Rightarrow> ('w loop, unit) act" where
  "trace_late_failure sv =
     bindA (attempt (emit_trace sv ''finalization_failed'')) (\<lambda>r.
       case r of Inl e \<Rightarrow> (if e = KeyboardInterrupt then raise e else ret ()) | Inr _ \<Rightarrow> ret ())"

definition finalize_run :: "'w services \<Rightarrow> string \<Rightarrow> outcome \<Rightarrow> ('w loop, string) act" where
  "finalize_run sv said oc =
     bindA (modify (\<lambda>l. l\<lparr>lp_errors := []\<rparr>)) (\<lambda>_.
     bindA (close_run sv said oc) (\<lambda>late.
     bindA (read lp_errors) (\<lambda>errors.
     bindA (whenA late (trace_late_failure sv)) (\<lambda>_.
     case errors of
       e # _ \<Rightarrow> (if oc_primary oc = None then raise e else ret (oc_final oc))
     | [] \<Rightarrow> ret (oc_final oc)))))"

subsection \<open>The turn\<close>

definition stop_unexpected ::
  "'w services \<Rightarrow> string \<Rightarrow> (string \<Rightarrow> task_state \<Rightarrow> task_state) \<Rightarrow> (task_state \<Rightarrow> bool) \<Rightarrow> exn
   \<Rightarrow> ('w loop, outcome) act" where
  "stop_unexpected sv reason stop needed primary =
     (let final = runtime_terminal_text reason in
      bindA (on_task (\<lambda>t. if needed t then stop final t else t)) (\<lambda>_.
      bindA (runtime_terminal_message sv reason) (\<lambda>m.
      ret \<lparr>oc_final = final, oc_trigger = reason, oc_terminal = Some m, oc_primary = Some primary\<rparr>)))"

definition settle_outcome :: "'w services \<Rightarrow> exn + outcome \<Rightarrow> ('w loop, outcome) act" where
  "settle_outcome sv r =
     (case r of
        Inr oc \<Rightarrow> ret oc
      | Inl KeyboardInterrupt \<Rightarrow>
          stop_unexpected sv ''interrupted'' stop_interrupted (\<lambda>_. True) KeyboardInterrupt
      | Inl (SessionCommitError cause) \<Rightarrow>
          stop_unexpected sv ''persistence_error'' stop_persistence_error
            (\<lambda>t. stop_reason t \<noteq> stop_reason_text PERSISTENCE_ERROR) cause
      | Inl e \<Rightarrow>
          stop_unexpected sv ''runtime_error'' stop_runtime_error
            (\<lambda>t. status t = status_text RUNNING) e)"

definition commit_user_message :: "'w services \<Rightarrow> string \<Rightarrow> ('w loop, unit) act" where
  "commit_user_message sv text =
     bindA (new_plain_message sv ''user'' text []) (\<lambda>m.
     bindA (attempt (commit_session sv [m] True)) (\<lambda>r.
       case r of
         Inr _ \<Rightarrow> ret ()
       | Inl e \<Rightarrow> raise (cause_of e)))"

definition start_task :: "'w services \<Rightarrow> string \<Rightarrow> ('w loop, unit) act" where
  "start_task sv said =
     bindA tick (\<lambda>n.
     bindA tick (\<lambda>k.
     bindA the_agent (\<lambda>a.
     bindA (set_request_metadata []) (\<lambda>_.
     modify (\<lambda>l. l\<lparr>lp_task := (create_task [] (''task_'' @ sv_hex sv k) said (''run_'' @ sv_hex sv n))
         \<lparr>resume_status := as_str (dget_or (ap_resume a) ''status'' (VStr ''no-checkpoint''))\<rparr>,
       lp_usage := empty_usage_totals, lp_exec := empty_model_execution\<rparr>)))))"

text \<open>The turn up to the commit of the user's message, and after it.\<close>

definition open_turn :: "'w services \<Rightarrow> string \<Rightarrow> ('w loop, unit) act" where
  "open_turn sv said =
     bindA (capture_model_session_guard sv) (\<lambda>g.
     bindA (modify (\<lambda>l. l\<lparr>lp_guard := g\<rparr>)) (\<lambda>_.
     bindA (on_agent (modify (\<lambda>a. a\<lparr>ap_memory := set_task_summary (VStr said) (ap_memory a)\<rparr>))) (\<lambda>_.
     bindA sync_working_memory (\<lambda>_. commit_user_message sv said))))"

definition drive_turn :: "'w services \<Rightarrow> string \<Rightarrow> ('w loop, string) act" where
  "drive_turn sv said =
     bindA (start_task sv said) (\<lambda>_.
     bindA (attempt (run_agent_attempts sv said)) (\<lambda>r.
     bindA (settle_outcome sv r) (\<lambda>oc.
     bindA (finalize_run sv said oc) (\<lambda>final.
     case oc_primary oc of None \<Rightarrow> ret final | Some e \<Rightarrow> raise e))))"

definition run_turn :: "'w services \<Rightarrow> string \<Rightarrow> ('w loop, string) act" where
  "run_turn sv said =
     bindA (open_turn sv (sv_redact_text sv said)) (\<lambda>_. drive_turn sv (sv_redact_text sv said))"

text \<open>\<open>try: ... finally: ...\<close>.\<close>

definition finally_do :: "('s, 'a) act \<Rightarrow> ('s, unit) act \<Rightarrow> ('s, 'a) act" where
  "finally_do m cleanup =
     bindA (attempt m) (\<lambda>r. bindA cleanup (\<lambda>_. case r of Inl e \<Rightarrow> raise e | Inr x \<Rightarrow> ret x))"

text \<open>\<open>AgentLoop.run\<close>; the skill of the turn is \<open>agent.active_skill\<close>.\<close>

definition set_skill :: "string option \<Rightarrow> ('w loop, unit) act" where
  "set_skill skill = on_agent (modify (\<lambda>a. a\<lparr>ap_skill := skill\<rparr>))"

definition run_agent :: "'w services \<Rightarrow> string \<Rightarrow> string option \<Rightarrow> ('w loop, string) act" where
  "run_agent sv said skill =
     bindA the_agent (\<lambda>a.
       if ap_skill a \<noteq> None then raise (RuntimeError ''skill_turn_active'')
       else bindA (set_skill skill) (\<lambda>_.
         finally_do
           (bindA begin_permission_turn (\<lambda>_.
            finally_do (run_turn sv said) end_permission_turn))
           (set_skill None)))"

end
