(* ===== verification/StoreFacts.thy ===== *)
theory StoreFacts
  imports SessionStore
begin

text \<open>
  The store's invariant and the contract its operations share: the cache agrees
  with the file, an operation that fails leaves every file as it was, and one that
  succeeds only appends entries to its own session.  The contract is a locale; each
  public operation is an interpretation of it.
\<close>

definition store_ok :: "env \<Rightarrow> store \<Rightarrow> bool" where
  "store_ok env s \<longleftrightarrow>
     (\<forall>sid f t. disk s sid = Some f \<longrightarrow> tree_cache s sid = Some (fsig f, t) \<longrightarrow>
        parse_current env sid f = Inr t)"

lemma store_okD:
  "store_ok env s \<Longrightarrow> disk s sid = Some f \<Longrightarrow> tree_cache s sid = Some (fsig f, t) \<Longrightarrow>
   parse_current env sid f = Inr t"
  by (simp add: store_ok_def)

lemma store_ok_empty_cache: "tree_cache s = Map.empty \<Longrightarrow> store_ok env s"
  by (simp add: store_ok_def)

subsection \<open>Parsing\<close>

lemma mget_is_int:
  "(case mget h k of VInt v \<Rightarrow> Inr v | _ \<Rightarrow> Inl e) = Inr v \<longleftrightarrow> mget h k = VInt v"
  by (cases "mget h k") auto

lemma parse_currentD:
  assumes "parse_current env sid f = Inr t"
  shows "ftail f = []" "parse_rows env SESSION_FORMAT_VERSION sid (frows f) = Inr t"
    "tree_ok SESSION_FORMAT_VERSION t" "hid (theader t) = sid" "file_bytes f \<le> MAX_SESSION_BYTES"
    "frows f \<noteq> []" "is_int (mget (hd (frows f)) ''format_version'')"
proof -
  from assms have ver: "jsonl_format_version f = Inr SESSION_FORMAT_VERSION"
    and p: "parse_jsonl env SESSION_FORMAT_VERSION sid f = Inr t"
    and "file_bytes f \<le> MAX_SESSION_BYTES"
    by (auto simp: parse_current_def bindR_Inr_iff split: if_split_asm)
  then show tail: "ftail f = []" and rows: "parse_rows env SESSION_FORMAT_VERSION sid (frows f) = Inr t"
    and "file_bytes f \<le> MAX_SESSION_BYTES" and ne: "frows f \<noteq> []"
    by (auto simp: parse_jsonl_def split: if_split_asm)
  from ver ne show int: "is_int (mget (hd (frows f)) ''format_version'')"
    by (auto simp: jsonl_format_version_def bindR_Inr_iff first_line_def is_int_iff mget_is_int
        split: if_split_asm list.split_asm)
  from parse_rows_ok [OF rows int]
  show "tree_ok SESSION_FORMAT_VERSION t" "hid (theader t) = sid" by simp_all
qed

lemma parse_current_intro:
  assumes "ftail f = []" "frows f = r # rows" "is_dict r"
    "mget r ''format_version'' = VInt SESSION_FORMAT_VERSION" "file_bytes f \<le> MAX_SESSION_BYTES"
  shows "parse_current env sid f = parse_rows env SESSION_FORMAT_VERSION sid (frows f)"
  using assms
  by (simp add: parse_current_def jsonl_format_version_def first_line_def parse_jsonl_def)

lemma parse_current_header:
  assumes "parse_current env sid f = Inr t"
  shows "\<exists>r rows. frows f = r # rows \<and> is_dict r
     \<and> mget r ''format_version'' = VInt SESSION_FORMAT_VERSION"
proof -
  from parse_currentD(6) [OF assms] obtain r rows where rows: "frows f = r # rows"
    by (cases "frows f") auto
  from assms have "jsonl_format_version f = Inr SESSION_FORMAT_VERSION"
    by (auto simp: parse_current_def bindR_Inr_iff split: if_split_asm)
  with rows show ?thesis
    by (auto simp: jsonl_format_version_def first_line_def mget_is_int split: if_split_asm)
qed

subsection \<open>Reading is transparent\<close>

lemma read_tree_disk [simp]: "disk (snd (read_tree env sid s)) = disk s"
  by (simp add: read_tree_def split: option.split sum.split prod.split)

lemma read_tree_legacy [simp]: "legacy_ids (snd (read_tree env sid s)) = legacy_ids s"
  by (simp add: read_tree_def split: option.split sum.split prod.split)

lemma read_tree_result:
  assumes "store_ok env s"
  shows "fst (read_tree env sid s) =
     (case disk s sid of None \<Rightarrow> Inl (FileNotFoundError sid) | Some f \<Rightarrow> parse_current env sid f)"
  using store_okD [OF assms]
  by (auto simp: read_tree_def split: option.split sum.split prod.split)

lemma read_tree_store_ok: "store_ok env s \<Longrightarrow> store_ok env (snd (read_tree env sid s))"
  by (auto simp: store_ok_def read_tree_def split: option.split sum.split prod.split)

lemma read_tree_Inr:
  assumes "store_ok env s" "read_tree env sid s = (Inr t, s')"
  shows "\<exists>f. disk s sid = Some f \<and> parse_current env sid f = Inr t
     \<and> disk s' = disk s \<and> legacy_ids s' = legacy_ids s \<and> store_ok env s'"
proof -
  from read_tree_result [OF assms(1), of sid] assms(2) obtain f where
    "disk s sid = Some f" "parse_current env sid f = Inr t"
    by (auto split: option.split_asm)
  with read_tree_disk [of env sid s] read_tree_legacy [of env sid s]
    read_tree_store_ok [OF assms(1), of sid] assms(2)
  show ?thesis by auto
qed

subsection \<open>Appending\<close>

definition extends :: "string \<Rightarrow> entry list \<Rightarrow> store \<Rightarrow> store \<Rightarrow> bool" where
  "extends sid es s s' \<longleftrightarrow>
     legacy_ids s' = legacy_ids s \<and>
     (if es = [] then disk s' = disk s
      else \<exists>f. disk s sid = Some f
        \<and> disk s' = (disk s)(sid \<mapsto> f\<lparr>frows := frows f @ map entry_val es, fsig := Suc (fsig f)\<rparr>))"

text \<open>What a successful append did.\<close>

definition appended :: "env \<Rightarrow> string \<Rightarrow> entry list \<Rightarrow> session_tree \<Rightarrow> session_tree \<Rightarrow> bool" where
  "appended env sid es t t' \<longleftrightarrow>
     entries_ok (Some (redactor env)) SESSION_FORMAT_VERSION (ids (tentries t)) es
     \<and> lines_ok es \<and> extend_tree t es = Inr t'
     \<and> validate_projection SESSION_FORMAT_VERSION sid (VDict (tprojection t')) = Inr ()"

lemma check_entries_iff:
  "check_entries redact t es = Inr u \<longleftrightarrow>
     entries_ok redact SESSION_FORMAT_VERSION (ids (tentries t)) es"
  by (simp add: check_entries_def bindR_Inr_iff validate_rows_val)

lemma serialize_each_iff:
  "each (\<lambda>e. bindR (serialize_line (entry_val e)) (\<lambda>_. Inr ())) es = Inr u \<longleftrightarrow> lines_ok es"
  by (auto simp: each_Inr_iff bindR_Inr_iff serialize_line_def lines_ok_def list_all_iff not_less
      split: if_split_asm)

lemma bindO_Inr_iff:
  "bindO m f s = (Inr y, s') \<longleftrightarrow> (\<exists>x s1. m s = (Inr x, s1) \<and> f x s1 = (Inr y, s'))"
  by (auto simp: bindO_def split: prod.split sum.split)

lemma lift_Inr_iff: "lift r s = (Inr y, s') \<longleftrightarrow> r = Inr y \<and> s' = s"
  by (auto simp: lift_def)

lemma requireO_Inr_iff: "requireO c e s = (Inr y, s') \<longleftrightarrow> c \<and> s' = s"
  by (auto simp: requireO_def lift_Inr_iff require_Inr_iff)

lemma append_entries_Inr:
  assumes ok: "store_ok env s" and app: "append_entries env sid es s = (Inr u, s')" and ne: "es \<noteq> []"
  shows "\<exists>f t t' f'. disk s sid = Some f \<and> parse_current env sid f = Inr t \<and> appended env sid es t t'
     \<and> f' = f\<lparr>frows := frows f @ map entry_val es, fsig := Suc (fsig f)\<rparr>
     \<and> disk s' = (disk s)(sid \<mapsto> f') \<and> tree_cache s' sid = Some (fsig f', t')
     \<and> parse_current env sid f' = Inr t' \<and> store_ok env s' \<and> legacy_ids s' = legacy_ids s"
proof -
  from app ne obtain t s1 t' where rd: "read_tree env sid s = (Inr t, s1)"
    and a: "appended env sid es t t'" and w: "append_rows sid (map entry_val es) t' s1 = (Inr (), s')"
    by (auto simp: append_entries_def bindO_Inr_iff lift_Inr_iff check_entries_iff serialize_each_iff
        appended_def)
  from read_tree_Inr [OF ok rd] obtain f where f: "disk s sid = Some f" "parse_current env sid f = Inr t"
    and s1: "disk s1 = disk s" "legacy_ids s1 = legacy_ids s" "store_ok env s1" by blast
  define f' where "f' = f\<lparr>frows := frows f @ map entry_val es, fsig := Suc (fsig f)\<rparr>"
  from w f(1) s1(1) have size: "file_bytes f + sum_list (map line_bytes (map entry_val es)) \<le> MAX_SESSION_BYTES"
    and s': "s' = s1\<lparr>disk := (disk s1)(sid \<mapsto> f'), tree_cache := (tree_cache s1)(sid \<mapsto> (fsig f', t'))\<rparr>"
    by (auto simp: append_rows_def f'_def Let_def split: if_split_asm)
  note pf = parse_currentD [OF f(2)]
  have rows: "parse_rows env SESSION_FORMAT_VERSION sid (frows f') = Inr t'"
    using parse_rows_append [OF pf(2,3), of "Some (redactor env)" es t'] a pf(4)
    by (auto simp: appended_def f'_def version_defs)
  have "file_bytes f' \<le> MAX_SESSION_BYTES"
    using size by (simp add: f'_def file_bytes_def)
  moreover have "ftail f' = []" using pf(1) by (simp add: f'_def)
  ultimately have pf': "parse_current env sid f' = Inr t'"
    using parse_current_header [OF f(2)] rows parse_current_intro [of f'] by (auto simp: f'_def)
  have "store_ok env s'"
    using s1(3) pf' by (auto simp: store_ok_def s')
  with f a s' s1 pf' show ?thesis
    by - (rule exI [of _ f], rule exI [of _ t], rule exI [of _ t'], rule exI [of _ f'],
      simp add: f'_def)
qed

lemma append_entries_Inl:
  assumes ok: "store_ok env s" and app: "append_entries env sid es s = (Inl e, s')"
  shows "disk s' = disk s \<and> legacy_ids s' = legacy_ids s \<and> store_ok env s'"
proof -
  have "s' = snd (read_tree env sid s) \<or> s' = s"
    using app
    by (auto simp: append_entries_def bindO_def lift_def append_rows_def Let_def
        split: if_split_asm sum.split_asm prod.split_asm option.split_asm)
  then show ?thesis using ok read_tree_store_ok by auto
qed

subsection \<open>The shared contract\<close>

definition reads :: "env \<Rightarrow> 'a op \<Rightarrow> bool" where
  "reads env m \<longleftrightarrow>
     (\<forall>s. store_ok env s \<longrightarrow> store_ok env (snd (m s)) \<and> disk (snd (m s)) = disk s
        \<and> legacy_ids (snd (m s)) = legacy_ids s)"

definition guarded :: "env \<Rightarrow> string \<Rightarrow> 'a op \<Rightarrow> bool" where
  "guarded env sid m \<longleftrightarrow>
     (\<forall>s. store_ok env s \<longrightarrow> store_ok env (snd (m s))
        \<and> (\<exists>es. extends sid es s (snd (m s)) \<and> (isl (fst (m s)) \<longrightarrow> es = [])))"

named_theorems guarded_intros \<open>composition of store operations\<close>

lemma extends_Nil: "extends sid [] s s' \<longleftrightarrow> disk s' = disk s \<and> legacy_ids s' = legacy_ids s"
  by (auto simp: extends_def)

lemma reads_guarded: "reads env m \<Longrightarrow> guarded env sid m"
  unfolding reads_def guarded_def by (metis extends_Nil)

lemma reads_lift: "reads env (lift r)"
  by (simp add: reads_def lift_def)

lemma reads_read_tree: "reads env (read_tree env sid)"
  by (simp add: reads_def read_tree_store_ok)

lemma guarded_lift [guarded_intros]: "guarded env sid (lift r)"
  by (rule reads_guarded [OF reads_lift])

lemma guarded_append_entries [guarded_intros]: "guarded env sid (append_entries env sid es)"
  unfolding guarded_def
proof (intro allI impI)
  fix s assume ok: "store_ok env s"
  show "store_ok env (snd (append_entries env sid es s)) \<and>
    (\<exists>es'. extends sid es' s (snd (append_entries env sid es s)) \<and>
       (isl (fst (append_entries env sid es s)) \<longrightarrow> es' = []))"
  proof (cases "append_entries env sid es s")
    case (Pair r s')
    show ?thesis
    proof (cases r)
      case (Inl e)
      with append_entries_Inl [OF ok, of sid es e s'] Pair show ?thesis
        by (auto simp: extends_def intro!: exI [of _ "[]"])
    next
      case (Inr u)
      show ?thesis
      proof (cases "es = []")
        case True
        with Pair Inr ok show ?thesis
          by (auto simp: append_entries_def lift_def extends_def intro!: exI [of _ "[]"])
      next
        case False
        from append_entries_Inr [OF ok _ False, of sid u s'] Pair Inr
        have "extends sid es s s'" "store_ok env s'" using False by (auto simp: extends_def)
        with Pair Inr show ?thesis by auto
      qed
    qed
  qed
qed

lemma guarded_bind_reads:
  assumes "reads env m" "\<And>x. guarded env sid (f x)"
  shows "guarded env sid (bindO m f)"
  unfolding guarded_def
proof (intro allI impI)
  fix s assume ok: "store_ok env s"
  obtain r s1 where m: "m s = (r, s1)" by (cases "m s")
  from assms(1) ok m have s1: "store_ok env s1" "disk s1 = disk s" "legacy_ids s1 = legacy_ids s"
    unfolding reads_def by (metis snd_conv)+
  show "store_ok env (snd (bindO m f s)) \<and>
    (\<exists>es. extends sid es s (snd (bindO m f s)) \<and> (isl (fst (bindO m f s)) \<longrightarrow> es = []))"
  proof (cases r)
    case (Inl e)
    with m s1 show ?thesis by (auto simp: bindO_def extends_def intro!: exI [of _ "[]"])
  next
    case (Inr x)
    with m have b: "bindO m f s = f x s1" by (simp add: bindO_def)
    from assms(2) [of x] s1(1) show ?thesis
      unfolding b guarded_def extends_def s1(2,3) [symmetric] by blast
  qed
qed

lemma guarded_bind_read_tree [guarded_intros]:
  "(\<And>t. guarded env sid (f t)) \<Longrightarrow> guarded env sid (bindO (read_tree env sid') f)"
  by (rule guarded_bind_reads [OF reads_read_tree])

lemma guarded_bind_lift [guarded_intros]:
  assumes "\<And>x. r = Inr x \<Longrightarrow> guarded env sid (f x)"
  shows "guarded env sid (bindO (lift r) f)"
proof (cases r)
  case (Inl e)
  then have "bindO (lift r) f = lift (Inl e)" by (simp add: fun_eq_iff bindO_def lift_def)
  then show ?thesis by (simp add: guarded_lift)
next
  case (Inr x)
  then have "bindO (lift r) f = f x" by (simp add: fun_eq_iff bindO_def lift_def)
  with assms Inr show ?thesis by simp
qed

lemma guarded_bind_require [guarded_intros]:
  "(c \<Longrightarrow> guarded env sid (f ())) \<Longrightarrow> guarded env sid (bindO (requireO c e) f)"
  unfolding requireO_def by (rule guarded_bind_lift) (simp add: require_Inr_iff)

lemma guarded_bind_return [guarded_intros]:
  assumes "guarded env sid m"
  shows "guarded env sid (bindO m (\<lambda>x. lift (Inr (g x))))"
proof -
  have "snd (bindO m (\<lambda>x. lift (Inr (g x))) s) = snd (m s)"
    "isl (fst (bindO m (\<lambda>x. lift (Inr (g x))) s)) = isl (fst (m s))" for s
    by (cases "m s"; cases "fst (m s)"; auto simp: bindO_def lift_def)+
  with assms show ?thesis by (simp add: guarded_def)
qed

lemma guarded_bind_session_id [guarded_intros]:
  assumes "guarded env sid (f sid)"
  shows "guarded env sid (bindO (lift (session_id (VStr sid))) f)"
  by (rule guarded_bind_lift) (use assms in \<open>auto simp: session_id_def split: if_split_asm\<close>)

lemma guarded_if [guarded_intros]:
  "(c \<Longrightarrow> guarded env sid m) \<Longrightarrow> (\<not> c \<Longrightarrow> guarded env sid m') \<Longrightarrow>
   guarded env sid (if c then m else m')"
  by simp

subsection \<open>Operations that share the contract\<close>

locale store_operation =
  fixes env :: env and sid :: string and m :: "'a op"
  assumes contract: "guarded env sid m"
begin

lemma keeps_cache_coherent: "store_ok env s \<Longrightarrow> store_ok env (snd (m s))"
  using contract by (simp add: guarded_def)

lemma error_changes_nothing:
  assumes "store_ok env s" "m s = (Inl e, s')"
  shows "disk s' = disk s" "legacy_ids s' = legacy_ids s"
proof -
  from contract assms obtain es where "extends sid es s s'" "es = []"
    unfolding guarded_def by (metis fst_conv snd_conv sum.disc(1))
  then show "disk s' = disk s" "legacy_ids s' = legacy_ids s" by (auto simp: extends_Nil)
qed

lemma other_sessions_untouched:
  assumes "store_ok env s" "sid' \<noteq> sid"
  shows "disk (snd (m s)) sid' = disk s sid'"
proof -
  from contract assms(1) obtain es where "extends sid es s (snd (m s))"
    unfolding guarded_def by blast
  with assms(2) show ?thesis by (auto simp: extends_def split: if_split_asm)
qed

text \<open>History is append-only: the old rows are a prefix of the new ones.\<close>

lemma history_is_prefix:
  assumes "store_ok env s" "disk s sid = Some f"
  shows "\<exists>f' es. disk (snd (m s)) sid = Some f' \<and> frows f' = frows f @ map entry_val es
     \<and> ftail f' = ftail f"
proof -
  from contract assms(1) obtain es where "extends sid es s (snd (m s))"
    unfolding guarded_def by blast
  with assms(2) show ?thesis
    by (cases "es = []") (auto simp: extends_def intro: exI [of _ "[]"])
qed

text \<open>What is read next, from the cache or in a new process, is the same.\<close>

lemma reload_agrees:
  assumes "store_ok env s"
  shows "fst (read_tree env i (snd (m s))) = fst (read_tree env i ((snd (m s))\<lparr>tree_cache := c\<rparr>))
    \<or> \<not> store_ok env ((snd (m s))\<lparr>tree_cache := c\<rparr>)"
  using read_tree_result [OF keeps_cache_coherent [OF assms]]
    read_tree_result [of env "(snd (m s))\<lparr>tree_cache := c\<rparr>"] by auto

end

lemma guarded_set_plan_text: "guarded env sid (set_plan_text env fresh sid text x)"
  unfolding set_plan_text_def Let_def by (intro guarded_intros)

lemma guarded_exit_plan_mode: "guarded env sid (exit_plan_mode env fresh sid text n leaf)"
  unfolding exit_plan_mode_def Let_def by (intro guarded_intros)

lemma guarded_append_control: "guarded env sid (append_control env fresh sid kind d p l)"
  unfolding append_control_def Let_def by (intro guarded_intros)

lemma guarded_set_provider_model: "guarded env sid (set_provider_model env fresh sid b x l)"
  unfolding set_provider_model_def Let_def by (intro guarded_intros)

lemma guarded_append_permissions [guarded_intros]:
  "guarded env sid (append_permissions env fresh sid m q us)"
  unfolding append_permissions_def Let_def by (intro guarded_intros)

lemma guarded_update_permissions: "guarded env sid (update_permissions env fresh sid mode pre us)"
  unfolding update_permissions_def by (intro guarded_intros)

lemma guarded_append_batch [guarded_intros]:
  "guarded env sid (append_batch env fresh n sid ms st l b)"
  unfolding append_batch_def Let_def by (intro guarded_intros)

lemma guarded_append_messages: "guarded env sid (append_messages env fresh sid ms st l b)"
  unfolding append_messages_def Let_def by (intro guarded_intros)

lemma guarded_rewind_with_summary: "guarded env sid (rewind_with_summary env fresh sid i d c l)"
  unfolding rewind_with_summary_def Let_def by (intro guarded_intros)

interpretation set_plan: store_operation env sid "set_plan_text env fresh sid pt x"
  for env fresh sid pt x
  by unfold_locales (rule guarded_set_plan_text)

interpretation exit_plan: store_operation env sid "exit_plan_mode env fresh sid pt n leaf"
  for env fresh sid pt n leaf
  by unfold_locales (rule guarded_exit_plan_mode)

interpretation control: store_operation env sid "append_control env fresh sid kind d p l"
  for env fresh sid kind d p l
  by unfold_locales (rule guarded_append_control)

interpretation provider_model: store_operation env sid "set_provider_model env fresh sid b x l"
  for env fresh sid b x l
  by unfold_locales (rule guarded_set_provider_model)

interpretation permissions: store_operation env sid "update_permissions env fresh sid mode pre us"
  for env fresh sid mode pre us
  by unfold_locales (rule guarded_update_permissions)

interpretation messages: store_operation env sid "append_messages env fresh sid ms st l b"
  for env fresh sid ms st l b
  by unfold_locales (rule guarded_append_messages)

interpretation rewind_summary: store_operation env sid "rewind_with_summary env fresh sid i d c l"
  for env fresh sid i d c l
  by unfold_locales (rule guarded_rewind_with_summary)

end
