(* ===== verification/StoreEffects.thy ===== *)
theory StoreEffects
  imports StoreFacts
begin

text \<open>
  What each successful operation of the store does to the session: stated on
  \<open>stored\<close>, the tree a process with an empty cache reads from the file.
\<close>

definition stored :: "env \<Rightarrow> store \<Rightarrow> string \<Rightarrow> session_tree res" where
  "stored env s sid =
     (case disk s sid of None \<Rightarrow> Inl (FileNotFoundError sid) | Some f \<Rightarrow> parse_current env sid f)"

lemma stored_InrD:
  "stored env s sid = Inr t \<Longrightarrow> tree_ok SESSION_FORMAT_VERSION t \<and> hid (theader t) = sid"
  by (auto simp: stored_def dest: parse_currentD split: option.split_asm)

lemma stored_disk: "disk s' = disk s \<Longrightarrow> stored env s' sid = stored env s sid"
  by (simp add: stored_def)

lemma read_tree_stored: "store_ok env s \<Longrightarrow> fst (read_tree env sid s) = stored env s sid"
  by (simp add: read_tree_result stored_def)

lemma read_tree_InrD:
  assumes "store_ok env s" "read_tree env sid s = (Inr t, s1)"
  shows "stored env s sid = Inr t" "stored env s1 sid = Inr t" "store_ok env s1"
  using read_tree_Inr [OF assms] by (auto simp: stored_def)

lemma append_stored:
  assumes ok: "store_ok env s" and t: "stored env s sid = Inr t"
    and app: "append_entries env sid es s = (Inr u, s')" and ne: "es \<noteq> []"
  shows "\<exists>t'. stored env s' sid = Inr t' \<and> appended env sid es t t' \<and> store_ok env s'"
  using append_entries_Inr [OF ok app ne] t by (auto simp: stored_def)

lemma append_linear:
  assumes t: "stored env s sid = Inr t" and a: "appended env sid es t t'"
    and lin: "linear_from (leaf_id t) es"
  shows "tpath t' = tpath t @ es"
    "apply_entries SESSION_FORMAT_VERSION (tprojection t) es = Inr (tprojection t')"
    "tentries t' = tentries t @ es" "theader t' = theader t"
  using a lin tree_okD(6) [of SESSION_FORMAT_VERSION t] stored_InrD [OF t]
  by (auto simp: appended_def extend_tree_def bindR_Inr_iff split: if_split_asm)

lemma new_entry_fields [simp]:
  "parent_id (new_entry fresh n kind d p) = p" "etype (new_entry fresh n kind d p) = kind"
  "edata (new_entry fresh n kind d p) = d" "eid (new_entry fresh n kind d p) = fst (fresh n)"
  by (simp_all add: new_entry_def)

text \<open>One entry appended at the leaf.\<close>

lemma append_one:
  assumes ok: "store_ok env s" and t: "stored env s sid = Inr t" and p: "parent_id e = leaf_id t"
    and app: "append_entries env sid [e] s = (Inr u, s')"
  shows "\<exists>t'. stored env s' sid = Inr t' \<and> store_ok env s' \<and> tpath t' = tpath t @ [e]
     \<and> tentries t' = tentries t @ [e]
     \<and> apply_entry SESSION_FORMAT_VERSION (tprojection t) e = Inr (tprojection t')
     \<and> entry_data_ok SESSION_FORMAT_VERSION e"
proof -
  from append_stored [OF ok t app] obtain t' where t': "stored env s' sid = Inr t'" "store_ok env s'"
    and a: "appended env sid [e] t t'" by auto
  moreover from a have "entry_data_ok SESSION_FORMAT_VERSION e"
    by (auto simp: appended_def entry_ok_def entry_data_ok_def)
  moreover have "linear_from (leaf_id t) [e]" using p by simp
  note lin = append_linear [OF t a this]
  ultimately show ?thesis using lin(2) by (auto simp: lin bindR_Inr_iff)
qed

lemma session_id_Inr: "session_id v = Inr sid \<Longrightarrow> v = VStr sid"
  by (cases v) (auto simp: session_id_def session_id_ok_def split: if_split_asm)

lemma session_id_same: "session_id (VStr a) = Inr b \<Longrightarrow> b = a"
  by (auto dest: session_id_Inr)

lemmas op_simps = bindO_Inr_iff lift_Inr_iff requireO_Inr_iff

subsection \<open>Plans\<close>

lemma apply_plan_artifact_entry:
  assumes "apply_entry v p e = Inr q" "etype e = ''plan_artifact''"
    "dget (edata e) ''text'' = Some t" "dget (edata e) ''revision'' = Some n"
  shows "q = dset (dset p ''plan_text'' t) ''plan_revision'' n"
  using assms by (simp add: apply_entry_def apply_plan_artifact_def)

lemma set_plan_text_effect:
  assumes ok: "store_ok env s" and run: "set_plan_text env fresh sid text x s = (Inr (Some e), s')"
    and red: "\<And>n. redactor env (VDict [(''text'', text), (''revision'', VInt n)])
      = VDict [(''text'', text), (''revision'', VInt n)]"
  shows "\<exists>t t'. stored env s sid = Inr t \<and> stored env s' sid = Inr t' \<and> store_ok env s'
     \<and> plan_unchanged x t \<and> tpath t' = tpath t @ [e]
     \<and> tprojection t' = dset (dset (tprojection t) ''plan_text'' text) ''plan_revision''
         (VInt (as_int (dget_or (tprojection t) ''plan_revision'' (VInt 0)) + 1))"
proof -
  let ?rev = "\<lambda>t. VInt (as_int (dget_or (tprojection t) ''plan_revision'' (VInt 0)) + 1)"
  let ?e = "\<lambda>t. new_entry fresh 0 ''plan_artifact'' [(''text'', text), (''revision'', ?rev t)] (leaf_id t)"
  from run obtain t s1 where rd: "read_tree env sid s = (Inr t, s1)" and pu: "plan_unchanged x t"
    and app: "append_entries env sid [?e t] s1 = (Inr (), s')" and e: "e = ?e t"
    by (auto simp: set_plan_text_def op_simps red Let_def dest!: session_id_Inr split: if_split_asm)
  note t = read_tree_InrD [OF ok rd]
  from append_one [OF t(3,2) _ app] obtain t' where t': "stored env s' sid = Inr t'" "store_ok env s'"
    "tpath t' = tpath t @ [e]" "apply_entry SESSION_FORMAT_VERSION (tprojection t) e = Inr (tprojection t')"
    by (auto simp: e)
  have "tprojection t' = dset (dset (tprojection t) ''plan_text'' text) ''plan_revision'' (?rev t)"
    by (rule apply_plan_artifact_entry [OF t'(4)]) (simp_all add: e)
  with t(1) t' pu show ?thesis by blast
qed

subsection \<open>Leaving plan mode\<close>

lemma perm_inv_plan:
  assumes "perm_inv p" "dget_none p ''permission_mode'' = VStr (mode_value PLAN)"
  shows "\<exists>r. r \<noteq> PLAN \<and> dget p ''pre_plan_mode'' = Some (VStr (mode_value r))
     \<and> dget p ''permission_mode'' = Some (VStr (mode_value PLAN))"
proof -
  from assms obtain m where m: "dget p ''permission_mode'' = Some (VStr (mode_value m))"
    and pre: "if m = PLAN then \<exists>r. r \<noteq> PLAN \<and> dget p ''pre_plan_mode'' = Some (VStr (mode_value r))
       else dget p ''pre_plan_mode'' = Some (VStr [])"
    unfolding perm_inv_def mode_in_def pre_in_def by blast
  from m assms(2) have "m = PLAN" by (simp add: dget_none_def)
  with m pre show ?thesis by auto
qed

lemma apply_leave_plan:
  assumes "apply_entry v p e = Inr q" "etype e = ''permission_mode_change''"
    "edata e = mode_change_data (mode_value r) None" "r \<noteq> PLAN"
    "dget p ''permission_mode'' = Some (VStr (mode_value PLAN))"
  shows "q = dset (dset p ''pre_plan_mode'' (VStr [])) ''permission_mode'' (VStr (mode_value r))"
  using assms
  by (simp add: apply_entry_def apply_permission_mode_change_def mode_change_data_def dget_none_def
      Let_def)

lemma exit_plan_mode_effect:
  assumes ok: "store_ok env s" and run: "exit_plan_mode env fresh sid pt n leaf s = (Inr e, s')"
  shows "\<exists>t t' r. stored env s sid = Inr t \<and> stored env s' sid = Inr t' \<and> store_ok env s'
     \<and> leaf_id t = leaf \<and> py_eq (dget_or (tprojection t) ''plan_text'' (VStr [])) pt
     \<and> py_eq (dget_or (tprojection t) ''plan_revision'' (VInt 0)) n
     \<and> dget_none (tprojection t) ''permission_mode'' = VStr (mode_value PLAN)
     \<and> dget_none (tprojection t) ''pre_plan_mode'' = VStr (mode_value r) \<and> r \<noteq> PLAN
     \<and> tpath t' = tpath t @ [e]
     \<and> tprojection t' = dset (dset (tprojection t) ''pre_plan_mode'' (VStr []))
          ''permission_mode'' (VStr (mode_value r))"
proof -
  from run obtain t s1 target where rd: "read_tree env sid s = (Inr t, s1)"
    and g: "leaf_id t = leaf" "dget_none (tprojection t) ''permission_mode'' = VStr (mode_value PLAN)"
      "py_eq (dget_or (tprojection t) ''plan_text'' (VStr [])) pt"
      "py_eq (dget_or (tprojection t) ''plan_revision'' (VInt 0)) n"
    and tg: "validate_permission_mode
       (py_or (dget_none (tprojection t) ''pre_plan_mode'') (VStr (mode_value AUTO))) = Inr target"
    and e: "e = new_entry fresh 0 ''permission_mode_change'' (mode_change_data target None) (leaf_id t)"
    and app: "append_entries env sid [e] s1 = (Inr (), s')"
    by (auto simp: exit_plan_mode_def op_simps Let_def dest!: session_id_Inr)
  note t = read_tree_InrD [OF ok rd]
  have "perm_inv (tprojection t)"
    by (rule tree_ok_perm_inv) (use stored_InrD [OF t(1)] in \<open>auto simp: modern_version_def\<close>)
  from perm_inv_plan [OF this g(2)] obtain r where r: "r \<noteq> PLAN"
    "dget (tprojection t) ''pre_plan_mode'' = Some (VStr (mode_value r))"
    "dget (tprojection t) ''permission_mode'' = Some (VStr (mode_value PLAN))" by blast
  with tg have target: "target = mode_value r" by (simp add: py_or_def dget_none_def)
  from append_one [OF t(3,2) _ app] obtain t' where t': "stored env s' sid = Inr t'" "store_ok env s'"
    "tpath t' = tpath t @ [e]" "apply_entry SESSION_FORMAT_VERSION (tprojection t) e = Inr (tprojection t')"
    by (auto simp: e)
  have "tprojection t' = dset (dset (tprojection t) ''pre_plan_mode'' (VStr []))
      ''permission_mode'' (VStr (mode_value r))"
    by (rule apply_leave_plan [OF t'(4) _ _ r(1,3)]) (simp_all add: e target)
  with t(1) t' g r(1,2) show ?thesis by (auto simp: dget_none_def)
qed

subsection \<open>Messages\<close>

lemma dget_none_Cons [simp]:
  "dget_none ((k, v) # d) k' = (if k' = k then v else dget_none d k')"
  by (simp add: dget_none_def)

lemma mget_is_dict: "mget m k \<noteq> VNone \<Longrightarrow> is_dict m"
  by (cases m) (simp_all add: mget_def dget_none_def)

lemma message_entries_refs:
  "message_entries fresh n ms p = Inr es \<Longrightarrow> list_all is_dict ms \<Longrightarrow>
   concat (map entry_message_refs es) = ms"
  by (induction fresh n ms p arbitrary: es rule: message_entries.induct)
    (auto simp: bindR_Inr_iff Let_def entry_message_refs_def new_entry_def dget_none_def
      split: if_split_asm)

lemma message_entries_linear: "message_entries fresh n ms p = Inr es \<Longrightarrow> linear_from p es"
  by (induction fresh n ms p arbitrary: es rule: message_entries.induct)
    (auto simp: bindR_Inr_iff Let_def new_entry_def split: if_split_asm)

lemma message_entries_types:
  "message_entries fresh n ms p = Inr es \<Longrightarrow> e \<in> set es \<Longrightarrow>
   etype e = ''message'' \<or> etype e = ''tool_exchange''"
  by (induction fresh n ms p arbitrary: es rule: message_entries.induct)
    (auto simp: bindR_Inr_iff Let_def new_entry_def split: if_split_asm)

text \<open>A call and its result are one entry, so no prefix of the entries splits them.\<close>

lemma message_entries_no_call:
  "message_entries fresh n ms p = Inr es \<Longrightarrow> e \<in> set es \<Longrightarrow> etype e = ''message'' \<Longrightarrow>
   \<not> starts_tool_exchange (dget_none (edata e) ''message'')"
  by (induction fresh n ms p arbitrary: es rule: message_entries.induct)
    (fastforce simp: bindR_Inr_iff Let_def split: if_split_asm)+

lemma linear_from_append:
  "linear_from p (es @ fs) \<longleftrightarrow>
     linear_from p es \<and> linear_from (if es = [] then p else leaf_of es) fs"
  by (induction es arbitrary: p) (auto simp: leaf_of_def)

lemma append_batch_effect:
  assumes ok: "store_ok env s" and dicts: "list_all is_dict safe"
    and run: "append_batch env fresh n sid safe upd xl xb s = (Inr leaf, s')"
  shows "\<exists>t t' es. stored env s sid = Inr t \<and> stored env s' sid = Inr t' \<and> store_ok env s'
     \<and> expects_leaf xl t \<and> expects xb (dget_none (tprojection t) ''provider_binding'')
     \<and> tpath t' = tpath t @ es \<and> leaf = leaf_id t'
     \<and> proj_messages (tprojection t') = proj_messages (tprojection t) @ safe"
proof -
  from run obtain t s1 entries changed where rd: "read_tree env sid s = (Inr t, s1)"
    and g: "expects_leaf xl t" "expects xb (dget_none (tprojection t) ''provider_binding'')"
    and me: "message_entries fresh n safe (leaf_id t) = Inr entries"
    and app: "append_entries env sid (with_state_change fresh (n + length entries)
        (leaf_id t) entries changed) s1 = (Inr (), s')"
    and leaf: "leaf = leaf_after (leaf_id t) (with_state_change fresh (n + length entries)
        (leaf_id t) entries changed)"
    by (auto simp: append_batch_def op_simps Let_def)
  let ?es = "with_state_change fresh (n + length entries) (leaf_id t) entries changed"
  note t = read_tree_InrD [OF ok rd]
  have lin: "linear_from (leaf_id t) ?es"
    using message_entries_linear [OF me]
    by (simp add: with_state_change_def leaf_after_def linear_from_append)
  have refs: "concat (map entry_message_refs ?es) = safe"
    using message_entries_refs [OF me dicts]
    by (simp add: with_state_change_def entry_message_refs_def)
  show ?thesis
  proof (cases "?es = []")
    case True
    with app have "s' = s1" by (simp add: append_entries_def lift_def)
    with True t g leaf refs show ?thesis
      by (intro exI [of _ t] exI [of _ "[]"]) (simp add: leaf_after_def)
  next
    case False
    from append_stored [OF t(3,2) app False] obtain t' where t': "stored env s' sid = Inr t'"
      "appended env sid ?es t t'" "store_ok env s'" by auto
    note l = append_linear [OF t(2) t'(2) lin]
    from apply_entries_messages [OF l(2)] refs
    have "proj_messages (tprojection t') = proj_messages (tprojection t) @ safe" by simp
    moreover have "leaf = leaf_id t'"
      using False leaf by (simp add: leaf_after_def l(3) leaf_of_append)
    ultimately show ?thesis using t(1) t'(1,3) g l(1) by blast
  qed
qed

lemma append_messages_effect:
  assumes ok: "store_ok env s"
    and run: "append_messages env fresh sid ms upd xl xb s = (Inr (Some leaf), s')"
    and dicts: "redactor env (VList ms) = VList safe" "list_all is_dict safe"
  shows "\<exists>t t' es. stored env s sid = Inr t \<and> stored env s' sid = Inr t' \<and> store_ok env s'
     \<and> expects_leaf xl t \<and> expects xb (dget_none (tprojection t) ''provider_binding'')
     \<and> tpath t' = tpath t @ es \<and> leaf = leaf_id t'
     \<and> proj_messages (tprojection t') = proj_messages (tprojection t) @ safe"
proof -
  from run dicts(1) obtain n where
    "append_batch env fresh n sid safe (as_dict (redactor env (VDict upd))) xl xb s = (Inr leaf, s')"
    by (auto simp: append_messages_def op_simps message_list_def Let_def
        dest!: session_id_same split: if_split_asm)
  from append_batch_effect [OF ok dicts(2) this] show ?thesis .
qed

subsection \<open>Model changes\<close>

lemma apply_session_info_entry:
  assumes "apply_entry v p e = Inr q" "etype e = ''session_info''"
    "edata e = [(''set'', VDict [(k, w)])]" "k \<notin> HEADER_PROJECTION_FIELDS"
  shows "q = dset p k w"
  using assms
  by (simp add: apply_entry_def apply_session_info_def Let_def split: if_split_asm)

lemma set_provider_model_effect:
  assumes ok: "store_ok env s"
    and run: "set_provider_model env fresh sid b x leaf s = (Inr (Some e), s')"
  shows "\<exists>t t'. stored env s sid = Inr t \<and> stored env s' sid = Inr t' \<and> store_ok env s'
     \<and> leaf_id t = leaf \<and> py_eq (dget_none (tprojection t) ''provider_binding'') x
     \<and> mget (redactor env b) ''protocol_family''
         = mget (dget_none (tprojection t) ''provider_binding'') ''protocol_family''
     \<and> mget (redactor env b) ''endpoint_hash''
         = mget (dget_none (tprojection t) ''provider_binding'') ''endpoint_hash''
     \<and> tprojection t' = dset (tprojection t) ''provider_binding'' (redactor env b)"
proof -
  let ?e = "\<lambda>t. new_entry fresh 0 ''session_info''
                 [(''set'', VDict [(''provider_binding'', redactor env b)])] (leaf_id t)"
  from run obtain t s1 where rd: "read_tree env sid s = (Inr t, s1)"
    and g: "leaf_id t = leaf" "py_eq (dget_none (tprojection t) ''provider_binding'') x"
      "mget (redactor env b) ''protocol_family''
         = mget (dget_none (tprojection t) ''provider_binding'') ''protocol_family''"
      "mget (redactor env b) ''endpoint_hash''
         = mget (dget_none (tprojection t) ''provider_binding'') ''endpoint_hash''"
    and app: "append_entries env sid [?e t] s1 = (Inr (), s')" and e: "e = ?e t"
    by (auto simp: set_provider_model_def op_simps Let_def dest!: session_id_Inr split: if_split_asm)
  note t = read_tree_InrD [OF ok rd]
  from append_one [OF t(3,2) _ app] obtain t' where t': "stored env s' sid = Inr t'" "store_ok env s'"
    "apply_entry SESSION_FORMAT_VERSION (tprojection t) e = Inr (tprojection t')"
    by (auto simp: e)
  have "tprojection t' = dset (tprojection t) ''provider_binding'' (redactor env b)"
    by (rule apply_session_info_entry [OF t'(3)]) (simp_all add: e HEADER_PROJECTION_FIELDS_def)
  with t(1) t' g show ?thesis by blast
qed

end
