(* ===== verification/RuleFacts.thy ===== *)
theory RuleFacts
  imports StoreEffects
begin

text \<open>
  The session's permission rules: \<open>update_permissions\<close> keeps the three lists
  disjoint and moves every named tool to the list of its last update.
\<close>

definition rules_wf :: "dict \<Rightarrow> bool" where
  "rules_wf rules \<longleftrightarrow> dict_ok rules \<and> permission_rules_ok (VDict rules)"

definition RULE_KEYS :: "string set" where
  "RULE_KEYS = {''allow'', ''ask'', ''deny''}"

text \<open>The behaviors a tool has: at most one in well-formed rules.\<close>

definition rule_abs :: "dict \<Rightarrow> string \<Rightarrow> string set" where
  "rule_abs rules tool = {k. \<exists>v. dget rules k = Some v \<and> VStr tool \<in> set (as_list v)}"

definition tool_names :: "val list \<Rightarrow> bool" where
  "tool_names vs \<longleftrightarrow> list_all (\<lambda>v. is_str v \<and> as_str v \<noteq> []) vs"

lemma tool_names_set: "tool_names vs \<longleftrightarrow> (\<forall>v \<in> set vs. \<exists>s. v = VStr s \<and> s \<noteq> [])"
  by (auto simp: tool_names_def list_all_iff is_str_iff)

definition rules_shape :: "dict \<Rightarrow> bool" where
  "rules_shape rules \<longleftrightarrow>
     dict_ok rules \<and> dkeys rules = RULE_KEYS \<and> list_all (\<lambda>kv. is_list (snd kv)) rules"

lemma rules_wf_iff:
  "rules_wf rules \<longleftrightarrow>
     rules_shape rules \<and> tool_names (rule_lists (VDict rules)) \<and> distinct (rule_lists (VDict rules))"
  unfolding rules_wf_def permission_rules_ok_def rules_shape_def tool_names_def RULE_KEYS_def
    as_dict.simps is_dict.simps by blast

lemma rule_lists_VDict: "rule_lists (VDict d) = concat (map (\<lambda>kv. as_list (snd kv)) d)"
  by (simp add: rule_lists_def)

subsection \<open>Removing a tool\<close>

lemma rule_remove_keys [simp]: "map fst (rule_remove tool d) = map fst d"
  by (simp add: rule_remove_def comp_def case_prod_unfold)

lemma rule_remove_dkeys [simp]: "dkeys (rule_remove tool d) = dkeys d"
  by (metis list.set_map rule_remove_keys)

lemma rule_remove_shape: "rules_shape d \<Longrightarrow> rules_shape (rule_remove tool d)"
  unfolding rules_shape_def dict_ok_def rule_remove_dkeys rule_remove_keys
  by (simp add: rule_remove_def list.pred_map comp_def case_prod_unfold list_all_iff)

lemma rule_remove_get:
  "dget (rule_remove tool d) k = map_option (\<lambda>v. VList (remove1 (VStr tool) (as_list v))) (dget d k)"
  by (induction d) (auto simp: rule_remove_def)

lemma rule_remove_lists:
  "distinct (rule_lists (VDict d)) \<Longrightarrow>
   rule_lists (VDict (rule_remove tool d)) = removeAll (VStr tool) (rule_lists (VDict d))"
  by (induction d) (auto simp: rule_remove_def rule_lists_VDict distinct_remove1_removeAll)

lemma get_in_rule_lists:
  "dget d k = Some v \<Longrightarrow> set (as_list v) \<subseteq> set (rule_lists (VDict d))"
  by (auto simp: rule_lists_VDict dest!: map_of_SomeD)

lemma get_distinct:
  "distinct (rule_lists (VDict d)) \<Longrightarrow> dget d k = Some v \<Longrightarrow> distinct (as_list v)"
  by (induction d) (auto simp: rule_lists_VDict split: if_split_asm)

subsection \<open>Adding a tool\<close>

lemma rule_add_lists:
  "dget d k = Some (VList xs) \<Longrightarrow>
   mset (rule_lists (VDict (dset d k (VList (xs @ [v]))))) = mset (v # rule_lists (VDict d))"
  by (induction d) (auto simp: rule_lists_VDict)

lemma list_all_dset: "list_all (\<lambda>kv. P (snd kv)) d \<Longrightarrow> P w \<Longrightarrow> list_all (\<lambda>kv. P (snd kv)) (dset d k w)"
  by (induction d) auto

lemma dset_shape: "rules_shape d \<Longrightarrow> k \<in> RULE_KEYS \<Longrightarrow> rules_shape (dset d k (VList xs))"
  unfolding rules_shape_def by (simp add: list_all_dset insert_absorb)

lemma shape_get:
  assumes "rules_shape d" "k \<in> RULE_KEYS"
  shows "\<exists>xs. dget d k = Some (VList xs)"
proof -
  from assms have "k \<in> dkeys d" by (auto simp: rules_shape_def)
  then obtain v where v: "dget d k = Some v" by (auto simp: dkeys_dget)
  from map_of_SomeD [OF v] assms(1) have "is_list v" by (auto simp: rules_shape_def list_all_iff)
  with v show ?thesis by (auto simp: is_list_iff)
qed

definition rule_update_ok :: "string \<times> string \<Rightarrow> bool" where
  "rule_update_ok u \<longleftrightarrow> fst u \<noteq> [] \<and> snd u \<in> rule_behaviors"

lemma rule_update_cases:
  assumes "rules_wf d" "rule_update_ok u"
  shows "rules_wf (rule_update d u)"
    and "rule_abs (rule_update d u) t =
      (if t = fst u then (if snd u = ''remove'' then {} else {snd u}) else rule_abs d t)"
proof -
  obtain tool b where u: "u = (tool, b)" by (cases u)
  let ?r = "rule_remove tool d"
  from assms(1) have sh: "rules_shape ?r" and dis: "distinct (rule_lists (VDict d))"
    and names: "tool_names (rule_lists (VDict d))"
    by (auto simp: rules_wf_iff rule_remove_shape)
  have lists: "rule_lists (VDict ?r) = removeAll (VStr tool) (rule_lists (VDict d))"
    by (rule rule_remove_lists [OF dis])
  have wf: "rules_wf ?r"
    using sh dis names by (auto simp: rules_wf_iff lists tool_names_set distinct_removeAll)
  have abs: "rule_abs ?r t = (if t = tool then {} else rule_abs d t)" for t
    using get_distinct [OF dis]
    by (auto simp: rule_abs_def rule_remove_get in_set_remove1)
  show "rules_wf (rule_update d u)"
  proof (cases "b = ''remove''")
    case True
    with wf u show ?thesis by (simp add: rule_update_def)
  next
    case False
    with assms(2) u have b: "b \<in> RULE_KEYS" and ne: "tool \<noteq> []"
      by (auto simp: rule_update_ok_def rule_behaviors_def RULE_KEYS_def)
    from shape_get [OF sh b] obtain xs where xs: "dget ?r b = Some (VList xs)" by blast
    have upd: "rule_update d u = dset ?r b (VList (xs @ [VStr tool]))"
      using False u xs by (simp add: rule_update_def Let_def dget_none_def)
    note ms = rule_add_lists [OF xs, of "VStr tool"]
    have "distinct (VStr tool # rule_lists (VDict ?r))"
      using wf by (simp add: rules_wf_iff lists)
    then have "distinct (rule_lists (VDict (rule_update d u)))"
      unfolding upd using mset_eq_imp_distinct_iff [OF ms] by simp
    moreover have "tool_names (rule_lists (VDict (rule_update d u)))"
      using wf ne mset_eq_setD [OF ms] unfolding upd tool_names_set rules_wf_iff by auto
    ultimately show ?thesis
      unfolding rules_wf_iff upd using dset_shape [OF sh b] by simp
  qed
  show "rule_abs (rule_update d u) t =
      (if t = fst u then (if snd u = ''remove'' then {} else {snd u}) else rule_abs d t)"
  proof (cases "b = ''remove''")
    case True
    with abs u show ?thesis by (simp add: rule_update_def)
  next
    case False
    with assms(2) u have b: "b \<in> RULE_KEYS"
      by (auto simp: rule_update_ok_def rule_behaviors_def RULE_KEYS_def)
    from shape_get [OF sh b] obtain xs where xs: "dget ?r b = Some (VList xs)" by blast
    have upd: "rule_update d u = dset ?r b (VList (xs @ [VStr tool]))"
      using False u xs by (simp add: rule_update_def Let_def dget_none_def)
    have "rule_abs (rule_update d u) t = (if t = tool then insert b (rule_abs ?r t) else rule_abs ?r t)"
      unfolding upd rule_abs_def using xs by auto
    with False u abs show ?thesis by simp
  qed
qed

subsection \<open>Sorting and several updates\<close>

lemma sorted_names:
  assumes "tool_names vs"
  shows "mset (map VStr (sort (map as_str vs))) = mset vs"
proof -
  from assms have "map VStr (map as_str vs) = vs"
    by (induction vs) (auto simp: tool_names_set)
  then have "image_mset VStr (mset (map as_str vs)) = mset vs" by (metis mset_map)
  then show ?thesis by simp
qed

lemma rules_sorted_get:
  "dget (rules_sorted d) k =
     map_option (\<lambda>v. VList (map VStr (sort (map as_str (as_list v))))) (dget d k)"
  by (induction d) (auto simp: rules_sorted_def)

lemma rules_sorted_keys [simp]: "map fst (rules_sorted d) = map fst d"
  by (simp add: rules_sorted_def comp_def case_prod_unfold)

lemma rules_sorted_dkeys [simp]: "dkeys (rules_sorted d) = dkeys d"
  by (metis list.set_map rules_sorted_keys)

lemma rules_sorted_shape: "rules_shape d \<Longrightarrow> rules_shape (rules_sorted d)"
  unfolding rules_shape_def dict_ok_def rules_sorted_dkeys rules_sorted_keys
  by (simp add: rules_sorted_def list.pred_map comp_def case_prod_unfold list_all_iff)

lemma rules_sorted_lists:
  "tool_names (rule_lists (VDict d)) \<Longrightarrow>
   mset (rule_lists (VDict (rules_sorted d))) = mset (rule_lists (VDict d))"
proof (induction d)
  case (Cons kv d)
  then have "tool_names (as_list (snd kv))" "tool_names (rule_lists (VDict d))"
    by (auto simp: rule_lists_VDict tool_names_def)
  with Cons.IH sorted_names [of "as_list (snd kv)"] show ?case
    by (simp add: rule_lists_VDict rules_sorted_def case_prod_unfold)
qed (simp add: rules_sorted_def)

lemma rules_sorted_wf:
  assumes "rules_wf d" shows "rules_wf (rules_sorted d)"
proof -
  from assms have d: "rules_shape d" "tool_names (rule_lists (VDict d))"
    "distinct (rule_lists (VDict d))"
    by (simp_all add: rules_wf_iff)
  note ms = rules_sorted_lists [OF d(2)]
  have "tool_names (rule_lists (VDict (rules_sorted d)))"
    using d(2) mset_eq_setD [OF ms] by (simp add: tool_names_set)
  with d rules_sorted_shape [OF d(1)] mset_eq_imp_distinct_iff [OF ms] show ?thesis
    by (simp add: rules_wf_iff)
qed

lemma rules_sorted_abs:
  assumes "rules_wf d" shows "rule_abs (rules_sorted d) t = rule_abs d t"
proof -
  have "VStr t \<in> set (map VStr (sort (map as_str (as_list v)))) \<longleftrightarrow> VStr t \<in> set (as_list v)"
    if "dget d k = Some v" for k v
  proof -
    have "tool_names (as_list v)"
      using assms get_in_rule_lists [OF that] by (auto simp: rules_wf_iff tool_names_set)
    from mset_eq_setD [OF sorted_names [OF this]] show ?thesis by simp
  qed
  then show ?thesis by (auto simp: rule_abs_def rules_sorted_get)
qed

definition last_update :: "(string \<times> string) list \<Rightarrow> string \<Rightarrow> string option" where
  "last_update us t = map_of (rev us) t"

lemma fold_rule_update:
  "rules_wf d \<Longrightarrow> list_all rule_update_ok us \<Longrightarrow>
   rules_wf (foldl rule_update d us) \<and>
   rule_abs (foldl rule_update d us) t =
     (case last_update us t of None \<Rightarrow> rule_abs d t
      | Some b \<Rightarrow> if b = ''remove'' then {} else {b})"
proof (induction us rule: rev_induct)
  case (snoc u us)
  then have wf: "rules_wf (foldl rule_update d us)" and u: "rule_update_ok u" by auto
  from snoc rule_update_cases [OF wf u] show ?case
    by (cases u) (auto simp: last_update_def)
qed (simp add: last_update_def)

lemma update_rules_abs:
  assumes "rules_wf d" "list_all rule_update_ok us"
  shows "rules_wf (update_rules d us)"
    and "rule_abs (update_rules d us) t =
      (case last_update us t of None \<Rightarrow> rule_abs d t
       | Some b \<Rightarrow> if b = ''remove'' then {} else {b})"
  using fold_rule_update [OF assms, of t] rules_sorted_wf rules_sorted_abs
  by (simp_all add: update_rules_def)

lemma rule_abs_unique:
  assumes "rules_wf d" "a \<in> rule_abs d t" "b \<in> rule_abs d t"
  shows "a = b"
  using assms unfolding rules_wf_iff
proof (elim conjE)
  assume "distinct (rule_lists (VDict d))"
  then show ?thesis using assms(2,3)
  proof (induction d)
    case (Cons kv d)
    have sub: "VStr t \<in> (\<Union>x\<in>set d. set (as_list (snd x)))"
      if "dget d k = Some v" "VStr t \<in> set (as_list v)" for k v
      using get_in_rule_lists [OF that(1)] that(2) by (auto simp: rule_lists_VDict)
    from Cons show ?case
      by (cases kv) (auto simp: rule_abs_def rule_lists_VDict split: if_split_asm dest!: sub)
  qed (simp add: rule_abs_def)
qed

subsection \<open>The operation\<close>

lemma stored_rules_wf:
  assumes "stored env s sid = Inr t"
  shows "permission_rules_ok (dget_or (tprojection t) ''permission_rules'' empty_rules)"
proof -
  from stored_InrD [OF assms] have ok: "tree_ok SESSION_FORMAT_VERSION t" by blast
  from tree_okD(5) [OF ok] show ?thesis
    unfolding validate_projection_def check_permission_state_def
    by (simp add: bindR_Inr_iff require_Inr_iff Let_def split: if_split_asm)
qed

lemma apply_mode_entry_rules:
  assumes "apply_entry v p e = Inr q" "etype e = ''permission_mode_change''"
  shows "dget q ''permission_rules'' = dget p ''permission_rules''"
    "\<exists>m. validate_permission_mode (dget_none (edata e) ''mode'') = Inr m
       \<and> dget_none q ''permission_mode'' = VStr m"
  using assms
  by (auto simp: apply_entry_def apply_permission_mode_change_def bindR_Inr_iff Let_def
      split: if_split_asm option.split_asm)

lemma py_eq_names: "tool_names vs \<Longrightarrow> py_eq_list vs ws \<Longrightarrow> ws = vs"
  by (induction vs arbitrary: ws) (auto simp: tool_names_def is_str_iff split: list.split_asm)

lemma py_eq_rules_abs:
  assumes wf: "rules_wf d" and eq: "py_eq (VDict d) (VDict e)" and k: "dkeys e = RULE_KEYS"
  shows "rule_abs e t = rule_abs d t"
proof -
  have get: "dget e k = dget d k" for k
  proof (cases "dget d k")
    case None
    then have "k \<notin> dkeys d" by (simp add: dkeys_dget)
    then have "k \<notin> dkeys e" using wf k by (simp add: rules_wf_iff rules_shape_def)
    with None show ?thesis by (metis dkeys_dget)
  next
    case (Some v)
    then have kv: "(k, v) \<in> set d" by (rule map_of_SomeD)
    with eq obtain w where w: "dget e k = Some w" "py_eq v w"
      by (auto simp: py_sub_dict_pointwise)
    from kv wf obtain xs where v: "v = VList xs"
      by (auto simp: rules_wf_iff rules_shape_def list_all_iff is_list_iff)
    have "tool_names xs"
      using wf get_in_rule_lists [OF Some] v by (auto simp: rules_wf_iff tool_names_set)
    with w(2) v have "w = v" by (auto split: val.split_asm dest: py_eq_names)
    with w Some show ?thesis by simp
  qed
  show ?thesis by (simp add: rule_abs_def get)
qed

lemma rules_ok_keys: "permission_rules_ok v \<Longrightarrow> dkeys (as_dict v) = RULE_KEYS \<and> v = VDict (as_dict v)"
  by (cases v) (auto simp: permission_rules_ok_def RULE_KEYS_def)

lemma check_mode_argumentsD:
  assumes "check_mode_arguments mode pre = Inr (m, q)"
  shows "case m of None \<Rightarrow> mode = VNone | Some x \<Rightarrow> mode \<noteq> VNone \<and> validate_permission_mode mode = Inr x"
  using assms
  by (auto simp: check_mode_arguments_def bindR_Inr_iff split: if_split_asm)

lemma apply_mode_entries:
  assumes "apply_entries v (tprojection t) (mode_entries fresh t m pre) = Inr q"
    and "\<And>x. m = Some x \<Longrightarrow> \<exists>y. validate_permission_mode y = Inr x"
  shows "dget q ''permission_rules'' = dget (tprojection t) ''permission_rules''"
    "dget_none q ''permission_mode'' = (case m of None \<Rightarrow> dget_none (tprojection t) ''permission_mode''
       | Some x \<Rightarrow> VStr x)"
proof -
  show "dget q ''permission_rules'' = dget (tprojection t) ''permission_rules''"
    using assms(1) apply_mode_entry_rules(1)
    by (auto simp: mode_entries_def bindR_Inr_iff split: option.split_asm if_split_asm)
  show "dget_none q ''permission_mode'' = (case m of None \<Rightarrow> dget_none (tprojection t) ''permission_mode''
       | Some x \<Rightarrow> VStr x)"
  proof (cases m)
    case None
    with assms(1) show ?thesis by (simp add: mode_entries_def)
  next
    case (Some x)
    from assms(2) [OF Some] have x: "validate_permission_mode (VStr x) = Inr x"
      by (auto intro: validate_permission_mode_idem)
    show ?thesis
    proof (cases "dget_none (tprojection t) ''permission_mode'' = VStr x")
      case True
      with assms(1) Some show ?thesis by (simp add: mode_entries_def)
    next
      case False
      with assms(1) Some obtain e where "apply_entry v (tprojection t) e = Inr q"
        "etype e = ''permission_mode_change''" "dget_none (edata e) ''mode'' = VStr x"
        by (auto simp: mode_entries_def bindR_Inr_iff mode_change_data_def)
      from apply_mode_entry_rules(2) [OF this(1,2)] this(3) x Some show ?thesis by auto
    qed
  qed
qed

lemma mode_entries_linear: "linear_from (leaf_id t) (mode_entries fresh t m pre)"
  by (simp add: mode_entries_def split: option.split)

lemma update_permissions_effect:
  assumes ok: "store_ok env s"
    and run: "update_permissions env fresh sid mode pre us s = (Inr r, s')"
    and red: "\<And>d. redactor env (VDict d) = VDict d"
    and wf: "\<And>t. stored env s sid = Inr t \<Longrightarrow> dict_ok (projected_rules (tprojection t))"
  shows "\<exists>t t'. stored env s sid = Inr t \<and> stored env s' sid = Inr t' \<and> store_ok env s'
     \<and> (\<forall>tool. rule_abs (projected_rules (tprojection t')) tool =
          (case last_update (clean_updates us) tool of
             None \<Rightarrow> rule_abs (projected_rules (tprojection t)) tool
           | Some b \<Rightarrow> if b = ''remove'' then {} else {b}))
     \<and> (if mode = VNone
        then dget_none (tprojection t') ''permission_mode'' = dget_none (tprojection t) ''permission_mode''
        else \<exists>m. validate_permission_mode mode = Inr m
               \<and> dget_none (tprojection t') ''permission_mode'' = VStr m)"
proof -
  let ?us = "clean_updates us"
  let ?rules = "\<lambda>t. update_rules (projected_rules (tprojection t)) ?us"
  from run obtain m q where cm: "check_mode_arguments mode pre = Inr (m, q)"
    and us: "list_all (\<lambda>u. fst u \<noteq> []) ?us" "list_all (\<lambda>u. snd u \<in> rule_behaviors) ?us"
    and ap: "append_permissions env fresh sid m q ?us s = (Inr r, s')"
    by (auto simp: update_permissions_def op_simps dest!: session_id_same)
  from ap obtain t s1 where rd: "read_tree env sid s = (Inr t, s1)"
    and app: "append_entries env sid (mode_entries fresh t m q @
        rule_entries fresh t (mode_entries fresh t m q) (VDict (?rules t)) (VDict (?rules t))) s1
        = (Inr (), s')"
    by (auto simp: append_permissions_def op_simps Let_def red)
  note t = read_tree_InrD [OF ok rd]
  have usok: "list_all rule_update_ok ?us" using us by (simp add: list_all_iff rule_update_ok_def)
  from stored_rules_wf [OF t(1)] wf [OF t(1)] rules_ok_keys
  have rwf: "rules_wf (projected_rules (tprojection t))"
    unfolding rules_wf_def projected_rules_def by metis
  have keys: "dkeys (projected_rules (tprojection t)) = RULE_KEYS"
    using rwf by (simp add: rules_wf_iff rules_shape_def)
  note upd = update_rules_abs [OF rwf usok]
  let ?modes = "mode_entries fresh t m q"
  let ?same = "rules_unchanged t (VDict (?rules t))"
  let ?es = "?modes @ rule_entries fresh t ?modes (VDict (?rules t)) (VDict (?rules t))"
  have modeval: "m = Some x \<Longrightarrow> \<exists>y. validate_permission_mode y = Inr x" for x
    using check_mode_argumentsD [OF cm] by auto
  have lin: "linear_from (leaf_id t) ?es"
    using mode_entries_linear
    by (simp add: rule_entries_def linear_from_append leaf_after_def)
  have "\<exists>t'. stored env s' sid = Inr t' \<and> store_ok env s'
      \<and> apply_entries SESSION_FORMAT_VERSION (tprojection t) ?es = Inr (tprojection t')"
  proof (cases "?es = []")
    case True
    with app have "s' = s1" by (simp add: append_entries_def lift_def)
    with t show ?thesis by (simp only: True) simp
  next
    case False
    from append_stored [OF t(3,2) app False] obtain t' where
      t': "stored env s' sid = Inr t'" "appended env sid ?es t t'" "store_ok env s'" by blast
    with append_linear(2) [OF t(2) t'(2) lin] show ?thesis by blast
  qed
  then obtain t' where t': "stored env s' sid = Inr t'" "store_ok env s'"
    and ae: "apply_entries SESSION_FORMAT_VERSION (tprojection t) ?es = Inr (tprojection t')" by blast
  from ae obtain p where p: "apply_entries SESSION_FORMAT_VERSION (tprojection t) ?modes = Inr p"
    and p': "tprojection t' = (if ?same then p else dset p ''permission_rules'' (VDict (?rules t)))"
    by (auto simp: rule_entries_def apply_entries_append bindR_Inr_iff HEADER_PROJECTION_FIELDS_def
        dest!: apply_session_info_entry split: if_split_asm)
  note am = apply_mode_entries [OF p modeval]
  have "rule_abs (projected_rules (tprojection t')) tool = rule_abs (?rules t) tool" for tool
  proof (cases ?same)
    case True
    then obtain e where e: "dget (tprojection t) ''permission_rules'' = Some (VDict e)"
      by (auto simp: rules_unchanged_def dget_none_def split: option.split_asm val.split_asm)
    with keys have "dkeys e = RULE_KEYS" by (simp add: projected_rules_def dget_or_def)
    with py_eq_rules_abs [OF upd(1), of e tool] True e p' am(1) show ?thesis
      by (simp add: rules_unchanged_def projected_rules_def dget_or_def dget_none_def
        del: py_eq.simps)
  next
    case False
    with p' show ?thesis by (simp add: projected_rules_def)
  qed
  moreover have "dget_none (tprojection t') ''permission_mode'' = dget_none p ''permission_mode''"
    by (simp add: p')
  ultimately show ?thesis
    using t(1) t' upd(2) am(2) check_mode_argumentsD [OF cm]
    by - (rule exI [of _ t], rule exI [of _ t'], auto split: option.split_asm)
qed

end
