(* ===== verification/BranchFacts.thy ===== *)
theory BranchFacts
  imports StoreEffects
begin

text \<open>
  Branches: a rewind (or fork) to an entry of the active path makes that entry's
  prefix the active path again, with nothing deleted from the file, and carries the
  provider binding over.
\<close>

lemma carry_cases:
  assumes "carry_provider_binding fresh n t es = Inr entries"
  shows "entries = es \<and> (is_dict (dget_none (tprojection t) ''provider_binding'') \<longrightarrow>
        (\<exists>u. extend_tree t es = Inr u \<and> py_eq (dget_none (tprojection u) ''provider_binding'')
          (dget_none (tprojection t) ''provider_binding'')))
     \<or> entries = es @ [new_entry fresh n ''session_info'' [(''set'', VDict
          [(''provider_binding'', dget_none (tprojection t) ''provider_binding'')])] (eid (last es))]"
  using assms
  by (auto simp: carry_provider_binding_def Let_def bindR_Inr_iff simp del: py_eq.simps
      split: if_split_asm)

lemma carried_linear:
  assumes "carry_provider_binding fresh n t (e # es) = Inr entries" "linear_from (eid e) es"
  shows "\<exists>fs. entries = e # fs \<and> linear_from (eid e) fs \<and> length fs \<le> Suc (length es)
     \<and> (list_all (\<lambda>e. entry_message_refs e = []) es \<longrightarrow> list_all (\<lambda>e. entry_message_refs e = []) fs)"
  using carry_cases [OF assms(1)] assms(2)
  by (auto simp: linear_from_append leaf_of_def entry_message_refs_def)

text \<open>The binding after appending a branch that carries it.\<close>

lemma carried_binding:
  assumes ok: "tree_ok SESSION_FORMAT_VERSION t'" and ext: "extend_tree t entries = Inr t'"
    and car: "carry_provider_binding fresh n t es = Inr entries" and ne: "es \<noteq> []"
    and path: "tpath t' = xs @ entries"
    and d: "is_dict (dget_none (tprojection t) ''provider_binding'')"
  shows "dget_none (tprojection t') ''provider_binding'' = dget_none (tprojection t) ''provider_binding''
     \<or> py_eq (dget_none (tprojection t') ''provider_binding'')
          (dget_none (tprojection t) ''provider_binding'')"
  using carry_cases [OF car]
proof (elim disjE conjE)
  assume "entries = es" "is_dict (dget_none (tprojection t) ''provider_binding'') \<longrightarrow>
        (\<exists>u. extend_tree t es = Inr u \<and> py_eq (dget_none (tprojection u) ''provider_binding'')
          (dget_none (tprojection t) ''provider_binding''))"
  with ext d show ?thesis by auto
next
  let ?cur = "dget_none (tprojection t) ''provider_binding''"
  let ?i = "new_entry fresh n ''session_info'' [(''set'', VDict [(''provider_binding'', ?cur)])] (eid (last es))"
  assume "entries = es @ [?i]"
  with path have p: "tpath t' = (xs @ es) @ [?i]" by simp
  have "apply_entries SESSION_FORMAT_VERSION (base_projection (theader t')) ((xs @ es) @ [?i])
      = Inr (tprojection t')"
    using tree_okD(4) [OF ok] by (simp only: p)
  then obtain q where "apply_entry SESSION_FORMAT_VERSION q ?i = Inr (tprojection t')"
    by (auto simp: apply_entries_append [of _ _ "xs @ es"] bindR_Inr_iff simp del: append_assoc)
  then have "tprojection t' = dset q ''provider_binding'' ?cur"
    by (rule apply_session_info_entry) (simp_all add: HEADER_PROJECTION_FIELDS_def)
  then show ?thesis by simp
qed

lemma append_branch:
  assumes ok: "store_ok env s1" and t: "stored env s1 sid = Inr t"
    and app: "append_entries env sid entries s1 = (Inr u, s')"
    and car: "carry_provider_binding fresh n t (e # es) = Inr entries" and lin: "linear_from (eid e) es"
    and path: "tpath t = xs @ a # ys" and par: "parent_id e = eid a"
    and refs: "list_all (\<lambda>e. entry_message_refs e = []) (e # es)"
  shows "\<exists>t' fs. stored env s' sid = Inr t' \<and> store_ok env s' \<and> tpath t' = xs @ a # e # fs
     \<and> length fs \<le> Suc (length es) \<and> tentries t' = tentries t @ e # fs
     \<and> proj_messages (tprojection t') = concat (map entry_message_refs (xs @ [a]))
     \<and> (is_dict (dget_none (tprojection t) ''provider_binding'') \<longrightarrow>
          dget_none (tprojection t') ''provider_binding'' = dget_none (tprojection t) ''provider_binding''
          \<or> py_eq (dget_none (tprojection t') ''provider_binding'')
              (dget_none (tprojection t) ''provider_binding''))"
proof -
  from carried_linear [OF car lin] refs obtain fs where fs: "entries = e # fs"
    "linear_from (eid e) fs" "length fs \<le> Suc (length es)"
    "list_all (\<lambda>e. entry_message_refs e = []) fs" by auto
  from append_stored [OF ok t app] fs(1) obtain t' where t': "stored env s' sid = Inr t'"
    "appended env sid entries t t'" "store_ok env s'" by auto
  from stored_InrD [OF t] stored_InrD [OF t'(1)]
  have tok: "tree_ok SESSION_FORMAT_VERSION t" "tree_ok SESSION_FORMAT_VERSION t'"
    and hid: "hid (theader t) = sid" by auto
  from t'(2) fs(1) have ext: "extend_tree t (e # fs) = Inr t'"
    and val: "validate_projection SESSION_FORMAT_VERSION (hid (theader t)) (VDict (tprojection t')) = Inr ()"
    and ents: "tentries t' = tentries t @ e # fs"
    using extend_tree_fields(2) [of t entries t'] by (auto simp: appended_def hid)
  have wf: "wf_entries (tentries t @ e # fs)" using tree_okD(1) [OF tok(2)] by (simp add: ents)
  have p: "tpath t' = xs @ a # e # fs"
    by (rule extend_tree_branch [OF tok(1) wf path par fs(2) ext val])
  have "proj_messages (tprojection t') = concat (map entry_message_refs (xs @ [a]))"
    using tree_ok_messages [OF tok(2)] fs(4) refs by (simp add: p list_all_iff)
  moreover have "is_dict (dget_none (tprojection t) ''provider_binding'') \<longrightarrow>
          dget_none (tprojection t') ''provider_binding'' = dget_none (tprojection t) ''provider_binding''
          \<or> py_eq (dget_none (tprojection t') ''provider_binding'')
              (dget_none (tprojection t) ''provider_binding'')"
    using carried_binding [OF tok(2) _ car, of "xs @ [a]"] ext p fs(1)
    by (simp del: py_eq.simps)
  ultimately show ?thesis using t'(1,3) p fs(3) ents by blast
qed

lemma new_entry_refs [simp]:
  "kind \<noteq> ''message'' \<Longrightarrow> kind \<noteq> ''tool_exchange'' \<Longrightarrow>
   entry_message_refs (new_entry fresh n kind d p) = []"
  by (simp add: entry_message_refs_def)

lemma rewind_control_effect:
  assumes ok: "store_ok env s" and t: "stored env s sid = Inr t" and path: "tpath t = xs @ a # ys"
    and run: "append_control env fresh sid ''rewind'' d (Some (eid a)) xl s = (Inr e, s')"
  shows "expects_leaf xl t \<and> (\<exists>t' fs. stored env s' sid = Inr t' \<and> store_ok env s'
     \<and> tpath t' = xs @ a # e # fs \<and> length fs \<le> 1 \<and> tentries t' = tentries t @ e # fs
     \<and> proj_messages (tprojection t') = concat (map entry_message_refs (xs @ [a]))
     \<and> (is_dict (dget_none (tprojection t) ''provider_binding'') \<longrightarrow>
          dget_none (tprojection t') ''provider_binding'' = dget_none (tprojection t) ''provider_binding''
          \<or> py_eq (dget_none (tprojection t') ''provider_binding'')
              (dget_none (tprojection t) ''provider_binding'')))"
proof -
  let ?e = "new_entry fresh 0 ''rewind'' (as_dict (redactor env d)) (eid a)"
  from run obtain u s1 entries where rd: "read_tree env sid s = (Inr u, s1)"
    and xl: "expects_leaf xl u" and car: "carry_provider_binding fresh 1 u [e] = Inr entries"
    and app: "append_entries env sid entries s1 = (Inr (), s')" and e: "e = ?e"
    by (auto simp: append_control_def op_simps Let_def dest!: session_id_same)
  note u = read_tree_InrD [OF ok rd]
  have ut: "u = t" using u(1) t by simp
  from append_branch [OF u(3,2) app car, of xs a ys] path ut e xl show ?thesis by simp
qed

lemma rewind_with_summary_effect:
  assumes ok: "store_ok env s" and t: "stored env s sid = Inr t" and path: "tpath t = xs @ a # ys"
    and run: "rewind_with_summary env fresh sid (eid a) d cp leaf s = (Inr (r, b), s')"
  shows "leaf_id t = leaf \<and> (\<exists>t' fs. stored env s' sid = Inr t' \<and> store_ok env s'
     \<and> tpath t' = xs @ a # r # b # fs \<and> length fs \<le> 1
     \<and> proj_messages (tprojection t') = concat (map entry_message_refs (xs @ [a]))
     \<and> (is_dict (dget_none (tprojection t) ''provider_binding'') \<longrightarrow>
          dget_none (tprojection t') ''provider_binding'' = dget_none (tprojection t) ''provider_binding''
          \<or> py_eq (dget_none (tprojection t') ''provider_binding'')
              (dget_none (tprojection t) ''provider_binding'')))"
proof -
  from run obtain u s1 entries where rd: "read_tree env sid s = (Inr u, s1)"
    and lf: "leaf_id u = leaf" and car: "carry_provider_binding fresh 2 u [r, b] = Inr entries"
    and app: "append_entries env sid entries s1 = (Inr (), s')"
    and r: "parent_id r = eid a" "entry_message_refs r = []"
    and b: "parent_id b = eid r" "entry_message_refs b = []"
    by (auto simp: rewind_with_summary_def op_simps Let_def dest!: session_id_same)
  note u = read_tree_InrD [OF ok rd]
  have ut: "u = t" using u(1) t by simp
  from append_branch [OF u(3,2) app car _ _ r(1), of xs ys] path ut r b obtain t' fs where
    t': "stored env s' sid = Inr t'" "store_ok env s'" "tpath t' = xs @ a # r # fs"
      "length fs \<le> 2" "tentries t' = tentries t @ r # fs"
      "proj_messages (tprojection t') = concat (map entry_message_refs (xs @ [a]))"
      "is_dict (dget_none (tprojection t) ''provider_binding'') \<longrightarrow>
          dget_none (tprojection t') ''provider_binding'' = dget_none (tprojection t) ''provider_binding''
          \<or> py_eq (dget_none (tprojection t') ''provider_binding'')
              (dget_none (tprojection t) ''provider_binding'')"
    by auto
  from carry_cases [OF car] obtain gs where gs: "entries = r # b # gs" "length gs \<le> 1" by auto
  have "entries = r # fs"
  proof -
    from append_stored [OF u(3,2) app] gs t'(1) have "extend_tree u entries = Inr t'"
      by (auto simp: appended_def)
    from extend_tree_fields(2) [OF this] t'(5) ut show ?thesis by simp
  qed
  with gs t' lf ut show ?thesis by auto
qed

end
