(* ===== verification/StoreHistory.thy ===== *)
theory StoreHistory
  imports RuleFacts BranchFacts
begin

text \<open>
  The store as a state machine: one step per public operation (with any arguments
  and whatever its result), a process restart (the cache is empty again) and a crash
  in the middle of an append (some rows and a piece of one more reach the file).
  What holds of every reachable store is proved once over these steps.
\<close>

text \<open>
  A crash during \<open>append_private_bytes\<close>: a prefix of the rows, then text without a
  newline.  The process is gone, and so is its cache.
\<close>

definition torn_append :: "string \<Rightarrow> entry list \<Rightarrow> string \<Rightarrow> store \<Rightarrow> store" where
  "torn_append sid es piece s =
     (case disk s sid of
        None \<Rightarrow> s
      | Some f \<Rightarrow> s\<lparr>disk := (disk s)(sid \<mapsto> f\<lparr>frows := frows f @ map entry_val es,
                       ftail := piece, fsig := Suc (fsig f)\<rparr>), tree_cache := Map.empty\<rparr>)"

inductive store_step :: "env \<Rightarrow> store \<Rightarrow> store \<Rightarrow> bool" for env where
  step_plan: "store_step env s (snd (set_plan_text env fresh sid pt x s))"
| step_exit: "store_step env s (snd (exit_plan_mode env fresh sid pt n leaf s))"
| step_control: "store_step env s (snd (append_control env fresh sid kind d p xl s))"
| step_model: "store_step env s (snd (set_provider_model env fresh sid b x leaf s))"
| step_permissions: "store_step env s (snd (update_permissions env fresh sid mode pre us s))"
| step_messages: "store_step env s (snd (append_messages env fresh sid ms upd xl xb s))"
| step_rewind: "store_step env s (snd (rewind_with_summary env fresh sid i d c leaf s))"
| step_load: "store_step env s (snd (load_tree env sid s))"
| step_repair: "store_step env s (snd (repair_tail env sid s))"
| step_restart: "store_step env s (s\<lparr>tree_cache := Map.empty\<rparr>)"
| step_crash: "store_step env s (torn_append sid es piece s)"

inductive reachable :: "env \<Rightarrow> store \<Rightarrow> store \<Rightarrow> bool" for env s where
  start: "reachable env s s"
| step: "reachable env s s' \<Longrightarrow> store_step env s' s'' \<Longrightarrow> reachable env s s''"

inductive_simps reachable_iff: "reachable env s s'"

subsection \<open>History\<close>

text \<open>The rows of every session only ever grow at the end.\<close>

definition history_grows :: "store \<Rightarrow> store \<Rightarrow> bool" where
  "history_grows s s' \<longleftrightarrow>
     (\<forall>sid f. disk s sid = Some f \<longrightarrow>
        (\<exists>f' es. disk s' sid = Some f' \<and> frows f' = frows f @ map entry_val es))"

lemma history_grows_refl: "disk s' = disk s \<Longrightarrow> history_grows s s'"
  by (auto simp: history_grows_def intro: exI [of _ "[]"])

lemma history_grows_trans:
  assumes "history_grows s s'" "history_grows s' s''" shows "history_grows s s''"
  unfolding history_grows_def
proof (intro allI impI)
  fix sid f assume "disk s sid = Some f"
  with assms(1) obtain f' es where f': "disk s' sid = Some f'" "frows f' = frows f @ map entry_val es"
    unfolding history_grows_def by blast
  with assms(2) obtain f'' fs where "disk s'' sid = Some f''" "frows f'' = frows f' @ map entry_val fs"
    unfolding history_grows_def by blast
  with f'(2) show "\<exists>f' es. disk s'' sid = Some f' \<and> frows f' = frows f @ map entry_val es"
    by (intro exI [of _ f''] exI [of _ "es @ fs"]) simp
qed

lemma extends_history:
  assumes "extends sid es s s'" shows "history_grows s s'"
proof (cases "es = []")
  case True
  with assms show ?thesis by (simp add: extends_def history_grows_refl)
next
  case False
  with assms obtain f where f: "disk s sid = Some f"
    "disk s' = (disk s)(sid \<mapsto> f\<lparr>frows := frows f @ map entry_val es, fsig := Suc (fsig f)\<rparr>)"
    by (auto simp: extends_def)
  show ?thesis
    unfolding history_grows_def
  proof (intro allI impI)
    fix i g assume g: "disk s i = Some g"
    show "\<exists>f' es. disk s' i = Some f' \<and> frows f' = frows g @ map entry_val es"
    proof (cases "i = sid")
      case True
      with f g show ?thesis by auto
    next
      case False
      with f g show ?thesis by (auto intro: exI [of _ "[]"])
    qed
  qed
qed

context store_operation
begin

lemma history: "store_ok env s \<Longrightarrow> history_grows s (snd (m s))"
  using contract unfolding guarded_def by (blast intro: extends_history)

end

lemma load_tree_step:
  assumes "store_ok env s"
  shows "store_ok env (snd (load_tree env sid s))" "disk (snd (load_tree env sid s)) = disk s"
  using assms read_tree_store_ok [OF assms, of sid]
  by (auto simp: load_tree_def bindO_def lift_def dest: session_id_same
      split: sum.split if_split_asm)

lemma repair_tail_cases:
  "snd (repair_tail env sid s) = s
   \<or> (\<exists>f. disk s sid = Some f \<and> frows f \<noteq> []
        \<and> snd (repair_tail env sid s) =
            s\<lparr>disk := (disk s)(sid \<mapsto> f\<lparr>ftail := [], fsig := Suc (fsig f)\<rparr>),
              tree_cache := (tree_cache s)(sid := None)\<rparr>)"
  by (auto simp: repair_tail_def bindO_def lift_def dest: session_id_same
      split: sum.split option.split prod.split)

lemma repair_tail_step:
  assumes "store_ok env s"
  shows "store_ok env (snd (repair_tail env sid s))" "history_grows s (snd (repair_tail env sid s))"
proof -
  have "store_ok env (snd (repair_tail env sid s)) \<and> history_grows s (snd (repair_tail env sid s))"
    using repair_tail_cases [of env sid s]
  proof (elim disjE exE conjE)
    assume "snd (repair_tail env sid s) = s"
    with assms show ?thesis by (simp add: history_grows_refl)
  next
    fix f assume f: "disk s sid = Some f"
      and r: "snd (repair_tail env sid s) =
            s\<lparr>disk := (disk s)(sid \<mapsto> f\<lparr>ftail := [], fsig := Suc (fsig f)\<rparr>),
              tree_cache := (tree_cache s)(sid := None)\<rparr>"
    have "store_ok env (snd (repair_tail env sid s))"
      using assms by (auto simp: r store_ok_def)
    moreover have "history_grows s (snd (repair_tail env sid s))"
      using f by (auto simp: r history_grows_def intro: exI [of _ "[]"])
    ultimately show ?thesis by simp
  qed
  then show "store_ok env (snd (repair_tail env sid s))"
    "history_grows s (snd (repair_tail env sid s))" by simp_all
qed

lemma torn_append_step:
  "store_ok env (torn_append sid es piece s) \<or> torn_append sid es piece s = s"
  "history_grows s (torn_append sid es piece s)"
  by (auto simp: torn_append_def history_grows_def store_ok_empty_cache split: option.split
      intro: exI [of _ "[]"])

lemma store_step_invariant:
  assumes "store_step env s s'" "store_ok env s"
  shows "store_ok env s' \<and> history_grows s s'"
  using assms
proof (cases rule: store_step.cases)
  case step_restart
  then show ?thesis by (simp add: store_ok_empty_cache history_grows_refl)
next
  case (step_crash sid es piece)
  with torn_append_step(1) [of env sid es piece s] torn_append_step(2) [of s sid es piece] assms(2) show ?thesis by auto
next
  case (step_load sid)
  with load_tree_step [OF assms(2)] show ?thesis by (simp add: history_grows_refl)
next
  case (step_repair sid)
  with repair_tail_step [OF assms(2)] show ?thesis by simp
qed (simp_all add: assms(2) set_plan.keeps_cache_coherent set_plan.history
    exit_plan.keeps_cache_coherent exit_plan.history control.keeps_cache_coherent control.history
    provider_model.keeps_cache_coherent provider_model.history
    permissions.keeps_cache_coherent permissions.history messages.keeps_cache_coherent
    messages.history rewind_summary.keeps_cache_coherent rewind_summary.history)

lemma reachable_invariant:
  "reachable env s s' \<Longrightarrow> store_ok env s \<Longrightarrow> store_ok env s' \<and> history_grows s s'"
proof (induction rule: reachable.induct)
  case start
  then show ?case by (simp add: history_grows_refl)
next
  case (step s' s'')
  then show ?case using store_step_invariant history_grows_trans by blast
qed

end
