(* ===== verification/CompactionFacts.thy ===== *)
theory CompactionFacts
  imports Compaction StoreHistory
begin

text \<open>
  What a compaction plan keeps, what the next context view shows of it, and what
  other processes can do to the session while the provider is asked.
\<close>

subsection \<open>Turns and tails\<close>

lemma turn_loop_concat: "concat (turn_loop groups current es) = concat groups @ current @ es"
  by (induction groups current es rule: turn_loop.induct) auto

lemma turn_loop_nonempty: "[] \<notin> set groups \<Longrightarrow> [] \<notin> set (turn_loop groups current es)"
  by (induction groups current es rule: turn_loop.induct) auto

lemma turn_groups_concat: "concat (turn_groups es) = es"
  by (simp add: turn_groups_def turn_loop_concat)

lemma turn_groups_nonempty: "g \<in> set (turn_groups es) \<Longrightarrow> g \<noteq> []"
  using turn_loop_nonempty [of "[]" "[]" es] by (auto simp: turn_groups_def)

lemma turn_groups_Nil: "turn_groups es = [] \<longleftrightarrow> es = []"
  using turn_groups_concat [of es] by (auto simp: turn_groups_def)

lemma grow_tail_start: "fst (grow_tail cost target xs i tail) \<le> i"
  by (induction cost target xs i tail rule: grow_tail.induct) (auto simp: Let_def)

lemma grow_tail_cost:
  assumes "i \<le> length xs"
  shows "snd (grow_tail cost target xs i tail) =
    tail + sum_list (map cost (drop (fst (grow_tail cost target xs i tail)) (take i xs)))"
  using assms
proof (induction cost target xs i tail rule: grow_tail.induct)
  case (2 cost target xs i tail)
  let ?c = "cost (xs ! i)"
  show ?case
  proof (cases "target < tail + ?c")
    case True
    with 2 show ?thesis by (simp add: Let_def)
  next
    case False
    from "2.prems" have split: "take (Suc i) xs = take i xs @ [xs ! i]"
      by (simp add: take_Suc_conv_app_nth)
    have "fst (grow_tail cost target xs i (tail + ?c)) \<le> i" by (rule grow_tail_start)
    with "2.IH" [of ?c] "2.prems" False show ?thesis by (simp add: Let_def split)
  qed
qed simp

lemma grow_tail_target:
  "tail \<le> target \<Longrightarrow> snd (grow_tail cost target xs i tail) \<le> target"
  by (induction cost target xs i tail rule: grow_tail.induct) (auto simp: Let_def)

lemma grow_tail_over:
  "target < tail \<Longrightarrow> \<forall>x \<in> set xs. 0 \<le> cost x \<Longrightarrow> i \<le> length xs \<Longrightarrow>
   grow_tail cost target xs i tail = (i, tail)"
proof (cases i)
  case (Suc j)
  assume "target < tail" "\<forall>x \<in> set xs. 0 \<le> cost x" "i \<le> length xs"
  with Suc have "0 \<le> cost (xs ! j)" by simp
  with Suc \<open>target < tail\<close> show ?thesis by (simp add: Let_def)
qed simp

lemma grow_tail_maximal:
  "fst (grow_tail cost target xs i tail) = Suc j \<Longrightarrow>
   target < snd (grow_tail cost target xs i tail) + cost (xs ! j)"
  by (induction cost target xs i tail rule: grow_tail.induct) (auto simp: Let_def split: if_split_asm)

text \<open>The tail grown from the last element is a suffix, and its cost is reported.\<close>

lemma grow_tail_suffix:
  assumes "xs \<noteq> []" and "grow_tail cost target xs (length xs - 1) (cost (last xs)) = (k, c)"
  shows "k < length xs" "c = sum_list (map cost (drop k xs))"
proof -
  show k: "k < length xs"
    using grow_tail_start [of cost target xs "length xs - 1" "cost (last xs)"] assms
    by (cases xs) auto
  have split: "drop k xs = drop k (take (length xs - 1) xs) @ [last xs]"
    using assms(1) k by (cases xs rule: rev_cases) auto
  show "c = sum_list (map cost (drop k xs))"
    using grow_tail_cost [of "length xs - 1" xs cost target "cost (last xs)"] assms(2)
    by (simp add: split)
qed

lemma group_cost_concat: "sum_list (map (group_cost costs) gs) = group_cost costs (concat gs)"
  by (induction gs) (auto simp: group_cost_def)

lemma cost_in_nonneg: "\<forall>p \<in> set costs. 0 \<le> snd p \<Longrightarrow> 0 \<le> cost_in costs e"
  by (force simp: cost_in_def dest: map_of_SomeD split: option.split)

lemma choose_tail_kept:
  assumes ne: "groups \<noteq> []" "[] \<notin> set groups" and pos: "\<forall>p \<in> set costs. 0 \<le> snd p"
    and run: "choose_tail costs target groups = (pre, spl, kept, tail)"
  shows "pre @ spl @ kept = concat groups \<and> kept \<noteq> [] \<and> tail = group_cost costs kept
    \<and> (tail \<le> target \<or> length kept = 1)"
proof -
  obtain k c where g: "grow_tail (group_cost costs) target groups (length groups - 1)
      (group_cost costs (last groups)) = (k, c)" by fastforce
  note k = grow_tail_suffix [OF ne(1) g]
  let ?big = "last groups"
  have big: "?big \<noteq> []" using ne by (metis last_in_set)
  have groups: "concat groups = concat (butlast groups) @ ?big"
    using ne(1) by (metis append_butlast_last_id concat_append concat.simps append_Nil2)
  show ?thesis
  proof (cases "target < c \<and> 1 < length ?big")
    case True
    obtain j d where s: "split_turn costs target ?big = (j, d)" by fastforce
    note j = grow_tail_suffix [OF big s [unfolded split_turn_def]]
    from run True g s have out: "pre = concat (butlast groups)" "spl = take j ?big"
      "kept = drop j ?big" "tail = d" by (auto simp: choose_tail_def)
    have "d \<le> target \<or> length (drop j ?big) = 1"
    proof (cases "cost_in costs (last ?big) \<le> target")
      case True
      with grow_tail_target [OF this, of "cost_in costs" ?big "length ?big - 1"] s show ?thesis
        by (simp add: split_turn_def)
    next
      case False
      with grow_tail_over [of target "cost_in costs (last ?big)" ?big "cost_in costs" "length ?big - 1"]
        s cost_in_nonneg [OF pos] have "j = length ?big - 1" by (auto simp: split_turn_def)
      with big show ?thesis by (cases ?big rule: rev_cases) simp_all
    qed
    with out j groups show ?thesis by (simp add: group_cost_def)
  next
    case False
    with run g have out: "pre = concat (take k groups)" "spl = []" "kept = concat (drop k groups)"
      "tail = c" by (auto simp: choose_tail_def)
    have "concat (drop k groups) \<noteq> []" using k(1) ne(2)
      by (metis concat_eq_Nil_conv drop_eq_Nil in_set_dropD leD list.set_sel(1))
    moreover have "concat (take k groups) @ concat (drop k groups) = concat groups"
      by (metis append_take_drop_id concat_append)
    moreover have "c = group_cost costs (concat (drop k groups))"
      using k(2) by (simp add: group_cost_concat)
    moreover have "c \<le> target \<or> length (concat (drop k groups)) = 1"
    proof (cases "group_cost costs ?big \<le> target")
      case True
      with grow_tail_target [OF this, of "group_cost costs" groups "length groups - 1"] g
      show ?thesis by simp
    next
      case over: False
      have nn: "\<forall>x \<in> set groups. 0 \<le> group_cost costs x"
        using cost_in_nonneg [OF pos] by (auto simp: group_cost_def intro!: sum_list_nonneg)
      from grow_tail_over [of target "group_cost costs ?big" groups "group_cost costs" "length groups - 1"]
        over nn g have kc: "k = length groups - 1" "c = group_cost costs ?big" by auto
      have "drop k groups = [?big]" using kc(1) ne(1) by (cases groups rule: rev_cases) auto
      moreover have "length ?big = 1" using False over kc(2) big
        by (metis Suc_leI One_nat_def leD le_neq_implies_less length_greater_0_conv not_le)
      ultimately show ?thesis by simp
    qed
    ultimately show ?thesis using out by simp
  qed
qed

lemma count_text_nonneg: "0 \<le> count_text acc text"
  by (simp add: count_text_def split: option.split)

lemma json_structure_nonneg: "0 \<le> json_structure v"
  by (induction v rule: json_structure.induct) (auto intro!: add_nonneg_nonneg sum_list_nonneg)

lemma count_message_nonneg: "0 \<le> count_message acc m"
  using count_text_nonneg [of acc] json_structure_nonneg [of m]
  by (simp add: count_message_def count_json_def add_nonneg_nonneg)

definition cache_nonneg :: "accounting \<Rightarrow> bool" where
  "cache_nonneg acc \<longleftrightarrow> (\<forall>p \<in> set (session_entry_tokens acc). 0 \<le> snd p)"

lemma update_nonneg:
  "\<forall>p \<in> set costs. 0 \<le> snd p \<Longrightarrow> 0 \<le> (n :: int) \<Longrightarrow> \<forall>p \<in> set (AList.update k n costs). 0 \<le> snd p"
  by (induction costs) auto

lemma count_session_entry_nonneg:
  assumes "count_session_entry acc key ms est = (n, acc')" "cache_nonneg acc"
  shows "0 \<le> n \<and> cache_nonneg acc'"
proof (cases "map_of (session_entry_tokens acc) key")
  case None
  have sum: "0 \<le> sum_list (map (count_message acc) ms)"
    by (auto intro!: sum_list_nonneg count_message_nonneg)
  with assms None have "0 \<le> n"
    by (auto simp: count_session_entry_def Let_def split: option.split_asm if_split_asm)
  moreover from assms(1) None have
    "acc' = acc\<lparr>session_entry_tokens := AList.update key n (session_entry_tokens acc)\<rparr>"
    by (auto simp: count_session_entry_def Let_def)
  ultimately show ?thesis
    using assms(2) update_nonneg [of "session_entry_tokens acc" n key] by (simp add: cache_nonneg_def)
next
  case (Some c)
  from map_of_SomeD [OF this] assms Some show ?thesis
    by (auto simp: count_session_entry_def cache_nonneg_def)
qed

lemma entry_costs_nonneg:
  assumes "entry_costs est es acc costs = (costs', acc')"
    and "\<forall>p \<in> set costs. 0 \<le> snd p" "cache_nonneg acc"
  shows "(\<forall>p \<in> set costs'. 0 \<le> snd p) \<and> cache_nonneg acc'"
  using assms
proof (induction es arbitrary: acc costs)
  case (Cons e es)
  obtain n acc2 where n: "count_session_entry acc (eid e) (entry_message_refs e)
      (map_option int (map_of est (eid e))) = (n, acc2)" by fastforce
  from count_session_entry_nonneg [OF n Cons.prems(3)]
  have "0 \<le> n" "cache_nonneg acc2" by auto
  with Cons.IH [of acc2 "AList.update (eid e) n costs"] Cons.prems(1) n
    update_nonneg [OF Cons.prems(2), of n "eid e"]
  show ?case by simp
qed simp

text \<open>The plan of a compaction partitions the active history.\<close>

lemma build_compaction_plan_parts:
  assumes "build_compaction_plan t acc keep = Inr (plan, acc')" "cache_nonneg acc"
  shows "\<exists>view. plan_view t = Inr view
    \<and> cp_prefix_entries plan @ cp_split_prefix_entries plan @ cp_kept_entries plan = plan_entries t view
    \<and> cp_prefix_entries plan @ cp_split_prefix_entries plan \<noteq> []
    \<and> cp_kept_entries plan \<noteq> [] \<and> cp_first_kept_entry_id plan = eid (hd (cp_kept_entries plan))
    \<and> (cp_tail_tokens plan \<le> max 1 keep \<or> length (cp_kept_entries plan) = 1)"
proof -
  from assms(1) obtain view where v: "plan_view t = Inr view"
    by (auto simp: build_compaction_plan_def bindR_Inr_iff)
  let ?es = "plan_entries t view"
  obtain costs acc2 where c: "entry_costs (testimates t) ?es acc [] = (costs, acc2)" by fastforce
  obtain pre spl kept tail where ct: "choose_tail costs (max 1 keep) (turn_groups ?es) = (pre, spl, kept, tail)"
    by (metis prod_cases4)
  from assms(1) v c ct have len: "2 \<le> length ?es" and ne: "pre \<noteq> [] \<or> spl \<noteq> []"
    and plan: "cp_prefix_entries plan = pre" "cp_split_prefix_entries plan = spl"
      "cp_kept_entries plan = kept" "cp_first_kept_entry_id plan = eid (hd kept)"
      "cp_tail_tokens plan = tail"
    by (auto simp: build_compaction_plan_def Let_def split: if_split_asm)
  have "turn_groups ?es \<noteq> []" using len turn_groups_Nil [of ?es] by auto
  from choose_tail_kept [OF this _ _ ct] entry_costs_nonneg [OF c] turn_groups_nonempty assms(2)
  have "pre @ spl @ kept = ?es \<and> kept \<noteq> [] \<and> (tail \<le> max 1 keep \<or> length kept = 1)"
    by (auto simp: turn_groups_concat)
  with v ne plan show ?thesis by auto
qed

subsection \<open>Clipping\<close>

lemma clip_search_fits:
  "tok (take low v) \<le> cap \<Longrightarrow> tok (take (clip_search tok cap v low high) v) \<le> cap"
proof (induction tok cap v low high rule: clip_search.induct)
  case (1 tok cap v low high)
  then show ?case by (subst clip_search.simps) (auto simp: Let_def)
qed

lemma ceil4_mono: "m \<le> n \<Longrightarrow> ceil4 m \<le> ceil4 n"
  by (simp add: ceil4_def div_le_mono)

lemma estimate_prefix: "prefix p s \<Longrightarrow> estimate_text_tokens p \<le> estimate_text_tokens s"
proof -
  assume "prefix p s"
  then obtain r where s: "s = p @ r" by (auto simp: prefix_def)
  have f: "length (filter P p) \<le> length p" for P by (rule length_filter_le)
  have "length p - length (filter P p) \<le> length p + length r - (length (filter P p) + length (filter P r))" for P
    using f [of P] length_filter_le [of P r] by linarith
  then show ?thesis
    unfolding s estimate_text_tokens_def Let_def
    by (intro max.mono add_mono ceil4_mono order_refl) simp_all
qed

lemma rstrip_prefix: "prefix (rstrip s) s"
  unfolding rstrip_def prefix_def
  by (metis rev_append rev_rev_ident takeWhile_dropWhile_id)

lemma before_last_newline_prefix: "prefix (before_last_newline s) s"
proof -
  let ?P = "\<lambda>c. c \<noteq> CHR 0x0A"
  have "suffix (tl (dropWhile ?P (rev s))) (rev s)"
    by (meson suffix_dropWhile suffix_order.trans suffix_tl)
  then show ?thesis unfolding before_last_newline_def by (simp add: suffix_to_prefix)
qed

lemma clip_tokens_prefix: "prefix (clip_tokens t acc cap) (strip t)"
proof -
  let ?cut = "\<lambda>n. rstrip (take n (strip t))"
  have cut: "prefix (?cut n) (strip t)" for n
    by (meson prefix_order.trans rstrip_prefix take_is_prefix)
  moreover have "prefix (rstrip (before_last_newline (?cut n))) (strip t)" for n
    by (meson cut prefix_order.trans rstrip_prefix before_last_newline_prefix)
  ultimately show ?thesis by (simp add: clip_tokens_def Let_def)
qed

lemma clip_tokens_fits:
  assumes "provider_counter acc = None" "1 \<le> cap"
  shows "count_text acc (clip_tokens t acc cap) \<le> cap"
proof -
  have count_text: "count_text acc = (\<lambda>s. int (estimate_text_tokens s))"
    by (rule ext) (simp add: count_text_def assms(1))
  have mono: "prefix p s \<Longrightarrow> count_text acc s \<le> cap \<Longrightarrow> count_text acc p \<le> cap" for p s
    using estimate_prefix [of p s] by (simp add: count_text)
  have "count_text acc [] \<le> cap" using assms(2) by (simp add: count_text estimate_text_tokens_def ceil4_def)
  with clip_search_fits [of "count_text acc" 0 "strip t" cap]
  have "count_text acc (take (clip_search (count_text acc) cap (strip t) 0 (length (strip t))) (strip t)) \<le> cap"
    by simp
  from mono [OF rstrip_prefix this]
  have cut: "count_text acc (rstrip (take (clip_search (count_text acc) cap (strip t) 0 (length (strip t))) (strip t))) \<le> cap" .
  moreover note mono [OF rstrip_prefix mono [OF before_last_newline_prefix cut]]
  ultimately show ?thesis by (simp add: clip_tokens_def Let_def)
qed

end
