(* ===== verification/ViewFacts.thy ===== *)
theory ViewFacts
  imports ContextView TreeTheorems
begin

text \<open>
  What a context view shows: the messages of a suffix of the active path, behind the
  summaries that stand for what came before it.
\<close>

lemma filter_enumerate_from:
  "map snd (filter (\<lambda>(i, e). Q e \<and> s \<le> i) (enumerate n xs)) = filter Q (drop (s - n) xs)"
proof (induction xs arbitrary: n)
  case (Cons x xs)
  show ?case
  proof (cases "s \<le> n")
    case True
    then have "map snd (filter (\<lambda>(i, e). Q e \<and> s \<le> i) (enumerate (Suc n) xs)) = filter Q xs"
      using Cons.IH [of "Suc n"] by simp
    with True show ?thesis by simp
  next
    case False
    then have "s - n = Suc (s - Suc n)" by simp
    with False Cons.IH [of "Suc n"] show ?thesis by simp
  qed
qed simp

lemma view_body_messages:
  "concat (map (entry_message_refs \<circ> snd) sel) = concat (map entry_message_refs (map snd sel))"
  by (simp add: map_concat comp_def)

lemma last_index_None: "last_index P xs = None \<longleftrightarrow> (\<forall>i < length xs. \<not> P i (xs ! i))"
  by (auto simp: last_index_def find_None_iff)

lemma last_index_snoc_hit: "P (length xs) x \<Longrightarrow> last_index P (xs @ [x]) = Some (length xs)"
  by (simp add: last_index_def)

lemma last_index_Some:
  "last_index P xs = Some i \<Longrightarrow> i < length xs \<and> P i (xs ! i)"
  by (auto simp: last_index_def find_Some_iff rev_nth)

lemma not_carries: "etype e = ''compaction'' \<Longrightarrow> \<not> carries e"
  by (simp add: carries_def entry_message_refs_def)

text \<open>Selecting from a cut is selecting a suffix of the path.\<close>

lemma select_cut_suffix:
  assumes "select_cut path = Inr (k, sel)"
  shows "\<exists>s. map snd sel = filter carries (drop s path)
    \<and> (case last_index (\<lambda>_ e. etype e = ''compaction'') path of
         None \<Rightarrow> s = 0 \<and> k = no_cut
       | Some c \<Rightarrow> read_cut (path ! c) = Inr k \<and> cut_start path c (cut_first_kept k) = Inr s)"
proof (cases "last_index (\<lambda>_ e. etype e = ''compaction'') path")
  case None
  with assms have "k = no_cut" "sel = filter (\<lambda>(i, e). carries e) (enumerate 0 path)"
    by (auto simp: select_cut_def)
  moreover have "map snd (filter (\<lambda>(i, e). carries e) (enumerate 0 path)) = filter carries (drop 0 path)"
    using filter_enumerate_from [of carries 0 0 path] by simp
  ultimately show ?thesis using None by (auto intro: exI [of _ 0])
next
  case (Some c)
  with assms obtain start where r: "read_cut (path ! c) = Inr k"
    and st: "cut_start path c (cut_first_kept k) = Inr start"
    and sel: "sel = filter (\<lambda>(i, e). carries e \<and>
        (cut_first_kept k \<noteq> [] \<and> start \<le> i \<and> i < c \<or> c < i)) (enumerate 0 path)"
    by (auto simp: select_cut_def bindR_Inr_iff)
  note c = last_index_Some [OF Some]
  have start: "start \<le> c" "cut_first_kept k = [] \<longrightarrow> start = c"
    using st by (auto simp: cut_start_def find_Some_iff split: option.split_asm if_split_asm)
  have "sel = filter (\<lambda>(i, e). carries e \<and> start \<le> i) (enumerate 0 path)"
    unfolding sel
  proof (rule filter_cong [OF refl], clarify)
    fix i e assume "(i, e) \<in> set (enumerate 0 path)"
    then have e: "e = path ! i" by (auto simp: in_set_enumerate_eq)
    show "(carries e \<and> (cut_first_kept k \<noteq> [] \<and> start \<le> i \<and> i < c \<or> c < i)) = (carries e \<and> start \<le> i)"
    proof (cases "i = c")
      case True
      with c e not_carries show ?thesis by simp
    next
      case False
      with start show ?thesis by auto
    qed
  qed
  then have "map snd sel = filter carries (drop start path)"
    using filter_enumerate_from [of carries start 0 path] by simp
  with Some r st show ?thesis by auto
qed

lemma view_shows_a_suffix:
  assumes "view_of path canonical = Inr v"
  shows "\<exists>s. cv_entries v = filter carries (drop s path)"
  using assms select_cut_suffix [of path]
  by (fastforce simp: view_of_def bindR_Inr_iff Let_def)

text \<open>Without a compaction or a branch summary the view is the conversation.\<close>

lemma concat_carries: "concat (map entry_message_refs (filter carries es)) = concat (map entry_message_refs es)"
  by (induction es) (auto simp: carries_def)

lemma view_without_control:
  assumes "\<not> list_ex (\<lambda>e. etype e = ''compaction'' \<or> etype e = ''branch_summary'') path"
  shows "\<exists>v. view_of path canonical = Inr v \<and> cv_entries v = filter carries path
    \<and> cv_messages v = concat (map entry_message_refs path)"
proof -
  have none: "last_index (\<lambda>_ e. etype e = ''compaction'') path = None"
    "branch_index path = None"
    using assms by (auto simp: last_index_None branch_index_def list_ex_iff Let_def)
  then obtain sel where sel: "select_cut path = Inr (no_cut, sel)" by (simp add: select_cut_def)
  with select_cut_suffix [OF sel] none have ents: "map snd sel = filter carries path" by auto
  have "branch_point path = None" by (simp add: branch_point_def none)
  with sel ents show ?thesis
    by (auto simp: view_of_def Let_def cut_messages_def no_cut_def concat_carries
        simp flip: map_map)
qed

text \<open>Right after a compaction entry the view is its summaries and the entries it keeps.\<close>

lemma view_after_compaction:
  assumes "etype e = ''compaction''" and k: "read_cut e = Inr k"
    and i: "i < length path" "cut_first_kept k = eid (path ! i)" "cut_first_kept k \<noteq> []"
    and d: "distinct (map eid path)"
  shows "\<exists>v. view_of (path @ [e]) canonical = Inr v \<and> cv_entries v = filter carries (drop i path)
    \<and> cv_messages v = cut_messages k @ concat (map entry_message_refs (filter carries (drop i path)))"
proof -
  have c: "last_index (\<lambda>_ e. etype e = ''compaction'') (path @ [e]) = Some (length path)"
    by (rule last_index_snoc_hit) (rule assms(1))
  have "branch_index (path @ [e]) = None"
    by (auto simp: branch_index_def c last_index_None Let_def nth_append assms(1))
  then have b: "branch_index (path @ [e]) = None" "branch_point (path @ [e]) = None"
    by (simp_all add: branch_point_def)
  have "find (\<lambda>j. eid ((path @ [e]) ! j) = cut_first_kept k) [0..<length path] = Some i"
    using i(1,2) d by (auto simp: find_Some_iff nth_append distinct_conv_nth intro!: exI [of _ i])
  then have st: "cut_start (path @ [e]) (length path) (cut_first_kept k) = Inr i"
    using i(3) by (simp add: cut_start_def)
  then obtain sel where sel: "select_cut (path @ [e]) = Inr (k, sel)"
    by (simp add: select_cut_def c k)
  from select_cut_suffix [OF sel] c k st have "map snd sel = filter carries (drop i (path @ [e]))"
    by auto
  then have ents: "map snd sel = filter carries (drop i path)"
    using i(1) not_carries [OF assms(1)] by simp
  with sel b show ?thesis
    by (auto simp: view_of_def Let_def simp flip: map_map)
qed

text \<open>The ids on the active path of a sound tree are distinct and not empty.\<close>

lemma tree_ok_path_ids:
  assumes "tree_ok v t"
  shows "distinct (map eid (tpath t))" "e \<in> set (tpath t) \<Longrightarrow> eid e \<noteq> []"
proof -
  note wf = tree_okD(1) [OF assms] and path = tree_okD(3) [OF assms]
  show "distinct (map eid (tpath t))"
    unfolding distinct_conv_nth
  proof (intro allI impI notI)
    fix i j
    assume ij: "i < length (map eid (tpath t))" "j < length (map eid (tpath t))" "i \<noteq> j"
      and same: "map eid (tpath t) ! i = map eid (tpath t) ! j"
    have pre: "path_to (tentries t) (eid (tpath t ! k)) = take (Suc k) (tpath t)"
      if "k < length (tpath t)" for k
      using path_to_prefix [OF wf, of "leaf_id t" "take k (tpath t)" "tpath t ! k" "drop (Suc k) (tpath t)"]
        that path by (simp add: id_take_nth_drop take_Suc_conv_app_nth)
    from pre [of i] pre [of j] ij same have "take (Suc i) (tpath t) = take (Suc j) (tpath t)" by simp
    then have "min (length (tpath t)) (Suc i) = min (length (tpath t)) (Suc j)"
      by (metis length_take)
    with ij show False by simp
  qed
  assume "e \<in> set (tpath t)"
  with tree_ok_path_entries [OF assms] wf show "eid e \<noteq> []"
    using wf_from_id by fastforce
qed

end
