(* ===== verification/CompactionEffects.thy ===== *)
theory CompactionEffects
  imports CompactionFacts ViewFacts
begin

text \<open>
  Compaction end to end: which store operations a compaction performs, what other
  processes may do while the provider is asked, and what the model sees afterwards.
\<close>

subsection \<open>Operations made of store steps\<close>

text \<open>An operation that only moves the store along its steps, whatever it returns.\<close>

definition steps :: "env \<Rightarrow> 'a op \<Rightarrow> bool" where
  "steps env m \<longleftrightarrow> (\<forall>s. reachable env s (snd (m s)))"

named_theorems steps_intros \<open>operations that only move along store steps\<close>

lemma reachable_trans: "reachable env s' s'' \<Longrightarrow> reachable env s s' \<Longrightarrow> reachable env s s''"
  by (induction rule: reachable.induct) (auto intro: reachable.step)

lemma reachable_one: "store_step env s s' \<Longrightarrow> reachable env s s'"
  by (blast intro: reachable.start reachable.step)

lemma steps_lift [steps_intros]: "steps env (lift r)"
  by (simp add: steps_def lift_def reachable.start)

lemma steps_require [steps_intros]: "steps env (requireO c e)"
  unfolding requireO_def by (rule steps_lift)

lemma steps_bind [steps_intros]:
  assumes "steps env m" "\<And>x. steps env (f x)"
  shows "steps env (bindO m f)"
  unfolding steps_def
proof
  fix s
  obtain r s1 where m: "m s = (r, s1)" by fastforce
  with assms(1) have "reachable env s s1" unfolding steps_def by (metis snd_conv)
  moreover have "reachable env s1 (snd (f x s1))" for x using assms(2) by (simp add: steps_def)
  ultimately show "reachable env s (snd (bindO m f s))"
    using m by (auto simp: bindO_def split: sum.split intro: reachable_trans)
qed

lemma steps_load [steps_intros]: "steps env (load_tree env sid)"
  unfolding steps_def by (auto intro: reachable_one store_step.step_load)

lemma steps_control [steps_intros]: "steps env (append_control env fresh sid kind d p xl)"
  unfolding steps_def by (auto intro: reachable_one store_step.step_control)

lemma steps_rewind [steps_intros]: "steps env (rewind_with_summary env fresh sid i d c l)"
  unfolding steps_def by (auto intro: reachable_one store_step.step_rewind)

lemma steps_if [steps_intros]: "steps env m \<Longrightarrow> steps env m' \<Longrightarrow> steps env (if c then m else m')"
  by simp

text \<open>The world during a provider call: other processes run store operations.\<close>

definition fair_world :: "agent \<Rightarrow> bool" where
  "fair_world ag \<longleftrightarrow> (\<forall>n call s. reachable (ag_env ag) s (snd (ag_complete ag n call s)))"

lemma fair_worldD: "fair_world ag \<Longrightarrow> ag_complete ag n call s = (r, s1) \<Longrightarrow> reachable (ag_env ag) s s1"
  unfolding fair_world_def by (metis snd_conv)

lemma steps_calls:
  assumes "fair_world ag" "steps (ag_env ag) guard"
  shows "steps (ag_env ag) (call_with_retries ag guard call n k)"
proof (induction k arbitrary: n)
  case 0
  show ?case
    unfolding call_with_retries.simps [of ag guard call n]
    by (intro steps_bind assms(2), unfold steps_def, intro allI)
      (auto split: prod.split call_outcome.split dest: fair_worldD [OF assms(1)])
next
  case (Suc k)
  show ?case
    unfolding call_with_retries.simps [of ag guard call n]
  proof (intro steps_bind assms(2), unfold steps_def, intro allI)
    fix s
    obtain r s1 where c: "ag_complete ag n call s = (r, s1)" by fastforce
    note r1 = fair_worldD [OF assms(1) c]
    have r2: "reachable (ag_env ag) s1 (snd (call_with_retries ag guard call (Suc n) k s1))"
      using Suc.IH [of "Suc n"] by (simp add: steps_def)
    show "reachable (ag_env ag) s (snd (case ag_complete ag n call s of
         (Reply r, s) \<Rightarrow> (Inr r, s)
       | (CallFailed name retryable, s) \<Rightarrow>
           (case Suc k of
              Suc k \<Rightarrow>
                if retryable then call_with_retries ag guard call (Suc n) k s
                else (Inl (CompactionError (''compaction_failed: summary model call failed ('' @ name @ '')'')), s)
            | 0 \<Rightarrow> (Inl (CompactionError (''compaction_failed: summary model call failed ('' @ name @ '')'')), s))))"
      using r1 reachable_trans [OF r2 r1] by (auto simp: c split: call_outcome.split)
  qed
qed

lemma steps_summaries: "fair_world ag \<Longrightarrow> steps (ag_env ag) (plan_summaries ag acc plan focus leaf)"
  unfolding plan_summaries_def summary_request_def leaf_guard_def Let_def
  by (intro steps_intros steps_calls)

lemma steps_append_compaction:
  "steps (ag_env ag) (append_compaction ag fresh acc plan summaries reason focus leaf)"
  unfolding append_compaction_def Let_def by (cases summaries) (simp, intro steps_intros)

lemma compaction_steps:
  assumes "fair_world ag"
  shows "steps (ag_env ag) (compact_session ag fresh acc focus reason keep xl)"
  unfolding compact_session_def Let_def
  by (intro steps_bind steps_load steps_require steps_lift)
    (auto intro!: steps_bind steps_lift steps_summaries [OF assms] steps_append_compaction split: prod.split)

subsection \<open>The same leaf means the same tree\<close>

lemma parse_rows_entries:
  assumes "parse_rows env v sid rows = Inr t" "parse_rows env v sid (rows @ map entry_val es) = Inr t'"
  shows "tentries t' = tentries t @ es"
proof -
  from assms(1) obtain hrow erows where r: "rows = hrow # erows"
    "validate_rows None v {} erows = Inr (tentries t)" by (auto simp: parse_rows_Inr_iff)
  from assms(2) r(1) have "validate_rows None v {} (erows @ map entry_val es) = Inr (tentries t')"
    by (auto simp: parse_rows_Inr_iff)
  with r(2) obtain fs where "validate_rows None v (ids (tentries t)) (map entry_val es) = Inr fs"
    "tentries t' = tentries t @ fs" by (auto simp: validate_rows_append bindR_Inr_iff)
  then show ?thesis by (auto simp: validate_rows_val dest: validate_rows_ok split: if_split_asm)
qed

lemma same_leaf_same_tree:
  assumes t: "stored env s sid = Inr t" and t': "stored env s' sid = Inr t'"
    and grow: "history_grows s s'" and leaf: "leaf_id t' = leaf_id t"
  shows "t' = t"
proof -
  from t obtain f where f: "disk s sid = Some f" "parse_current env sid f = Inr t"
    by (auto simp: stored_def split: option.split_asm)
  with grow obtain f' es where f': "disk s' sid = Some f'" "frows f' = frows f @ map entry_val es"
    unfolding history_grows_def by blast
  with t' have p': "parse_current env sid f' = Inr t'" by (simp add: stored_def)
  note rows = parse_currentD(2) [OF f(2)] parse_currentD(2) [OF p']
  from parse_rows_entries [OF rows(1)] rows(2) f'(2) have ents: "tentries t' = tentries t @ es" by simp
  have "es = []"
  proof (rule ccontr)
    assume ne: "es \<noteq> []"
    from tree_okD(1) [OF parse_currentD(3) [OF p']] ents
    have wf: "wf_entries (tentries t @ es)" by simp
    from ne ents leaf have "leaf_of es = leaf_of (tentries t)" by (simp add: leaf_of_append)
    moreover have "leaf_of es \<in> ids es" using ne by (cases es rule: rev_cases) auto
    moreover have "leaf_of es \<noteq> []"
      using wf ne by (cases es rule: rev_cases) (auto simp: wf_from_append)
    moreover have "ids es \<inter> ids (tentries t) = {}"
      using wf wf_from_distinct [of "ids (tentries t)" es] by (auto simp: wf_from_append)
    ultimately show False using leaf_of_cases [of "tentries t"] by auto
  qed
  with f'(2) rows show ?thesis by simp
qed

subsection \<open>The effect of a compaction\<close>

lemma load_tree_InrD:
  assumes "store_ok env s" "load_tree env sid s = (Inr t, s1)"
  shows "stored env s sid = Inr t" "stored env s1 sid = Inr t" "store_ok env s1" "disk s1 = disk s"
proof -
  from assms(2) have r: "read_tree env sid s = (Inr t, s1)"
    by (auto simp: load_tree_def op_simps dest!: session_id_same split: if_split_asm)
  from read_tree_InrD [OF assms(1) r]
  show "stored env s sid = Inr t" "stored env s1 sid = Inr t" "store_ok env s1" by auto
  show "disk s1 = disk s" using load_tree_step(2) [OF assms(1), of sid] assms(2) by simp
qed

lemma linear_control_effect:
  assumes ok: "store_ok env s" and kind: "kind \<noteq> ''rewind''"
    and run: "append_control env fresh sid kind d None xl s = (Inr e, s')"
  shows "\<exists>t t'. stored env s sid = Inr t \<and> expects_leaf xl t \<and> stored env s' sid = Inr t'
    \<and> store_ok env s' \<and> tpath t' = tpath t @ [e]
    \<and> etype e = kind \<and> redactor env d = VDict (edata e) \<and> entry_data_ok SESSION_FORMAT_VERSION e"
proof -
  from run kind obtain t s1 where rd: "read_tree env sid s = (Inr t, s1)" and xl: "expects_leaf xl t"
    and e: "e = new_entry fresh 0 kind (as_dict (redactor env d)) (leaf_id t)"
    and dict: "is_dict (redactor env d)"
    and app: "append_entries env sid [e] s1 = (Inr (), s')"
    by (auto simp: append_control_def op_simps Let_def dest!: session_id_same)
  note t = read_tree_InrD [OF ok rd]
  from append_one [OF t(3,2) _ app] e t(1) xl dict show ?thesis by (auto simp: is_dict_iff)
qed

text \<open>The redactor leaves the id of the first kept entry alone.\<close>

definition keeps_ids :: "env \<Rightarrow> bool" where
  "keeps_ids env \<longleftrightarrow>
     (\<forall>d e. redactor env (VDict d) = VDict e \<longrightarrow>
        dget e ''first_kept_entry_id'' = dget d ''first_kept_entry_id'')"

lemma compaction_cut:
  assumes "redactor env (VDict (compaction_data ag acc plan main spl reason focus)) = VDict (edata e)"
    and "keeps_ids env" "etype e = ''compaction''" "entry_data_ok SESSION_FORMAT_VERSION e"
  shows "\<exists>k. read_cut e = Inr k \<and> cut_first_kept k = cp_first_kept_entry_id plan"
proof -
  have first: "dget (edata e) ''first_kept_entry_id'' = Some (VStr (cp_first_kept_entry_id plan))"
    using assms(1,2) unfolding keeps_ids_def
    by (auto simp: compaction_data_def Let_def split: prod.split_asm)
  from assms(3,4) have "compaction_data_ok (edata e)"
    by (auto simp: entry_data_ok_def validate_entry_data_def require_Inr_iff)
  then have keys: "\<exists>v. dget (edata e) key = Some v"
    if "key \<in> {''summary'', ''tokens_before'', ''summary_tokens'', ''tail_tokens'', ''reason''}" for key
    using that dkeys_dget [of key "edata e"] by (auto simp: compaction_data_ok_def)
  have "\<exists>v. dget (edata e) ''summary'' = Some v" "\<exists>v. dget (edata e) ''tokens_before'' = Some v"
    "\<exists>v. dget (edata e) ''summary_tokens'' = Some v" "\<exists>v. dget (edata e) ''tail_tokens'' = Some v"
    "\<exists>v. dget (edata e) ''reason'' = Some v"
    by (rule keys, simp)+
  then obtain v1 v2 v3 v4 v5 where "dget (edata e) ''summary'' = Some v1"
    "dget (edata e) ''tokens_before'' = Some v2" "dget (edata e) ''summary_tokens'' = Some v3"
    "dget (edata e) ''tail_tokens'' = Some v4" "dget (edata e) ''reason'' = Some v5"
    by (elim exE)
  with first show ?thesis by (simp add: read_cut_def text_item_def int_item_def Let_def)
qed

text \<open>The kept entries are the message entries of the path from the first of them on.\<close>

lemma filter_suffix_start:
  assumes "filter P xs = ys @ z # zs"
  shows "\<exists>i < length xs. xs ! i = z \<and> filter P (drop i xs) = z # zs"
  using assms
proof (induction xs arbitrary: ys)
  case (Cons x xs)
  show ?case
  proof (cases "P x \<and> ys = []")
    case True
    with Cons.prems show ?thesis by (intro exI [of _ 0]) simp
  next
    case False
    with Cons.prems have "\<exists>ys. filter P xs = ys @ z # zs" by (cases ys) (auto split: if_split_asm)
    with Cons.IH obtain i where "i < length xs" "xs ! i = z" "filter P (drop i xs) = z # zs" by blast
    then show ?thesis by (intro exI [of _ "Suc i"]) simp
  qed
qed simp

lemma plan_entries_suffix:
  assumes "plan_view t = Inr view"
  shows "\<exists>s. plan_entries t view = filter carries (drop s (tpath t))"
  using assms
  by (auto simp: plan_view_def plan_entries_def context_view_from_tree_def bindR_Inr_iff
      intro: exI [of _ 0] dest: view_shows_a_suffix split: if_split_asm option.split_asm)

lemma kept_start:
  assumes "plan_view t = Inr view" "xs @ kept = plan_entries t view" "kept \<noteq> []"
  shows "\<exists>i < length (tpath t). eid (hd kept) = eid (tpath t ! i) \<and> filter carries (drop i (tpath t)) = kept"
proof -
  from plan_entries_suffix [OF assms(1)] obtain s where
    "plan_entries t view = filter carries (drop s (tpath t))" by blast
  with assms(2,3) have "filter carries (drop s (tpath t)) = xs @ hd kept # tl kept" by simp
  from filter_suffix_start [OF this] obtain i where "i < length (drop s (tpath t))"
    "drop s (tpath t) ! i = hd kept" "filter carries (drop i (drop s (tpath t))) = hd kept # tl kept"
    by blast
  with assms(3) show ?thesis by (intro exI [of _ "s + i"]) (simp add: add.commute)
qed

lemma compact_session_unfold:
  assumes "compact_session ag fresh acc focus reason keep xl s = (Inr (r, acc'), s')"
  obtains t s1 plan summaries s2 where
    "load_tree (ag_env ag) (ag_session ag) s = (Inr t, s1)" "expects_leaf xl t"
    "build_compaction_plan t acc (case keep of None \<Rightarrow> keep_recent_tokens (ag_budget ag) | Some k \<Rightarrow> k)
      = Inr (plan, acc')"
    "plan_summaries ag acc' plan focus (leaf_id t) s1 = (Inr summaries, s2)"
    "append_compaction ag fresh acc' plan summaries reason focus (leaf_id t) s2 = (Inr r, s')"
  using assms by (auto simp: compact_session_def op_simps Let_def split: prod.split_asm)

lemma append_compaction_unfold:
  assumes "append_compaction ag fresh acc plan summaries reason focus leaf s = (Inr r, s')"
  shows "append_control (ag_env ag) fresh (ag_session ag) ''compaction''
      (VDict (compaction_data ag acc plan (fst summaries) (snd summaries) reason focus)) None (Some leaf) s
      = (Inr (cr_entry r), s')"
    and "cr_tokens_after r < cr_tokens_before r" "cr_tokens_before r = cp_tokens_before plan"
  using assms by (auto simp: append_compaction_def op_simps Let_def split: prod.split_asm)

lemma validated_messages:
  assumes "validate_projection SESSION_FORMAT_VERSION sid (VDict p) = Inr u"
  shows "\<exists>ms. dget p ''messages'' = Some ms"
proof -
  have "required_fields SESSION_FORMAT_VERSION \<subseteq> dkeys p"
  proof (rule ccontr)
    assume "\<not> required_fields SESSION_FORMAT_VERSION \<subseteq> dkeys p"
    then have "validate_projection SESSION_FORMAT_VERSION sid (VDict p) \<noteq> Inr u"
      unfolding validate_projection_def Let_def by simp
    with assms show False by contradiction
  qed
  moreover have "''messages'' \<in> required_fields SESSION_FORMAT_VERSION"
    by (simp add: required_fields_def REQUIRED_FIELDS_def)
  ultimately have "''messages'' \<in> dkeys p" by (rule subsetD)
  then show ?thesis by (auto simp: dkeys_dget)
qed

lemma compact_session_effect:
  assumes ok: "store_ok (ag_env ag) s" and fair: "fair_world ag" and ids: "keeps_ids (ag_env ag)"
    and acc: "cache_nonneg acc"
    and run: "compact_session ag fresh acc focus reason keep xl s = (Inr (r, acc'), s')"
  shows "\<exists>t t' plan view k v. stored (ag_env ag) s (ag_session ag) = Inr t \<and> expects_leaf xl t
    \<and> plan_view t = Inr view
    \<and> cp_prefix_entries plan @ cp_split_prefix_entries plan @ cp_kept_entries plan = plan_entries t view
    \<and> (cp_tail_tokens plan \<le> max 1 (case keep of None \<Rightarrow> keep_recent_tokens (ag_budget ag) | Some n \<Rightarrow> n)
        \<or> length (cp_kept_entries plan) = 1)
    \<and> stored (ag_env ag) s' (ag_session ag) = Inr t' \<and> store_ok (ag_env ag) s'
    \<and> tpath t' = tpath t @ [cr_entry r]
    \<and> read_cut (cr_entry r) = Inr k \<and> context_view_from_tree t' = Inr v
    \<and> cv_entries v = cp_kept_entries plan
    \<and> cv_messages v = cut_messages k @ kept_messages plan
    \<and> cr_tokens_after r < cr_tokens_before r \<and> cr_tokens_before r = cp_tokens_before plan"
proof -
  let ?env = "ag_env ag" and ?sid = "ag_session ag"
  from run obtain t s1 plan summaries s2 where
    ld: "load_tree ?env ?sid s = (Inr t, s1)" and xl: "expects_leaf xl t"
    and bp: "build_compaction_plan t acc (case keep of None \<Rightarrow> keep_recent_tokens (ag_budget ag) | Some k \<Rightarrow> k)
      = Inr (plan, acc')"
    and ps: "plan_summaries ag acc' plan focus (leaf_id t) s1 = (Inr summaries, s2)"
    and ac: "append_compaction ag fresh acc' plan summaries reason focus (leaf_id t) s2 = (Inr r, s')"
    by (rule compact_session_unfold)
  note t = load_tree_InrD [OF ok ld]
  have "reachable ?env s1 s2"
    using steps_summaries [OF fair, of acc' plan focus "leaf_id t"] ps unfolding steps_def by (metis snd_conv)
  from reachable_invariant [OF this t(3)] have ok2: "store_ok ?env s2" and grow: "history_grows s1 s2" by auto
  note app = append_compaction_unfold [OF ac]
  from linear_control_effect [OF ok2 _ app(1)] obtain t2 t' where t2: "stored ?env s2 ?sid = Inr t2"
    "leaf_id t2 = leaf_id t" and t': "stored ?env s' ?sid = Inr t'" "store_ok ?env s'"
    "tpath t' = tpath t2 @ [cr_entry r]" and e: "etype (cr_entry r) = ''compaction''"
    "redactor ?env (VDict (compaction_data ag acc' plan (fst summaries) (snd summaries) reason focus))
      = VDict (edata (cr_entry r))" "entry_data_ok SESSION_FORMAT_VERSION (cr_entry r)"
    by (auto simp: expects_leaf_def)
  have same: "t2 = t" by (rule same_leaf_same_tree [OF t(2) t2(1) grow t2(2)])
  from build_compaction_plan_parts [OF bp acc] obtain view where v: "plan_view t = Inr view"
    and parts: "cp_prefix_entries plan @ cp_split_prefix_entries plan @ cp_kept_entries plan = plan_entries t view"
    and kept: "cp_kept_entries plan \<noteq> []" "cp_first_kept_entry_id plan = eid (hd (cp_kept_entries plan))"
    and tail: "cp_tail_tokens plan \<le> max 1 (case keep of None \<Rightarrow> keep_recent_tokens (ag_budget ag) | Some n \<Rightarrow> n)
        \<or> length (cp_kept_entries plan) = 1"
    by blast
  from kept_start [OF v _ kept(1)] parts obtain i where i: "i < length (tpath t)"
    "eid (hd (cp_kept_entries plan)) = eid (tpath t ! i)"
    "filter carries (drop i (tpath t)) = cp_kept_entries plan" by (metis append_assoc)
  from compaction_cut [OF e(2) ids e(1,3)] obtain k where k: "read_cut (cr_entry r) = Inr k"
    "cut_first_kept k = cp_first_kept_entry_id plan" by blast
  have tok: "tree_ok SESSION_FORMAT_VERSION t" and tok': "tree_ok SESSION_FORMAT_VERSION t'"
    using stored_InrD t(1) t'(1) by blast+
  have "cut_first_kept k \<noteq> []" using tree_ok_path_ids(2) [OF tok] i(1,2) k(2) kept(2) by simp
  from view_after_compaction [OF e(1) k(1) i(1) _ this tree_ok_path_ids(1) [OF tok]] k(2) kept(2) i(2)
  have view: "\<exists>v. view_of (tpath t @ [cr_entry r]) c = Inr v
      \<and> cv_entries v = filter carries (drop i (tpath t))
      \<and> cv_messages v = cut_messages k @ concat (map entry_message_refs (filter carries (drop i (tpath t))))" for c
    by simp
  from validated_messages [OF tree_okD(5) [OF tok']] obtain ms where
    "dget (tprojection t') ''messages'' = Some ms" by blast
  with view [of "as_list ms"] t'(3) same obtain v' where "context_view_from_tree t' = Inr v'"
    "cv_entries v' = cp_kept_entries plan" "cv_messages v' = cut_messages k @ kept_messages plan"
    by (auto simp: context_view_from_tree_def i(3) kept_messages_def messages_of_def)
  with t(1) xl v parts tail t' same k(1) app(2,3) show ?thesis by blast
qed

end
