(* ===== verification/AgentFacts.thy ===== *)
theory AgentFacts
  imports AgentRun CompactionEffects
begin

text \<open>
  Reasoning about actions of the agent.  An action keeps a relation between the state it
  starts in and the state it leaves, whether it returns or raises; the locale
  \<open>tracked\<close> carries that through the combinators for any reflexive and transitive
  relation, and its interpretations are the relations the properties need: the store
  only moves along its own operations, and the counters of the turn stay put.
\<close>

subsection \<open>Running actions\<close>

lemma run_ret [simp]: "ret x s = (Inr x, s)" by (simp add: ret_def)
lemma run_raise [simp]: "raise e s = (Inl e, s)" by (simp add: raise_def)
lemma run_read [simp]: "read f s = (Inr (f s), s)" by (simp add: read_def)
lemma run_modify [simp]: "modify f s = (Inr (), f s)" by (simp add: modify_def)
lemma run_the_agent [simp]: "the_agent l = (Inr (lp_agent l), l)" by (simp add: the_agent_def)

lemma run_on_task [simp]: "on_task f l = (Inr (), l\<lparr>lp_task := f (lp_task l)\<rparr>)"
  by (simp add: on_task_def)

lemma run_on_exec [simp]: "on_exec f l = (Inr (), l\<lparr>lp_exec := f (lp_exec l)\<rparr>)"
  by (simp add: on_exec_def)

lemma bindA_Inr:
  "bindA m f s = (Inr y, s') \<longleftrightarrow> (\<exists>x s1. m s = (Inr x, s1) \<and> f x s1 = (Inr y, s'))"
  by (auto simp: bindA_def split: prod.splits sum.splits)

lemma bindA_InrE:
  assumes "bindA m f s = (Inr y, s')"
  obtains x s1 where "m s = (Inr x, s1)" "f x s1 = (Inr y, s')"
  using assms by (auto simp: bindA_Inr)

lemma bindA_run: "m s = (Inr x, s1) \<Longrightarrow> bindA m f s = f x s1"
  by (simp add: bindA_def)

lemma bindA_raise: "m s = (Inl e, s1) \<Longrightarrow> bindA m f s = (Inl e, s1)"
  by (simp add: bindA_def)

lemma bindA_simps [simp]:
  "bindA (ret x) f = f x"
  "bindA (read g) f s = f (g s) s"
  "bindA (modify h) u s = u () (h s)"
  by (auto simp: bindA_def fun_eq_iff)

lemma run_attempt [simp]: "attempt m s = (Inr (fst (m s)), snd (m s))"
  by (simp add: attempt_def split: prod.split)

lemma attempt_bind: "bindA (attempt m) f s = f (fst (m s)) (snd (m s))"
  by (simp add: bindA_def)

lemma whenA_simps [simp]: "whenA True m = m" "whenA False m = ret ()"
  by (simp_all add: whenA_def)

subsection \<open>Relations every action keeps\<close>

named_theorems keeps_intros \<open>actions that keep a tracked relation\<close>

definition keeps :: "('s \<Rightarrow> 's \<Rightarrow> bool) \<Rightarrow> ('s, 'a) act \<Rightarrow> bool" where
  "keeps R m \<longleftrightarrow> (\<forall>s. R s (snd (m s)))"

lemma keepsI: "(\<And>s. R s (snd (m s))) \<Longrightarrow> keeps R m"
  by (simp add: keeps_def)

lemma keepsD: "keeps R m \<Longrightarrow> m s = (r, t) \<Longrightarrow> R s t"
  unfolding keeps_def by (metis snd_conv)

locale tracked =
  fixes R :: "'s \<Rightarrow> 's \<Rightarrow> bool"
  assumes tracked_refl: "R s s"
    and tracked_trans: "R s t \<Longrightarrow> R t u \<Longrightarrow> R s u"
begin

lemma keeps_ret: "keeps R (ret x)" by (simp add: keeps_def tracked_refl)
lemma keeps_raise: "keeps R (raise e)" by (simp add: keeps_def tracked_refl)
lemma keeps_read: "keeps R (read f)" by (simp add: keeps_def tracked_refl)

lemma keeps_item: "keeps R (item d k)"
  by (simp add: item_def keeps_ret keeps_raise split: option.split)

lemma keeps_bind:
  assumes "keeps R m" "\<And>x. keeps R (f x)"
  shows "keeps R (bindA m f)"
proof (rule keepsI)
  fix s
  obtain r t where m: "m s = (r, t)" by fastforce
  from assms(1) m have st: "R s t" by (rule keepsD)
  show "R s (snd (bindA m f s))"
  proof (cases r)
    case (Inl e)
    with m st show ?thesis by (simp add: bindA_def)
  next
    case (Inr x)
    with m have "snd (bindA m f s) = snd (f x t)" by (simp add: bindA_def)
    moreover have "R t (snd (f x t))" using assms(2) by (simp add: keeps_def)
    ultimately show ?thesis using st by (auto intro: tracked_trans)
  qed
qed

lemma keeps_attempt: "keeps R m \<Longrightarrow> keeps R (attempt m)"
  by (simp add: keeps_def)

lemma keeps_when: "keeps R m \<Longrightarrow> keeps R (whenA c m)"
  by (cases c) (simp_all add: keeps_ret)

lemma keeps_if: "keeps R m \<Longrightarrow> keeps R m' \<Longrightarrow> keeps R (if c then m else m')"
  by simp

lemma keeps_option:
  "keeps R m \<Longrightarrow> (\<And>x. keeps R (f x)) \<Longrightarrow> keeps R (case v of None \<Rightarrow> m | Some x \<Rightarrow> f x)"
  by (simp split: option.split)

lemma keeps_sum:
  "(\<And>e. keeps R (f e)) \<Longrightarrow> (\<And>x. keeps R (g x)) \<Longrightarrow> keeps R (case v of Inl e \<Rightarrow> f e | Inr x \<Rightarrow> g x)"
  by (simp split: sum.split)

lemma keeps_pair: "(\<And>x y. keeps R (f x y)) \<Longrightarrow> keeps R (case p of (x, y) \<Rightarrow> f x y)"
  by (simp split: prod.split)

lemma keeps_modify: "(\<And>s. R s (f s)) \<Longrightarrow> keeps R (modify f)"
  by (simp add: keeps_def)

lemma keeps_finally: "keeps R m \<Longrightarrow> keeps R c \<Longrightarrow> keeps R (finally_do m c)"
  unfolding finally_do_def by (intro keeps_bind keeps_attempt keeps_sum keeps_raise keeps_ret)

lemmas keeps_combinators = keeps_ret keeps_raise keeps_read keeps_item keeps_bind keeps_attempt
  keeps_when keeps_if keeps_option keeps_sum keeps_pair

end

subsection \<open>Services that play fair\<close>

text \<open>
  What the loop relies on: a service changes session files only through the operations
  of the store (as other processes do meanwhile), and a compaction reports its calls
  under kinds of its own.
\<close>

definition store_moves_by :: "'w services \<Rightarrow> ('w agent_part, 'a) act \<Rightarrow> bool" where
  "store_moves_by sv m \<longleftrightarrow> (\<forall>a. reachable (sv_env sv) (ap_store a) (ap_store (snd (m a))))"

definition fair_services :: "'w services \<Rightarrow> bool" where
  "fair_services sv \<longleftrightarrow>
     (\<forall>n. fair_world (compaction_agent sv n))
     \<and> (\<forall>n. \<forall>r \<in> set (sv_reports sv n). rp_kind r \<notin> set attempt_origins)
     \<and> store_moves_by sv (sv_resolution sv)
     \<and> (\<forall>m. store_moves_by sv (sv_preflight sv m)) \<and> (\<forall>m. store_moves_by sv (sv_inject sv m))
     \<and> (\<forall>x t p f. store_moves_by sv (sv_build sv x t p f))
     \<and> (\<forall>q a. reachable (sv_env sv) (ap_store a) (ap_store (snd (sv_complete sv q a))))
     \<and> (\<forall>n d. store_moves_by sv (sv_execute sv n d))
     \<and> (\<forall>t m g ps. store_moves_by sv (sv_checkpoint sv t m g ps))
     \<and> (\<forall>t u x. store_moves_by sv (sv_report sv t u x))"

text \<open>The counters of a turn: the tools it has run and the requests of each origin.\<close>

definition same_counts :: "'w loop \<Rightarrow> 'w loop \<Rightarrow> bool" where
  "same_counts l l' \<longleftrightarrow>
     tool_steps (lp_task l') = tool_steps (lp_task l)
     \<and> (\<forall>k \<in> set attempt_origins. me_origins (lp_exec l') k = me_origins (lp_exec l) k)"

text \<open>
  \<open>quiet_tracked\<close> relations allow work on the shared part, and changes of the loop's own
  part other than the task, the collected errors and the two counters;
  \<open>turn_tracked\<close> ones allow any change that leaves the two counters alone.
\<close>

locale quiet_tracked = tracked R for R :: "'w loop \<Rightarrow> 'w loop \<Rightarrow> bool" +
  fixes sv :: "'w services"
  assumes agent_moves:
    "(fair_services sv \<Longrightarrow> reachable (sv_env sv) (ap_store (lp_agent l)) (ap_store a))
     \<Longrightarrow> R l (l\<lparr>lp_agent := a\<rparr>)"
    and quiet_moves:
    "lp_agent l' = lp_agent l \<Longrightarrow> lp_task l' = lp_task l \<Longrightarrow> lp_errors l' = lp_errors l
     \<Longrightarrow> same_counts l l' \<Longrightarrow> R l l'"
begin

lemma keeps_on_agent:
  assumes "fair_services sv \<Longrightarrow> store_moves_by sv m"
  shows "keeps R (on_agent m)"
proof (rule keepsI)
  fix l
  have "snd (on_agent m l) = l\<lparr>lp_agent := snd (m (lp_agent l))\<rparr>"
    by (simp add: on_agent_def split: prod.split)
  with assms show "R l (snd (on_agent m l))"
    by (auto simp: store_moves_by_def intro!: agent_moves)
qed

lemma keeps_still:
  assumes "\<And>a. ap_store (snd (m a)) = ap_store a"
  shows "keeps R (on_agent m)"
  by (rule keeps_on_agent) (simp add: store_moves_by_def assms reachable.start)

lemma keeps_on_store:
  assumes "fair_services sv \<Longrightarrow> steps (sv_env sv) m"
  shows "keeps R (on_store m)"
  unfolding on_store_def
  using assms by (intro keeps_on_agent)
    (auto simp: store_moves_by_def steps_def split: prod.split sum.split; metis snd_conv)

lemma keeps_own:
  assumes "\<And>l. lp_agent (f l) = lp_agent l" "\<And>l. lp_task (f l) = lp_task l"
    "\<And>l. lp_errors (f l) = lp_errors l" "\<And>l. same_counts l (f l)"
  shows "keeps R (modify f)"
  by (rule keeps_modify) (simp add: quiet_moves assms)

lemma keeps_on_world: "keeps R (on_world m)"
  unfolding on_world_def by (rule keeps_still) (simp split: prod.split)

lemma keeps_tick: "keeps R tick"
  unfolding tick_def by (rule keeps_still) simp

lemma keeps_on_session: "keeps R (on_session f)"
  unfolding on_session_def by (rule keeps_still) simp

lemma keeps_the_agent: "keeps R the_agent"
  unfolding the_agent_def by (rule keeps_read)

lemma keeps_exec: "(\<And>x. me_origins (f x) = me_origins x) \<Longrightarrow> keeps R (on_exec f)"
  unfolding on_exec_def by (rule keeps_own) (simp_all add: same_counts_def)

lemma keeps_trace: "keeps R (emit_trace sv e)"
  unfolding emit_trace_def by (intro keeps_bind keeps_read keeps_on_world)

lemma keeps_write_task: "keeps R (write_task_state sv)"
  unfolding write_task_state_def by (intro keeps_bind keeps_read keeps_on_world)

lemma keeps_tree: "keeps R (stored_tree sv)"
  unfolding stored_tree_def by (intro keeps_on_store steps_load)

lemmas keeps_basic = keeps_combinators keeps_on_world keeps_tick keeps_on_session keeps_the_agent
  keeps_trace keeps_write_task keeps_tree

lemma keeps_failure: "keeps R (record_model_failure sv phase e tried)"
  unfolding record_model_failure_def
  by (intro keeps_basic keeps_exec)
    (simp add: count_failure_def record_transport_def Let_def split: option.split)

lemma keeps_usage: "keeps R (count_usage u)"
  unfolding count_usage_def by (rule keeps_own) (simp_all add: same_counts_def)

lemma keeps_move_guard: "keeps R (move_guard i)"
  unfolding move_guard_def by (rule keeps_own) (simp_all add: same_counts_def)

lemma keeps_block: "keeps R (block_with e)"
  unfolding block_with_def by (rule keeps_own) (simp_all add: same_counts_def)

lemma keeps_block_and_raise: "keeps R (block_and_raise c e)"
  unfolding block_and_raise_def by (intro keeps_basic keeps_block)

lemma keeps_capture: "keeps R (capture_model_session_guard sv)"
  unfolding capture_model_session_guard_def by (intro keeps_basic keeps_block_and_raise)

lemma keeps_validate: "keeps R (validate_model_session_guard sv)"
  unfolding validate_model_session_guard_def by (intro keeps_basic keeps_capture keeps_block_and_raise)

lemma keeps_advance: "keeps R (advance_session_guard sv)"
  unfolding advance_session_guard_def by (intro keeps_basic keeps_move_guard keeps_block_and_raise)

lemma keeps_append: "keeps R (append_to_session sv ms us g)"
proof -
  have "R l (snd (case append_messages (sv_env sv) fs i ms us xl xb (ap_store (lp_agent l)) of
         (Inl e, s) \<Rightarrow> (Inl (Raised e), l\<lparr>lp_agent := (lp_agent l)\<lparr>ap_store := s\<rparr>\<rparr>)
       | (Inr leaf, s) \<Rightarrow>
           (case sv_fault sv n of
              None \<Rightarrow> (Inr leaf, l\<lparr>lp_agent := (lp_agent l)\<lparr>ap_store := s\<rparr>\<rparr>)
            | Some (landed, e) \<Rightarrow>
                (Inl e, if landed then l\<lparr>lp_agent := (lp_agent l)\<lparr>ap_store := s\<rparr>\<rparr> else l))))"
    for l fs i xl xb n
    using reachable_one [OF store_step.step_messages [of "sv_env sv" "ap_store (lp_agent l)" fs i ms us xl xb]]
    by (auto split: prod.split sum.split option.split intro!: agent_moves tracked_refl)
  then show ?thesis
    unfolding append_to_session_def Let_def
    by (intro keeps_bind keeps_tick keeps_read) (simp add: keeps_def)
qed

lemma keeps_recover: "keeps R (recover_commit sv e ms us)"
proof -
  have "keeps R (adopt_session sv d)" for d
    unfolding adopt_session_def by (rule keeps_still) simp
  moreover have "keeps R (on_store (load_projection (sv_env sv) i))" for i
    unfolding load_projection_def by (intro keeps_on_store steps_intros)
  ultimately show ?thesis
    unfolding recover_commit_def block_session_writes_def by (intro keeps_basic keeps_block)
qed

lemma keeps_commit: "keeps R (commit_session sv ms g)"
proof -
  have memory: "keeps R (on_agent (modify (\<lambda>a. a\<lparr>ap_memory := f a\<rparr>)))" for f :: "'w agent_part \<Rightarrow> working_memory"
    by (rule keeps_still) simp
  show ?thesis
    unfolding commit_session_def finish_commit_def extend_session_def Let_def
    by (intro keeps_basic keeps_append keeps_recover keeps_block keeps_move_guard memory)
qed

lemma keeps_message: "keeps R (new_plain_message sv role t origin)"
  unfolding new_plain_message_def by (intro keeps_basic)

lemma keeps_answer: "keeps R (answer_and_return sv s)"
  unfolding answer_and_return_def by (intro keeps_basic keeps_message keeps_commit)

end

text \<open>A task is running without a reason to stop, or it has ended.\<close>

definition settled :: "task_state \<Rightarrow> bool" where
  "settled t \<longleftrightarrow> status t \<in> {status_text COMPLETED, status_text STOPPED, status_text FAILED}"

definition consistent :: "task_state \<Rightarrow> bool" where
  "consistent t \<longleftrightarrow> status t = status_text RUNNING \<and> stop_reason t = [] \<or> settled t"

locale turn_tracked = quiet_tracked +
  assumes own_moves:
    "lp_agent l' = lp_agent l \<Longrightarrow> (consistent (lp_task l) \<Longrightarrow> consistent (lp_task l'))
     \<Longrightarrow> (fair_services sv \<Longrightarrow> same_counts l l') \<Longrightarrow> R l l'"
begin

lemma keeps_task:
  "(\<And>t. tool_steps (f t) = tool_steps t) \<Longrightarrow> (\<And>t. consistent t \<Longrightarrow> consistent (f t)) \<Longrightarrow> keeps R (on_task f)"
  unfolding on_task_def by (rule keeps_modify) (simp add: own_moves same_counts_def)

lemma keeps_observe:
  assumes "fair_services sv \<Longrightarrow> rp_kind r \<notin> set attempt_origins"
  shows "keeps R (observe sv r)"
proof -
  have "keeps R (on_exec (count_model_request (rp_kind r) b))" for b
    unfolding on_exec_def
    by (rule keeps_modify, rule own_moves)
      (use assms in \<open>auto simp: same_counts_def count_model_request_def bump_def\<close>)
  then have "keeps R (on_exec (count_model_request (rp_kind r) (rp_retry r)))" .
  moreover have "keeps R (on_exec (record_transport t))" for t
    by (rule keeps_exec) (simp add: record_transport_def split: option.split)
  moreover have "keeps R (on_task record_attempt)"
    by (rule keeps_task) (simp_all add: record_attempt_def consistent_def settled_def)
  ultimately show ?thesis
    unfolding observe_def by (intro keeps_basic keeps_usage keeps_failure)
qed

lemma keeps_observe_all:
  "(fair_services sv \<Longrightarrow> \<forall>r \<in> set rs. rp_kind r \<notin> set attempt_origins) \<Longrightarrow> keeps R (observe_all sv rs)"
  by (induction rs) (auto intro!: keeps_ret keeps_bind keeps_observe)

end

end
