(* ===== verification/AgentMoves.thy ===== *)
theory AgentMoves
  imports AgentFacts
begin

text \<open>
  The actions of one attempt keep every relation of \<open>turn_tracked\<close>, apart from the two
  that count: announcing a model request and recording an executed tool.  The locale
  \<open>run_tracked\<close> allows those as well, and a whole run then keeps its relation.
\<close>

context turn_tracked
begin

lemma keeps_compact: "keeps R (compact sv reason k)"
proof -
  have "keeps R (observe_all sv (sv_reports sv n))" for n
    by (rule keeps_observe_all) (simp add: fair_services_def)
  moreover have "keeps R (on_store (compact_session (compaction_agent sv n) fs acc fo re ke xl))"
    for n fs acc fo re ke xl
    using compaction_steps [of "compaction_agent sv n"]
    by (intro keeps_on_store) (simp add: fair_services_def compaction_agent_def)
  moreover have "keeps R (on_agent (modify (\<lambda>a. a\<lparr>ap_accounting := acc\<rparr>)))" for acc
    by (rule keeps_still) simp
  ultimately show ?thesis
    unfolding compact_def by (intro keeps_basic)
qed

lemma keeps_build_within: "keeps R (build_request_within sv x t p f n left)"
proof (induction left arbitrary: n)
  have build: "keeps R (attempt (on_agent (sv_build sv x t p f)))"
    by (intro keeps_attempt keeps_on_agent) (simp add: fair_services_def)
  have shrink: "keeps R (compact_for_budget sv n e)" for n e
    unfolding compact_for_budget_def by (intro keeps_basic keeps_compact keeps_move_guard)
  {
    case 0
    show ?case
      by (subst build_request_within.simps, rule keeps_bind [OF build])
        (simp add: keeps_raise keeps_ret split: sum.split)
  next
    case (Suc k)
    show ?case
      by (subst build_request_within.simps, rule keeps_bind [OF build])
        (auto intro!: keeps_raise keeps_ret keeps_bind shrink Suc.IH split: sum.split)
  }
qed

lemma keeps_set_metadata: "keeps R (set_request_metadata d)" "keeps R (set_tool_metadata d)"
  unfolding set_request_metadata_def set_tool_metadata_def by (intro keeps_still, simp)+

lemma keeps_recall: "keeps R (remember_recall sv ps)"
  unfolding remember_recall_def by (intro keeps_basic keeps_commit)

lemma keeps_mark: "keeps R (mark_streaming sv d)" "keeps R (note_streaming sv s d)"
  unfolding mark_streaming_def note_streaming_def Let_def by (intro keeps_basic keeps_set_metadata)+

lemma keeps_trace_resume: "keeps R (trace_resume sv n d)"
  unfolding trace_resume_def by (intro keeps_basic)

lemma keeps_response: "keeps R (record_response sv r d)"
proof -
  have "keeps R (commit_anchor u)" for u
    unfolding commit_anchor_def by (rule keeps_still) (simp split: option.split)
  moreover have "keeps R (transport_attempts sv)"
    unfolding transport_attempts_def by (intro keeps_basic)
  moreover have "keeps R (on_exec (\<lambda>x. (record_transport t x)\<lparr>me_turns := me_turns x + 1\<rparr>))" for t
    by (rule keeps_exec) (simp add: record_transport_def split: option.split)
  ultimately show ?thesis
    unfolding record_response_def Let_def
    by (intro keeps_basic keeps_usage keeps_set_metadata keeps_failure)
qed

lemma keeps_complete: "keeps R (complete_model_attempt sv q d)"
proof -
  have "keeps R (on_agent (\<lambda>a. case sv_complete sv q a of (call, a) \<Rightarrow> (Inr call, a)))"
    by (rule keeps_on_agent)
      (auto simp: fair_services_def store_moves_by_def split: prod.split dest: spec [of _ q]; metis snd_conv)
  moreover have "keeps R (transport_attempts sv)"
    unfolding transport_attempts_def by (intro keeps_basic)
  ultimately show ?thesis
    unfolding complete_model_attempt_def
    by (intro keeps_basic keeps_mark keeps_failure keeps_response)
qed

subsection \<open>Tools\<close>

lemma keeps_tool_report: "keeps R (record_tool_report name d)"
  unfolding record_tool_report_def by (intro keeps_basic keeps_exec) simp

lemma keeps_prepare: "keeps R (prepare_tool_result sv c v)"
  unfolding prepare_tool_result_def save_raw_result_def Let_def by (intro keeps_basic)

lemma keeps_execute: "keeps R (execute_or_block sv name args blocked)"
proof -
  have "keeps R (on_agent (sv_execute sv name args))"
    by (rule keeps_on_agent) (simp add: fair_services_def)
  then show ?thesis
    unfolding execute_or_block_def execute_tool_def trace_interrupted_def Let_def
    by (intro keeps_basic keeps_set_metadata keeps_tool_report)
qed

lemma keeps_commit_pair: "keeps R (commit_pair sv ms m s)"
proof -
  have "keeps R (on_agent (modify (\<lambda>a. a\<lparr>ap_memory := m\<rparr>)))" "keeps R sync_working_memory"
    unfolding sync_working_memory_def by (intro keeps_still, simp)+
  then show ?thesis
    unfolding commit_pair_def restore_memory_def by (intro keeps_basic keeps_commit)
qed

lemma keeps_settle: "keeps R (settle_tool sv tool i blocked m s r)"
  unfolding settle_tool_def blocked_facts_def Let_def
  by (intro keeps_basic keeps_tool_report keeps_advance keeps_prepare keeps_commit_pair)

lemma keeps_perform: "keeps R (perform_tool sv tool blocked)"
  unfolding perform_tool_def file_summaries_def Let_def
  by (intro keeps_basic keeps_execute keeps_settle)

subsection \<open>What follows an answer\<close>

lemma keeps_stops:
  "keeps R (on_task (stop_model_error s))" "keeps R (on_task (stop_runtime_error s))"
  "keeps R (on_task (stop_retry_limit s))" "keeps R (on_task (stop_step_limit s))"
  "keeps R (on_task (stop_persistence_error s))" "keeps R (on_task (finish_success s))"
  by (intro keeps_task; simp add: task_ops Let_def consistent_def settled_def)+

lemma keeps_stop_with:
  "keeps R (stop_with sv stop_runtime_error s)" "keeps R (stop_with sv stop_retry_limit s)"
  "keeps R (stop_with sv stop_step_limit s)"
  unfolding stop_with_def by (intro keeps_basic keeps_stops keeps_answer)+

lemma keeps_model_error: "keeps R (handle_model_error sv n v d e)"
proof -
  have "keeps R (on_store (append_control (sv_env sv) fs i k dd p xl))" for fs i k dd p xl
    by (intro keeps_on_store steps_control)
  then have "keeps R (recover_context sv n)"
    unfolding recover_context_def by (intro keeps_basic keeps_compact keeps_move_guard)
  moreover have "keeps R (retry_or_stop sv n v d e)"
    unfolding retry_or_stop_def runtime_terminal_message_def Let_def
    by (intro keeps_basic keeps_stops keeps_message)
  ultimately show ?thesis
    unfolding handle_model_error_def by (intro keeps_basic)
qed

lemma keeps_after_tool: "keeps R (after_tool sv v name)"
proof -
  have "keeps R (on_agent (modify (\<lambda>a. a\<lparr>ap_turn := t\<rparr>)))" for t
    by (rule keeps_still) simp
  then have "keeps R (leave_plan_mode sv name p)" for p
    unfolding leave_plan_mode_def refresh_permission_turn_after_plan_exit_def Let_def
    by (intro keeps_basic)
  then show ?thesis
    unfolding after_tool_def Let_def by (intro keeps_basic keeps_stop_with)
qed

lemma keeps_retry: "keeps R (handle_retry sv v d notice)"
  unfolding handle_retry_def by (intro keeps_basic keeps_stop_with)

lemma keeps_final: "keeps R (handle_final sv s)"
  unfolding handle_final_def by (intro keeps_basic keeps_answer keeps_stops)

lemma keeps_limit: "keeps R (stop_at_limit sv n v)"
  unfolding stop_at_limit_def by (intro keeps_basic keeps_stop_with)

lemma keeps_start_run: "keeps R (start_agent_run sv m)"
proof -
  have "keeps R (on_agent (sv_resolution sv))" "keeps R (on_agent (sv_preflight sv m))"
    "keeps R (on_agent (sv_inject sv m))"
    by (intro keeps_on_agent; simp add: fair_services_def)+
  then show ?thesis
    unfolding start_agent_run_def by (intro keeps_basic)
qed

end

subsection \<open>A whole run\<close>

locale run_tracked = turn_tracked +
  assumes any_own:
    "lp_agent l' = lp_agent l \<Longrightarrow> (consistent (lp_task l) \<Longrightarrow> consistent (lp_task l')) \<Longrightarrow> R l l'"
begin

lemma keeps_any:
  "(\<And>l. lp_agent (f l) = lp_agent l) \<Longrightarrow> (\<And>l. consistent (lp_task l) \<Longrightarrow> consistent (lp_task (f l)))
   \<Longrightarrow> keeps R (modify f)"
  by (rule keeps_modify) (simp add: any_own)

lemma keeps_any_task: "(\<And>t. consistent t \<Longrightarrow> consistent (f t)) \<Longrightarrow> keeps R (on_task f)"
  unfolding on_task_def by (rule keeps_any) simp_all

lemma keeps_any_exec: "keeps R (on_exec f)"
  unfolding on_exec_def by (rule keeps_any) simp_all

lemma keeps_announce: "keeps R (announce_request sv n origin d)"
  unfolding announce_request_def
  by (intro keeps_basic keeps_any_task keeps_any_exec keeps_mark keeps_trace_resume)
    (simp_all add: record_attempt_def consistent_def settled_def)

lemma keeps_build_attempt: "keeps R (build_attempt_request sv n origin f x t p)"
  unfolding build_attempt_request_def Let_def
  by (intro keeps_basic keeps_build_within keeps_set_metadata keeps_recall keeps_announce)

lemma keeps_finish_tool: "keeps R (finish_tool sv name d)"
  unfolding finish_tool_def Let_def
  by (intro keeps_basic keeps_any_task) (simp add: record_tool_def consistent_def settled_def)

lemma keeps_action: "keeps R (handle_action sv v d decided)"
  unfolding handle_action_def apply_tool_action_def Let_def
  by (auto intro!: keeps_bind keeps_perform keeps_finish_tool keeps_after_tool keeps_retry keeps_final
      split: action.split)

lemma keeps_attempt_step: "keeps R (attempt_step sv x t n v)"
proof -
  have "keeps R (modify (\<lambda>l. l\<lparr>lp_guard := g\<rparr>))" for g :: session_guard
    by (rule keeps_any) simp_all
  then show ?thesis
    unfolding attempt_step_def prepare_attempt_def
    by (intro keeps_basic keeps_capture keeps_build_attempt keeps_validate keeps_complete
        keeps_model_error keeps_action)
qed

lemma keeps_attempt_loop: "keeps R (attempt_loop sv x t n v)"
proof (rule keepsI)
  fix l
  show "R l (snd (attempt_loop sv x t n v l))"
  proof (induction "nat (max_attempts sv - n)" arbitrary: n v l rule: less_induct)
    case less
    show ?case
    proof (cases "lv_tool_steps v < sv_max_steps sv \<and> n < max_attempts sv")
      case False
      then show ?thesis
        using keeps_limit [of n v] by (subst attempt_loop.simps) (auto simp: keeps_def)
    next
      case True
      obtain r l1 where step: "attempt_step sv x t (n + 1) v l = (r, l1)" by fastforce
      have l1: "R l l1" using keeps_attempt_step step by (rule keepsD)
      have "R l1 (snd (attempt_loop sv x t (n + 1) v1 l1))" for v1
        using True by (intro less) simp
      with l1 True step show ?thesis
        by (subst attempt_loop.simps) (auto split: sum.split progress.split intro: tracked_trans)
    qed
  qed
qed

lemma keeps_attempts: "keeps R (run_agent_attempts sv m)"
  unfolding run_agent_attempts_def by (intro keeps_basic keeps_start_run keeps_attempt_loop)

lemma keeps_collect: "keeps R m \<Longrightarrow> keeps R (collect m)"
  unfolding collect_def by (intro keeps_basic keeps_any) simp_all

lemma keeps_finalize: "keeps R (finalize_run sv m oc)"
proof -
  have "keeps R (on_agent (sv_checkpoint sv t m g ps))" "keeps R (on_agent (sv_report sv t u y))" for t g ps u y
    by (intro keeps_on_agent; simp add: fair_services_def)+
  moreover have "keeps R (modify (\<lambda>l. l\<lparr>lp_errors := es\<rparr>))" for es
    by (rule keeps_any) simp_all
  moreover have "keeps R (case es of [] \<Rightarrow> ret y | e # es' \<Rightarrow> if c then raise e else ret y)"
    for es c and y :: string
    by (simp add: keeps_ret keeps_raise split: list.split)
  ultimately show ?thesis
    unfolding finalize_run_def close_run_def trace_late_failure_def commit_terminal_def final_checkpoint_def create_resume_checkpoint_def
      finish_report_def block_session_writes_def Let_def
    by (intro keeps_basic keeps_collect keeps_commit keeps_any_task keeps_block)
      (simp_all add: task_ops Let_def consistent_def settled_def)
qed

lemma keeps_settled: "keeps R (settle_outcome sv r)"
  unfolding settle_outcome_def stop_unexpected_def runtime_terminal_message_def Let_def
  by (auto intro!: keeps_bind keeps_any_task keeps_message keeps_ret
      simp: task_ops Let_def consistent_def settled_def split: sum.split exn.split)

lemma keeps_turn: "keeps R (run_turn sv m)"
proof -
  have "keeps R (commit_user_message sv m)" for m
    unfolding commit_user_message_def by (intro keeps_basic keeps_message keeps_commit)
  moreover have "keeps R (modify (\<lambda>l. l\<lparr>lp_guard := g\<rparr>))" for g
    by (rule keeps_any) simp_all
  moreover have "keeps R (start_task sv m)" for m
    unfolding start_task_def
    by (intro keeps_basic keeps_set_metadata keeps_any) (simp_all add: create_task_def consistent_def)
  moreover have "keeps R (on_agent (modify (\<lambda>a. a\<lparr>ap_memory := f a\<rparr>)))" "keeps R sync_working_memory"
    for f :: "'a agent_part \<Rightarrow> working_memory"
    unfolding sync_working_memory_def by (intro keeps_still, simp)+
  ultimately show ?thesis
    unfolding run_turn_def open_turn_def drive_turn_def
    by (intro keeps_basic keeps_capture keeps_attempts keeps_settled keeps_finalize)
qed

lemma keeps_run: "keeps R (run_agent sv m skill)"
proof -
  have "keeps R (set_skill s)" "keeps R end_permission_turn"
      "keeps R (on_agent (modify (\<lambda>a. a\<lparr>ap_turn := t\<rparr>)))" for s t
    unfolding set_skill_def end_permission_turn_def by (intro keeps_still, simp)+
  then show ?thesis
    unfolding run_agent_def begin_permission_turn_def
    by (intro keeps_basic keeps_finally keeps_turn)
qed

end

subsection \<open>The two relations\<close>

definition store_moves :: "'w services \<Rightarrow> 'w loop \<Rightarrow> 'w loop \<Rightarrow> bool" where
  "store_moves sv l l' \<longleftrightarrow>
     (fair_services sv \<longrightarrow> reachable (sv_env sv) (ap_store (lp_agent l)) (ap_store (lp_agent l')))"

definition counts_stay :: "'w services \<Rightarrow> 'w loop \<Rightarrow> 'w loop \<Rightarrow> bool" where
  "counts_stay sv l l' \<longleftrightarrow> (fair_services sv \<longrightarrow> same_counts l l')"

definition sane_stays :: "'w loop \<Rightarrow> 'w loop \<Rightarrow> bool" where
  "sane_stays l l' \<longleftrightarrow> (consistent (lp_task l) \<longrightarrow> consistent (lp_task l'))"

interpretation sane: run_tracked sane_stays sv
  by unfold_locales (auto simp: sane_stays_def)

interpretation moves: run_tracked "store_moves sv" sv
  by unfold_locales (auto simp: store_moves_def intro: reachable.start reachable_trans)

interpretation counts: turn_tracked "counts_stay sv" sv
  by unfold_locales (auto simp: counts_stay_def same_counts_def)

end
