(* ===== verification/AgentBounds.thy ===== *)
theory AgentBounds
  imports AgentMoves
begin

text \<open>
  How often a turn asks the model and runs tools: triples over the two counters of a
  turn, from the single attempt to the loop.
\<close>

text \<open>Pre- and postconditions; the last one is for actions that raise.\<close>

definition triple ::
  "('s \<Rightarrow> bool) \<Rightarrow> ('s, 'a) act \<Rightarrow> ('a \<Rightarrow> 's \<Rightarrow> bool) \<Rightarrow> ('s \<Rightarrow> bool) \<Rightarrow> bool" where
  "triple P m Q E \<longleftrightarrow> (\<forall>s. P s \<longrightarrow> (case m s of (Inr x, t) \<Rightarrow> Q x t | (Inl e, t) \<Rightarrow> E t))"

lemma tripleD_Inr: "triple P m Q E \<Longrightarrow> P s \<Longrightarrow> m s = (Inr x, t) \<Longrightarrow> Q x t"
  by (force simp: triple_def)

lemma tripleD_Inl: "triple P m Q E \<Longrightarrow> P s \<Longrightarrow> m s = (Inl e, t) \<Longrightarrow> E t"
  by (force simp: triple_def)

lemma tripleI:
  "(\<And>s x t. P s \<Longrightarrow> m s = (Inr x, t) \<Longrightarrow> Q x t) \<Longrightarrow> (\<And>s e t. P s \<Longrightarrow> m s = (Inl e, t) \<Longrightarrow> E t)
   \<Longrightarrow> triple P m Q E"
  by (auto simp: triple_def split: prod.split sum.split)

lemma triple_bind:
  assumes "triple P m Q E" "\<And>x. triple (Q x) (f x) Q' E"
  shows "triple P (bindA m f) Q' E"
proof (rule tripleI)
  fix s x t assume "P s" and run: "bindA m f s = (Inr x, t)"
  from run obtain y u where m: "m s = (Inr y, u)" "f y u = (Inr x, t)" by (rule bindA_InrE)
  from assms(1) \<open>P s\<close> m(1) have "Q y u" by (rule tripleD_Inr)
  with assms(2) show "Q' x t" using m(2) by (rule tripleD_Inr)
next
  fix s e t assume P: "P s" and run: "bindA m f s = (Inl e, t)"
  obtain r u where m: "m s = (r, u)" by fastforce
  show "E t"
  proof (cases r)
    case (Inl e')
    with m run have "m s = (Inl e, t)" by (simp add: bindA_def)
    with assms(1) P show ?thesis by (rule tripleD_Inl)
  next
    case (Inr y)
    with m run have f: "f y u = (Inl e, t)" by (simp add: bindA_def)
    from assms(1) P m [unfolded Inr] have "Q y u" by (rule tripleD_Inr)
    with assms(2) show ?thesis using f by (rule tripleD_Inl)
  qed
qed

lemma triple_weaken:
  "triple P m Q E \<Longrightarrow> (\<And>s. P' s \<Longrightarrow> P s) \<Longrightarrow> (\<And>x s. Q x s \<Longrightarrow> Q' x s) \<Longrightarrow> (\<And>s. E s \<Longrightarrow> E' s)
   \<Longrightarrow> triple P' m Q' E'"
  by (fastforce simp: triple_def split: prod.split sum.split)

lemma triple_ret: "(\<And>s. P s \<Longrightarrow> Q x s) \<Longrightarrow> triple P (ret x) Q E"
  by (simp add: triple_def)

subsection \<open>The counters\<close>

definition counts_of :: "'w loop \<Rightarrow> int \<times> (string \<Rightarrow> int)" where
  "counts_of l = (tool_steps (lp_task l),
     \<lambda>k. if k \<in> set attempt_origins then me_origins (lp_exec l) k else 0)"

definition counted :: "int \<Rightarrow> (string \<Rightarrow> int) \<Rightarrow> 'w loop \<Rightarrow> bool" where
  "counted a f l \<longleftrightarrow> counts_of l = (a, f)"

lemma same_counts_iff: "same_counts l l' \<longleftrightarrow> counts_of l' = counts_of l"
  by (auto simp: same_counts_def counts_of_def fun_eq_iff)

lemma triple_kept:
  assumes "fair_services sv" "keeps (counts_stay sv) m" "\<And>l. counted a f l \<Longrightarrow> E l"
  shows "triple (counted a f) m (\<lambda>_. counted a f) E"
proof -
  have "counts_of t = counts_of s" if "m s = (r, t)" for s r t
    using assms(1) keepsD [OF assms(2) that] by (simp add: counts_stay_def same_counts_iff)
  then show ?thesis by (intro tripleI) (auto simp: counted_def assms(3))
qed

subsection \<open>What an action returns\<close>

definition gives :: "('a \<Rightarrow> 's \<Rightarrow> bool) \<Rightarrow> ('s, 'a) act \<Rightarrow> bool" where
  "gives G m \<longleftrightarrow> (\<forall>s x t. m s = (Inr x, t) \<longrightarrow> G x t)"

lemma gives_bind: "(\<And>x. gives G (f x)) \<Longrightarrow> gives G (bindA m f)"
  by (auto simp: gives_def bindA_Inr)

lemma gives_ret: "(\<And>t. G x t) \<Longrightarrow> gives G (ret x)" by (simp add: gives_def)
lemma gives_raise: "gives G (raise e)" by (simp add: gives_def)

lemma gives_if: "(c \<Longrightarrow> gives G m) \<Longrightarrow> (\<not> c \<Longrightarrow> gives G m') \<Longrightarrow> gives G (if c then m else m')"
  by simp

lemma gives_option: "gives G m \<Longrightarrow> (\<And>x. gives G (f x)) \<Longrightarrow> gives G (case v of None \<Rightarrow> m | Some x \<Rightarrow> f x)"
  by (simp split: option.split)

lemma gives_pair: "(\<And>x y. gives G (f x y)) \<Longrightarrow> gives G (case p of (x, y) \<Rightarrow> f x y)"
  by (simp split: prod.split)

lemmas gives_intros = gives_raise gives_bind gives_if gives_option gives_pair gives_ret

lemma triple_gives: "triple P m Q E \<Longrightarrow> gives G m \<Longrightarrow> triple P m (\<lambda>x s. Q x s \<and> G x s) E"
  by (fastforce simp: triple_def gives_def split: prod.split sum.split)

subsection \<open>One attempt\<close>

text \<open>After an attempt that started with the counts \<open>a\<close> and \<open>f\<close> under origin \<open>k\<close>.\<close>

definition spent :: "int \<Rightarrow> (string \<Rightarrow> int) \<Rightarrow> string \<Rightarrow> 'w loop \<Rightarrow> bool" where
  "spent a f k l \<longleftrightarrow> counted a f l \<or> counted a (bump k f) l \<or> counted (a + 1) (bump k f) l"

text \<open>How the variables of the loop may change from one attempt to the next.\<close>

definition goes_on :: "loop_vars \<Rightarrow> progress \<Rightarrow> bool" where
  "goes_on v p \<longleftrightarrow>
     (case p of
        Return _ \<Rightarrow> True
      | Continue v' \<Rightarrow>
          lv_tool_steps v' = lv_tool_steps v
          \<and> (lv_origin v' \<in> {''tool_followup'', ''model_retry''} \<and> lv_retry_actions v' = lv_retry_actions v
             \<or> lv_origin v' = ''retry_action'' \<and> lv_retry_actions v = 0 \<and> lv_retry_actions v' = 1))"

lemma error_goes_on: "gives (\<lambda>p _. goes_on v p) (handle_model_error sv n v d e)"
  unfolding handle_model_error_def retry_or_stop_def Let_def
  by (intro gives_intros) (simp_all add: goes_on_def)

lemma tool_goes_on: "gives (\<lambda>p _. goes_on v p) (after_tool sv v name)"
  unfolding after_tool_def Let_def
  by (intro gives_intros) (simp_all add: goes_on_def)

lemma retry_goes_on: "gives (\<lambda>p _. goes_on v p) (handle_retry sv v d notice)"
  unfolding handle_retry_def by (intro gives_intros) (simp_all add: goes_on_def)

lemma final_goes_on: "gives (\<lambda>p _. goes_on v p) (handle_final sv s)"
  unfolding handle_final_def by (intro gives_intros) (simp add: goes_on_def)

lemma announce_counts:
  assumes "fair_services sv" "k \<in> set attempt_origins"
  shows "triple (counted a f) (announce_request sv n k d) (\<lambda>_. counted a (bump k f)) (spent a f k)"
proof -
  note kept = triple_kept [OF assms(1)]
  have count: "triple (counted a f) (on_exec (count_model_request k b)) (\<lambda>_. counted a (bump k f)) (spent a f k)" for b
    using assms(2)
    by (auto simp: triple_def counted_def counts_of_def count_model_request_def bump_def fun_eq_iff)
  have task: "keeps (counts_stay sv) (on_task record_attempt)"
    "keeps (counts_stay sv) (whenA c (on_task (\<lambda>t. t\<lparr>resume_status := g t\<rparr>)))" for c g
    by (intro counts.keeps_when counts.keeps_task; simp add: record_attempt_def consistent_def settled_def)+
  have rest: "triple (counted a (bump k f)) m (\<lambda>_. counted a (bump k f)) (spent a f k)"
    if "keeps (counts_stay sv) m" for m :: "('a loop, 'b) act"
    using that by (rule kept) (simp add: spent_def)
  show ?thesis
    unfolding announce_request_def
    by (rule triple_bind [OF kept], rule task, simp add: spent_def,
        rule triple_bind [OF kept], rule task, simp add: spent_def,
        rule triple_bind [OF count], rule rest)
      (intro counts.keeps_basic counts.keeps_mark counts.keeps_trace_resume)
qed

lemma build_counts:
  assumes "fair_services sv" "k \<in> set attempt_origins"
  shows "triple (counted a f) (build_attempt_request sv n k fb x t p) (\<lambda>_. counted a (bump k f)) (spent a f k)"
proof -
  note kept = triple_kept [OF assms(1)]
  have rest: "triple (counted a f)
      (bindA (set_request_metadata d) (\<lambda>_. bindA (remember_recall sv ps) (\<lambda>_.
       bindA (announce_request sv n k d) (\<lambda>d. ret (q, d))))) (\<lambda>_. counted a (bump k f)) (spent a f k)" for d ps q
    by (rule triple_bind [OF kept [OF counts.keeps_set_metadata(1)]], simp add: spent_def,
        rule triple_bind [OF kept [OF counts.keeps_recall]], simp add: spent_def,
        rule triple_bind [OF announce_counts [OF assms]], rule triple_ret)
  show ?thesis
    unfolding build_attempt_request_def Let_def
    by (rule triple_bind [OF kept [OF counts.keeps_build_within]])
      (simp add: spent_def, simp split: prod.split, intro allI impI, rule rest)
qed

lemma tool_counts:
  assumes "fair_services sv"
  shows "triple (counted a f) (apply_tool_action sv tool blocked)
    (\<lambda>k l. counted (a + k) f l \<and> k \<in> {0, 1}) (\<lambda>l. counted a f l \<or> counted (a + 1) f l)"
proof -
  note kept = triple_kept [OF assms]
  have one: "triple (counted a f) (whenA c (on_task (record_tool name)))
      (\<lambda>_. counted (if c then a + 1 else a) f) (\<lambda>l. counted a f l \<or> counted (a + 1) f l)" for c name
    by (cases c) (auto simp: triple_def counted_def counts_of_def record_tool_def)
  have rest: "triple (counted (if c then a + 1 else a) f)
      (bindA (write_task_state sv) (\<lambda>_. bindA (emit_trace sv ''tool_executed'') (\<lambda>_.
       bindA (emit_trace sv ''tool_finished'') (\<lambda>_. ret (if c then 1 else 0)))))
      (\<lambda>k l. counted (a + k) f l \<and> k \<in> {0, 1}) (\<lambda>l. counted a f l \<or> counted (a + 1) f l)" for c
    by (intro triple_bind [OF kept] triple_ret counts.keeps_trace counts.keeps_write_task)
      (auto split: if_splits)
  show ?thesis
    unfolding apply_tool_action_def finish_tool_def Let_def
    by (rule triple_bind [OF kept [OF counts.keeps_perform]], simp, rule triple_bind [OF one rest])
qed

lemma action_counts:
  assumes "fair_services sv"
  shows "triple (counted a (bump k f)) (handle_action sv v d decided)
    (\<lambda>p l. case p of Return _ \<Rightarrow> spent a f k l
       | Continue v' \<Rightarrow> \<exists>j \<in> {0, 1}. counted (a + j) (bump k f) l
           \<and> goes_on (v\<lparr>lv_tool_steps := lv_tool_steps v + j\<rparr>) p)
    (spent a f k)" (is "triple ?P _ ?Q ?E")
proof -
  note kept = triple_kept [OF assms]
  have simple: "triple ?P m ?Q ?E" if "keeps (counts_stay sv) m" "gives (\<lambda>p _. goes_on v p) m" for m
    by (rule triple_weaken [OF triple_gives [OF kept [OF that(1)] that(2)]])
      (auto simp: spent_def split: progress.split intro!: bexI [of _ 0])
  have after: "triple (\<lambda>l. counted (a + j) (bump k f) l \<and> j \<in> {0, 1})
      (after_tool sv (v\<lparr>lv_model_retries := 0, lv_feedback := [], lv_tool_steps := lv_tool_steps v + j\<rparr>) name) ?Q ?E" for j name
  proof (cases "j \<in> {0, 1}")
    case True
    have "triple (counted (a + j) (bump k f))
        (after_tool sv (v\<lparr>lv_model_retries := 0, lv_feedback := [], lv_tool_steps := lv_tool_steps v + j\<rparr>) name)
        (\<lambda>p l. counted (a + j) (bump k f) l \<and> goes_on (v\<lparr>lv_model_retries := 0, lv_feedback := [], lv_tool_steps := lv_tool_steps v + j\<rparr>) p) ?E"
      by (rule triple_gives [OF kept [OF counts.keeps_after_tool] tool_goes_on])
        (use True in \<open>auto simp: spent_def\<close>)
    then show ?thesis
    proof (rule triple_weaken)
      fix p and l :: "'a loop" assume "counted (a + j) (bump k f) l \<and> goes_on (v\<lparr>lv_model_retries := 0, lv_feedback := [], lv_tool_steps := lv_tool_steps v + j\<rparr>) p"
      with True show "?Q p l"
        by (cases p) (auto simp: spent_def goes_on_def)
    qed simp_all
  qed (simp add: triple_def)
  have tool: "triple ?P (apply_tool_action sv tool blocked)
      (\<lambda>j l. counted (a + j) (bump k f) l \<and> j \<in> {0, 1}) ?E" for tool blocked
    by (rule triple_weaken [OF tool_counts [OF assms]]) (auto simp: spent_def)
  have quiet: "triple ?P m ?Q ?E"
    if "keeps (counts_stay sv) m" "gives (\<lambda>p _. goes_on (v\<lparr>lv_model_retries := 0, lv_feedback := []\<rparr>) p) m" for m
  proof -
    have "goes_on (v\<lparr>lv_model_retries := 0, lv_feedback := []\<rparr>) = goes_on v"
      by (simp add: fun_eq_iff goes_on_def split: progress.split)
    with that show ?thesis by (intro simple) simp_all
  qed
  show ?thesis
    unfolding handle_action_def Let_def
    by (cases "fst decided")
      (simp_all add: triple_bind [OF tool after] quiet counts.keeps_retry retry_goes_on
        counts.keeps_final final_goes_on)
qed

lemma step_counts:
  assumes "fair_services sv" "lv_origin v \<in> set attempt_origins"
  shows "triple (counted a f) (attempt_step sv x t n v)
    (\<lambda>p l. case p of Return _ \<Rightarrow> spent a f (lv_origin v) l
       | Continue v' \<Rightarrow> \<exists>j \<in> {0, 1}. counted (a + j) (bump (lv_origin v) f) l
           \<and> goes_on (v\<lparr>lv_tool_steps := lv_tool_steps v + j\<rparr>) p)
    (spent a f (lv_origin v))" (is "triple _ _ ?Q ?E")
proof -
  let ?f = "bump (lv_origin v) f"
  note kept = triple_kept [OF assms(1)]
  have guard: "keeps (counts_stay sv) (modify (\<lambda>l. l\<lparr>lp_guard := g\<rparr>))" for g :: session_guard
    by (rule counts.keeps_own) (simp_all add: same_counts_def)
  have late: "triple (counted a ?f) m (\<lambda>_. counted a ?f) ?E"
    if "keeps (counts_stay sv) m" for m :: "('a loop, 'b) act"
    using that by (rule kept) (simp add: spent_def)
  have error: "triple (counted a ?f) (handle_model_error sv n v d e) ?Q ?E" for d e
    by (rule triple_weaken [OF triple_gives [OF kept [OF counts.keeps_model_error] error_goes_on]])
      (auto simp: spent_def split: progress.split intro!: bexI [of _ 0])
  have answer: "triple (counted a ?f)
      (case ans of Inl e \<Rightarrow> handle_model_error sv n v d e
       | Inr decided \<Rightarrow> bindA (validate_model_session_guard sv) (\<lambda>_. handle_action sv v d decided)) ?Q ?E" for ans d
    by (cases ans)
      (simp_all add: error triple_bind [OF late [OF counts.keeps_validate] action_counts [OF assms(1)]])
  have asked: "triple (counted a ?f)
      (bindA (validate_model_session_guard sv) (\<lambda>_. bindA (complete_model_attempt sv q d) (\<lambda>(ans, d).
       case ans of Inl e \<Rightarrow> handle_model_error sv n v d e
       | Inr decided \<Rightarrow> bindA (validate_model_session_guard sv) (\<lambda>_. handle_action sv v d decided)))) ?Q ?E" for q d
    by (rule triple_bind [OF late [OF counts.keeps_validate]],
        rule triple_bind [OF late [OF counts.keeps_complete]])
      (simp split: prod.split, intro allI impI, rule answer)
  have prepared: "triple (counted a f) (prepare_attempt sv x t n v) (\<lambda>_. counted a ?f) ?E"
    unfolding prepare_attempt_def
    by (rule triple_bind [OF kept [OF counts.keeps_capture]], simp add: spent_def,
        rule triple_bind [OF kept [OF guard]], simp add: spent_def, rule build_counts [OF assms])
  show ?thesis
    unfolding attempt_step_def
    by (rule triple_bind [OF prepared], simp split: prod.split, intro allI impI, rule asked)
qed

subsection \<open>The loop\<close>

definition requests :: "(string \<Rightarrow> int) \<Rightarrow> int" where
  "requests f = sum_list (map f attempt_origins)"

lemma requests_bump: "k \<in> set attempt_origins \<Longrightarrow> requests (bump k f) = requests f + 1"
  by (auto simp: requests_def attempt_origins_def bump_def)

text \<open>
  What holds between two attempts: \<open>n\<close> requests so far, as many tools run as the loop
  has counted, and at most one request of origin \<open>retry_action\<close>, which is the current one
  when that is the origin.
\<close>

definition attempt_inv :: "'w services \<Rightarrow> int \<Rightarrow> loop_vars \<Rightarrow> int \<Rightarrow> (string \<Rightarrow> int) \<Rightarrow> bool" where
  "attempt_inv sv n v a f \<longleftrightarrow>
     0 \<le> n \<and> requests f = n \<and> a = lv_tool_steps v \<and> 0 \<le> a
     \<and> (a = 0 \<or> a \<le> sv_max_steps sv) \<and> (n = 0 \<or> n \<le> max_attempts sv)
     \<and> lv_origin v \<in> set attempt_origins \<and> (lv_origin v = ''initial'' \<longleftrightarrow> n = 0)
     \<and> f ''initial'' = (if n = 0 then 0 else 1) \<and> lv_retry_actions v \<le> 1
     \<and> f ''retry_action'' + (if lv_origin v = ''retry_action'' then 1 else 0) \<le> int (lv_retry_actions v)"

definition within_bounds :: "'w services \<Rightarrow> int \<Rightarrow> (string \<Rightarrow> int) \<Rightarrow> bool" where
  "within_bounds sv a f \<longleftrightarrow>
     requests f \<le> max 0 (max_attempts sv) \<and> a \<le> max 0 (sv_max_steps sv)
     \<and> f ''initial'' \<le> 1 \<and> f ''retry_action'' \<le> 1"

lemma attempt_inv_bounds: "attempt_inv sv n v a f \<Longrightarrow> within_bounds sv a f"
  by (auto simp: attempt_inv_def within_bounds_def split: if_splits)

lemma attempt_inv_spent:
  assumes "attempt_inv sv n v a f" "lv_tool_steps v < sv_max_steps sv" "n < max_attempts sv"
    and "spent a f (lv_origin v) l" "counts_of l = (b, g)"
  shows "within_bounds sv b g"
  using assms requests_bump [of "lv_origin v" f]
  by (auto simp: attempt_inv_def within_bounds_def spent_def counted_def bump_def split: if_splits)

lemma origins_in:
  "''initial'' \<in> set attempt_origins" "''tool_followup'' \<in> set attempt_origins"
  "''model_retry'' \<in> set attempt_origins" "''retry_action'' \<in> set attempt_origins"
  by (simp_all add: attempt_origins_def)

lemma goes_on_origin:
  assumes "goes_on v (Continue v')"
  shows "lv_origin v' \<in> set attempt_origins" "lv_origin v' \<noteq> ''initial''"
    "lv_tool_steps v' = lv_tool_steps v"
    "lv_origin v' \<noteq> ''retry_action'' \<and> lv_retry_actions v' = lv_retry_actions v
     \<or> lv_retry_actions v = 0 \<and> lv_retry_actions v' = 1"
  using assms origins_in by (auto simp: goes_on_def)

lemma attempt_inv_step:
  assumes inv: "attempt_inv sv n v a f" and more: "lv_tool_steps v < sv_max_steps sv" "n < max_attempts sv"
    and j: "j \<in> {0, 1}" and cont: "goes_on (v\<lparr>lv_tool_steps := lv_tool_steps v + j\<rparr>) (Continue v')"
  shows "attempt_inv sv (n + 1) v' (a + j) (bump (lv_origin v) f)"
proof -
  note i = inv [unfolded attempt_inv_def]
  note o = goes_on_origin [OF cont]
  have "requests (bump (lv_origin v) f) = n + 1" using requests_bump i by simp
  moreover have "bump (lv_origin v) f ''initial'' = 1"
  proof (cases "n = 0")
    case True
    then have "lv_origin v = ''initial''" "f ''initial'' = 0" using i by simp_all
    then show ?thesis by (simp add: bump_def)
  next
    case False
    then have "lv_origin v \<noteq> ''initial''" "f ''initial'' = 1" using i by simp_all
    then show ?thesis by (metis bump_def fun_upd_apply)
  qed
  moreover have "bump (lv_origin v) f ''retry_action'' + (if lv_origin v' = ''retry_action'' then 1 else 0)
      \<le> int (lv_retry_actions v')"
  proof -
    have "bump (lv_origin v) f ''retry_action'' =
        f ''retry_action'' + (if lv_origin v = ''retry_action'' then 1 else 0)"
      unfolding bump_def by (simp add: eq_commute [of "''retry_action''"])
    then have "bump (lv_origin v) f ''retry_action'' \<le> int (lv_retry_actions v)" using i by argo
    then show ?thesis using o(4) by auto
  qed
  moreover have "a + j = lv_tool_steps v'" "0 \<le> a + j" "a + j \<le> sv_max_steps sv" "lv_retry_actions v' \<le> 1"
    using i o(3,4) j more by auto
  ultimately show ?thesis
    unfolding attempt_inv_def using i o(1,2) more(2) by simp
qed

lemma loop_counts:
  assumes "fair_services sv" "attempt_inv sv n v a f" "counts_of l = (a, f)"
    and "attempt_loop sv x t n v l = (r, l')" "counts_of l' = (b, g)"
  shows "within_bounds sv b g"
  using assms(2-5)
proof (induction "nat (max_attempts sv - n)" arbitrary: n v a f l rule: less_induct)
  case less
  note fair = assms(1)
  show ?case
  proof (cases "lv_tool_steps v < sv_max_steps sv \<and> n < max_attempts sv")
    case False
    then have "attempt_loop sv x t n v l = stop_at_limit sv n v l"
      by (subst attempt_loop.simps) auto
    with less.prems fair keepsD [OF counts.keeps_limit, of sv n v l] have "counts_of l' = counts_of l"
      by (simp add: counts_stay_def same_counts_iff)
    with less.prems show ?thesis by (simp add: attempt_inv_bounds)
  next
    case True
    have origin: "lv_origin v \<in> set attempt_origins" using less.prems(1) by (simp add: attempt_inv_def)
    obtain q l1 where step: "attempt_step sv x t (n + 1) v l = (q, l1)" by fastforce
    have start: "counted a f l" using less.prems(2) by (simp add: counted_def)
    note post = step_counts [OF fair origin, of a f x t "n + 1"]
    note stop = attempt_inv_spent [OF less.prems(1), of l1 b g]
    show ?thesis
    proof (cases q)
      case (Inl e)
      with step post start have "spent a f (lv_origin v) l1" by (auto dest: tripleD_Inl)
      moreover have "l' = l1" using less.prems(3) True step Inl by (subst (asm) attempt_loop.simps) simp
      ultimately show ?thesis using stop True less.prems(4) by simp
    next
      case (Inr p)
      note p = tripleD_Inr [OF post start step [unfolded Inr]]
      show ?thesis
      proof (cases p)
        case (Return oc)
        with p have "spent a f (lv_origin v) l1" by simp
        moreover have "l' = l1"
          using less.prems(3) True step Inr Return by (subst (asm) attempt_loop.simps) simp
        ultimately show ?thesis using stop True less.prems(4) by simp
      next
        case (Continue v')
        with p have "\<exists>j \<in> {0, 1}. counted (a + j) (bump (lv_origin v) f) l1
            \<and> goes_on (v\<lparr>lv_tool_steps := lv_tool_steps v + j\<rparr>) (Continue v')" by simp
        then obtain j where j: "j \<in> {0, 1}" "counted (a + j) (bump (lv_origin v) f) l1"
          "goes_on (v\<lparr>lv_tool_steps := lv_tool_steps v + j\<rparr>) (Continue v')" by blast
        have "attempt_loop sv x t (n + 1) v' l1 = (r, l')"
          using less.prems(3) True step Inr Continue by (subst (asm) attempt_loop.simps) simp
        moreover have "attempt_inv sv (n + 1) v' (a + j) (bump (lv_origin v) f)"
          using attempt_inv_step [OF less.prems(1) _ _ j(1,3)] True by simp
        ultimately show ?thesis
          using less.hyps [of "n + 1" v' "a + j"] True j(2) less.prems(4)
          by (simp add: counted_def)
      qed
    qed
  qed
qed

end
