(* ===== verification/AgentEnds.thy ===== *)
theory AgentEnds
  imports AgentBounds
begin

text \<open>
  How a turn ends: what the task records when the loop returns, and that the
  finalization keeps it unless one of its own steps fails.
\<close>

definition task_stays :: "'w loop \<Rightarrow> 'w loop \<Rightarrow> bool" where
  "task_stays l l' \<longleftrightarrow> lp_task l' = lp_task l"

interpretation task: quiet_tracked task_stays sv
  by unfold_locales (auto simp: task_stays_def)

text \<open>What the final task state says about an outcome.\<close>

definition answering_reasons :: "string set" where
  "answering_reasons = {stop_reason_text FINAL_ANSWER_RETURNED, stop_reason_text STEP_LIMIT_REACHED,
     stop_reason_text RETRY_LIMIT_REACHED, stop_reason_text RUNTIME_ERROR}"

definition ends_with :: "outcome \<Rightarrow> task_state \<Rightarrow> bool" where
  "ends_with oc t \<longleftrightarrow>
     settled t \<and> (oc_primary oc = None \<longrightarrow> final_answer t = oc_final oc \<and> stop_reason t \<in> answering_reasons)"

lemma answer_ends:
  assumes "answer_and_return sv s l = (Inr oc, l')"
  shows "lp_task l' = lp_task l" "oc_final oc = s" "oc_primary oc = None"
proof -
  show "lp_task l' = lp_task l"
    using keepsD [OF task.keeps_answer assms] by (simp add: task_stays_def)
  show "oc_final oc = s" "oc_primary oc = None"
    using assms by (auto simp: answer_and_return_def bindA_Inr)
qed

lemma stop_with_ends:
  assumes "\<And>t. settled (stop s t) \<and> final_answer (stop s t) = s \<and> stop_reason (stop s t) \<in> answering_reasons"
  shows "gives (\<lambda>oc l. ends_with oc (lp_task l)) (stop_with sv stop s)"
  unfolding gives_def
proof (intro allI impI)
  fix l oc l' assume "stop_with sv stop s l = (Inr oc, l')"
  then have "answer_and_return sv s (l\<lparr>lp_task := stop s (lp_task l)\<rparr>) = (Inr oc, l')"
    by (auto simp: stop_with_def bindA_Inr)
  note ends = answer_ends [OF this]
  with assms show "ends_with oc (lp_task l')" by (simp add: ends_with_def)
qed

lemma stops_settle:
  assumes "s \<noteq> []"
  shows "gives (\<lambda>oc l. ends_with oc (lp_task l)) (stop_with sv stop_runtime_error s)"
    "gives (\<lambda>oc l. ends_with oc (lp_task l)) (stop_with sv stop_retry_limit s)"
    "gives (\<lambda>oc l. ends_with oc (lp_task l)) (stop_with sv stop_step_limit s)"
  by (rule stop_with_ends; simp add: assms task_ops Let_def settled_def answering_reasons_def)+

text \<open>A step that returns leaves an ended task.\<close>

definition step_ends :: "progress \<Rightarrow> 'w loop \<Rightarrow> bool" where
  "step_ends p l \<longleftrightarrow> (case p of Continue _ \<Rightarrow> True | Return oc \<Rightarrow> ends_with oc (lp_task l))"

lemma gives_return:
  "gives (\<lambda>oc l. ends_with oc (lp_task l)) m \<Longrightarrow> gives step_ends (bindA m (\<lambda>oc. ret (Return oc)))"
  by (auto simp: gives_def bindA_Inr step_ends_def)

lemma continue_ends: "gives step_ends (ret (Continue v))"
  by (simp add: gives_def step_ends_def)

lemma error_ends: "gives step_ends (handle_model_error sv n v d e)"
proof -
  have stop: "gives step_ends (bindA (on_task (stop_model_error s)) (\<lambda>_.
      bindA (runtime_terminal_message sv ''model_error'') (\<lambda>m. ret (Return
        \<lparr>oc_final = s, oc_trigger = c, oc_terminal = Some m, oc_primary = Some e\<rparr>))))" for s c
    unfolding gives_def
  proof (intro allI impI)
    fix l p l' assume "bindA (on_task (stop_model_error s)) (\<lambda>_.
      bindA (runtime_terminal_message sv ''model_error'') (\<lambda>m. ret (Return
        \<lparr>oc_final = s, oc_trigger = c, oc_terminal = Some m, oc_primary = Some e\<rparr>))) l = (Inr p, l')"
    then obtain m l1 where l1: "runtime_terminal_message sv ''model_error''
          (l\<lparr>lp_task := stop_model_error s (lp_task l)\<rparr>) = (Inr m, l1)" "l' = l1"
        and p: "p = Return \<lparr>oc_final = s, oc_trigger = c, oc_terminal = Some m, oc_primary = Some e\<rparr>"
      by (auto simp: bindA_Inr)
    have "lp_task l' = stop_model_error s (lp_task l)"
      using keepsD [OF task.keeps_message l1(1) [unfolded runtime_terminal_message_def]] l1(2)
      by (simp add: task_stays_def)
    then show "step_ends p l'"
      by (simp add: p step_ends_def ends_with_def settled_def task_ops Let_def)
  qed
  have "gives step_ends (retry_or_stop sv n v d e)"
    unfolding retry_or_stop_def Let_def by (intro gives_if continue_ends stop)
  then show ?thesis
    unfolding handle_model_error_def by (intro gives_if gives_bind continue_ends)
qed

lemma after_tool_ends: "gives step_ends (after_tool sv v name)"
proof -
  have "gives step_ends (case advance_rejection_correction name d seen of (fb, stop, seen) \<Rightarrow>
      case stop of Some final \<Rightarrow> bindA (stop_with sv stop_retry_limit final) (\<lambda>oc. ret (Return oc))
      | None \<Rightarrow> ret (Continue (w fb seen)))" for d seen w
    by (auto simp: advance_rejection_correction_def REJECTION_CORRECTION_LIMIT_TEXT_def
        intro!: continue_ends gives_return stops_settle split: option.split)
  then show ?thesis
    unfolding after_tool_def Let_def
    by (intro gives_bind gives_if gives_return stops_settle) simp_all
qed

lemma retry_ends: "gives step_ends (handle_retry sv v d notice)"
  unfolding handle_retry_def
  by (intro gives_if gives_return stops_settle gives_bind continue_ends) simp_all

lemma final_ends: "gives step_ends (handle_final sv s)"
  unfolding gives_def
proof (intro allI impI)
  fix l p l' assume "handle_final sv s l = (Inr p, l')"
  then obtain oc l1 where "answer_and_return sv s l = (Inr oc, l1)"
      and p: "p = Return \<lparr>oc_final = s, oc_trigger = ''run_finished'', oc_terminal = None, oc_primary = None\<rparr>"
      and l': "lp_task l' = finish_success s (lp_task l1)"
    by (auto simp: handle_final_def bindA_Inr)
  then show "step_ends p l'"
    by (simp add: step_ends_def ends_with_def settled_def finish_success_def answering_reasons_def)
qed

lemma step_ends_attempt: "gives step_ends (attempt_step sv x t n v)"
proof -
  have "gives step_ends (handle_action sv v d decided)" for d decided
    unfolding handle_action_def Let_def
    by (cases "fst decided") (simp_all add: gives_bind after_tool_ends retry_ends final_ends)
  then have "gives step_ends (case ans of Inl e \<Rightarrow> handle_model_error sv n v d e
      | Inr decided \<Rightarrow> bindA (validate_model_session_guard sv) (\<lambda>_. handle_action sv v d decided))" for ans d
    by (cases ans) (simp_all add: error_ends gives_bind)
  then show ?thesis
    unfolding attempt_step_def by (intro gives_bind gives_pair)
qed

lemma loop_ends:
  "attempt_loop sv x t n v l = (Inr oc, l') \<Longrightarrow> ends_with oc (lp_task l')"
proof (induction "nat (max_attempts sv - n)" arbitrary: n v l rule: less_induct)
  case less
  show ?case
  proof (cases "lv_tool_steps v < sv_max_steps sv \<and> n < max_attempts sv")
    case False
    have "gives (\<lambda>oc l. ends_with oc (lp_task l)) (stop_at_limit sv n v)"
      unfolding stop_at_limit_def by (intro gives_if stops_settle) simp_all
    moreover have "stop_at_limit sv n v l = (Inr oc, l')"
      using less.prems False by (subst (asm) attempt_loop.simps) auto
    ultimately show ?thesis by (simp add: gives_def)
  next
    case True
    with less.prems obtain p l1 where step: "attempt_step sv x t (n + 1) v l = (Inr p, l1)"
        and rest: "case p of Return oc1 \<Rightarrow> oc = oc1 \<and> l' = l1
          | Continue v1 \<Rightarrow> attempt_loop sv x t (n + 1) v1 l1 = (Inr oc, l')"
      by (subst (asm) attempt_loop.simps) (auto split: prod.splits sum.splits progress.splits)
    have "step_ends p l1" using step_ends_attempt [of sv x t "n + 1" v] step unfolding gives_def by blast
    with rest show ?thesis
      using less.hyps [of "n + 1"] True by (cases p) (auto simp: step_ends_def)
  qed
qed

lemma attempts_end:
  "run_agent_attempts sv m l = (Inr oc, l') \<Longrightarrow> ends_with oc (lp_task l')"
  by (auto simp: run_agent_attempts_def bindA_Inr split: prod.splits dest: loop_ends)

subsection \<open>The finalization keeps the end\<close>

definition same_end :: "task_state \<Rightarrow> task_state \<Rightarrow> bool" where
  "same_end t t' \<longleftrightarrow> status t' = status t \<and> stop_reason t' = stop_reason t \<and> final_answer t' = final_answer t"

text \<open>
  A step collects errors at the end of the list; one that collects none leaves the end of
  the task alone, and none makes a settled task run again.
\<close>

definition ends_stay :: "'w loop \<Rightarrow> 'w loop \<Rightarrow> bool" where
  "ends_stay l l' \<longleftrightarrow>
     (\<exists>es. lp_errors l' = lp_errors l @ es) \<and> (lp_errors l' = lp_errors l \<longrightarrow> same_end (lp_task l) (lp_task l'))
     \<and> (settled (lp_task l) \<longrightarrow> settled (lp_task l'))"

lemma ends_stay_same:
  "lp_errors l' = lp_errors l \<Longrightarrow> lp_task l' = lp_task l \<Longrightarrow> ends_stay l l'"
  by (simp add: ends_stay_def same_end_def)

lemma ends_stay_trans:
  assumes "ends_stay l l'" "ends_stay l' l''"
  shows "ends_stay l l''"
proof -
  from assms obtain es es' where es: "lp_errors l' = lp_errors l @ es" "lp_errors l'' = lp_errors l' @ es'"
    unfolding ends_stay_def by blast
  then have "lp_errors l'' = lp_errors l @ (es @ es')" by simp
  moreover have "same_end (lp_task l) (lp_task l'')" if "lp_errors l'' = lp_errors l"
  proof -
    have "lp_errors l' = lp_errors l" "lp_errors l'' = lp_errors l'" using that es by simp_all
    with assms show ?thesis by (simp add: ends_stay_def same_end_def)
  qed
  moreover have "settled (lp_task l) \<longrightarrow> settled (lp_task l'')"
    using assms by (simp add: ends_stay_def)
  ultimately show ?thesis unfolding ends_stay_def by blast
qed

interpretation ends: quiet_tracked ends_stay sv
  by unfold_locales (simp_all add: ends_stay_same, blast intro: ends_stay_trans)

lemma ends_collect: "keeps ends_stay m \<Longrightarrow> keeps ends_stay (collect m)"
  unfolding keeps_def
proof
  fix l assume "\<forall>l. ends_stay l (snd (m l))"
  then have m: "ends_stay l (snd (m l))" by blast
  show "ends_stay l (snd (collect m l))"
    unfolding collect_def attempt_bind
    using m by (auto simp: ends_stay_def bindA_def split: sum.split)
qed

lemma collect_None_errors:
  assumes "keeps ends_stay m" "collect m l = (Inr None, l')"
  shows "\<exists>es. es \<noteq> [] \<and> lp_errors l' = lp_errors l @ es" "settled (lp_task l) \<longrightarrow> settled (lp_task l')"
proof -
  have m: "ends_stay l (snd (m l))" using assms(1) by (simp add: keeps_def)
  show "\<exists>es. es \<noteq> [] \<and> lp_errors l' = lp_errors l @ es" "settled (lp_task l) \<longrightarrow> settled (lp_task l')"
    using m assms(2) unfolding collect_def attempt_bind
    by (auto simp: ends_stay_def bindA_def split: sum.splits if_splits)
qed

lemma ends_checkpoint: "keeps ends_stay (create_resume_checkpoint sv m g)"
proof -
  have "keeps ends_stay (on_agent (sv_checkpoint sv t m g ps))" for t ps
    by (rule keepsI) (simp add: on_agent_def ends_stay_def same_end_def split: prod.split)
  moreover have "keeps ends_stay (on_task (\<lambda>t. t\<lparr>checkpoint_id := i\<rparr>))" for i
    by (rule keepsI) (simp add: ends_stay_def same_end_def settled_def)
  ultimately show ?thesis
    unfolding create_resume_checkpoint_def block_session_writes_def
    by (intro ends.keeps_basic ends.keeps_block)
qed

lemma ends_final_checkpoint: "keeps ends_stay (final_checkpoint sv m oc)"
proof (rule keepsI)
  fix l
  let ?c = "create_resume_checkpoint sv m (oc_trigger oc)"
  let ?w = "bindA (collect (write_task_state sv)) (\<lambda>_. ret ())"
  note c = ends_collect [OF ends_checkpoint, of sv m "oc_trigger oc"]
  have "keeps ends_stay ?w"
    by (intro ends.keeps_bind ends_collect ends.keeps_write_task ends.keeps_ret)
  then have w: "ends_stay l (snd (?w l))" for l by (simp add: keeps_def)
  have rest: "ends_stay l (snd (whenA (made = None \<and> oc_primary oc = None)
      (bindA (on_task (stop_persistence_error [])) (\<lambda>_. ?w)) l1))"
    if run: "collect ?c l = (Inr made, l1)" for made l1
  proof (cases "made = None \<and> oc_primary oc = None")
    case False
    then show ?thesis
      unfolding whenA_def if_not_P [OF False] using keepsD [OF c run] by simp
  next
    case True
    let ?l2 = "l1\<lparr>lp_task := stop_persistence_error [] (lp_task l1)\<rparr>"
    have "snd (whenA True (bindA (on_task (stop_persistence_error [])) (\<lambda>_. ?w)) l1) = snd (?w ?l2)"
      by (simp add: bindA_def)
    moreover have "settled (lp_task ?l2)" by (simp add: settled_def task_ops Let_def)
    ultimately show ?thesis
      using True collect_None_errors(1) [OF ends_checkpoint run [unfolded True [THEN conjunct1]]] w [of ?l2]
      by (auto simp: ends_stay_def)
  qed
  show "ends_stay l (snd (final_checkpoint sv m oc l))"
  proof (cases "session_writes_blocked l")
    case True
    then show ?thesis by (simp add: final_checkpoint_def ends.tracked_refl)
  next
    case False
    obtain r l1 where run: "collect ?c l = (r, l1)" by fastforce
    with False rest [of _ l1] keepsD [OF c run] show ?thesis
      by (cases r) (simp_all add: final_checkpoint_def bindA_def)
  qed
qed

lemma ends_close: "keeps ends_stay (close_run sv m oc)"
proof -
  have "keeps ends_stay (on_agent (sv_report sv t u y))" for t u y
    by (rule keepsI) (simp add: on_agent_def ends_stay_def same_end_def split: prod.split)
  then show ?thesis
    unfolding close_run_def commit_terminal_def finish_report_def Let_def
    by (intro ends.keeps_basic ends_collect ends.keeps_commit ends_final_checkpoint)
qed

lemma trace_late_task:
  "lp_task (snd (trace_late_failure sv l)) = lp_task l"
proof -
  have "keeps task_stays (trace_late_failure sv)"
    unfolding trace_late_failure_def by (intro task.keeps_basic)
  then show ?thesis by (simp add: keeps_def task_stays_def)
qed

lemma finalize_task:
  assumes "finalize_run sv m oc l = (r, l')"
  shows "settled (lp_task l) \<Longrightarrow> settled (lp_task l')"
    and "r = Inr final \<Longrightarrow> oc_primary oc = None \<Longrightarrow> final = oc_final oc \<and> same_end (lp_task l) (lp_task l')"
proof -
  let ?l0 = "l\<lparr>lp_errors := []\<rparr>"
  obtain q l1 where c: "close_run sv m oc ?l0 = (q, l1)" by fastforce
  have stay: "ends_stay ?l0 l1" using ends_close c by (rule keepsD)
  have t: "lp_task (snd (whenA b (trace_late_failure sv) l1)) = lp_task l1" for b
    by (cases b) (simp_all add: trace_late_task)
  show "settled (lp_task l) \<Longrightarrow> settled (lp_task l')"
    using assms stay t [of True] by (cases q)
      (auto simp: finalize_run_def c bindA_def ends_stay_def whenA_def split: list.splits if_splits prod.splits sum.splits)
  show "r = Inr final \<Longrightarrow> oc_primary oc = None \<Longrightarrow> final = oc_final oc \<and> same_end (lp_task l) (lp_task l')"
    using assms stay t [of True] by (cases q)
      (auto simp: finalize_run_def c bindA_def ends_stay_def whenA_def split: list.splits if_splits prod.splits sum.splits)
qed

subsection \<open>The turn\<close>

lemma open_turn_task: "open_turn sv m l = (r, l') \<Longrightarrow> lp_task l' = lp_task l"
proof -
  assume run: "open_turn sv m l = (r, l')"
  have guard: "keeps task_stays (modify (\<lambda>l. l\<lparr>lp_guard := g\<rparr>))" for g :: session_guard
    by (rule keepsI) (simp add: task_stays_def)
  have "keeps task_stays (on_agent (modify (\<lambda>a. a\<lparr>ap_memory := f a\<rparr>)))" "keeps task_stays sync_working_memory"
    for f :: "'a agent_part \<Rightarrow> working_memory"
    unfolding sync_working_memory_def by (intro task.keeps_still, simp)+
  then have "keeps task_stays (open_turn sv m)"
    unfolding open_turn_def commit_user_message_def
    by (intro task.keeps_basic task.keeps_capture task.keeps_message task.keeps_commit guard)
  then show ?thesis using run by (auto dest: keepsD simp: task_stays_def)
qed

lemma stop_unexpected_ends:
  assumes "stop_unexpected sv reason stop needed e l = (r, l')"
    and "settled (if needed (lp_task l) then stop (runtime_terminal_text reason) (lp_task l) else lp_task l)"
  shows "\<exists>oc. r = Inr oc \<and> ends_with oc (lp_task l')"
proof -
  let ?l1 = "l\<lparr>lp_task := (if needed (lp_task l) then stop (runtime_terminal_text reason) (lp_task l) else lp_task l)\<rparr>"
  obtain q l2 where m: "runtime_terminal_message sv reason ?l1 = (q, l2)" by fastforce
  have "lp_task l2 = lp_task ?l1"
    using keepsD [OF task.keeps_message m [unfolded runtime_terminal_message_def]] by (simp add: task_stays_def)
  moreover obtain x where "q = Inr x"
    using m by (auto simp: runtime_terminal_message_def new_plain_message_def tick_def on_agent_def bindA_def)
  ultimately show ?thesis
    using assms m by (auto simp: stop_unexpected_def Let_def bindA_def ends_with_def)
qed

lemma settle_ends:
  assumes "settle_outcome sv r l = (q, l')" "consistent (lp_task l)"
    and "\<And>oc. r = Inr oc \<Longrightarrow> ends_with oc (lp_task l)"
  shows "\<exists>oc. q = Inr oc \<and> ends_with oc (lp_task l')"
proof (cases r)
  case (Inr oc)
  with assms(1) have "q = Inr oc" "l' = l" by (simp_all add: settle_outcome_def)
  with assms(3) Inr show ?thesis by blast
next
  case (Inl e)
  show ?thesis
  proof (cases "is_commit_error e \<or> e = KeyboardInterrupt")
    case True
    with Inl assms(1,2) show ?thesis
      by (cases e)
        (auto simp: settle_outcome_def consistent_def settled_def task_ops Let_def intro!: stop_unexpected_ends)
  next
    case False
    then have "settle_outcome sv r l =
        stop_unexpected sv ''runtime_error'' stop_runtime_error (\<lambda>t. status t = status_text RUNNING) e l"
      by (cases e) (simp_all add: Inl settle_outcome_def)
    moreover have "settled (if status (lp_task l) = status_text RUNNING
        then stop_runtime_error s (lp_task l) else lp_task l)" for s
      using assms(2) by (auto simp: consistent_def settled_def task_ops Let_def)
    ultimately show ?thesis using stop_unexpected_ends assms(1) by metis
  qed
qed

lemma drive_turn_ends:
  assumes "drive_turn sv m l = (r, l')"
  shows "settled (lp_task l')
    \<and> (\<forall>final. r = Inr final \<longrightarrow> final_answer (lp_task l') = final \<and> stop_reason (lp_task l') \<in> answering_reasons)"
proof -
  obtain l1 where l1: "start_task sv m l = (Inr (), l1)" "consistent (lp_task l1)"
    by (auto simp: start_task_def tick_def on_agent_def set_request_metadata_def bindA_def
        consistent_def create_task_def)
  obtain q l2 where q: "run_agent_attempts sv m l1 = (q, l2)" by fastforce
  have "consistent (lp_task l2)"
    using keepsD [OF sane.keeps_attempts q] l1(2) by (simp add: sane_stays_def)
  moreover obtain p l3 where p: "settle_outcome sv q l2 = (p, l3)" by fastforce
  ultimately obtain oc where oc: "p = Inr oc" "ends_with oc (lp_task l3)"
    using settle_ends [OF p] attempts_end q by blast
  obtain f l4 where f: "finalize_run sv m oc l3 = (f, l4)" by fastforce
  have "settled (lp_task l3)" using oc(2) by (simp add: ends_with_def)
  note fin = finalize_task(1) [OF f this] finalize_task(2) [OF f]
  have r: "l' = l4 \<and> r = (case f of Inl e \<Rightarrow> Inl e | Inr final \<Rightarrow>
      (case oc_primary oc of None \<Rightarrow> Inr final | Some e \<Rightarrow> Inl e))"
    using assms l1(1) q p oc(1) f
    by (auto simp: drive_turn_def bindA_def split: sum.splits option.splits)
  have "final_answer (lp_task l') = final \<and> stop_reason (lp_task l') \<in> answering_reasons"
    if "r = Inr final" for final
  proof -
    from that r have "f = Inr final" "oc_primary oc = None"
      by (auto split: sum.splits option.splits)
    with fin(2) have "final = oc_final oc" "same_end (lp_task l3) (lp_task l4)" by blast+
    with oc(2) \<open>oc_primary oc = None\<close> r show ?thesis by (simp add: ends_with_def same_end_def)
  qed
  with fin(1) r show ?thesis by simp
qed

end
