(* ===== verification/Samples.thy ===== *)
theory Samples
  imports StoreHistory "HOL-Library.Code_Target_Nat"
begin

text \<open>
  A concrete surrounding and a concrete session, on which the properties of the
  store are instantiated: a digest function, a worktree, an identity redactor, a
  supply of entry ids, and a store holding one new session file.
\<close>

definition sample_identity :: val where
  "sample_identity =
     VDict [(''lexical_root'', VStr ''/w''), (''git_common_dir'', VStr ''/w/.git''),
            (''git_dir'', VStr ''/w/.git''), (''root_device'', VInt 1), (''root_inode'', VInt 2),
            (''digest'', VStr ''d'')]"

definition sample_env :: env where
  "sample_env = \<lparr>sha256 = (\<lambda>_. ''d''), worktree_identity_of = (\<lambda>_. Inr sample_identity),
     redactor = (\<lambda>v. v)\<rparr>"

definition sample_header :: header where
  "sample_header = \<lparr>hversion = 5, hid = ''s1'', created_at = ''c'', workspace_root = ''/w'',
     worktree_identity = sample_identity\<rparr>"

definition sample_fresh :: stamps where
  "sample_fresh n = (replicate 15 (CHR ''0'') @ [digit (n mod 16)], ''now'')"

definition sample_file :: "entry list \<Rightarrow> sfile" where
  "sample_file es = \<lparr>frows = tree_rows sample_header es, ftail = [], fsig = 0\<rparr>"

definition store_with :: "entry list \<Rightarrow> store" where
  "store_with es = \<lparr>disk = [''s1'' \<mapsto> sample_file es], legacy_ids = {}, tree_cache = Map.empty\<rparr>"

lemma store_with_ok [simp]: "store_ok env (store_with es)"
  by (rule store_ok_empty_cache) (simp add: store_with_def)

lemma sample_redactor [simp]: "redactor sample_env v = v"
  by (simp add: sample_env_def)

end
