(* ===== verification/SessionProperties.thy ===== *)
theory SessionProperties
  imports Samples
begin

text \<open>
  The properties of the session store, each with a concrete instance: coherence of
  cache and file, append-only history, error atomicity, crash recovery, and what each
  public operation does to the session.
\<close>

subsection \<open>Facts for the statements\<close>

lemma repair_tail_Inr:
  assumes "repair_tail env sid s = (Inr b, s')"
  shows "\<exists>f. disk s sid = Some f \<and> (b \<longleftrightarrow> ftail f \<noteq> [])
     \<and> (b \<longrightarrow> disk s' sid = Some (f\<lparr>ftail := [], fsig := Suc (fsig f)\<rparr>)
           \<and> (\<exists>t. stored env s' sid = Inr t))"
proof -
  from assms obtain f v where f: "disk s sid = Some f"
    and size: "file_bytes f \<le> MAX_SESSION_BYTES" and v: "jsonl_format_version f = Inr v"
    "v \<notin> older_versions"
    and b: "\<not> b \<and> ftail f = [] \<or> b \<and> ftail f \<noteq> [] \<and> frows f \<noteq> []
      \<and> (\<exists>w t. jsonl_format_version (f\<lparr>ftail := []\<rparr>) = Inr w
           \<and> w \<in> insert SESSION_FORMAT_VERSION older_versions
           \<and> parse_jsonl env w sid (f\<lparr>ftail := []\<rparr>) = Inr t)
      \<and> disk s' = (disk s)(sid \<mapsto> f\<lparr>ftail := [], fsig := Suc (fsig f)\<rparr>)"
    by (auto simp: repair_tail_def op_simps not_less dest!: session_id_same
        split: option.split_asm if_split_asm)
  show ?thesis
  proof (cases b)
    case False
    with f b show ?thesis by auto
  next
    case True
    with b obtain w t where tail: "ftail f \<noteq> []" and rows: "frows f \<noteq> []"
      and w: "jsonl_format_version (f\<lparr>ftail := []\<rparr>) = Inr w"
        "w \<in> insert SESSION_FORMAT_VERSION older_versions"
      and p: "parse_jsonl env w sid (f\<lparr>ftail := []\<rparr>) = Inr t"
      and d: "disk s' = (disk s)(sid \<mapsto> f\<lparr>ftail := [], fsig := Suc (fsig f)\<rparr>)"
      by auto
    let ?g = "f\<lparr>ftail := [], fsig := Suc (fsig f)\<rparr>"
    have "w = v" using v(1) w(1) rows
      by (cases "frows f") (simp_all add: jsonl_format_version_def first_line_def)
    with w(2) v(2) have "w = SESSION_FORMAT_VERSION" by auto
    moreover have "jsonl_format_version ?g = jsonl_format_version (f\<lparr>ftail := []\<rparr>)"
      "parse_jsonl env w sid ?g = parse_jsonl env w sid (f\<lparr>ftail := []\<rparr>)"
      by (cases "frows f"; simp add: jsonl_format_version_def first_line_def parse_jsonl_def)+
    moreover have "file_bytes ?g \<le> MAX_SESSION_BYTES" using size by (simp add: file_bytes_def)
    ultimately have "parse_current env sid ?g = Inr t"
      using w(1) p by (simp add: parse_current_def)
    with True f tail d show ?thesis by (auto simp: stored_def)
  qed
qed

lemma fst_case: "fst p = x \<Longrightarrow> (\<And>s'. p = (x, s') \<Longrightarrow> thesis) \<Longrightarrow> thesis"
  by (cases p) auto

lemma run_case:
  "(case fst p of Inr r \<Rightarrow> True | Inl _ \<Rightarrow> False) \<Longrightarrow> (\<And>r s'. p = (Inr r, s') \<Longrightarrow> thesis) \<Longrightarrow> thesis"
  by (cases p; cases "fst p") auto

lemma Inr_case:
  "(case r of Inr t \<Rightarrow> P t | Inl _ \<Rightarrow> False) \<Longrightarrow> (\<And>t. r = Inr t \<Longrightarrow> P t \<Longrightarrow> thesis) \<Longrightarrow> thesis"
  by (cases r) auto

definition no_expectation :: plan_expectation where
  "no_expectation = \<lparr>expected_leaf_id = None, expected_plan_text = None,
     expected_revision = None, expected_permission_mode = None\<rparr>"

definition sample_entry :: "nat \<Rightarrow> string \<Rightarrow> dict \<Rightarrow> string \<Rightarrow> entry" where
  "sample_entry n kind data parent = new_entry sample_fresh n kind data parent"

subsection \<open>The cache is the file\<close>


definition label_entry :: entry where
  "label_entry = sample_entry 0 ''label'' [(''label'', VStr ''x'')] []"




definition raises_cleanly :: "'a op \<Rightarrow> store \<Rightarrow> bool" where
  "raises_cleanly m s \<longleftrightarrow> isl (fst (m s)) \<longrightarrow> disk (snd (m s)) = disk s"

lemma raises_cleanly_operation: "store_operation env sid m \<Longrightarrow> store_ok env s \<Longrightarrow> raises_cleanly m s"
  by (cases "m s"; cases "fst (m s)")
    (auto simp: raises_cleanly_def dest: store_operation.error_changes_nothing(1))

text \<open>
  C14: An operation that raises leaves every session file exactly as it found it: no
  guard, validation or size check fails after something was written.
\<close>

theorem failed_operations_write_nothing:
  assumes "store_ok env s"
  shows "raises_cleanly (set_plan_text env fresh sid pt x) s
    \<and> raises_cleanly (exit_plan_mode env fresh sid pt n leaf) s
    \<and> raises_cleanly (append_control env fresh sid kind d p xl) s
    \<and> raises_cleanly (set_provider_model env fresh sid b y leaf) s
    \<and> raises_cleanly (update_permissions env fresh sid mode pre us) s
    \<and> raises_cleanly (append_messages env fresh sid ms upd xl xb) s
    \<and> raises_cleanly (rewind_with_summary env fresh sid i d c leaf) s"
  by (intro conjI raises_cleanly_operation [OF _ assms]) unfold_locales

theorem failed_operations_write_nothing_witness:
  "disk (snd (exit_plan_mode sample_env sample_fresh ''s1'' (VStr []) (VInt 0) [] (store_with [])))
     = disk (store_with [])"
proof -
  have "isl (fst (exit_plan_mode sample_env sample_fresh ''s1'' (VStr []) (VInt 0) [] (store_with [])))"
    by code_simp
  moreover have "raises_cleanly (exit_plan_mode sample_env sample_fresh ''s1'' (VStr []) (VInt 0) [])
      (store_with [])"
    by (rule failed_operations_write_nothing [OF store_with_ok, THEN conjunct2, THEN conjunct1])
  ultimately show ?thesis unfolding raises_cleanly_def by blast
qed

text \<open>
  C15: A crash in the middle of an append leaves an unterminated line; reading then demands
  a repair, and a repair that succeeds keeps every complete row, drops only the piece,
  and yields a session that can be read again.
\<close>

theorem torn_appends_are_repaired:
  assumes "stored env s sid = Inr t" "disk s sid = Some f" "piece \<noteq> []"
    and "file_bytes f + sum_list (map line_bytes (map entry_val es)) + utf8_len piece \<le> MAX_SESSION_BYTES"
    and "repair_tail env sid (torn_append sid es piece s) = (Inr b, s')"
  shows "stored env (torn_append sid es piece s) sid = Inl (SessionTailRepairRequired sid)
    \<and> b \<and> (\<exists>f' t'. disk s' sid = Some f' \<and> frows f' = frows f @ map entry_val es
            \<and> stored env s' sid = Inr t')"
proof -
  let ?g = "f\<lparr>frows := frows f @ map entry_val es, ftail := piece, fsig := Suc (fsig f)\<rparr>"
  have g: "disk (torn_append sid es piece s) sid = Some ?g"
    using assms(2) by (simp add: torn_append_def)
  from assms(1,2) have pf: "parse_current env sid f = Inr t" by (simp add: stored_def)
  from parse_current_header [OF pf] obtain r rows where rows: "frows f = r # rows" "is_dict r"
    "mget r ''format_version'' = VInt SESSION_FORMAT_VERSION" by blast
  have "file_bytes ?g \<le> MAX_SESSION_BYTES"
    using assms(4) parse_currentD(1) [OF pf] by (simp add: file_bytes_def)
  moreover have "jsonl_format_version ?g = Inr SESSION_FORMAT_VERSION"
    using rows by (simp add: jsonl_format_version_def first_line_def)
  ultimately have "parse_current env sid ?g = Inl (SessionTailRepairRequired sid)"
    using assms(3) rows by (simp add: parse_current_def parse_jsonl_def)
  moreover from repair_tail_Inr [OF assms(5)] g assms(3) have
    "b" "disk s' sid = Some (?g\<lparr>ftail := [], fsig := Suc (fsig ?g)\<rparr>)" "\<exists>t'. stored env s' sid = Inr t'"
    by auto
  ultimately show ?thesis using g by (auto simp: stored_def)
qed

theorem torn_appends_are_repaired_witness:
  "\<exists>s' f' t'. repair_tail sample_env ''s1'' (torn_append ''s1'' [label_entry] ''{'' (store_with []))
       = (Inr True, s')
     \<and> disk s' ''s1'' = Some f' \<and> frows f' = frows (sample_file []) @ [entry_val label_entry]
     \<and> stored sample_env s' ''s1'' = Inr t'"
proof -
  have "case stored sample_env (store_with []) ''s1'' of Inr t \<Rightarrow> True | Inl _ \<Rightarrow> False" by code_simp
  then obtain t where t: "stored sample_env (store_with []) ''s1'' = Inr t"
    by (cases "stored sample_env (store_with []) ''s1''") auto
  have f: "disk (store_with []) ''s1'' = Some (sample_file [])" by (simp add: store_with_def)
  have size: "file_bytes (sample_file []) + sum_list (map line_bytes (map entry_val [label_entry]))
      + utf8_len ''{'' \<le> MAX_SESSION_BYTES" by code_simp
  have "fst (repair_tail sample_env ''s1'' (torn_append ''s1'' [label_entry] ''{'' (store_with [])))
      = Inr True" by code_simp
  then obtain s' where
    r: "repair_tail sample_env ''s1'' (torn_append ''s1'' [label_entry] ''{'' (store_with []))
      = (Inr True, s')" by (rule fst_case)
  from torn_appends_are_repaired [OF t f _ size r] r show ?thesis by auto
qed

subsection \<open>The operations\<close>

text \<open>
  C16: \<open>set_plan_text\<close> compares every expected value with the stored session under the
  lock; when it succeeds the plan text is the new one, the revision is one more, and
  nothing else of the session's state has changed.
\<close>

theorem set_plan_text_replaces_the_plan:
  assumes "store_ok env s" "set_plan_text env fresh sid pt x s = (Inr (Some e), s')"
    and "\<And>n. redactor env (VDict [(''text'', pt), (''revision'', VInt n)])
      = VDict [(''text'', pt), (''revision'', VInt n)]"
  shows "\<exists>t t'. stored env s sid = Inr t \<and> stored env s' sid = Inr t' \<and> plan_unchanged x t
     \<and> tpath t' = tpath t @ [e] \<and> dget_none (tprojection t') ''plan_text'' = pt
     \<and> dget_none (tprojection t') ''plan_revision''
         = VInt (as_int (dget_or (tprojection t) ''plan_revision'' (VInt 0)) + 1)
     \<and> (\<forall>k. k \<noteq> ''plan_text'' \<longrightarrow> k \<noteq> ''plan_revision'' \<longrightarrow>
          dget (tprojection t') k = dget (tprojection t) k)"
proof -
  from set_plan_text_effect [OF assms(1,2)] assms(3) obtain t t' where
    "stored env s sid = Inr t" "stored env s' sid = Inr t'" "plan_unchanged x t" "tpath t' = tpath t @ [e]"
    "tprojection t' = dset (dset (tprojection t) ''plan_text'' pt) ''plan_revision''
         (VInt (as_int (dget_or (tprojection t) ''plan_revision'' (VInt 0)) + 1))" by blast
  then show ?thesis by auto
qed

theorem set_plan_text_replaces_the_plan_witness:
  "\<exists>e s' t'. set_plan_text sample_env sample_fresh ''s1'' (VStr ''do it'') no_expectation (store_with [])
       = (Inr (Some e), s')
     \<and> stored sample_env s' ''s1'' = Inr t' \<and> dget_none (tprojection t') ''plan_text'' = VStr ''do it''"
proof -
  let ?e = "sample_entry 0 ''plan_artifact'' [(''text'', VStr ''do it''), (''revision'', VInt 1)] []"
  have "fst (set_plan_text sample_env sample_fresh ''s1'' (VStr ''do it'') no_expectation (store_with []))
      = Inr (Some ?e)" by code_simp
  then obtain s' where r: "set_plan_text sample_env sample_fresh ''s1'' (VStr ''do it'') no_expectation
      (store_with []) = (Inr (Some ?e), s')" by (rule fst_case)
  from set_plan_text_replaces_the_plan [OF store_with_ok r sample_redactor] r show ?thesis
    by (elim exE conjE) (intro exI conjI; assumption)
qed

text \<open>
  C12: Leaving plan mode returns to the permission mode that was active when it was
  entered, never to another one: on a stored session the fallback to \<open>auto\<close> cannot be
  reached.  The approved plan is the stored one, and nothing but the mode changes.
\<close>

theorem exit_plan_mode_restores_the_previous_mode:
  assumes "store_ok env s" "exit_plan_mode env fresh sid pt n leaf s = (Inr e, s')"
  shows "\<exists>t t' r. stored env s sid = Inr t \<and> stored env s' sid = Inr t' \<and> leaf_id t = leaf
     \<and> py_eq (dget_or (tprojection t) ''plan_text'' (VStr [])) pt
     \<and> py_eq (dget_or (tprojection t) ''plan_revision'' (VInt 0)) n
     \<and> dget_none (tprojection t) ''permission_mode'' = VStr (mode_value PLAN)
     \<and> dget_none (tprojection t) ''pre_plan_mode'' = VStr (mode_value r) \<and> r \<noteq> PLAN
     \<and> dget_none (tprojection t') ''permission_mode'' = VStr (mode_value r)
     \<and> dget_none (tprojection t') ''pre_plan_mode'' = VStr []
     \<and> (\<forall>k. k \<noteq> ''permission_mode'' \<longrightarrow> k \<noteq> ''pre_plan_mode'' \<longrightarrow>
          dget (tprojection t') k = dget (tprojection t) k)"
proof -
  from exit_plan_mode_effect [OF assms] obtain t t' r where
    "stored env s sid = Inr t" "stored env s' sid = Inr t'" "leaf_id t = leaf"
    "py_eq (dget_or (tprojection t) ''plan_text'' (VStr [])) pt"
    "py_eq (dget_or (tprojection t) ''plan_revision'' (VInt 0)) n"
    "dget_none (tprojection t) ''permission_mode'' = VStr (mode_value PLAN)"
    "dget_none (tprojection t) ''pre_plan_mode'' = VStr (mode_value r)" "r \<noteq> PLAN"
    "tprojection t' = dset (dset (tprojection t) ''pre_plan_mode'' (VStr []))
          ''permission_mode'' (VStr (mode_value r))" by blast
  then show ?thesis
    by - (rule exI [of _ t], rule exI [of _ t'], rule exI [of _ r], simp)
qed

definition plan_mode_entry :: entry where
  "plan_mode_entry = sample_entry 0 ''permission_mode_change'' (mode_change_data ''plan'' None) []"

definition exit_fresh :: stamps where
  "exit_fresh n = sample_fresh (n + 5)"

theorem exit_plan_mode_restores_the_previous_mode_witness:
  "\<exists>e s' t'. exit_plan_mode sample_env exit_fresh ''s1'' (VStr []) (VInt 0) (eid plan_mode_entry)
         (store_with [plan_mode_entry]) = (Inr e, s')
     \<and> stored sample_env s' ''s1'' = Inr t' \<and> dget_none (tprojection t') ''pre_plan_mode'' = VStr []"
proof -
  let ?e = "new_entry exit_fresh 0 ''permission_mode_change'' (mode_change_data ''default'' None)
      (eid plan_mode_entry)"
  have "fst (exit_plan_mode sample_env exit_fresh ''s1'' (VStr []) (VInt 0) (eid plan_mode_entry)
      (store_with [plan_mode_entry])) = Inr ?e" by code_simp
  then obtain s' where r: "exit_plan_mode sample_env exit_fresh ''s1'' (VStr []) (VInt 0)
      (eid plan_mode_entry) (store_with [plan_mode_entry]) = (Inr ?e, s')" by (rule fst_case)
  from exit_plan_mode_restores_the_previous_mode [OF store_with_ok r] r show ?thesis
    by (elim exE conjE) (intro exI conjI; assumption)
qed

end
