(* ===== verification/OperationProperties.thy ===== *)
theory OperationProperties
  imports SessionProperties
begin

text \<open>
  More properties of the session store, each with a concrete instance: permission
  updates, message batches, model changes, branches, and what every stored session
  satisfies.
\<close>

subsection \<open>Permissions\<close>


definition sample_updates :: "(string \<times> string) list" where
  "sample_updates = [(''bash'', ''deny''), ('' bash '', ''allow'')]"


subsection \<open>Messages and models\<close>

text \<open>
  C17: \<open>append_messages\<close> appends the batch to the conversation as one unit, after checking
  the expected leaf and provider binding against the stored session; the leaf it
  returns is the new one.
\<close>

theorem append_messages_extends_the_conversation:
  assumes "store_ok env s"
    and "append_messages env fresh sid ms upd xl xb s = (Inr (Some leaf), s')"
    and "redactor env (VList ms) = VList safe" "list_all is_dict safe"
  shows "\<exists>t t' es. stored env s sid = Inr t \<and> stored env s' sid = Inr t'
     \<and> expects_leaf xl t \<and> expects xb (dget_none (tprojection t) ''provider_binding'')
     \<and> tpath t' = tpath t @ es \<and> leaf = leaf_id t'
     \<and> proj_messages (tprojection t') = proj_messages (tprojection t) @ safe"
  using append_messages_effect [OF assms] by blast

definition sample_message :: val where
  "sample_message = VDict [(''role'', VStr ''user''), (''content'', VStr ''hi''),
     (''_pony_meta'', VDict [(''created_at'', VStr ''t'')])]"

theorem append_messages_extends_the_conversation_witness:
  "\<exists>leaf s' t'. append_messages sample_env exit_fresh ''s1'' [sample_message] [] None None (store_with [])
       = (Inr (Some leaf), s')
     \<and> stored sample_env s' ''s1'' = Inr t' \<and> leaf = leaf_id t'
     \<and> (\<exists>t. stored sample_env (store_with []) ''s1'' = Inr t
          \<and> proj_messages (tprojection t') = proj_messages (tprojection t) @ [sample_message])"
proof -
  let ?op = "append_messages sample_env exit_fresh ''s1'' [sample_message] [] None None (store_with [])"
  have "case fst ?op of Inr r \<Rightarrow> r \<noteq> None | Inl _ \<Rightarrow> False" by code_simp
  then obtain leaf s' where r: "?op = (Inr (Some leaf), s')"
    by (cases ?op; cases "fst ?op") auto
  have d: "list_all is_dict [sample_message]" by (simp add: sample_message_def)
  from append_messages_extends_the_conversation [OF store_with_ok r sample_redactor d] r show ?thesis
    by (elim exE conjE) (intro exI conjI; assumption)
qed

text \<open>
  C24: \<open>set_provider_model\<close> replaces the provider binding and nothing else, and only by one
  with the protocol family and endpoint of the stored binding.
\<close>

theorem set_provider_model_keeps_family_and_endpoint:
  assumes "store_ok env s" "set_provider_model env fresh sid b x leaf s = (Inr (Some e), s')"
  shows "\<exists>t t'. stored env s sid = Inr t \<and> stored env s' sid = Inr t' \<and> leaf_id t = leaf
     \<and> py_eq (dget_none (tprojection t) ''provider_binding'') x
     \<and> mget (dget_none (tprojection t') ''provider_binding'') ''protocol_family''
         = mget (dget_none (tprojection t) ''provider_binding'') ''protocol_family''
     \<and> mget (dget_none (tprojection t') ''provider_binding'') ''endpoint_hash''
         = mget (dget_none (tprojection t) ''provider_binding'') ''endpoint_hash''
     \<and> dget_none (tprojection t') ''provider_binding'' = redactor env b
     \<and> (\<forall>k. k \<noteq> ''provider_binding'' \<longrightarrow> dget (tprojection t') k = dget (tprojection t) k)"
proof -
  from set_provider_model_effect [OF assms] obtain t t' where
    "stored env s sid = Inr t" "stored env s' sid = Inr t'" "leaf_id t = leaf"
    "py_eq (dget_none (tprojection t) ''provider_binding'') x"
    "mget (redactor env b) ''protocol_family''
         = mget (dget_none (tprojection t) ''provider_binding'') ''protocol_family''"
    "mget (redactor env b) ''endpoint_hash''
         = mget (dget_none (tprojection t) ''provider_binding'') ''endpoint_hash''"
    "tprojection t' = dset (tprojection t) ''provider_binding'' (redactor env b)" by blast
  then show ?thesis by - (rule exI [of _ t], rule exI [of _ t'], simp)
qed

definition sample_binding :: "string \<Rightarrow> val" where
  "sample_binding model = VDict [(''protocol_family'', VStr ''openai_responses''),
     (''model'', VStr model), (''endpoint_hash'', VStr (''sha256:'' @ replicate 64 (CHR ''0'')))]"

definition binding_entry :: entry where
  "binding_entry = sample_entry 1 ''session_info''
     [(''set'', VDict [(''provider_binding'', sample_binding ''m1'')])] []"

theorem set_provider_model_keeps_family_and_endpoint_witness:
  "\<exists>e s' t'. set_provider_model sample_env exit_fresh ''s1'' (sample_binding ''m2'') (sample_binding ''m1'')
         (eid binding_entry) (store_with [binding_entry]) = (Inr (Some e), s')
     \<and> stored sample_env s' ''s1'' = Inr t'
     \<and> dget_none (tprojection t') ''provider_binding'' = redactor sample_env (sample_binding ''m2'')"
proof -
  let ?op = "set_provider_model sample_env exit_fresh ''s1'' (sample_binding ''m2'') (sample_binding ''m1'')
         (eid binding_entry) (store_with [binding_entry])"
  have "case fst ?op of Inr r \<Rightarrow> r \<noteq> None | Inl _ \<Rightarrow> False" by code_simp
  then obtain e s' where r: "?op = (Inr (Some e), s')"
    by (cases ?op; cases "fst ?op") auto
  from set_provider_model_keeps_family_and_endpoint [OF store_with_ok r] r show ?thesis
    by (elim exE conjE) (intro exI conjI; assumption)
qed

subsection \<open>Branches\<close>

text \<open>
  C10: Forking at an entry of the active path: the new path is the path up to that entry,
  the fork entry and at most one entry that restores the provider binding; the
  conversation is again the one of that prefix; nothing is deleted.
\<close>

theorem fork_returns_to_the_prefix:
  assumes "store_ok env s" "stored env s sid = Inr t" "tpath t = xs @ a # ys"
    and "fork env fresh sid (eid a) xl s = (Inr e, s')"
  shows "expects_leaf xl t \<and> (\<exists>t' fs. stored env s' sid = Inr t' \<and> tpath t' = xs @ a # e # fs
     \<and> length fs \<le> 1 \<and> tentries t' = tentries t @ e # fs
     \<and> proj_messages (tprojection t') = concat (map entry_message_refs (xs @ [a]))
     \<and> (is_dict (dget_none (tprojection t) ''provider_binding'') \<longrightarrow>
          dget_none (tprojection t') ''provider_binding'' = dget_none (tprojection t) ''provider_binding''
          \<or> py_eq (dget_none (tprojection t') ''provider_binding'')
              (dget_none (tprojection t) ''provider_binding'')))"
  using rewind_control_effect [OF assms(1-3) assms(4) [unfolded fork_def]] by blast

definition message_entry :: "nat \<Rightarrow> string \<Rightarrow> entry" where
  "message_entry n parent = sample_entry n ''message'' [(''message'', sample_message)] parent"

definition sample_path :: "entry list" where
  "sample_path = [message_entry 0 [], message_entry 1 (eid (message_entry 0 []))]"

theorem fork_returns_to_the_prefix_witness:
  "\<exists>e s' t'. fork sample_env exit_fresh ''s1'' (eid (message_entry 0 [])) None (store_with sample_path)
       = (Inr e, s')
     \<and> stored sample_env s' ''s1'' = Inr t'
     \<and> proj_messages (tprojection t') = concat (map entry_message_refs ([] @ [message_entry 0 []]))"
proof -
  let ?op = "fork sample_env exit_fresh ''s1'' (eid (message_entry 0 [])) None (store_with sample_path)"
  have "case fst ?op of Inr r \<Rightarrow> True | Inl _ \<Rightarrow> False" by code_simp
  then obtain e s' where r: "?op = (Inr e, s')" by (rule run_case)
  have "case stored sample_env (store_with sample_path) ''s1'' of
      Inr t \<Rightarrow> tpath t = [] @ message_entry 0 [] # tl sample_path | Inl _ \<Rightarrow> False" by code_simp
  then obtain t where t: "stored sample_env (store_with sample_path) ''s1'' = Inr t"
    and p: "tpath t = [] @ message_entry 0 [] # tl sample_path" by (rule Inr_case)
  from fork_returns_to_the_prefix [OF store_with_ok t p r] r show ?thesis
    by (elim exE conjE) (intro exI conjI; assumption)
qed



subsection \<open>Stored sessions\<close>

text \<open>
  C26: Every session that can be read has a consistent permission state: a known mode, a
  remembered mode exactly while the mode is plan, and then not plan; and permission
  rules whose three lists are disjoint.
\<close>

theorem stored_permission_state_is_consistent:
  assumes "stored env s sid = Inr t"
  shows "perm_inv (tprojection t)
    \<and> permission_rules_ok (dget_or (tprojection t) ''permission_rules'' empty_rules)"
  using stored_rules_wf [OF assms] tree_ok_perm_inv [of SESSION_FORMAT_VERSION t] stored_InrD [OF assms]
  by (simp add: modern_version_def)

theorem stored_permission_state_is_consistent_witness:
  "\<exists>t. stored sample_env (store_with [plan_mode_entry]) ''s1'' = Inr t \<and> perm_inv (tprojection t)"
proof -
  have "case stored sample_env (store_with [plan_mode_entry]) ''s1'' of Inr t \<Rightarrow> True | Inl _ \<Rightarrow> False"
    by code_simp
  then obtain t where "stored sample_env (store_with [plan_mode_entry]) ''s1'' = Inr t"
    by (rule Inr_case)
  with stored_permission_state_is_consistent [OF this] show ?thesis by blast
qed

text \<open>
  C27: The conversation of a stored session is the concatenation of the messages of its
  active path, a parent chain from a root to the last entry inside the file, and is
  itself a valid transcript: every tool call is answered by the message after it.
\<close>

theorem stored_conversation_is_the_active_path:
  assumes "stored env s sid = Inr t"
  shows "proj_messages (tprojection t) = concat (map entry_message_refs (tpath t))
    \<and> linear_from [] (tpath t) \<and> set (tpath t) \<subseteq> set (tentries t)
    \<and> (tentries t \<noteq> [] \<longrightarrow> leaf_of (tpath t) = leaf_id t)
    \<and> transcript True [] (proj_messages (tprojection t))"
proof -
  from stored_InrD [OF assms] have ok: "tree_ok SESSION_FORMAT_VERSION t" by blast
  note d = tree_okD [OF ok]
  have "tentries t \<noteq> [] \<longrightarrow> leaf_of (tpath t) = leaf_id t"
    using path_to_leaf [OF d(1)] d(3) by (simp add: leaf_of_def)
  moreover have "validate_messages True (dget_none (tprojection t) ''messages'') = Inr ()"
    using d(5) unfolding validate_projection_def
    by (simp add: Let_def bindR_Inr_iff rebrand_Inr_iff require_Inr_iff split: if_split_asm)
  then have "transcript True [] (proj_messages (tprojection t))"
    by (auto simp: validate_messages_def proj_messages_def validate_from_iff bindR_Inr_iff is_iffs
        split: val.split_asm if_split_asm)
  ultimately show ?thesis
    using tree_ok_messages [OF ok] path_to_chain [OF d(1), of "leaf_id t"] d(3) by simp
qed

theorem stored_conversation_is_the_active_path_witness:
  "\<exists>t. stored sample_env (store_with sample_path) ''s1'' = Inr t
     \<and> transcript True [] (proj_messages (tprojection t))"
proof -
  have "case stored sample_env (store_with sample_path) ''s1'' of Inr t \<Rightarrow> True | Inl _ \<Rightarrow> False"
    by code_simp
  then obtain t where "stored sample_env (store_with sample_path) ''s1'' = Inr t" by (rule Inr_case)
  with stored_conversation_is_the_active_path [OF this] show ?thesis by blast
qed

end
