(* ===== verification/ContextChunks.thy ===== *)
theory ContextChunks
  imports ModelBudget "HOL-Library.Product_Lexorder" "HOL-Library.Multiset"
begin

text \<open>
  \<open>pony/context/chunks.py\<close>: the token-budgeted allocation of whole chunks of
  context.  Priorities, caps and token numbers are ints; a rank is an int (a bool
  counts as one) or the call raises.
\<close>

record context_chunk =
  ch_source :: string
  ch_key :: string
  ch_text :: string
  ch_tokens :: int
  ch_priority :: int
  ch_required :: bool
  ch_provenance :: dict

datatype drop_reason = UNKNOWN_SOURCE | CHUNK_EXCEEDS_SOURCE_CAP | SOURCE_CAP | GLOBAL_POOL

fun reason_text :: "drop_reason \<Rightarrow> string" where
  "reason_text UNKNOWN_SOURCE = ''unknown_source''"
| "reason_text CHUNK_EXCEEDS_SOURCE_CAP = ''chunk_exceeds_source_cap''"
| "reason_text SOURCE_CAP = ''source_cap''"
| "reason_text GLOBAL_POOL = ''global_pool''"

record context_allocation =
  al_selected :: "context_chunk list"
  al_dropped :: "(context_chunk \<times> drop_reason) list"
  al_pool_tokens :: int
  al_used_tokens :: int
  al_source_tokens :: "(string \<times> int) list"

definition SOURCE_HARD_CAPS :: "(string \<times> int) list" where
  "SOURCE_HARD_CAPS =
     [(''active_skill'', 10240), (''workspace_state'', 3072), (''project_structure'', 6144),
      (''task_working_set'', 3072), (''recalled_memory'', 6144), (''memory_index'', 1024),
      (''recovery_state'', 2048)]"

definition make_chunk ::
  "accounting \<Rightarrow> string \<Rightarrow> string \<Rightarrow> val \<Rightarrow> int \<Rightarrow> bool \<Rightarrow> dict \<Rightarrow> context_chunk option" where
  "make_chunk acc source key text priority required provenance =
     (let value = strip (str_or_empty text)
      in if value = [] then None
         else let tokens = count_text acc value + 12
              in Some \<lparr>ch_source = source, ch_key = key, ch_text = value, ch_tokens = max 1 tokens,
                   ch_priority = priority, ch_required = required, ch_provenance = provenance\<rparr>)"

subsection \<open>The order of allocation\<close>

type_synonym allocation_key = "bool \<times> int \<times> int \<times> int"

definition chunk_key :: "nat \<Rightarrow> context_chunk \<Rightarrow> allocation_key res" where
  "chunk_key index chunk =
     bindR (case dget_or (ch_provenance chunk) ''rank'' (VInt (int index)) of
              VInt r \<Rightarrow> Inr r
            | VBool b \<Rightarrow> Inr (if b then 1 else 0)
            | _ \<Rightarrow> Inl (TypeError ''rank'')) (\<lambda>rank.
     Inr (\<not> ch_required chunk, ch_priority chunk, rank, int index))"

fun keyed_chunks :: "nat \<Rightarrow> context_chunk list \<Rightarrow> (allocation_key \<times> context_chunk) list res" where
  "keyed_chunks index [] = Inr []"
| "keyed_chunks index (chunk # chunks) =
     bindR (chunk_key index chunk) (\<lambda>key.
     bindR (keyed_chunks (Suc index) chunks) (\<lambda>rest. Inr ((key, chunk) # rest)))"

definition chunk_order :: "context_chunk list \<Rightarrow> context_chunk list res" where
  "chunk_order chunks =
     bindR (keyed_chunks 0 chunks) (\<lambda>keyed. Inr (map snd (sort_key fst keyed)))"

subsection \<open>The allocation loop\<close>

definition used_by :: "(string \<times> int) list \<Rightarrow> string \<Rightarrow> int" where
  "used_by source_used source = (case map_of source_used source of None \<Rightarrow> 0 | Some n \<Rightarrow> n)"

definition reason_to_drop ::
  "(string \<times> int) list \<Rightarrow> int \<Rightarrow> int \<Rightarrow> (string \<times> int) list \<Rightarrow> context_chunk \<Rightarrow> drop_reason option" where
  "reason_to_drop caps pool used source_used chunk =
     (let cap = used_by caps (ch_source chunk) in
      if cap \<le> 0 then Some UNKNOWN_SOURCE
      else if cap < ch_tokens chunk then Some CHUNK_EXCEEDS_SOURCE_CAP
      else if cap < used_by source_used (ch_source chunk) + ch_tokens chunk then Some SOURCE_CAP
      else if pool < used + ch_tokens chunk then Some GLOBAL_POOL
      else None)"

definition required_error :: "context_chunk \<Rightarrow> drop_reason \<Rightarrow> err" where
  "required_error chunk reason =
     RequiredContextTooLarge (''required context chunk '' @ ch_source chunk @ '':'' @ ch_key chunk
       @ '' does not fit ('' @ reason_text reason @ '')'')"

text \<open>The accumulators are the selected and the dropped chunks, latest first.\<close>

fun allocate_loop ::
  "(string \<times> int) list \<Rightarrow> int \<Rightarrow> context_chunk list \<Rightarrow> context_chunk list
   \<Rightarrow> (context_chunk \<times> drop_reason) list \<Rightarrow> int \<Rightarrow> (string \<times> int) list
   \<Rightarrow> (context_chunk list \<times> (context_chunk \<times> drop_reason) list \<times> int \<times> (string \<times> int) list) res" where
  "allocate_loop caps pool [] selected dropped used source_used =
     Inr (rev selected, rev dropped, used, source_used)"
| "allocate_loop caps pool (chunk # chunks) selected dropped used source_used =
     (case reason_to_drop caps pool used source_used chunk of
        Some reason \<Rightarrow>
          if ch_required chunk then Inl (required_error chunk reason)
          else allocate_loop caps pool chunks selected ((chunk, reason) # dropped) used source_used
      | None \<Rightarrow>
          allocate_loop caps pool chunks (chunk # selected) dropped (used + ch_tokens chunk)
            (AList.update (ch_source chunk)
               (used_by source_used (ch_source chunk) + ch_tokens chunk) source_used))"

definition allocation_caps :: "(string \<times> int) list option \<Rightarrow> (string \<times> int) list" where
  "allocation_caps source_hard_caps =
     (case source_hard_caps of
        None \<Rightarrow> SOURCE_HARD_CAPS
      | Some extra \<Rightarrow> foldl (\<lambda>caps (source, cap). AList.update source cap caps) SOURCE_HARD_CAPS extra)"

definition allocate_context_chunks ::
  "context_chunk option list \<Rightarrow> int \<Rightarrow> (string \<times> int) list option \<Rightarrow> context_allocation res" where
  "allocate_context_chunks chunks pool_tokens source_hard_caps =
     (let pool = max 0 pool_tokens; caps = allocation_caps source_hard_caps in
      bindR (chunk_order (map the (filter (\<lambda>c. c \<noteq> None) chunks))) (\<lambda>ordered.
      bindR (allocate_loop caps pool ordered [] [] 0 (map (\<lambda>(source, _). (source, 0)) caps))
        (\<lambda>(selected, dropped, used, source_used).
      Inr \<lparr>al_selected = selected, al_dropped = dropped, al_pool_tokens = pool,
           al_used_tokens = used,
           al_source_tokens = filter (\<lambda>(_, n). n \<noteq> 0) source_used\<rparr>)))"

subsection \<open>What the loop computes\<close>

definition tokens_of :: "context_chunk list \<Rightarrow> int" where
  "tokens_of chunks = sum_list (map ch_tokens chunks)"

definition source_tokens_of :: "string \<Rightarrow> context_chunk list \<Rightarrow> int" where
  "source_tokens_of source chunks = tokens_of (filter (\<lambda>c. ch_source c = source) chunks)"

lemma tokens_of_simps [simp]:
  "tokens_of [] = 0" "tokens_of (c # cs) = ch_tokens c + tokens_of cs"
  "tokens_of (cs @ ds) = tokens_of cs + tokens_of ds" "tokens_of (rev cs) = tokens_of cs"
  by (simp_all add: tokens_of_def flip: rev_map)

lemma source_tokens_of_simps [simp]:
  "source_tokens_of s [] = 0"
  "source_tokens_of s (c # cs) = (if ch_source c = s then ch_tokens c else 0) + source_tokens_of s cs"
  "source_tokens_of s (rev cs) = source_tokens_of s cs"
  by (simp_all add: source_tokens_of_def flip: rev_filter)

lemma used_by_update [simp]:
  "used_by (AList.update k n u) s = (if s = k then n else used_by u s)"
  by (simp add: used_by_def update_conv')

text \<open>
  The state the loop keeps: the used tokens are those of the selected chunks, within the
  pool, and every source stays within its cap; a dropped chunk did not fit at its turn.
\<close>

definition within_caps :: "(string \<times> int) list \<Rightarrow> int \<Rightarrow> context_chunk list \<Rightarrow> bool" where
  "within_caps caps pool selected \<longleftrightarrow>
     tokens_of selected \<le> pool
     \<and> (\<forall>c \<in> set selected. source_tokens_of (ch_source c) selected \<le> used_by caps (ch_source c))"

definition fits :: "(string \<times> int) list \<Rightarrow> int \<Rightarrow> context_chunk list \<Rightarrow> context_chunk \<Rightarrow> bool" where
  "fits caps pool selected c \<longleftrightarrow>
     0 < used_by caps (ch_source c)
     \<and> source_tokens_of (ch_source c) selected + ch_tokens c \<le> used_by caps (ch_source c)
     \<and> tokens_of selected + ch_tokens c \<le> pool"

definition loop_inv ::
  "(string \<times> int) list \<Rightarrow> int \<Rightarrow> context_chunk list \<Rightarrow> (context_chunk \<times> drop_reason) list \<Rightarrow> int
   \<Rightarrow> (string \<times> int) list \<Rightarrow> bool" where
  "loop_inv caps pool selected dropped used source_used \<longleftrightarrow>
     used = tokens_of selected
     \<and> (\<forall>s. used_by source_used s = source_tokens_of s selected)
     \<and> within_caps caps pool selected
     \<and> (\<forall>(c, r) \<in> set dropped. \<not> ch_required c \<and> \<not> fits caps pool selected c)"

lemma source_tokens_mono:
  "\<forall>c \<in> set cs. 0 \<le> ch_tokens c \<Longrightarrow> 0 \<le> source_tokens_of s cs"
  by (induction cs) auto

lemma reason_to_drop_None:
  "reason_to_drop caps pool used su c = None \<longleftrightarrow>
     0 < used_by caps (ch_source c) \<and> ch_tokens c \<le> used_by caps (ch_source c)
     \<and> used_by su (ch_source c) + ch_tokens c \<le> used_by caps (ch_source c)
     \<and> used + ch_tokens c \<le> pool"
  by (auto simp: reason_to_drop_def Let_def split: if_split_asm)

lemma fits_antimono:
  "fits caps pool (d # selected) c \<Longrightarrow> 0 \<le> ch_tokens d \<Longrightarrow> fits caps pool selected c"
  by (auto simp: fits_def split: if_split_asm)

lemma loop_inv_select:
  assumes "loop_inv caps pool sel dr used su" "reason_to_drop caps pool used su c = None" "0 \<le> ch_tokens c"
  shows "loop_inv caps pool (c # sel) dr (used + ch_tokens c)
    (AList.update (ch_source c) (used_by su (ch_source c) + ch_tokens c) su)"
  using assms fits_antimono [of caps pool c sel]
  unfolding loop_inv_def reason_to_drop_None within_caps_def
  by (auto split: prod.splits)

lemma loop_inv_drop:
  assumes "loop_inv caps pool sel dr used su" "reason_to_drop caps pool used su c = Some r"
    "\<not> ch_required c" "0 \<le> source_tokens_of (ch_source c) sel"
  shows "loop_inv caps pool sel ((c, r) # dr) used su"
proof -
  have "\<not> fits caps pool sel c"
  proof
    assume "fits caps pool sel c"
    with assms(1,4) have "reason_to_drop caps pool used su c = None"
      unfolding reason_to_drop_None by (auto simp: loop_inv_def fits_def)
    with assms(2) show False by simp
  qed
  with assms show ?thesis by (auto simp: loop_inv_def)
qed

lemma allocate_loop_keep:
  assumes "allocate_loop caps pool (c # cs) sel dr used su = Inr out"
  obtains "reason_to_drop caps pool used su c = None"
      "allocate_loop caps pool cs (c # sel) dr (used + ch_tokens c)
        (AList.update (ch_source c) (used_by su (ch_source c) + ch_tokens c) su) = Inr out"
  | r where "reason_to_drop caps pool used su c = Some r" "\<not> ch_required c"
      "allocate_loop caps pool cs sel ((c, r) # dr) used su = Inr out"
  using assms by (auto split: option.split_asm if_split_asm)

theorem allocate_loop_inv:
  assumes "allocate_loop caps pool cs sel dr used su = Inr (sel', dr', used', su')"
    and "loop_inv caps pool sel dr used su"
    and "\<forall>c \<in> set (cs @ sel). 0 \<le> ch_tokens c"
  shows "loop_inv caps pool (rev sel') (rev dr') used' su'"
  using assms
proof (induction cs arbitrary: sel dr used su)
  case (Cons c cs)
  from Cons.prems(1) show ?case
  proof (cases rule: allocate_loop_keep)
    case 1
    from Cons.prems(3) have "0 \<le> ch_tokens c" by simp
    from Cons.IH [OF 1(2) loop_inv_select [OF Cons.prems(2) 1(1) this]] Cons.prems(3)
    show ?thesis by auto
  next
    case (2 r)
    have "0 \<le> source_tokens_of (ch_source c) sel"
      using Cons.prems(3) by (intro source_tokens_mono) auto
    from Cons.IH [OF 2(3) loop_inv_drop [OF Cons.prems(2) 2(1,2) this]] Cons.prems(3)
    show ?thesis by auto
  qed
qed auto

lemma allocate_loop_mset:
  assumes "allocate_loop caps pool cs sel dr used su = Inr (sel', dr', used', su')"
  shows "mset sel' + mset (map fst dr') = mset cs + mset sel + mset (map fst dr)"
  using assms
proof (induction cs arbitrary: sel dr used su)
  case (Cons c cs)
  from Cons.prems show ?case by (cases rule: allocate_loop_keep) (auto dest: Cons.IH)
qed auto

lemma allocate_loop_sorted:
  assumes "allocate_loop caps pool cs sel dr used su = Inr (sel', dr', used', su')"
    and "sorted_wrt R (rev sel @ cs)"
  shows "sorted_wrt R sel'"
  using assms
proof (induction cs arbitrary: sel dr used su)
  case (Cons c cs)
  from Cons.prems(1) show ?case
    using Cons.prems(2) by (cases rule: allocate_loop_keep) (auto simp: sorted_wrt_append intro: Cons.IH)
qed auto

subsection \<open>The order\<close>

definition chunk_rank :: "context_chunk \<Rightarrow> bool \<times> int" where
  "chunk_rank c = (\<not> ch_required c, ch_priority c)"

definition rank_key :: "allocation_key \<Rightarrow> bool \<times> int" where
  "rank_key k = (fst k, fst (snd k))"

lemma chunk_key_rank: "chunk_key n c = Inr k \<Longrightarrow> rank_key k = chunk_rank c"
  by (auto simp: chunk_key_def bindR_Inr_iff rank_key_def chunk_rank_def)

lemma keyed_chunks_Inr:
  "keyed_chunks n cs = Inr kcs \<Longrightarrow>
     map snd kcs = cs \<and> map (rank_key \<circ> fst) kcs = map chunk_rank cs"
proof (induction cs arbitrary: n kcs)
  case (Cons c cs)
  then obtain k rest where k: "chunk_key n c = Inr k" "keyed_chunks (Suc n) cs = Inr rest"
    "kcs = (k, c) # rest" by (auto simp: bindR_Inr_iff)
  from Cons.IH [OF k(2)] chunk_key_rank [OF k(1)] k(3) show ?case by simp
qed simp

lemma rank_key_mono: "k \<le> l \<Longrightarrow> rank_key k \<le> rank_key l"
  by (auto simp: rank_key_def less_eq_prod_def)

lemma chunk_order_Inr:
  assumes "chunk_order cs = Inr ordered"
  shows "mset ordered = mset cs" "sorted_wrt (\<lambda>c d. chunk_rank c \<le> chunk_rank d) ordered"
proof -
  from assms obtain kcs where k: "keyed_chunks 0 cs = Inr kcs" "ordered = map snd (sort_key fst kcs)"
    by (auto simp: chunk_order_def bindR_Inr_iff)
  note keys = keyed_chunks_Inr [OF k(1)]
  have "mset ordered = image_mset snd (mset kcs)" using k(2) by simp
  also have "\<dots> = mset cs" using keys by (metis mset_map)
  finally show "mset ordered = mset cs" .
  have "sorted_wrt (\<lambda>p q. fst p \<le> fst q) (sort_key fst kcs)"
    using sorted_sort_key [of fst kcs] by (simp add: sorted_map)
  moreover have "rank_key (fst p) = chunk_rank (snd p)" if "p \<in> set kcs" for p
  proof -
    from that obtain i where "i < length kcs" "p = kcs ! i" by (auto simp: in_set_conv_nth)
    with keys show ?thesis by (metis comp_apply length_map nth_map)
  qed
  then have "chunk_rank (snd p) \<le> chunk_rank (snd q)"
    if "p \<in> set kcs" "q \<in> set kcs" "fst p \<le> fst q" for p q
    using rank_key_mono that by metis
  ultimately have "sorted_wrt (\<lambda>p q. chunk_rank (snd p) \<le> chunk_rank (snd q)) (sort_key fst kcs)"
    by (elim sorted_wrt_mono_rel [rotated]) simp
  then show "sorted_wrt (\<lambda>c d. chunk_rank c \<le> chunk_rank d) ordered"
    by (simp add: k(2) sorted_wrt_map)
qed

end
