(* ===== verification/InputQueue.thy ===== *)
theory InputQueue
  imports PyText "HOL-Library.Sublist"
begin

text \<open>
  \<open>pony/cli/input_queue.py\<close>: the queue between the terminal and the worker thread
  that runs one input at a time.  The methods are functions on the fields of
  \<open>InputQueue\<close> (each holds the lock throughout, \<open>submit\<close>, \<open>confirm\<close> and \<open>close\<close>
  in two parts); the threads are a step relation that interleaves them.
\<close>

definition MAX_PENDING_INPUTS :: nat where
  "MAX_PENDING_INPUTS = 5"

datatype submit_status = CLOSED | FULL | QUEUED | STARTED

record submit_result =
  sr_status :: submit_status
  sr_pending :: nat

record ('r, 'e) input_queue =
  iq_pending :: "string list"
  iq_busy :: bool
  iq_closing :: bool
  iq_result :: "'r option"
  iq_failure :: "'e option"
  iq_terminal :: bool
  iq_confirmation :: "string option"

definition new_queue :: "('r, 'e) input_queue" where
  "new_queue = \<lparr>iq_pending = [], iq_busy = False, iq_closing = False, iq_result = None,
     iq_failure = None, iq_terminal = False, iq_confirmation = None\<rparr>"

subsection \<open>The methods\<close>

text \<open>The locked part of \<open>submit\<close>; \<open>STARTED\<close> tells the caller to start the worker.\<close>

definition submit :: "string \<Rightarrow> ('r, 'e) input_queue \<Rightarrow> submit_result \<times> ('r, 'e) input_queue" where
  "submit text q =
     (if iq_closing q \<or> iq_terminal q
      then (\<lparr>sr_status = CLOSED, sr_pending = length (iq_pending q)\<rparr>, q)
      else if iq_busy q then
        (if length (iq_pending q) = MAX_PENDING_INPUTS
         then (\<lparr>sr_status = FULL, sr_pending = length (iq_pending q)\<rparr>, q)
         else (\<lparr>sr_status = QUEUED, sr_pending = Suc (length (iq_pending q))\<rparr>,
               q\<lparr>iq_pending := iq_pending q @ [text]\<rparr>))
      else (\<lparr>sr_status = STARTED, sr_pending = 0\<rparr>, q\<lparr>iq_busy := True\<rparr>))"

text \<open>The handler of an exception from \<open>worker.start()\<close>.\<close>

definition start_failed :: "('r, 'e) input_queue \<Rightarrow> ('r, 'e) input_queue" where
  "start_failed q = q\<lparr>iq_busy := False\<rparr>"

definition clear :: "('r, 'e) input_queue \<Rightarrow> nat \<times> ('r, 'e) input_queue" where
  "clear q = (length (iq_pending q), q\<lparr>iq_pending := []\<rparr>)"

definition casefold :: "string \<Rightarrow> string" where
  "casefold s = concat (map (\<lambda>c.
     if is_upper c \<or> 192 \<le> py_ord c \<and> py_ord c \<le> 222 \<and> py_ord c \<noteq> 215
     then [char_of (py_ord c + 32)]
     else if py_ord c = 223 then ''ss'' else [c]) s)"

definition accepts :: "string \<Rightarrow> bool" where
  "accepts answer \<longleftrightarrow> casefold (strip answer) \<in> {''y'', ''yes''}"

text \<open>The result and, when there was a request, the answer its waiting thread gets.\<close>

definition answer_confirmation ::
  "string \<Rightarrow> ('r, 'e) input_queue \<Rightarrow> bool \<times> bool option \<times> ('r, 'e) input_queue" where
  "answer_confirmation answer q =
     (case iq_confirmation q of
        None \<Rightarrow> (False, None, q)
      | Some _ \<Rightarrow> (True, Some (accepts answer), q\<lparr>iq_confirmation := None\<rparr>))"

text \<open>The locked part of \<open>confirm\<close>; \<open>False\<close> denies at once, otherwise the caller waits.\<close>

definition confirm :: "string \<Rightarrow> ('r, 'e) input_queue \<Rightarrow> bool \<times> ('r, 'e) input_queue" where
  "confirm message q =
     (if iq_closing q \<or> iq_confirmation q \<noteq> None then (False, q)
      else (True, q\<lparr>iq_confirmation := Some message\<rparr>))"

definition terminal_outcome :: "('r, 'e) input_queue \<Rightarrow> bool \<times> 'r option \<times> 'e option" where
  "terminal_outcome q = (iq_terminal q, iq_result q, iq_failure q)"

text \<open>\<open>close\<close> up to its wait; it returns when the worker is no longer busy.\<close>

definition close :: "('r, 'e) input_queue \<Rightarrow> ('r, 'e) input_queue" where
  "close q = q\<lparr>iq_closing := True, iq_pending := [], iq_confirmation := None\<rparr>"

definition finish ::
  "'r option \<Rightarrow> 'e option \<Rightarrow> ('r, 'e) input_queue \<Rightarrow> ('r, 'e) input_queue" where
  "finish result failure q =
     q\<lparr>iq_result := result, iq_failure := failure, iq_terminal := True, iq_pending := [],
       iq_busy := False\<rparr>"

text \<open>
  One round of \<open>_run\<close>: what calling \<open>on_start\<close> and \<open>process\<close> came to, and the input the
  worker takes next, if it goes on.
\<close>

datatype ('r, 'e) outcome = Nothing | Returned 'r | Raised 'e

definition run_round ::
  "('r, 'e) outcome \<Rightarrow> ('r, 'e) input_queue \<Rightarrow> string option \<times> ('r, 'e) input_queue" where
  "run_round out q =
     (case out of
        Raised e \<Rightarrow> (None, finish None (Some e) q)
      | Returned r \<Rightarrow> (None, finish (Some r) None q)
      | Nothing \<Rightarrow>
          (case iq_pending q of
             t # ts \<Rightarrow> if \<not> iq_closing q then (Some t, q\<lparr>iq_pending := ts\<rparr>)
                       else (None, q\<lparr>iq_busy := False\<rparr>)
           | [] \<Rightarrow> (None, q\<lparr>iq_busy := False\<rparr>)))"

subsection \<open>The threads\<close>

datatype worker = NoWorker | Starting string | Running string | Asking string string

text \<open>
  The system: the queue, the worker thread, and what an observer has seen, that is the
  inputs accepted, the inputs handed to \<open>process\<close>, the answers confirmations got, and
  whether accepted inputs were thrown away.
\<close>

record ('r, 'e) system =
  queue :: "('r, 'e) input_queue"
  worker :: worker
  accepted :: "string list"
  begun :: "string list"
  answers :: "(string \<times> bool) list"
  thrown_away :: bool

definition new_system :: "('r, 'e) system" where
  "new_system = \<lparr>queue = new_queue, worker = NoWorker, accepted = [], begun = [], answers = [],
     thrown_away = False\<rparr>"

definition submitted :: "string \<Rightarrow> ('r, 'e) system \<Rightarrow> ('r, 'e) system" where
  "submitted text s =
     (let (r, q) = submit text (queue s) in
      case sr_status r of
        STARTED \<Rightarrow> s\<lparr>queue := q, worker := Starting text, accepted := accepted s @ [text]\<rparr>
      | QUEUED \<Rightarrow> s\<lparr>queue := q, accepted := accepted s @ [text]\<rparr>
      | _ \<Rightarrow> s\<lparr>queue := q\<rparr>)"

text \<open>The thread waiting in \<open>confirm\<close> wakes up with the answer.\<close>

definition answered :: "bool \<Rightarrow> ('r, 'e) system \<Rightarrow> ('r, 'e) system" where
  "answered b s =
     (case worker s of
        Asking text message \<Rightarrow> s\<lparr>worker := Running text, answers := answers s @ [(message, b)]\<rparr>
      | _ \<Rightarrow> s)"

definition next_round :: "('r, 'e) outcome \<Rightarrow> ('r, 'e) system \<Rightarrow> ('r, 'e) system" where
  "next_round out s =
     (case run_round out (queue s) of
        (Some text, q) \<Rightarrow> s\<lparr>queue := q, worker := Running text, begun := begun s @ [text]\<rparr>
      | (None, q) \<Rightarrow> s\<lparr>queue := q, worker := NoWorker,
                       thrown_away := (thrown_away s \<or> iq_pending (queue s) \<noteq> [])\<rparr>)"

inductive queue_step :: "('r, 'e) system \<Rightarrow> ('r, 'e) system \<Rightarrow> bool" where
  q_submit: "queue_step s (submitted text s)"
| q_start: "worker s = Starting text \<Longrightarrow>
     queue_step s (s\<lparr>worker := Running text, begun := begun s @ [text]\<rparr>)"
| q_start_failed: "worker s = Starting text \<Longrightarrow>
     queue_step s (s\<lparr>queue := start_failed (queue s), worker := NoWorker, thrown_away := True\<rparr>)"
| q_round: "worker s = Running text \<Longrightarrow> queue_step s (next_round out s)"
| q_clear: "queue_step s (s\<lparr>queue := snd (clear (queue s)),
     thrown_away := (thrown_away s \<or> iq_pending (queue s) \<noteq> [])\<rparr>)"
| q_confirm: "worker s = Running text \<Longrightarrow> confirm message (queue s) = (True, q) \<Longrightarrow>
     queue_step s (s\<lparr>queue := q, worker := Asking text message\<rparr>)"
| q_confirm_denied: "worker s = Running text \<Longrightarrow> confirm message (queue s) = (False, q) \<Longrightarrow>
     queue_step s (s\<lparr>queue := q, answers := answers s @ [(message, False)]\<rparr>)"
| q_answer: "answer_confirmation answer (queue s) = (ok, Some b, q) \<Longrightarrow>
     queue_step s (answered b (s\<lparr>queue := q\<rparr>))"
| q_close: "queue_step s (answered False (s\<lparr>queue := close (queue s),
     thrown_away := (thrown_away s \<or> iq_pending (queue s) \<noteq> [])\<rparr>))"

inductive_cases queue_stepE: "queue_step s s'"

inductive queue_reachable :: "('r, 'e) system \<Rightarrow> bool" where
  q_init: "queue_reachable new_system"
| q_step: "queue_reachable s \<Longrightarrow> queue_step s s' \<Longrightarrow> queue_reachable s'"

subsection \<open>What holds of every reachable system\<close>

fun waiting :: "worker \<Rightarrow> string list" where
  "waiting (Starting text) = [text]"
| "waiting _ = []"

definition queue_inv :: "('r, 'e) system \<Rightarrow> bool" where
  "queue_inv s \<longleftrightarrow>
     (let q = queue s in
      (iq_busy q \<longleftrightarrow> worker s \<noteq> NoWorker)
      \<and> length (iq_pending q) \<le> MAX_PENDING_INPUTS
      \<and> (iq_closing q \<longrightarrow> iq_pending q = [] \<and> iq_confirmation q = None)
      \<and> (iq_terminal q \<longrightarrow> \<not> iq_busy q \<and> iq_pending q = [])
      \<and> iq_confirmation q = (case worker s of Asking t m \<Rightarrow> Some m | _ \<Rightarrow> None)
      \<and> (\<not> thrown_away s \<longrightarrow> accepted s = begun s @ waiting (worker s) @ iq_pending q)
      \<and> (\<not> thrown_away s \<and> iq_pending q \<noteq> [] \<longrightarrow> iq_busy q))"

lemmas queue_defs = submit_def start_failed_def clear_def answer_confirmation_def confirm_def
  close_def finish_def run_round_def submitted_def answered_def next_round_def

lemma queue_inv_new: "queue_inv new_system"
  by (simp add: queue_inv_def new_system_def new_queue_def)

lemma queue_inv_submit: "queue_inv s \<Longrightarrow> queue_inv (submitted text s)"
  by (auto simp: queue_inv_def Let_def submitted_def submit_def split: worker.split)

lemma queue_inv_round: "queue_inv s \<Longrightarrow> worker s = Running text \<Longrightarrow> queue_inv (next_round out s)"
  by (cases out; cases "iq_pending (queue s)")
    (auto simp: queue_inv_def Let_def next_round_def run_round_def finish_def)


lemma queue_inv_step: "queue_step s s' \<Longrightarrow> queue_inv s \<Longrightarrow> queue_inv s'"
proof (induction rule: queue_step.induct)
  case (q_submit s t)
  then show ?case by (rule queue_inv_submit)
next
  case (q_round s t out)
  then show ?case using queue_inv_round by blast
next
  case (q_answer answer s ok b q)
  then show ?case
    by (cases "worker s") (auto simp: queue_inv_def Let_def answer_confirmation_def answered_def
        split: option.split_asm)
next
  case (q_close s)
  then show ?case
    by (cases "worker s") (auto simp: queue_inv_def Let_def close_def answered_def)
qed (auto simp: queue_inv_def Let_def start_failed_def clear_def confirm_def split: if_split_asm)

lemma queue_reachable_inv: "queue_reachable s \<Longrightarrow> queue_inv s"
  by (induction rule: queue_reachable.induct) (auto intro: queue_inv_new queue_inv_step)

end
