(* ===== verification/ContextProperties.thy ===== *)
theory ContextProperties
  imports CompactionEffects OperationProperties ContextChunks InputQueue
begin

text \<open>
  Properties of what the model is shown: compaction of a session, the context view,
  escaping, the allocation of context chunks; and of the input queue of the terminal.
\<close>

subsection \<open>Compaction\<close>


definition long_message :: val where
  "long_message = VDict [(''role'', VStr ''user''), (''content'', VStr (replicate 100 (CHR ''a''))),
     (''_pony_meta'', VDict [(''created_at'', VStr ''t'')])]"

definition sample_history :: "entry list" where
  "sample_history =
     [sample_entry 1 ''message'' [(''message'', long_message)] [],
      sample_entry 2 ''message'' [(''message'', sample_message)] (fst (sample_fresh 1))]"

definition context_budget :: model_budget where
  "context_budget = \<lparr>capabilities = \<lparr>context_window = 128000, max_output_tokens = 16384,
      token_counter_mode = ''provider_usage_or_estimate'', cap_source = ''default''\<rparr>,
     output_tokens = 16384, reserve_tokens = 16384, input_limit = 111616,
     system_tools_hard_cap = 24576, source_pool_tokens = 16384, keep_recent_tokens = 20000\<rparr>"

definition sample_reply :: response where
  "sample_reply = \<lparr>resp_stop = END_TURN, resp_content =
     VList [VDict [(''type'', VStr ''text''), (''text'', VStr ''so far'')]], resp_usage = [],
     resp_provider_state = []\<rparr>"

definition sample_agent :: agent where
  "sample_agent = \<lparr>ag_env = sample_env, ag_session = ''s1'', ag_redact_text = (\<lambda>t. t),
     ag_sanitize = Pair, ag_budget = context_budget,
     ag_complete = (\<lambda>n call s. (Reply sample_reply, s)), ag_float_text = (\<lambda>_. ''0.5'')\<rparr>"

definition local_accounting :: accounting where
  "local_accounting = \<lparr>provider_counter = None, usage_anchor = None, session_entry_tokens = []\<rparr>"

lemma sample_agent_simps [simp]:
  "ag_env sample_agent = sample_env" "ag_session sample_agent = ''s1''"
  by (simp_all add: sample_agent_def)

lemma sample_agent_fair: "fair_world sample_agent"
  by (auto simp: fair_world_def sample_agent_def intro: reachable.start)

lemma sample_env_keeps_ids: "keeps_ids sample_env"
  by (simp add: keeps_ids_def)

lemma local_accounting_nonneg: "cache_nonneg local_accounting"
  by (simp add: cache_nonneg_def local_accounting_def)




text \<open>
  A clipped summary is a prefix of the stripped text, and with the local estimate it
  stays within its token cap.
\<close>

theorem clipped_summaries_fit_their_cap:
  assumes "provider_counter acc = None" "1 \<le> cap"
  shows "count_text acc (clip_tokens t acc cap) \<le> cap \<and> prefix (clip_tokens t acc cap) (strip t)"
  by (intro conjI clip_tokens_fits [OF assms] clip_tokens_prefix)

theorem clipped_summaries_fit_their_cap_witness:
  "clip_tokens ''abcdefghijkl'' local_accounting 2 = ''abcdefgh''
   \<and> count_text local_accounting (clip_tokens ''abcdefghijkl'' local_accounting 2) \<le> 2"
proof -
  have "clip_tokens ''abcdefghijkl'' local_accounting 2 = ''abcdefgh''" by code_simp
  moreover have "provider_counter local_accounting = None" by (simp add: local_accounting_def)
  from clipped_summaries_fit_their_cap [OF this, of 2 "''abcdefghijkl''"]
  have "count_text local_accounting (clip_tokens ''abcdefghijkl'' local_accounting 2) \<le> 2" by simp
  ultimately show ?thesis by (intro conjI)
qed

subsection \<open>The context view\<close>

text \<open>
  C36: As long as a session has no compaction and no branch summary on its path, the model
  sees exactly the stored conversation.
\<close>

theorem uncompacted_view_is_the_conversation:
  assumes "tree_ok SESSION_FORMAT_VERSION t" "\<not> has_context_control t"
  shows "\<exists>v. context_view_from_tree t = Inr v \<and> cv_messages v = proj_messages (tprojection t)
    \<and> cv_entries v = filter carries (tpath t)"
proof -
  from validated_messages [OF tree_okD(5) [OF assms(1)]] obtain ms where
    ms: "dget (tprojection t) ''messages'' = Some ms" by blast
  from view_without_control [OF assms(2) [unfolded has_context_control_def], of "as_list ms"]
  show ?thesis
    unfolding context_view_from_tree_def ms option.case tree_ok_messages [OF assms(1)] by blast
qed

theorem uncompacted_view_is_the_conversation_witness:
  "\<exists>t v. stored sample_env (store_with sample_history) ''s1'' = Inr t
     \<and> context_view_from_tree t = Inr v \<and> cv_messages v = proj_messages (tprojection t)"
proof -
  have "case stored sample_env (store_with sample_history) ''s1'' of
      Inr t \<Rightarrow> \<not> has_context_control t | Inl _ \<Rightarrow> False" by code_simp
  then obtain t where t: "stored sample_env (store_with sample_history) ''s1'' = Inr t"
    "\<not> has_context_control t" by (rule Inr_case)
  from stored_InrD [OF t(1)] have "tree_ok SESSION_FORMAT_VERSION t" by blast
  from uncompacted_view_is_the_conversation [OF this t(2)] t(1) show ?thesis
    by (elim exE conjE) (intro exI conjI; assumption)
qed

text \<open>
  C22: Escaped text contains neither \<open><pony:\<close> nor \<open></pony:\<close>, so no summary and no tool
  output can open or close a structural section.
\<close>

theorem escaped_text_forges_no_tag:
  "\<not> sublist ''<pony:'' (escape_pony_tags s) \<and> \<not> sublist ''</pony:'' (escape_pony_tags s)"
  by (intro conjI escape_pony_tags_no_open escape_pony_tags_no_close)

subsection \<open>Context chunks\<close>

text \<open>
  C21: The allocation partitions the chunks, keeps required ones, stays within the pool and
  every source's cap, selects in the order of requirement and priority, and drops no
  chunk that would still fit beside what was selected.
\<close>

theorem allocation_fits_and_is_maximal:
  assumes "allocate_context_chunks chunks pool caps = Inr a"
    and "\<forall>c. Some c \<in> set chunks \<longrightarrow> 0 \<le> ch_tokens c"
  shows "al_used_tokens a = tokens_of (al_selected a)
    \<and> within_caps (allocation_caps caps) (max 0 pool) (al_selected a)
    \<and> mset (al_selected a) + mset (map fst (al_dropped a)) = mset (map the (filter (\<lambda>c. c \<noteq> None) chunks))
    \<and> (\<forall>(c, r) \<in> set (al_dropped a).
         \<not> ch_required c \<and> \<not> fits (allocation_caps caps) (max 0 pool) (al_selected a) c)
    \<and> sorted_wrt (\<lambda>c d. chunk_rank c \<le> chunk_rank d) (al_selected a)"
proof -
  let ?caps = "allocation_caps caps" and ?cs = "map the (filter (\<lambda>c. c \<noteq> None) chunks)"
  let ?zero = "map (\<lambda>(source, _). (source, 0)) ?caps"
  from assms(1) obtain ordered used su where o: "chunk_order ?cs = Inr ordered"
    and run: "allocate_loop ?caps (max 0 pool) ordered [] [] 0 ?zero
      = Inr (al_selected a, al_dropped a, used, su)" and used: "al_used_tokens a = used"
    by (auto simp: allocate_context_chunks_def Let_def bindR_Inr_iff)
  note order = chunk_order_Inr [OF o]
  have "used_by ?zero s = 0" for s
    by (auto simp: used_by_def dest: map_of_SomeD split: option.split)
  then have inv0: "loop_inv ?caps (max 0 pool) [] [] 0 ?zero"
    by (simp add: loop_inv_def within_caps_def)
  have "set ordered = set ?cs" using order(1) by (metis set_mset_mset)
  with assms(2) have "\<forall>c \<in> set (ordered @ []). 0 \<le> ch_tokens c" by auto
  from allocate_loop_inv [OF run inv0 this]
  have inv: "loop_inv ?caps (max 0 pool) (rev (al_selected a)) (rev (al_dropped a)) used su" .
  have rev: "source_tokens_of x (rev cs) = source_tokens_of x cs" for x cs by simp
  from allocate_loop_sorted [OF run] order(2)
  have "sorted_wrt (\<lambda>c d. chunk_rank c \<le> chunk_rank d) (al_selected a)" by simp
  with inv allocate_loop_mset [OF run] order(1) used show ?thesis
    by (simp add: loop_inv_def within_caps_def fits_def)
qed

definition sample_chunk :: "string \<Rightarrow> string \<Rightarrow> int \<Rightarrow> int \<Rightarrow> bool \<Rightarrow> context_chunk" where
  "sample_chunk source key tokens priority required =
     \<lparr>ch_source = source, ch_key = key, ch_text = ''t'', ch_tokens = tokens, ch_priority = priority,
      ch_required = required, ch_provenance = []\<rparr>"

definition sample_chunks :: "context_chunk option list" where
  "sample_chunks = [Some (sample_chunk ''memory_index'' ''b'' 1000 1 False), None,
     Some (sample_chunk ''memory_index'' ''a'' 900 2 True), Some (sample_chunk ''active_skill'' ''c'' 50 0 False)]"

theorem allocation_fits_and_is_maximal_witness:
  "\<exists>a. allocate_context_chunks sample_chunks 1000 None = Inr a
     \<and> al_used_tokens a = tokens_of (al_selected a)
     \<and> within_caps (allocation_caps None) 1000 (al_selected a)"
proof -
  have "case allocate_context_chunks sample_chunks 1000 None of Inr a \<Rightarrow> True | Inl _ \<Rightarrow> False"
    by code_simp
  then obtain a where a: "allocate_context_chunks sample_chunks 1000 None = Inr a"
    by (auto split: sum.split_asm)
  have "\<forall>c. Some c \<in> set sample_chunks \<longrightarrow> 0 \<le> ch_tokens c"
    by (auto simp: sample_chunks_def sample_chunk_def)
  from allocation_fits_and_is_maximal [OF a this] a show ?thesis by simp
qed

subsection \<open>The input queue\<close>


lemma two_submissions: "queue_reachable (submitted ''b'' (submitted ''a'' new_system))"
  by (intro queue_reachable.q_step [OF _ queue_step.q_submit] queue_reachable.q_init)


text \<open>
  C37: Once the queue is closing, nobody waits for a confirmation, and the worker ends with its
  current round whatever the process does, so that \<open>close\<close> returns.
\<close>

theorem closing_stops_the_worker:
  assumes "queue_reachable s" "iq_closing (queue s)"
  shows "(\<forall>t m. worker s \<noteq> Asking t m)
    \<and> (\<forall>out. worker (next_round out s) = NoWorker \<and> \<not> iq_busy (queue (next_round out s)))"
  using queue_reachable_inv [OF assms(1)] assms(2)
  by (auto simp: queue_inv_def Let_def next_round_def run_round_def finish_def split: outcome.split)

definition closing_system :: "(nat, nat) system" where
  "closing_system = answered False (new_system\<lparr>queue := close (queue new_system),
     thrown_away := (thrown_away (new_system :: (nat, nat) system) \<or> iq_pending (queue (new_system :: (nat, nat) system)) \<noteq> [])\<rparr>)"

theorem closing_stops_the_worker_witness:
  "queue_reachable closing_system \<and> worker (next_round Nothing closing_system) = NoWorker"
proof -
  have r: "queue_reachable closing_system"
    unfolding closing_system_def
    by (rule queue_reachable.q_step [OF queue_reachable.q_init queue_step.q_close])
  have "iq_closing (queue closing_system)"
    by (simp add: closing_system_def answered_def new_system_def close_def)
  from closing_stops_the_worker [OF r this] r show ?thesis by blast
qed

text \<open>
  A thread that cannot be started leaves the inputs queued behind it waiting: no worker
  runs them, and the next input submitted overtakes them.
\<close>

lemma start_failure_strands_queued_inputs:
  "\<exists>s :: (nat, nat) system. queue_reachable s \<and> worker s = NoWorker \<and> iq_pending (queue s) = [''b'']
     \<and> worker (submitted ''c'' s) = Starting ''c'' \<and> iq_pending (queue (submitted ''c'' s)) = [''b'']"
proof -
  let ?s = "submitted ''b'' (submitted ''a'' (new_system :: (nat, nat) system))"
  let ?f = "?s\<lparr>queue := start_failed (queue ?s), worker := NoWorker, thrown_away := True\<rparr>"
  have "worker ?s = Starting ''a''" by (simp add: queue_defs new_system_def new_queue_def)
  from queue_reachable.q_step [OF two_submissions queue_step.q_start_failed [OF this]]
  have "queue_reachable ?f" .
  then show ?thesis
    by (rule_tac exI [of _ ?f]) (simp add: queue_defs new_system_def new_queue_def MAX_PENDING_INPUTS_def)
qed

end
