(* ===== verification/AgentProperties.thy ===== *)
theory AgentProperties
  imports AgentEnds ContextProperties
begin

text \<open>
  What a turn of the agent guarantees, whatever the model, the tools and the file system
  do: its bounds, its end, and what it may do to the stored session.
\<close>

subsection \<open>A concrete agent\<close>

text \<open>Services that work: the model calls a tool once and then answers.\<close>

definition sample_binding :: val where
  "sample_binding = VNone"

definition call_reply :: response where
  "call_reply = \<lparr>resp_stop = TOOL_USE,
     resp_content = VList [VDict [(''type'', VStr ''tool_use''), (''id'', VStr ''t1''),
       (''name'', VStr ''read''), (''input'', VDict [])]],
     resp_usage = [], resp_provider_state = []\<rparr>"

definition final_reply :: response where
  "final_reply = \<lparr>resp_stop = END_TURN,
     resp_content = VList [VDict [(''type'', VStr ''text''), (''text'', VStr ''ok'')]],
     resp_usage = [], resp_provider_state = []\<rparr>"

definition sample_result :: tool_result where
  "sample_result = \<lparr>tl_content = ''r'',
     tl_metadata = [(''tool_status'', VStr ''ok''), (''effect_class'', VStr ''read_only'')]\<rparr>"

definition sample_services :: "nat services" where
  "sample_services =
     \<lparr>sv_env = sample_env, sv_session_id = ''s1'', sv_client_binding = sample_binding,
      sv_canon = (\<lambda>p. p), sv_max_steps = 2,
      sv_stamps = (\<lambda>k n. (replicate 14 (CHR ''0'') @ [digit (k mod 16), digit (n mod 16)], ''now'')),
      sv_now = (\<lambda>_. ''now''), sv_hex = (\<lambda>_. ''0123456789ab''), sv_fault = (\<lambda>_. None),
      sv_redact_text = (\<lambda>s. s), sv_terminal_text = (\<lambda>s. s), sv_contains_secret = (\<lambda>_. False),
      sv_request_id = (\<lambda>_. []), sv_tool_effect = (\<lambda>_. Some ''read_only''), sv_shell_policy = (\<lambda>_ _. []),
      sv_project_view = (\<lambda>_. []), sv_inline_tokens = 100, sv_preview_result = (\<lambda>s _ _. s),
      sv_visible_tools = (\<lambda>_. 1), sv_stream = False, sv_compaction_enabled = True,
      sv_budget = context_budget, sv_skip_turns = 2, sv_compactor = (\<lambda>_. sample_agent),
      sv_reports = (\<lambda>_. []), sv_start_run = (\<lambda>_. ret ()), sv_trace = (\<lambda>_ _. ret ()),
      sv_write_task = (\<lambda>_. ret ()), sv_write_result = (\<lambda>_ _. ret ()), sv_write_report = (\<lambda>_ _. ret ()),
      sv_transport = (\<lambda>_. VNone), sv_provider_metadata = (\<lambda>_. VNone), sv_resolution = ret False,
      sv_preflight = (\<lambda>_. ret []), sv_inject = (\<lambda>_. ret (VNone, [])),
      sv_build = (\<lambda>_ _ _ _. ret (\<lparr>rq_system = VNone, rq_tools = VNone, rq_messages = VNone,
         rq_breakpoints = VNone\<rparr>, [])),
      sv_complete = (\<lambda>_ a. (\<lparr>mc_outcome = Inr (if ap_world a = 0 then call_reply else final_reply),
         mc_streaming = []\<rparr>, a\<lparr>ap_world := Suc (ap_world a)\<rparr>)),
      sv_execute = (\<lambda>_ _. ret sample_result), sv_checkpoint = (\<lambda>_ _ _ _. ret ''ckpt''),
      sv_report = (\<lambda>_ _ _. ret [])\<rparr>"

definition sample_loop :: "nat loop" where
  "sample_loop =
     \<lparr>lp_agent = \<lparr>ap_store = store_with [],
        ap_session = [(''messages'', VList []), (''permission_mode'', VStr ''auto''),
          (''memory'', VDict [(''file_summaries'', VDict [])])],
        ap_memory = \<lparr>wm_task_summary = [], wm_recent_files = []\<rparr>, ap_resume = [], ap_turn = None,
        ap_skill = None, ap_request_metadata = [], ap_tool_metadata = [], ap_anchor = None,
        ap_accounting = local_accounting, ap_clock = 0, ap_world = 0\<rparr>,
      lp_task = create_task [] ''t'' [] ''r'', lp_usage = empty_usage_totals,
      lp_exec = empty_model_execution, lp_guard = \<lparr>guard_leaf = [], guard_binding = VNone\<rparr>,
      lp_blocked = None, lp_errors = []\<rparr>"

lemma sample_services_fair: "fair_services sample_services"
  by (simp add: fair_services_def sample_services_def store_moves_by_def reachable.start
      fair_world_def compaction_agent_def sample_agent_def)

subsection \<open>Bounds and ends\<close>



text \<open>
  C6: A turn that got past its first commit leaves a task that is completed, stopped or
  failed, never running.  It returns a text only if the task records that text as its
  final answer with the reason of an answer or of a limit; otherwise it raises.
\<close>

theorem turn_ends_settled:
  assumes "run_turn sv m l = (r, l')" "fst (open_turn sv (sv_redact_text sv m) l) = Inr ()"
  shows "settled (lp_task l')
    \<and> (\<forall>final. r = Inr final \<longrightarrow> final_answer (lp_task l') = final \<and> stop_reason (lp_task l') \<in> answering_reasons)"
proof -
  obtain l1 where "open_turn sv (sv_redact_text sv m) l = (Inr (), l1)"
    using assms(2) by (metis prod.collapse)
  with assms(1) have "drive_turn sv (sv_redact_text sv m) l1 = (r, l')"
    by (simp add: run_turn_def bindA_def)
  then show ?thesis by (rule drive_turn_ends)
qed

theorem turn_ends_settled_witness:
  "\<exists>r l'. run_turn sample_services ''hi'' sample_loop = (r, l') \<and> settled (lp_task l')"
proof -
  obtain r l' where r: "run_turn sample_services ''hi'' sample_loop = (r, l')" by fastforce
  have "fst (open_turn sample_services (sv_redact_text sample_services ''hi'') sample_loop) = Inr ()"
    by code_simp
  from turn_ends_settled [OF r this] r show ?thesis by blast
qed

subsection \<open>What a turn does to the session\<close>



definition moved :: "'w services \<Rightarrow> 'w loop \<Rightarrow> session_tree \<Rightarrow> bool" where
  "moved sv l t \<longleftrightarrow> leaf_id t \<noteq> guard_leaf (lp_guard l) \<or> \<not> py_eq (binding_of t) (sv_client_binding sv)"

definition refused :: "store \<Rightarrow> exn \<Rightarrow> 'w loop \<Rightarrow> 'w loop" where
  "refused s e l = l\<lparr>lp_agent := (lp_agent l)\<lparr>ap_store := s\<rparr>, lp_blocked := Some e\<rparr>"

lemma validate_moved:
  assumes "load_tree (sv_env sv) (sv_session_id sv) (ap_store (lp_agent l)) = (Inr t, s)" "moved sv l t"
  shows "\<exists>e. validate_model_session_guard sv l = (Inl e, refused s e l)"
  using assms
  by (auto simp: validate_model_session_guard_def capture_model_session_guard_def stored_tree_def
      on_store_def on_agent_def block_and_raise_def block_with_def same_guard_def moved_def refused_def
      bindA_def)

text \<open>
  C4: The model is asked, and its action is carried out, only in the session the request was
  built for.  When the stored leaf has moved or the stored binding is not the client's, the
  attempt raises, blocks further writes, and nothing else happens: no request before the
  model is asked, no tool and no message after it has answered.
\<close>

theorem moved_sessions_stop_the_attempt:
  assumes "prepare_attempt sv x t n v l = (Inr (q, d), l1)"
    and "load_tree (sv_env sv) (sv_session_id sv) (ap_store (lp_agent l1)) = (Inr t1, s1)"
    and "complete_model_attempt sv q d l2 = (Inr (Inr decided, d'), l3)"
    and "load_tree (sv_env sv) (sv_session_id sv) (ap_store (lp_agent l3)) = (Inr t3, s3)"
  shows "(moved sv l1 t1 \<longrightarrow> (\<exists>e. attempt_step sv x t n v l = (Inl e, refused s1 e l1)))
    \<and> (validate_model_session_guard sv l1 = (Inr (), l2) \<longrightarrow> moved sv l3 t3 \<longrightarrow>
        (\<exists>e. attempt_step sv x t n v l = (Inl e, refused s3 e l3)))"
proof (intro conjI impI)
  assume "moved sv l1 t1"
  then obtain e where "validate_model_session_guard sv l1 = (Inl e, refused s1 e l1)"
    using validate_moved [OF assms(2)] by blast
  then show "\<exists>e. attempt_step sv x t n v l = (Inl e, refused s1 e l1)"
    by (simp add: attempt_step_def bindA_def assms(1))
next
  assume "validate_model_session_guard sv l1 = (Inr (), l2)" "moved sv l3 t3"
  moreover then obtain e where "validate_model_session_guard sv l3 = (Inl e, refused s3 e l3)"
    using validate_moved [OF assms(4)] by blast
  ultimately show "\<exists>e. attempt_step sv x t n v l = (Inl e, refused s3 e l3)"
    by (simp add: attempt_step_def bindA_def assms(1,3))
qed

text \<open>Another process labels the session while the model answers.\<close>

definition racing_services :: "nat services" where
  "racing_services = sample_services\<lparr>sv_complete := (\<lambda>_ a.
     (\<lparr>mc_outcome = Inr final_reply, mc_streaming = []\<rparr>,
      a\<lparr>ap_store := snd (label sample_env exit_fresh ''s1'' ''x'' None (ap_store a))\<rparr>))\<rparr>"

lemma racing_simps:
  "sv_env racing_services = sample_env" "sv_session_id racing_services = ''s1''"
  "sv_client_binding racing_services = VNone" "sv_stream racing_services = False"
  "sv_trace racing_services e t = ret ()" "sv_write_task racing_services t = ret ()"
  "sv_build racing_services x te p f = ret (\<lparr>rq_system = VNone, rq_tools = VNone, rq_messages = VNone,
         rq_breakpoints = VNone\<rparr>, [])"
  "sv_complete racing_services q a = (\<lparr>mc_outcome = Inr final_reply, mc_streaming = []\<rparr>,
      a\<lparr>ap_store := snd (label sample_env exit_fresh ''s1'' ''x'' None (ap_store a))\<rparr>)"
  "sv_terminal_text racing_services s = s" "sv_redact_text racing_services s = s"
  "sv_request_id racing_services v = []" "sv_transport racing_services w = VNone"
  "sv_provider_metadata racing_services w = VNone"
  by (simp_all add: racing_services_def sample_services_def sample_binding_def)

lemmas run_simps = bindA_def on_agent_def on_store_def on_world_def emit_trace_def write_task_state_def
  block_and_raise_def stored_tree_def transport_attempts_def attempt_def

lemma race_prepare:
  assumes "load_tree sample_env ''s1'' (store_with []) = (Inr t, s)" "binding_of t = VNone"
  shows "\<exists>q l1. prepare_attempt racing_services VNone [] 1 (first_vars []) sample_loop = (Inr (q, []), l1)
    \<and> ap_store (lp_agent l1) = s \<and> lp_guard l1 = \<lparr>guard_leaf = leaf_id t, guard_binding = VNone\<rparr>"
  using assms
  by (simp add: prepare_attempt_def capture_model_session_guard_def run_simps racing_simps first_vars_def
      build_attempt_request_def build_request_within.simps set_request_metadata_def remember_recall_def
      announce_request_def mark_streaming_def trace_resume_def sample_loop_def dget_none_def whenA_def)

lemma race_decode: "decode_action final_reply = FinalAction ''ok'' False"
  by code_simp

lemma race_complete:
  "\<exists>d' l3. complete_model_attempt racing_services q [] l = (Inr (Inr (FinalAction ''ok'' False, None), d'), l3)
    \<and> ap_store (lp_agent l3) = snd (label sample_env exit_fresh ''s1'' ''x'' None (ap_store (lp_agent l)))
    \<and> lp_guard l3 = lp_guard l"
  by (simp add: complete_model_attempt_def run_simps racing_simps note_streaming_def record_response_def
      race_decode sanitize_action_def project_terminal_def count_usage_def commit_anchor_def
      provider_facts_def set_request_metadata_def Let_def transport_evidence_def split: option.split)

lemma race_moves:
  "case load_tree sample_env ''s1'' (store_with []) of (Inr t, s) \<Rightarrow> 
     binding_of t = VNone \<and>
     (case load_tree sample_env ''s1'' s of (Inr t1, s1) \<Rightarrow> leaf_id t1 = leaf_id t \<and> binding_of t1 = VNone \<and>
       (case load_tree sample_env ''s1'' (snd (label sample_env exit_fresh ''s1'' ''x'' None s1)) of
         (Inr t2, _) \<Rightarrow> leaf_id t2 \<noteq> leaf_id t | _ \<Rightarrow> False) | _ \<Rightarrow> False) | _ \<Rightarrow> False"
  by code_simp
lemma run_InrE:
  assumes "case m of (Inr x, s) \<Rightarrow> P x s | (Inl e, s) \<Rightarrow> False"
  obtains x s where "m = (Inr x, s)" "P x s"
  using assms by (cases m; cases "fst m") auto

theorem moved_sessions_stop_the_attempt_witness:
  "\<exists>e s l'. attempt_step racing_services VNone [] 1 (first_vars []) sample_loop = (Inl e, refused s e l')"
proof -
  obtain t s t1 s1 t2 s2 where t: "load_tree sample_env ''s1'' (store_with []) = (Inr t, s)" "binding_of t = VNone"
    and t1: "load_tree sample_env ''s1'' s = (Inr t1, s1)" "leaf_id t1 = leaf_id t" "binding_of t1 = VNone"
    and t2: "load_tree sample_env ''s1'' (snd (label sample_env exit_fresh ''s1'' ''x'' None s1)) = (Inr t2, s2)"
      "leaf_id t2 \<noteq> leaf_id t"
    using race_moves by (elim run_InrE conjE) (rule that)
  obtain q l1 where p: "prepare_attempt racing_services VNone [] 1 (first_vars []) sample_loop = (Inr (q, []), l1)"
    and l1: "ap_store (lp_agent l1) = s" "lp_guard l1 = \<lparr>guard_leaf = leaf_id t, guard_binding = VNone\<rparr>"
    using race_prepare [OF t] by blast
  let ?l2 = "l1\<lparr>lp_agent := (lp_agent l1)\<lparr>ap_store := s1\<rparr>\<rparr>"
  have v: "validate_model_session_guard racing_services l1 = (Inr (), ?l2)"
    by (simp add: validate_model_session_guard_def capture_model_session_guard_def run_simps racing_simps
        l1 t1 same_guard_def)
  obtain d' l3 where c: "complete_model_attempt racing_services q [] ?l2
      = (Inr (Inr (FinalAction ''ok'' False, None), d'), l3)"
    and l3: "ap_store (lp_agent l3) = snd (label sample_env exit_fresh ''s1'' ''x'' None s1)" "lp_guard l3 = lp_guard l1"
    using race_complete [of q ?l2] by auto
  have loads: "load_tree (sv_env racing_services) (sv_session_id racing_services) (ap_store (lp_agent l1)) = (Inr t1, s1)"
    "load_tree (sv_env racing_services) (sv_session_id racing_services) (ap_store (lp_agent l3)) = (Inr t2, s2)"
    by (simp_all add: racing_simps l1 t1 l3 t2)
  have "moved racing_services l3 t2" using t2(2) by (simp add: moved_def l3 l1)
  with moved_sessions_stop_the_attempt [OF p loads(1) c loads(2)] v show ?thesis by blast
qed

lemma redact_fields_messages:
  "''messages'' \<notin> set ks \<Longrightarrow> session_messages (redact_fields env ks d) = session_messages d"
  unfolding redact_fields_def
  by (induction ks arbitrary: d) (auto simp: session_messages_def)

lemma state_fields_messages:
  "session_messages (dupdate (dset d ''messages'' v) (state_fields env e)) = as_list v"
  by (simp add: session_messages_def state_fields_def)

lemma append_messages_leaf:
  "append_messages env fresh sid ms upd (Some leaf) xb s = (Inr r, s') \<Longrightarrow> r \<noteq> None"
  by (auto simp: append_messages_def op_simps Let_def split: option.splits)

lemma append_messages_raises:
  assumes "store_ok env s" "append_messages env fresh sid ms upd xl xb s = (Inl e, s')"
  shows "disk s' = disk s"
  using guarded_append_messages [of env sid fresh ms upd xl xb] assms
  by (auto simp: guarded_def extends_Nil dest!: spec [of _ s])

text \<open>
  C3: A commit under the guard compares and appends.  If it succeeds, the stored session had
  exactly the guard's leaf and binding, the redacted batch was appended to the conversation
  on disk and in memory alike, and the guard is at the new leaf.  If it raises, no file has
  changed, the conversation in memory is the old one, and a conflict blocks later writes.
  A file system that fails in the middle is left out here.
\<close>

theorem guarded_commits_compare_and_append:
  assumes ok: "store_ok (sv_env sv) (ap_store (lp_agent l))"
    and run: "commit_session sv ms True l = (r, l')"
    and unblocked: "lp_blocked l = None" and files: "\<forall>n. sv_fault sv n = None"
    and idem: "redactor (sv_env sv) (VList safe) = VList safe" "list_all is_dict safe"
    and safe: "safe = map (redactor (sv_env sv)) ms"
  shows "case r of
      Inr _ \<Rightarrow> \<exists>t t' es. stored (sv_env sv) (ap_store (lp_agent l)) (sv_session_id sv) = Inr t
        \<and> stored (sv_env sv) (ap_store (lp_agent l')) (sv_session_id sv) = Inr t'
        \<and> leaf_id t = guard_leaf (lp_guard l) \<and> py_eq (binding_of t) (guard_binding (lp_guard l))
        \<and> tpath t' = tpath t @ es \<and> guard_leaf (lp_guard l') = leaf_id t'
        \<and> proj_messages (tprojection t') = proj_messages (tprojection t) @ safe
        \<and> session_messages (ap_session (lp_agent l')) = session_messages (ap_session (lp_agent l)) @ safe
    | Inl e \<Rightarrow> disk (ap_store (lp_agent l')) = disk (ap_store (lp_agent l))
        \<and> session_messages (ap_session (lp_agent l')) = session_messages (ap_session (lp_agent l))
        \<and> (\<exists>c. e = SessionCommitError c \<and> (is_session_format_error c \<longrightarrow> lp_blocked l' = Some c))"
proof -
  let ?env = "sv_env sv" and ?a = "lp_agent l" and ?n = "ap_clock (lp_agent l)"
  let ?d = "redact_fields ?env [''working_memory'', ''memory'', ''recently_recalled''] (ap_session ?a)"
  let ?u = "state_fields ?env ?d"
  let ?append = "append_messages ?env (sv_stamps sv ?n) (sv_session_id sv) safe ?u
    (Some (guard_leaf (lp_guard l))) (Some (guard_binding (lp_guard l))) (ap_store ?a)"
  have same: "session_messages ?d = session_messages (ap_session ?a)"
    by (rule redact_fields_messages) simp
  obtain q s where q: "?append = (q, s)" by fastforce
  show ?thesis
  proof (cases q)
    case (Inl e)
    have "disk s = disk (ap_store ?a)" using append_messages_raises [OF ok] q Inl by blast
    moreover have "r = Inl (SessionCommitError (exn.Raised e)) \<and> ap_store (lp_agent l') = s
        \<and> session_messages (ap_session (lp_agent l')) = session_messages (ap_session ?a)
        \<and> (is_session_format_error (exn.Raised e) \<longrightarrow> lp_blocked l' = Some (exn.Raised e))"
      using run unblocked q Inl same
      by (auto simp: commit_session_def bindA_def on_session_def on_agent_def Let_def safe [symmetric]
          append_to_session_def tick_def finish_commit_def block_with_def whenA_def split: if_splits)
    ultimately show ?thesis by simp
  next
    case (Inr leaf)
    with q obtain i where i: "leaf = Some i" using append_messages_leaf by blast
    from append_messages_effect [OF ok _ idem] q Inr i
    obtain t t' es where t: "stored ?env (ap_store ?a) (sv_session_id sv) = Inr t"
      "stored ?env s (sv_session_id sv) = Inr t'" "expects_leaf (Some (guard_leaf (lp_guard l))) t"
      "expects (Some (guard_binding (lp_guard l))) (dget_none (tprojection t) ''provider_binding'')"
      "tpath t' = tpath t @ es" "i = leaf_id t'"
      "proj_messages (tprojection t') = proj_messages (tprojection t) @ safe"
      by blast
    have "r = Inr () \<and> ap_store (lp_agent l') = s \<and> guard_leaf (lp_guard l') = i
        \<and> session_messages (ap_session (lp_agent l')) = session_messages (ap_session ?a) @ safe"
      using run unblocked q Inr i files same
      by (auto simp: commit_session_def bindA_def on_session_def on_agent_def Let_def safe [symmetric]
          append_to_session_def tick_def finish_commit_def move_guard_def extend_session_def state_fields_messages)
    moreover have "leaf_id t = guard_leaf (lp_guard l)" using t(3) by (simp add: expects_leaf_def)
    moreover have "py_eq (binding_of t) (guard_binding (lp_guard l))"
      using t(4) by (simp add: expects_def binding_of_def)
    ultimately show ?thesis using t by auto
  qed
qed

lemma sample_commit:
  "case fst (commit_session sample_services [sample_message] True sample_loop) of Inr _ \<Rightarrow> True | Inl _ \<Rightarrow> False"
  by code_simp

theorem guarded_commits_compare_and_append_witness:
  "\<exists>l'. commit_session sample_services [sample_message] True sample_loop = (Inr (), l')
     \<and> session_messages (ap_session (lp_agent l')) = [sample_message]"
proof -
  obtain l' where run: "commit_session sample_services [sample_message] True sample_loop = (Inr (), l')"
    using sample_commit by (cases "commit_session sample_services [sample_message] True sample_loop")
      (auto split: sum.splits)
  have s: "sv_env sample_services = sample_env" "ap_store (lp_agent sample_loop) = store_with []"
    "lp_blocked sample_loop = None" "sv_fault sample_services = (\<lambda>_. None)"
    by (simp_all add: sample_services_def sample_loop_def)
  have old: "session_messages (ap_session (lp_agent sample_loop)) = []" by code_simp
  have "session_messages (ap_session (lp_agent l')) = [sample_message]"
    using guarded_commits_compare_and_append [OF _ run, of "[sample_message]"]
    by (auto simp: s old sample_message_def)
  with run show ?thesis by blast
qed

end
