(* ===== verification/ProtocolProperties.thy ===== *)
theory ProtocolProperties
  imports ActionCodec ModelBudget TaskState Workflow Permissions "HOL-Library.Code_Target_Nat"
begin

text \<open>
  Properties of the protocol layer: the permission policy, message validation,
  decoding of model responses, plans, and the token budget.
\<close>

subsection \<open>Permission policy\<close>

text \<open>
  C30: The policy fails closed: anything but a denial needs a trusted project, a known
  mode, no explicit deny rule and a known effect class; and making a tool's explicit
  rule stricter never makes the decision more permissive.
\<close>

theorem permission_policy_fails_closed:
  "(decide_permission trusted mode eff explicit be aa pw \<noteq> DENY \<longrightarrow>
      trusted \<and> (\<exists>m. mode = mode_value m) \<and> (\<forall>s. explicit = Some s \<longrightarrow> s \<noteq> decision_value DENY)
      \<and> (eff = ''read_only'' \<or> eff \<in> set mutating_effects))
   \<and> (d \<le> e \<longrightarrow>
      decide_permission True (mode_value m) eff (Some (decision_value d)) be aa pw
      \<le> decide_permission True (mode_value m) eff (Some (decision_value e)) be aa pw)"
  using decide_permission_denied_unless decide_permission_explicit_mono by blast

theorem permission_policy_fails_closed_witness:
  "decide_permission True ''auto'' ''workspace_write'' None False True False \<noteq> DENY
   \<and> (\<exists>m. ''auto'' = mode_value m)
   \<and> decide_permission True (mode_value AUTO) ''read_only'' (Some (decision_value ASK)) False False False
     \<le> decide_permission True (mode_value AUTO) ''read_only'' (Some (decision_value DENY)) False False False"
proof -
  have "decide_permission True ''auto'' ''workspace_write'' None False True False = ALLOW" by code_simp
  then have a: "decide_permission True ''auto'' ''workspace_write'' None False True False \<noteq> DENY" by simp
  have d: "ASK \<le> DENY" by simp
  from permission_policy_fails_closed [of True "''auto''" "''workspace_write''" None False True False ASK DENY]
    permission_policy_fails_closed [of True "''auto''" "''read_only''" None False False False ASK DENY AUTO] a d
  show ?thesis by blast
qed

text \<open>
  The whole policy of a trusted project without an explicit rule, by mode and effect.
\<close>

theorem permission_policy_by_mode:
  "decide_permission True (mode_value m) eff None be aa pw =
     (if eff = ''read_only'' then ALLOW
      else if eff \<notin> set mutating_effects then DENY
      else case m of
        PLAN \<Rightarrow> if pw then ALLOW else ASK
      | BYPASS_PERMISSIONS \<Rightarrow> ALLOW
      | AUTO \<Rightarrow> if aa then ALLOW else DENY
      | ACCEPT_EDITS \<Rightarrow> if eff = ''workspace_write'' \<and> be then ALLOW else ASK
      | DONT_ASK \<Rightarrow> DENY
      | DEFAULT \<Rightarrow> ASK)"
  by (rule decide_permission_modes)

subsection \<open>Messages\<close>

text \<open>
  C28: \<open>validate_messages\<close> accepts exactly the sequences the transcript grammar derives:
  plain messages and tool calls each followed at once by its answer; so every call is
  answered by the next message, every answer follows its call, and call ids are unique.
\<close>

theorem validate_messages_is_the_transcript_grammar:
  "(validate_messages rm (VList ms) = Inr () \<longleftrightarrow> transcript rm [] ms)
   \<and> (validate_messages rm (VList ms) = Inr () \<longrightarrow>
        distinct (call_ids ms)
        \<and> (\<forall>j < length ms. is_tool_use (ms ! j) \<longrightarrow>
             Suc j < length ms \<and> answers (ms ! j) (ms ! Suc j))
        \<and> (\<forall>j < length ms. is_tool_result (ms ! j) \<longrightarrow> 0 < j \<and> is_tool_use (ms ! (j - 1))))"
proof -
  have v: "validate_messages rm (VList ms) = validate_from rm [] ms"
    by (simp add: validate_messages_def)
  have d: "distinct (call_ids ms)" if "transcript rm [] ms"
    using transcript_call_ids [OF that] by (rule conjunct1)
  have c: "\<forall>j < length ms. is_tool_use (ms ! j) \<longrightarrow>
      Suc j < length ms \<and> answers (ms ! j) (ms ! Suc j)" if "transcript rm [] ms"
    using transcript_calls_answered [OF that] by blast
  have r: "\<forall>j < length ms. is_tool_result (ms ! j) \<longrightarrow> 0 < j \<and> is_tool_use (ms ! (j - 1))"
    if "transcript rm [] ms"
    using transcript_answers_called [OF that] by blast
  show ?thesis
    unfolding v validate_from_iff by (intro conjI impI refl d c r) assumption+
qed

definition sample_call :: "val \<times> val" where
  "sample_call = make_tool_pair ''read'' [(''path'', VStr ''a'')] ''t1'' ''ok'' ''now'' ''ok'' ''read_only'' [] []"

theorem validate_messages_is_the_transcript_grammar_witness:
  "validate_messages True (VList [fst sample_call, snd sample_call]) = Inr ()
   \<and> transcript True [] [fst sample_call, snd sample_call]
   \<and> answers (fst sample_call) (snd sample_call)"
proof -
  have v: "validate_messages True (VList [fst sample_call, snd sample_call]) = Inr ()" by code_simp
  have u: "is_tool_use (fst sample_call)" by code_simp
  note grammar = validate_messages_is_the_transcript_grammar [of True "[fst sample_call, snd sample_call]"]
  from grammar v have t: "transcript True [] [fst sample_call, snd sample_call]" by (rule iffD1 [OF conjunct1])
  from mp [OF conjunct2 [OF grammar] v] have
    "\<forall>j < length [fst sample_call, snd sample_call]. is_tool_use ([fst sample_call, snd sample_call] ! j) \<longrightarrow>
       Suc j < length [fst sample_call, snd sample_call] \<and>
       answers ([fst sample_call, snd sample_call] ! j) ([fst sample_call, snd sample_call] ! Suc j)"
    by (elim conjE)
  from spec [OF this, of 0] u have "answers (fst sample_call) (snd sample_call)" by simp
  with v t show ?thesis by simp
qed

text \<open>
  C29: Appending the pair \<open>make_tool_pair\<close> builds for an unused call id to a valid
  conversation gives a valid conversation, whatever the arguments and the result text.
\<close>

theorem tool_pairs_extend_valid_conversations:
  assumes "validate_messages rm (VList ms) = Inr ()"
    and "make_tool_pair name args tid content ts st eff meta ps = (u, r)"
    and "name \<noteq> []" "tid \<noteq> []" "tid \<notin> set (call_ids ms)" "provider_state_fits ps"
  shows "validate_messages rm (VList (ms @ [u, r])) = Inr ()"
proof -
  from assms(1) have t: "transcript rm [] ms" by (simp add: validate_messages_def validate_from_iff)
  have "tid \<notin> set (rev (call_ids ms))" using assms(5) by simp
  note checks = make_tool_pair_checks [OF assms(2-4) this assms(6)]
  show ?thesis
    by (simp add: validate_messages_def transcript_append [OF t] validate_from_pair [OF checks]
        validate_from_Nil)
qed

theorem tool_pairs_extend_valid_conversations_witness:
  "validate_messages True (VList ([] @ [fst sample_call, snd sample_call])) = Inr ()"
proof -
  have "make_tool_pair ''read'' [(''path'', VStr ''a'')] ''t1'' ''ok'' ''now'' ''ok'' ''read_only'' [] []
    = (fst sample_call, snd sample_call)" by (simp add: sample_call_def)
  moreover have "validate_messages True (VList []) = Inr ()" by code_simp
  moreover have "provider_state_fits []" by code_simp
  moreover have "''read'' \<noteq> []" "''t1'' \<noteq> []" by simp_all
  moreover have "''t1'' \<notin> set (call_ids [])" by (simp add: call_ids_def)
  ultimately show ?thesis
    by (intro tool_pairs_extend_valid_conversations)
qed

text \<open>
  C31: \<open>replace_latest_plain_user\<close> rewrites the last plain user message and no other.
\<close>

theorem replace_latest_plain_user_is_local:
  assumes "replace_latest_plain_user ms t = Inr ms'"
  shows "\<exists>xs m ys. ms = xs @ m # ys \<and> plain_user m \<and> list_all (\<lambda>x. \<not> plain_user x) ys
        \<and> ms' = xs @ dset m ''content'' (VStr t) # ys"
  by (rule replace_latest_plain_user_Inr [OF assms])

theorem replace_latest_plain_user_is_local_witness:
  "\<exists>xs m ys. [[(''role'', VStr ''user''), (''content'', VStr ''a'')]] = xs @ m # ys \<and> plain_user m"
proof -
  have "replace_latest_plain_user [[(''role'', VStr ''user''), (''content'', VStr ''a'')]] ''b''
    = Inr [[(''role'', VStr ''user''), (''content'', VStr ''b'')]]" by code_simp
  from replace_latest_plain_user_is_local [OF this] show ?thesis by blast
qed

subsection \<open>Model responses\<close>


definition sample_response :: response where
  "sample_response = \<lparr>resp_stop = TOOL_USE, resp_content = VList [VDict [(''type'', VStr ''tool_use''),
     (''id'', VStr ''t1''), (''name'', VStr ''read''), (''input'', VDict [])]], resp_usage = [],
     resp_provider_state = []\<rparr>"


subsection \<open>Plans\<close>

text \<open>
  C33: Plan validation is a projection onto the well-formed plans: what it returns is
  well-formed, and a well-formed plan is returned unchanged.
\<close>

theorem validate_plan_is_a_normal_form:
  "(validate_plan redactor plan = Inr v \<longrightarrow> plan_ok v \<and> validate_plan None v = Inr v)
   \<and> (plan_ok v \<longrightarrow> validate_plan None v = Inr v)"
  using validate_plan_Inr validate_plan_ok by blast

definition sample_plan :: val where
  "sample_plan = VDict [(''goal'', VStr ''g''), (''items'', VList [VDict [(''id'', VStr ''a''),
     (''text'', VStr ''do''), (''status'', VStr ''pending'')]])]"

theorem validate_plan_is_a_normal_form_witness:
  "validate_plan None sample_plan = Inr sample_plan \<and> plan_ok sample_plan"
proof -
  have "validate_plan None sample_plan = Inr sample_plan" by code_simp
  with validate_plan_is_a_normal_form [of None sample_plan sample_plan] show ?thesis by blast
qed

subsection \<open>Budgets\<close>



text \<open>
  Each further compaction attempt keeps at most what the previous one kept, never less
  than 1024 tokens.
\<close>

theorem compaction_targets_decrease:
  assumes "0 \<le> i" "i \<le> j" "0 \<le> keep_recent_tokens b" "0 \<le> input_limit b"
  shows "\<exists>m n. automatic_compaction_keep_recent b i = Inr m
     \<and> automatic_compaction_keep_recent b j = Inr n \<and> n \<le> m \<and> 1024 \<le> n"
proof -
  have p: "(2::int) ^ nat i \<le> 2 ^ nat j" using assms(1,2) by (simp add: power_increasing)
  have d: "x div (c * 2 ^ nat j) \<le> x div (c * 2 ^ nat i)" if "0 \<le> x" "0 < c" for x c :: int
    using that p by (intro zdiv_mono2) auto
  show ?thesis
    using assms d [of "keep_recent_tokens b" 1] d [of "input_limit b" 4]
    by (simp add: automatic_compaction_keep_recent_def Let_def) linarith
qed

definition sample_budget :: model_budget where
  "sample_budget = \<lparr>capabilities = \<lparr>context_window = 128000, max_output_tokens = 16384,
      token_counter_mode = ''provider_usage_or_estimate'', cap_source = ''default''\<rparr>,
     output_tokens = 16384, reserve_tokens = 16384, input_limit = 111616,
     system_tools_hard_cap = 24576, source_pool_tokens = 16384, keep_recent_tokens = 20000\<rparr>"

theorem compaction_targets_decrease_witness:
  "\<exists>m n. automatic_compaction_keep_recent sample_budget 0 = Inr m
     \<and> automatic_compaction_keep_recent sample_budget 3 = Inr n \<and> n \<le> m \<and> 1024 \<le> n"
  by (rule compaction_targets_decrease) (simp_all add: sample_budget_def)

text \<open>
  C35: After the provider reported the tokens of a request, counting the same request gives
  that number, and counting it with messages appended adds only their counts.
\<close>

theorem committed_usage_anchors_the_count:
  assumes "commit_provider_usage acc usage (rc_candidate (count_request sha acc sys tools ms)) = (True, acc')"
    and "dget_none (as_dict usage) ''input_tokens'' = VInt n"
  shows "rc_total (count_request sha acc' sys tools (ms @ added))
    = max 1 (n + sum_list (map (count_message acc') added))"
proof -
  have cand: "rc_candidate (count_request sha acc sys tools ms) =
      (digest_of sha (VDict [(''system'', sys), (''tools'', tools)]), map (digest_of sha) ms)"
    by (simp add: count_request_def Let_def case_prod_unfold)
  from assms have acc': "acc' = acc\<lparr>usage_anchor := Some
      \<lparr>pinned_digest = digest_of sha (VDict [(''system'', sys), (''tools'', tools)]),
       message_digests = map (digest_of sha) ms, anchor_tokens = n\<rparr>\<rparr>"
    by (auto simp: commit_provider_usage_def Let_def cand split: if_split_asm)
  have m: "anchor_matches \<lparr>pinned_digest = p, message_digests = ds, anchor_tokens = n\<rparr> p (ds @ es)"
    for p ds es by (simp add: anchor_matches_def)
  show ?thesis
    using m by (simp add: count_request_def Let_def acc' split: if_split)
qed

definition sample_accounting :: accounting where
  "sample_accounting = \<lparr>provider_counter = None, usage_anchor = None, session_entry_tokens = []\<rparr>"

theorem committed_usage_anchors_the_count_witness:
  "\<exists>acc'. commit_provider_usage sample_accounting (VDict [(''input_tokens'', VInt 100)])
       (rc_candidate (count_request (\<lambda>s. s) sample_accounting VNone VNone [VStr ''a''])) = (True, acc')
     \<and> rc_total (count_request (\<lambda>s. s) acc' VNone VNone ([VStr ''a''] @ [VStr ''b'']))
         = max 1 (100 + sum_list (map (count_message acc') [VStr ''b'']))"
proof -
  let ?c = "commit_provider_usage sample_accounting (VDict [(''input_tokens'', VInt 100)])
       (rc_candidate (count_request (\<lambda>s. s) sample_accounting VNone VNone [VStr ''a'']))"
  have "fst ?c" by (simp add: commit_provider_usage_def dget_none_def)
  then obtain acc' where c: "?c = (True, acc')" by (cases ?c) auto
  have "dget_none (as_dict (VDict [(''input_tokens'', VInt 100)])) ''input_tokens'' = VInt 100"
    by (simp add: dget_none_def)
  from committed_usage_anchors_the_count [OF c this, of "[VStr ''b'']"] c show ?thesis by blast
qed

end
