(* ===== verification/PathText.thy ===== *)
theory PathText
  imports Prelude "HOL-Library.Sublist"
begin

text \<open>
  Strings as paths and words: the parts of \<open>str\<close>, \<open>posixpath\<close>, \<open>ntpath\<close> and \<open>pathlib\<close> that the
  command policy uses, and \<open>pony/security/paths.py\<close>, the classification of sensitive paths.
\<close>

subsection \<open>Strings\<close>

text \<open>
  \<open>str.casefold\<close> on one character.  The micro sign folds to a letter outside the code points
  of the model and stays here; no name the code compares with contains either.
\<close>

definition casefold_char :: "char \<Rightarrow> string" where
  "casefold_char c =
     (let n = py_ord c in
      if 65 \<le> n \<and> n \<le> 90 \<or> 192 \<le> n \<and> n \<le> 222 \<and> n \<noteq> 215 then [char_of (n + 32)]
      else if n = 223 then ''ss''
      else [c])"

definition casefold :: "string \<Rightarrow> string" where
  "casefold s = concat (map casefold_char s)"

abbreviation starts_with :: "string \<Rightarrow> string \<Rightarrow> bool" where
  "starts_with s p \<equiv> prefix p s"

abbreviation ends_in :: "string \<Rightarrow> string \<Rightarrow> bool" where
  "ends_in s p \<equiv> suffix p s"

text \<open>\<open>p in s\<close> for strings.\<close>

abbreviation occurs_in :: "string \<Rightarrow> string \<Rightarrow> bool" where
  "occurs_in p s \<equiv> sublist p s"

text \<open>\<open>str.isdigit\<close>: the decimal digits and the superscripts.\<close>

definition py_isdigit :: "string \<Rightarrow> bool" where
  "py_isdigit s \<longleftrightarrow> s \<noteq> [] \<and> list_all (\<lambda>c. is_digit c \<or> py_ord c \<in> {178, 179, 185}) s"

text \<open>\<open>s.split(sep)\<close> for a one-character separator: never the empty list.\<close>

fun split_on :: "char \<Rightarrow> string \<Rightarrow> string list" where
  "split_on sep [] = [[]]"
| "split_on sep (c # s) =
     (if c = sep then [] # split_on sep s
      else (c # hd (split_on sep s)) # tl (split_on sep s))"

definition join_with :: "char \<Rightarrow> string list \<Rightarrow> string" where
  "join_with sep parts = (case parts of [] \<Rightarrow> [] | p # ps \<Rightarrow> p @ concat (map (\<lambda>q. sep # q) ps))"

text \<open>\<open>re.split(r"[...]+", s)\<close> for a class of characters.\<close>

function split_runs :: "(char \<Rightarrow> bool) \<Rightarrow> string \<Rightarrow> string list" where
  "split_runs sep s =
     (case dropWhile (\<lambda>c. \<not> sep c) s of
        [] \<Rightarrow> [s]
      | c # rest \<Rightarrow> takeWhile (\<lambda>c. \<not> sep c) s # split_runs sep (dropWhile sep rest))"
  by pat_completeness auto
termination
proof (relation "measure (\<lambda>(sep, s). length s)")
  show "wf (measure (\<lambda>(sep :: char \<Rightarrow> bool, s :: string). length s))" by simp
  fix sep :: "char \<Rightarrow> bool" and s rest :: string and c
  assume "dropWhile (\<lambda>c. \<not> sep c) s = c # rest"
  then have "length (c # rest) \<le> length s" by (metis length_dropWhile_le)
  then show "((sep, dropWhile sep rest), (sep, s)) \<in> measure (\<lambda>(sep, s). length s)"
    using length_dropWhile_le [of sep rest] by auto
qed

declare split_runs.simps [simp del]

text \<open>\<open>s.find(c, start)\<close> and \<open>s.rfind(c)\<close>, \<open>None\<close> for -1.\<close>

fun find_char :: "char \<Rightarrow> string \<Rightarrow> nat \<Rightarrow> nat option" where
  "find_char c [] i = None"
| "find_char c (d # s) i = (if d = c then Some i else find_char c s (Suc i))"

definition find_from :: "char \<Rightarrow> string \<Rightarrow> nat \<Rightarrow> nat option" where
  "find_from c s start = find_char c (drop start s) start"

definition rfind :: "char \<Rightarrow> string \<Rightarrow> nat option" where
  "rfind c s = map_option (\<lambda>k. length s - 1 - k) (find_from c (rev s) 0)"

lemma find_char_bounds: "find_char c s i = Some k \<Longrightarrow> i \<le> k \<and> k < i + length s"
  by (induction s arbitrary: i) (fastforce split: if_splits)+

lemma rfind_bound: "rfind c s = Some k \<Longrightarrow> k < length s"
  by (auto simp: rfind_def find_from_def dest!: find_char_bounds)

lemma split_on_not_Nil [simp]: "split_on sep s \<noteq> []"
  by (induction s) auto

subsection \<open>POSIX paths\<close>

definition slash :: char where "slash = CHR ''/''"
definition backslash :: char where "backslash = CHR 0x5C"

text \<open>The components of \<open>posixpath.normpath\<close>; a rooted path keeps no leading \<open>..\<close>.\<close>

fun norm_step :: "bool \<Rightarrow> string list \<Rightarrow> string \<Rightarrow> string list" where
  "norm_step rooted done c =
     (if c = [] \<or> c = ''.'' then done
      else if c \<noteq> ''..'' \<or> \<not> rooted \<and> done = [] \<or> done \<noteq> [] \<and> last done = ''..'' then done @ [c]
      else butlast done)"

definition norm_comps :: "bool \<Rightarrow> string list \<Rightarrow> string list" where
  "norm_comps rooted cs = foldl (norm_step rooted) [] cs"

definition is_rooted :: "string \<Rightarrow> bool" where
  "is_rooted s \<longleftrightarrow> starts_with s [slash]"

text \<open>A \<open>pathlib.PurePosixPath\<close>: its root (empty, one or exactly two slashes) and its parts.\<close>

record pure_path =
  path_root :: string
  path_parts :: "string list"

definition root_of :: "string \<Rightarrow> string" where
  "root_of s =
     (if \<not> is_rooted s then []
      else if starts_with s [slash, slash] \<and> \<not> starts_with s [slash, slash, slash] then [slash, slash]
      else [slash])"

definition pure :: "string \<Rightarrow> pure_path" where
  "pure s = \<lparr>path_root = root_of s, path_parts = filter (\<lambda>p. p \<noteq> [] \<and> p \<noteq> ''.'') (split_on slash s)\<rparr>"

text \<open>\<open>Path(s).name\<close>.\<close>

definition path_name :: "string \<Rightarrow> string" where
  "path_name s = (if path_parts (pure s) = [] then [] else last (path_parts (pure s)))"

subsection \<open>Windows paths\<close>

definition win_sep :: "char \<Rightarrow> bool" where
  "win_sep c \<longleftrightarrow> c = slash \<or> c = backslash"

definition UNC_PREFIX :: string where
  "UNC_PREFIX = [backslash, backslash, CHR ''?'', backslash] @ ''UNC'' @ [backslash]"

definition to_backslash :: "string \<Rightarrow> string" where
  "to_backslash s = map (\<lambda>c. if c = slash then backslash else c) s"

definition upper_ascii :: "string \<Rightarrow> string" where
  "upper_ascii s = map (\<lambda>c. if is_lower c then char_of (py_ord c - 32) else c) s"

text \<open>What \<open>ntpath.splitroot\<close> leaves after drive and root.\<close>

definition nt_tail :: "string \<Rightarrow> string" where
  "nt_tail p =
     (let n = to_backslash p in
      if starts_with n [backslash, backslash] then
        let start = (if upper_ascii (take 8 n) = UNC_PREFIX then 8 else 2)
        in (case find_from backslash n start of
              None \<Rightarrow> []
            | Some i \<Rightarrow> (case find_from backslash n (i + 1) of
                          None \<Rightarrow> []
                        | Some j \<Rightarrow> drop (j + 1) p))
      else if starts_with n [backslash] then drop 1 p
      else if take 1 (drop 1 n) = '':'' then
        (if take 1 (drop 2 n) = [backslash] then drop 3 p else drop 2 p)
      else p)"

definition nt_basename :: "string \<Rightarrow> string" where
  "nt_basename p = rev (takeWhile (\<lambda>c. \<not> win_sep c) (rev (nt_tail p)))"

subsection \<open>Sensitive paths\<close>

definition SENSITIVE_PATH_BASENAMES :: "string list" where
  "SENSITIVE_PATH_BASENAMES = [''.env'', ''.envrc'', ''.netrc'', ''.npmrc'', ''.pypirc'',
     ''.git-credentials'', ''credentials.json'', ''auth.json'', ''secrets.json'', ''secrets.yaml'',
     ''secrets.yml'', ''secrets.toml'']"

definition ALLOWED_ENV_TEMPLATE_BASENAMES :: "string list" where
  "ALLOWED_ENV_TEMPLATE_BASENAMES = [''.env.example'', ''.env.sample'', ''.env.template'']"

definition SENSITIVE_KEYSTORE_SUFFIXES :: "string list" where
  "SENSITIVE_KEYSTORE_SUFFIXES = [''.pem'', ''.key'', ''.p12'', ''.pfx'', ''.jks'', ''.keystore'']"

definition posix_slashes :: "string \<Rightarrow> string" where
  "posix_slashes s = map (\<lambda>c. if c = backslash then slash else c) s"

definition normalized_posix_parts :: "string \<Rightarrow> string list" where
  "normalized_posix_parts raw =
     (let s = posix_slashes raw in map casefold (norm_comps (is_rooted s) (split_on slash s)))"

definition sensitive_pair :: "string \<Rightarrow> string \<Rightarrow> bool" where
  "sensitive_pair parent child \<longleftrightarrow>
     (parent, child) \<in> {(''.aws'', ''credentials''), (''.docker'', ''config.json''), (''.kube'', ''config'')}
     \<or> parent = ''.pony'' \<and> child \<in> {''sessions'', ''runs'', ''delegates'', ''checkpoints''}"

definition sensitive_component :: "string \<Rightarrow> bool" where
  "sensitive_component c \<longleftrightarrow>
     c \<in> set SENSITIVE_PATH_BASENAMES \<or> starts_with c ''.env.''
     \<or> starts_with c ''service-account'' \<and> ends_in c ''.json''
     \<or> list_ex (ends_in c) SENSITIVE_KEYSTORE_SUFFIXES"

fun sensitive_components :: "string list \<Rightarrow> bool" where
  "sensitive_components [] = False"
| "sensitive_components (c # cs) =
     (\<not> (cs = [] \<and> c \<in> set ALLOWED_ENV_TEMPLATE_BASENAMES) \<and> sensitive_component c
      \<or> sensitive_components cs)"

definition sensitive_path_reason :: "string \<Rightarrow> string" where
  "sensitive_path_reason raw =
     (let parts = normalized_posix_parts raw in
      if parts = [] then []
      else if ''.ssh'' \<in> set parts \<or> ''.gnupg'' \<in> set parts then ''sensitive_path''
      else if list_ex (\<lambda>(p, c). sensitive_pair p c) (zip parts (tl parts)) then ''sensitive_path''
      else if sensitive_components parts then ''sensitive_path''
      else [])"

definition is_sensitive_path :: "string \<Rightarrow> bool" where
  "is_sensitive_path raw \<longleftrightarrow> sensitive_path_reason raw \<noteq> []"

definition has_sensitive_path_suffix :: "string \<Rightarrow> bool" where
  "has_sensitive_path_suffix raw \<longleftrightarrow>
     (let folded = casefold (posix_slashes raw);
          leaf = last (split_on slash folded)
      in list_ex (ends_in folded) SENSITIVE_PATH_BASENAMES
         \<or> list_ex (ends_in folded) SENSITIVE_KEYSTORE_SUFFIXES
         \<or> occurs_in ''service-account'' leaf \<and> ends_in leaf ''.json'')"

definition is_allowed_env_template_leaf :: "string \<Rightarrow> bool" where
  "is_allowed_env_template_leaf raw \<longleftrightarrow>
     (let parts = normalized_posix_parts raw
      in parts \<noteq> [] \<and> last parts \<in> set ALLOWED_ENV_TEMPLATE_BASENAMES)"

end
