(* ===== verification/Shlex.thy ===== *)
theory Shlex
  imports PathText
begin

text \<open>
  The POSIX lexer of Python's \<open>shlex\<close> module as the command policy uses it, with
  \<open>whitespace_split\<close> and without comments, and the quoting of shell words that it and the
  policy's own scanners follow: a machine over single characters, against which all of them
  are compared.
\<close>

subsection \<open>Quoting\<close>

datatype quote = Unquoted | SingleQuoted | DoubleQuoted

text \<open>The quote a character is read in, and whether a backslash stands before it.\<close>

type_synonym quoting = "quote \<times> bool"

definition single_quote :: char where "single_quote = CHR 0x27"
definition double_quote :: char where "double_quote = CHR 0x22"
definition newline :: char where "newline = CHR 0x0A"
definition creturn :: char where "creturn = CHR 0x0D"

lemmas quote_chars = single_quote_def double_quote_def newline_def creturn_def backslash_def slash_def

lemma quote_chars_distinct [simp]:
  "single_quote \<noteq> double_quote" "double_quote \<noteq> single_quote"
  "single_quote \<noteq> backslash" "backslash \<noteq> single_quote" "double_quote \<noteq> backslash" "backslash \<noteq> double_quote"
  "newline \<noteq> backslash" "backslash \<noteq> newline" "creturn \<noteq> backslash" "backslash \<noteq> creturn"
  "newline \<noteq> single_quote" "single_quote \<noteq> newline" "newline \<noteq> double_quote" "double_quote \<noteq> newline"
  "creturn \<noteq> single_quote" "single_quote \<noteq> creturn" "creturn \<noteq> double_quote" "double_quote \<noteq> creturn"
  "newline \<noteq> creturn" "creturn \<noteq> newline"
  by (simp_all add: quote_chars)

fun quote_step :: "quoting \<Rightarrow> char \<Rightarrow> quoting" where
  "quote_step (q, True) c = (q, False)"
| "quote_step (SingleQuoted, False) c = (if c = single_quote then Unquoted else SingleQuoted, False)"
| "quote_step (DoubleQuoted, False) c =
     (if c = double_quote then (Unquoted, False)
      else if c = backslash then (DoubleQuoted, True) else (DoubleQuoted, False))"
| "quote_step (Unquoted, False) c =
     (if c = backslash then (Unquoted, True)
      else if c = single_quote then (SingleQuoted, False)
      else if c = double_quote then (DoubleQuoted, False) else (Unquoted, False))"

definition quoting_after :: "quoting \<Rightarrow> string \<Rightarrow> quoting" where
  "quoting_after = foldl quote_step"

text \<open>Quotes are closed and no backslash is left alone.\<close>

definition closed :: "string \<Rightarrow> bool" where
  "closed s \<longleftrightarrow> quoting_after (Unquoted, False) s = (Unquoted, False)"

text \<open>Every character together with the quoting it is read in.\<close>

fun annotate :: "quoting \<Rightarrow> string \<Rightarrow> (quoting \<times> char) list" where
  "annotate q [] = []"
| "annotate q (c # s) = (q, c) # annotate (quote_step q c) s"

lemma quoting_after_simps [simp]:
  "quoting_after q [] = q"
  "quoting_after q (c # s) = quoting_after (quote_step q c) s"
  by (simp_all add: quoting_after_def)

lemma annotate_append: "annotate q (s @ t) = annotate q s @ annotate (quoting_after q s) t"
  by (induction s arbitrary: q) auto

subsection \<open>The lexer\<close>

datatype lex_state =
    LSpace
  | LWord
  | LPunct
  | LQuote quote
  | LEscape quote

definition lex_space :: "char \<Rightarrow> bool" where
  "lex_space c \<longleftrightarrow> c \<in> {CHR '' '', CHR 0x09, creturn, newline}"

definition quote_char :: "quote \<Rightarrow> char" where
  "quote_char q = (if q = SingleQuoted then single_quote else double_quote)"

text \<open>A token is given out when it has a character or has been quoted.\<close>

definition emit :: "string \<Rightarrow> bool \<Rightarrow> string list \<Rightarrow> string list" where
  "emit token quoted tokens = (if token \<noteq> [] \<or> quoted then tokens @ [token] else tokens)"

text \<open>
  \<open>read_token\<close>, called until the input ends: \<open>punct\<close> are the \<open>punctuation_chars\<close>; the word
  characters play no part under \<open>whitespace_split\<close>.  A character that ends a word and is
  punctuation, or ends a run of punctuation, is pushed back and read again.
  \<open>LEscape Unquoted\<close> is an escape that returns to a word.
\<close>

function lex :: "string \<Rightarrow> lex_state \<Rightarrow> string \<Rightarrow> bool \<Rightarrow> string list \<Rightarrow> string \<Rightarrow> string list res" where
  "lex punct LSpace token quoted tokens [] = Inr (emit token quoted tokens)"
| "lex punct LWord token quoted tokens [] = Inr (emit token quoted tokens)"
| "lex punct LPunct token quoted tokens [] = Inr (emit token quoted tokens)"
| "lex punct (LQuote q) token quoted tokens [] = Inl (ValueError ''No closing quotation'')"
| "lex punct (LEscape q) token quoted tokens [] = Inl (ValueError ''No escaped character'')"
| "lex punct LSpace token quoted tokens (c # s) =
     (if lex_space c then
        (if token \<noteq> [] \<or> quoted then lex punct LSpace [] False (tokens @ [token]) s
         else lex punct LSpace token quoted tokens s)
      else if c = backslash then lex punct (LEscape Unquoted) token quoted tokens s
      else if c \<in> set punct then lex punct LPunct [c] quoted tokens s
      else if c = single_quote then lex punct (LQuote SingleQuoted) token quoted tokens s
      else if c = double_quote then lex punct (LQuote DoubleQuoted) token quoted tokens s
      else lex punct LWord [c] quoted tokens s)"
| "lex punct LWord token quoted tokens (c # s) =
     (if lex_space c then
        (if token \<noteq> [] \<or> quoted then lex punct LSpace [] False (tokens @ [token]) s
         else lex punct LSpace token quoted tokens s)
      else if c = single_quote then lex punct (LQuote SingleQuoted) token quoted tokens s
      else if c = double_quote then lex punct (LQuote DoubleQuoted) token quoted tokens s
      else if c = backslash then lex punct (LEscape Unquoted) token quoted tokens s
      else if c \<notin> set punct then lex punct LWord (token @ [c]) quoted tokens s
      else if token \<noteq> [] \<or> quoted then lex punct LSpace [] False (tokens @ [token]) (c # s)
      else lex punct LSpace token quoted tokens (c # s))"
| "lex punct LPunct token quoted tokens (c # s) =
     (if lex_space c then
        (if token \<noteq> [] \<or> quoted then lex punct LSpace [] False (tokens @ [token]) s
         else lex punct LSpace token quoted tokens s)
      else if c \<in> set punct then lex punct LPunct (token @ [c]) quoted tokens s
      else lex punct LSpace [] False (tokens @ [token]) (c # s))"
| "lex punct (LQuote q) token quoted tokens (c # s) =
     (if c = quote_char q then lex punct LWord token True tokens s
      else if c = backslash \<and> q = DoubleQuoted then lex punct (LEscape q) token True tokens s
      else lex punct (LQuote q) (token @ [c]) True tokens s)"
| "lex punct (LEscape q) token quoted tokens (c # s) =
     (let token = (if q \<noteq> Unquoted \<and> c \<noteq> backslash \<and> c \<noteq> quote_char q then token @ [backslash] else token)
      in lex punct (if q = Unquoted then LWord else LQuote q) (token @ [c]) quoted tokens s)"
  by pat_completeness auto
termination
  by (relation "measure (\<lambda>(_, st, _, _, _, s). 2 * length s + (if st = LSpace then 0 else 1))") auto

definition PUNCTUATION_CHARS :: string where
  "PUNCTUATION_CHARS = ''|&;<>()''"

text \<open>\<open>shlex.split(raw, comments=False, posix=True)\<close> and \<open>_grammar_words\<close>.\<close>

definition shlex_split :: "string \<Rightarrow> string list res" where
  "shlex_split raw = lex [] LSpace [] False [] raw"

definition grammar_words :: "string \<Rightarrow> string list res" where
  "grammar_words command = lex PUNCTUATION_CHARS LSpace [] False [] command"

subsection \<open>The lexer raises exactly on open quoting\<close>

fun quoting_of :: "lex_state \<Rightarrow> quoting" where
  "quoting_of (LQuote q) = (q, False)"
| "quoting_of (LEscape q) = (q, True)"
| "quoting_of _ = (Unquoted, False)"

text \<open>In single quotes nothing is escaped, and a quote state names a quote.\<close>

fun lex_ok :: "lex_state \<Rightarrow> bool" where
  "lex_ok (LQuote q) = (q \<noteq> Unquoted)"
| "lex_ok (LEscape q) = (q \<noteq> SingleQuoted)"
| "lex_ok _ = True"

definition plain_punct :: "string \<Rightarrow> bool" where
  "plain_punct punct \<longleftrightarrow> single_quote \<notin> set punct \<and> double_quote \<notin> set punct \<and> backslash \<notin> set punct"

lemma lex_space_plain [simp]:
  "\<not> lex_space single_quote" "\<not> lex_space double_quote" "\<not> lex_space backslash"
  by (simp_all add: lex_space_def quote_chars)

lemma space_quoting: "lex_space c \<Longrightarrow> quote_step (Unquoted, False) c = (Unquoted, False)"
  by auto

lemma lex_total:
  "plain_punct punct \<Longrightarrow> lex_ok st \<Longrightarrow>
     (\<exists>ts. lex punct st token quoted tokens s = Inr ts) \<longleftrightarrow> quoting_after (quoting_of st) s = (Unquoted, False)"
proof (induction punct st token quoted tokens s rule: lex.induct)
  case (9 punct q token quoted tokens c s)
  then show ?case by (cases q) (auto simp: quote_char_def)
next
  case (10 punct q token quoted tokens c s)
  then show ?case by (cases q) (auto simp: quote_char_def Let_def)
qed (auto simp: plain_punct_def space_quoting)

lemma shlex_split_total: "(\<exists>ts. shlex_split s = Inr ts) \<longleftrightarrow> closed s"
  using lex_total [of "[]" LSpace] by (simp add: shlex_split_def closed_def plain_punct_def)

lemma grammar_words_total: "(\<exists>ts. grammar_words s = Inr ts) \<longleftrightarrow> closed s"
  using lex_total [of PUNCTUATION_CHARS LSpace]
  by (simp add: grammar_words_def closed_def plain_punct_def PUNCTUATION_CHARS_def quote_chars)

subsection \<open>Tokens are no longer than the input\<close>

definition spoken :: "string list \<Rightarrow> nat" where
  "spoken ts = sum_list (map length ts)"

lemma spoken_simps [simp]:
  "spoken [] = 0" "spoken (t # ts) = length t + spoken ts" "spoken (ts @ us) = spoken ts + spoken us"
  by (simp_all add: spoken_def)

text \<open>A backslash that has been read may still enter the token.\<close>

definition owed :: "lex_state \<Rightarrow> nat" where
  "owed st = (case st of LEscape _ \<Rightarrow> 1 | _ \<Rightarrow> 0)"

lemma lex_length:
  "lex punct st token quoted tokens s = Inr ts \<Longrightarrow> st \<noteq> LSpace \<or> token = [] \<Longrightarrow>
     spoken ts \<le> spoken tokens + length token + owed st + length s"
proof (induction punct st token quoted tokens s rule: lex.induct)
  case (10 punct q token quoted tokens c s)
  from 10(2) 10(1) [OF refl] show ?case
    by (cases "q = Unquoted"; cases "c \<noteq> backslash \<and> c \<noteq> quote_char q") (auto simp: owed_def Let_def)
qed (auto simp: owed_def emit_def split: if_split_asm)

lemma shlex_split_length: "shlex_split s = Inr ts \<Longrightarrow> spoken ts \<le> length s"
  using lex_length [of "[]" LSpace] by (fastforce simp: shlex_split_def owed_def)

lemma grammar_words_length: "grammar_words s = Inr ts \<Longrightarrow> spoken ts \<le> length s"
  using lex_length [of PUNCTUATION_CHARS LSpace] by (fastforce simp: grammar_words_def owed_def)

lemma two_spoken: "i < j \<Longrightarrow> j < length ts \<Longrightarrow> length (ts ! i) + length (ts ! j) \<le> spoken ts"
proof (induction ts arbitrary: i j)
  case (Cons t ts)
  then obtain j' where j: "j = Suc j'" by (cases j) auto
  show ?case
  proof (cases i)
    case 0
    have "length (ts ! j') \<le> spoken ts"
      using Cons.prems j by (simp add: spoken_def member_le_sum_list)
    then show ?thesis using 0 j by simp
  next
    case (Suc i')
    then show ?thesis using Cons.IH [of i' j'] Cons.prems j by simp
  qed
qed simp

end
