(* ===== verification/ShellScan.thy ===== *)
theory ShellScan
  imports Shlex
begin

text \<open>
  The two scanners of \<open>pony/security/command_policy.py\<close>: what a shell would do to a command
  beyond splitting it into words.  Each is a machine over the rest of the command; the
  machine of the POSIX scanner also carries the character before it.
\<close>

definition TWO_CHAR_SHELL_TOKENS :: "string list" where
  "TWO_CHAR_SHELL_TOKENS = [''&&'', ''||'', ''<<'', ''>>'']"

definition ONE_CHAR_SHELL_TOKENS :: string where
  "ONE_CHAR_SHELL_TOKENS = ''|;&<>()''"

definition REDIRECT_TOKENS :: "string list" where
  "REDIRECT_TOKENS = [''<'', ''>'', ''<<'', ''>>'']"

definition CONTROL_KEYWORDS :: "string list" where
  "CONTROL_KEYWORDS = [''if'', ''then'', ''elif'', ''else'', ''fi'', ''while'', ''until'', ''for'',
     ''do'', ''done'', ''case'', ''esac'', ''!'', ''time'']"

definition name_start :: "char \<Rightarrow> bool" where
  "name_start c \<longleftrightarrow> is_lower c \<or> is_upper c \<or> c = CHR ''_''"

definition name_char :: "char \<Rightarrow> bool" where
  "name_char c \<longleftrightarrow> name_start c \<or> is_digit c"

text \<open>\<open>^[A-Za-z_][A-Za-z0-9_]*=\<close>.\<close>

definition assignment_token :: "string \<Rightarrow> bool" where
  "assignment_token s \<longleftrightarrow>
     (case s of [] \<Rightarrow> False | c # r \<Rightarrow> name_start c \<and> take 1 (dropWhile name_char r) = ''='')"

text \<open>\<open>_line_break_length\<close> of the rest of the command.\<close>

definition line_break_length :: "string \<Rightarrow> nat" where
  "line_break_length s =
     (if take 2 s = [creturn, newline] then 2
      else if s \<noteq> [] \<and> (hd s = creturn \<or> hd s = newline) then 1 else 0)"

lemma line_break_length_le: "line_break_length s \<le> length s"
  by (cases s; cases "tl s") (auto simp: line_break_length_def)

subsection \<open>The POSIX scanner\<close>

record shell_syntax =
  sx_operators :: "string list"
  sx_redirect_operators :: "string list"
  sx_expansion :: bool

definition operator :: "string \<Rightarrow> shell_syntax \<Rightarrow> shell_syntax" where
  "operator op x = x\<lparr>sx_operators := sx_operators x @ [op],
     sx_redirect_operators := sx_redirect_operators x @ (if op \<in> set REDIRECT_TOKENS then [op] else [])\<rparr>"

definition expansion :: "shell_syntax \<Rightarrow> shell_syntax" where
  "expansion x = x\<lparr>sx_expansion := True\<rparr>"

text \<open>The character a step of \<open>n\<close> characters ends with.\<close>

definition last_read :: "nat \<Rightarrow> string \<Rightarrow> char option" where
  "last_read n s = (if take n s = [] then None else Some (last (take n s)))"

function scan_shell :: "char option \<Rightarrow> quoting \<Rightarrow> string \<Rightarrow> shell_syntax \<Rightarrow> quoting \<times> shell_syntax" where
  "scan_shell prev (q, escaped) [] x = ((q, escaped), x)"
| "scan_shell prev (q, escaped) (c # s) x =
     (if escaped then scan_shell (Some c) (q, False) s x
      else if q = SingleQuoted then
        scan_shell (Some c) (if c = single_quote then Unquoted else SingleQuoted, False) s x
      else if q = DoubleQuoted then
        (if c = double_quote then scan_shell (Some c) (Unquoted, False) s x
         else if c = backslash then
           (let n = line_break_length s in
            if n \<noteq> 0 then scan_shell (last_read n s) (q, False) (drop n s) (operator [newline] x)
            else scan_shell (Some c) (q, True) s x)
         else scan_shell (Some c) (q, False) s
                (if c = CHR 0x60 \<or> c = CHR ''$'' then expansion x else x))
      else if c = backslash then
        (let n = line_break_length s in
         if n \<noteq> 0 then scan_shell (last_read n s) (q, False) (drop n s) (operator [newline] x)
         else scan_shell (Some c) (q, True) s x)
      else if c = single_quote then scan_shell (Some c) (SingleQuoted, False) s x
      else if c = double_quote then scan_shell (Some c) (DoubleQuoted, False) s x
      else
        let n = line_break_length (c # s); pair = take 2 (c # s) in
        if n \<noteq> 0 then scan_shell (last_read n (c # s)) (q, False) (drop n (c # s)) (operator [newline] x)
        else if pair = ''$('' then
          scan_shell (last_read 2 (c # s)) (q, False) (drop 1 s) (expansion (operator pair x))
        else if pair \<in> set TWO_CHAR_SHELL_TOKENS then
          scan_shell (last_read 2 (c # s)) (q, False) (drop 1 s) (operator pair x)
        else if c \<in> set ONE_CHAR_SHELL_TOKENS then scan_shell (Some c) (q, False) s (operator [c] x)
        else scan_shell (Some c) (q, False) s
               (if c \<in> set (CHR 0x60 # ''$*?[{'')
                   \<or> c = CHR ''~'' \<and> (case prev of None \<Rightarrow> True | Some p \<Rightarrow> py_space p)
                then expansion x else x))"
  by pat_completeness auto
termination
  by (relation "measure (\<lambda>(_, _, s, _). length s)") auto

definition empty_syntax :: shell_syntax where
  "empty_syntax = \<lparr>sx_operators = [], sx_redirect_operators = [], sx_expansion = False\<rparr>"

text \<open>The redirects among the grammar words: each operator with the word after it.\<close>

definition is_redirect_run :: "string \<Rightarrow> bool" where
  "is_redirect_run token \<longleftrightarrow>
     token \<noteq> [] \<and> list_ex (\<lambda>c. c \<in> {CHR ''<'', CHR ''>''}) token
     \<and> list_all (\<lambda>c. c \<in> set ONE_CHAR_SHELL_TOKENS) token"

fun redirects_of :: "string list \<Rightarrow> (string \<times> string) list" where
  "redirects_of [] = []"
| "redirects_of (t # ts) =
     (if t \<in> set REDIRECT_TOKENS then (t, case ts of [] \<Rightarrow> [] | u # _ \<Rightarrow> u) # redirects_of ts
      else if is_redirect_run t then (t, []) # redirects_of ts
      else redirects_of ts)"

record shell_scan =
  sc_parse_error :: bool
  sc_operators :: "string list"
  sc_redirects :: "(string \<times> string) list"
  sc_expansion :: bool
  sc_assignment :: bool
  sc_control_keyword :: bool

definition scan_shell_syntax :: "string \<Rightarrow> shell_scan res" where
  "scan_shell_syntax raw =
     (let (q, x) = scan_shell None (Unquoted, False) raw empty_syntax;
          words = (if q \<noteq> (Unquoted, False) then Inl (ValueError ''open quoting'') else shlex_split raw);
          parse_error = (case words of Inl _ \<Rightarrow> True | Inr _ \<Rightarrow> False);
          argv = (case words of Inl _ \<Rightarrow> [] | Inr ws \<Rightarrow> ws)
      in bindR (if \<not> parse_error \<and> sx_redirect_operators x \<noteq> []
                then bindR (grammar_words raw) (\<lambda>tokens. Inr (redirects_of tokens)) else Inr [])
           (\<lambda>redirects. Inr \<lparr>sc_parse_error = parse_error, sc_operators = sx_operators x,
              sc_redirects = redirects, sc_expansion = sx_expansion x,
              sc_assignment = argv \<noteq> [] \<and> assignment_token (hd argv),
              sc_control_keyword = argv \<noteq> [] \<and> casefold (hd argv) \<in> set CONTROL_KEYWORDS\<rparr>))"

subsection \<open>The PowerShell scanner\<close>

record powershell_state =
  pw_words :: "string list"
  pw_tokens :: "string list"
  pw_operators :: "string list"
  pw_current :: string
  pw_started :: bool
  pw_rejected :: string

definition ps_flush :: "powershell_state \<Rightarrow> powershell_state" where
  "ps_flush p = (if pw_started p
     then p\<lparr>pw_words := pw_words p @ [pw_current p], pw_tokens := pw_tokens p @ [pw_current p],
            pw_current := [], pw_started := False\<rparr> else p)"

definition ps_reject :: "string \<Rightarrow> powershell_state \<Rightarrow> powershell_state" where
  "ps_reject reason p = (if pw_rejected p = [] then p\<lparr>pw_rejected := reason\<rparr> else p)"

definition ps_add :: "char \<Rightarrow> powershell_state \<Rightarrow> powershell_state" where
  "ps_add c p = p\<lparr>pw_current := pw_current p @ [c]\<rparr>"

definition ps_word :: "char \<Rightarrow> powershell_state \<Rightarrow> powershell_state" where
  "ps_word c p = (ps_add c p)\<lparr>pw_started := True\<rparr>"

definition ps_operator :: "string \<Rightarrow> powershell_state \<Rightarrow> powershell_state" where
  "ps_operator op p = p\<lparr>pw_operators := pw_operators p @ [op], pw_tokens := pw_tokens p @ [op]\<rparr>"

function scan_powershell :: "quote \<Rightarrow> string \<Rightarrow> powershell_state \<Rightarrow> quote \<times> powershell_state" where
  "scan_powershell q [] p = (q, ps_flush p)"
| "scan_powershell q (c # s) p =
     (if q = SingleQuoted then
        (if c = single_quote then
           (if take 1 s = [single_quote] then scan_powershell q (drop 1 s) (ps_add single_quote p)
            else scan_powershell Unquoted s p)
         else scan_powershell q s (ps_add c p))
      else if q = DoubleQuoted then
        (if c = double_quote then scan_powershell Unquoted s p
         else if c = CHR ''$'' \<or> c = CHR 0x60 then
           scan_powershell q s (ps_add c (ps_reject ''dynamic_expansion_rejected'' p))
         else scan_powershell q s (ps_add c p))
      else if py_space c then
        (let p = ps_flush p; n = line_break_length (c # s) in
         if n \<noteq> 0 then scan_powershell q (drop n (c # s)) (ps_operator '';'' p)
         else scan_powershell q s p)
      else if c = single_quote then scan_powershell SingleQuoted s (p\<lparr>pw_started := True\<rparr>)
      else if c = double_quote then scan_powershell DoubleQuoted s (p\<lparr>pw_started := True\<rparr>)
      else
        let pair = take 2 (c # s);
            p = (if pair \<in> {''$('', ''${'', ''@(''} then ps_reject ''dynamic_expansion_rejected'' p else p) in
        if c = CHR ''$'' \<or> c = CHR 0x60 then
          scan_powershell q s (ps_word c (ps_reject ''dynamic_expansion_rejected'' p))
        else if c \<in> set ''{}()'' then
          scan_powershell q s (ps_word c (ps_reject ''powershell_script_rejected'' p))
        else if c = CHR ''#'' then
          scan_powershell q s (ps_word c (ps_reject ''powershell_comment_rejected'' p))
        else if pair = ''&&'' \<or> pair = ''||'' then
          scan_powershell q (drop 1 s) (ps_operator pair (ps_flush (ps_reject ''powershell_operator_rejected'' p)))
        else if c = CHR ''&'' then
          scan_powershell q s (ps_operator [c] (ps_flush (ps_reject ''invocation_operator_rejected'' p)))
        else if c = CHR ''|'' \<or> c = CHR '';'' then scan_powershell q s (ps_operator [c] (ps_flush p))
        else if c = CHR ''<'' \<or> c = CHR ''>'' then
          (let p = ps_flush p;
               twice = take 1 s = [c];
               p = (if c = CHR ''<'' then ps_reject ''powershell_operator_rejected'' p else p)
           in scan_powershell q (if twice then drop 1 s else s) (ps_operator (if twice then [c, c] else [c]) p))
        else scan_powershell q s (ps_word c p))"
  by pat_completeness auto
termination
  by (relation "measure (\<lambda>(_, s, _). length s)") (auto simp: line_break_length_def split: if_splits)

fun powershell_redirects :: "string list \<Rightarrow> string list \<Rightarrow> (string \<times> string) list" where
  "powershell_redirects operators [] = []"
| "powershell_redirects operators (t # ts) =
     (if t \<in> set REDIRECT_TOKENS
      then (t, case ts of [] \<Rightarrow> [] | u # _ \<Rightarrow> if u \<notin> set operators then u else []) # powershell_redirects operators ts
      else powershell_redirects operators ts)"

record powershell_scan =
  ps_parse_error :: bool
  ps_operators :: "string list"
  ps_redirects :: "(string \<times> string) list"
  ps_rejected_reason :: string
  ps_words :: "string list"
  ps_tokens :: "string list"

definition scan_powershell_syntax :: "string \<Rightarrow> powershell_scan" where
  "scan_powershell_syntax raw =
     (let (q, p) = scan_powershell Unquoted raw
            \<lparr>pw_words = [], pw_tokens = [], pw_operators = [], pw_current = [], pw_started = False,
             pw_rejected = []\<rparr>
      in \<lparr>ps_parse_error = (q \<noteq> Unquoted), ps_operators = pw_operators p,
          ps_redirects = powershell_redirects (pw_operators p) (pw_tokens p),
          ps_rejected_reason = pw_rejected p, ps_words = pw_words p, ps_tokens = pw_tokens p\<rparr>)"

end
