(* ===== verification/CommandWords.thy ===== *)
theory CommandWords
  imports ShellScan "HOL-Library.Multiset"
begin

text \<open>
  The words of a command that the policy of \<open>pony/security/command_policy.py\<close> looks at: the
  commands nested in substitutions, back quotes, shell wrappers and \<open>env\<close> prefixes, and the
  words that name a sensitive path.
\<close>

definition COMMAND_PREFIX_KEYWORDS :: "string list" where
  "COMMAND_PREFIX_KEYWORDS = [''{'', ''!'', ''time'', ''if'', ''then'', ''elif'', ''else'', ''while'',
     ''until'', ''do'']"

definition SHELL_WRAPPERS :: "string list" where
  "SHELL_WRAPPERS = [''sh'', ''bash'', ''zsh'']"

definition SHELL_REQUIRED_VALUE_OPTIONS :: "string list" where
  "SHELL_REQUIRED_VALUE_OPTIONS = [''--rcfile'', ''--init-file'']"

definition ENV_REQUIRED_LONG_OPTIONS :: "string list" where
  "ENV_REQUIRED_LONG_OPTIONS = [''--unset'', ''--chdir'', ''--path'', ''--argv0'']"

definition ENV_SHORT_VALUE_OPTIONS :: string where
  "ENV_SHORT_VALUE_OPTIONS = ''uCPa''"

text \<open>\<open>Path(word).name.casefold()\<close>.\<close>

definition folded_name :: "string \<Rightarrow> string" where
  "folded_name word = casefold (path_name word)"

subsection \<open>Shell wrappers and env\<close>

datatype cluster = CommandFlag | ValueFlag bool | NoValue

text \<open>The flags of one short option: \<open>-c\<close>, or \<open>-o\<close> with its value in the next word.\<close>

fun wrapper_cluster :: "bool \<Rightarrow> string \<Rightarrow> cluster" where
  "wrapper_cluster dash [] = NoValue"
| "wrapper_cluster dash (flag # flags) =
     (if dash \<and> flag = CHR ''c'' then CommandFlag
      else if flag \<in> set ''oO'' then ValueFlag (flags = [])
      else wrapper_cluster dash flags)"

definition signed_option :: "string \<Rightarrow> bool" where
  "signed_option w \<longleftrightarrow> starts_with w ''-'' \<or> starts_with w ''+''"

function wrapper_loop :: "string list \<Rightarrow> string option" where
  "wrapper_loop [] = None"
| "wrapper_loop (option # rest) =
     (if option = ''--'' then None
      else if option \<in> set SHELL_REQUIRED_VALUE_OPTIONS then wrapper_loop (drop 1 rest)
      else if starts_with option ''--'' then wrapper_loop rest
      else if signed_option option \<and> 1 < length option then
        (case wrapper_cluster (hd option = CHR ''-'') (tl option) of
           CommandFlag \<Rightarrow> (case rest of [] \<Rightarrow> None | payload # _ \<Rightarrow> Some payload)
         | ValueFlag final \<Rightarrow>
             wrapper_loop (if final \<and> rest \<noteq> [] \<and> \<not> signed_option (hd rest) then drop 1 rest else rest)
         | NoValue \<Rightarrow> wrapper_loop rest)
      else None)"
  by pat_completeness auto
termination
  by (relation "measure length") auto

definition shell_wrapper_payload :: "string list \<Rightarrow> string option" where
  "shell_wrapper_payload argv =
     (if argv = [] \<or> folded_name (hd argv) \<notin> set SHELL_WRAPPERS then None else wrapper_loop (tl argv))"

text \<open>\<open>None\<close>: the flags ask \<open>env\<close> to split a string; else whether a value is the next word.\<close>

fun env_cluster :: "string \<Rightarrow> bool option" where
  "env_cluster [] = Some False"
| "env_cluster (flag # flags) =
     (if flag = CHR ''S'' then None
      else if flag \<in> set ENV_SHORT_VALUE_OPTIONS then Some (flags = [])
      else env_cluster flags)"

function env_loop :: "nat \<Rightarrow> string list \<Rightarrow> bool \<times> nat" where
  "env_loop index [] = (False, index)"
| "env_loop index (option # rest) =
     (if option = ''--'' then (False, index + 1)
      else if option = ''-'' then env_loop (index + 1) rest
      else if option = ''--split-string'' \<or> starts_with option ''--split-string='' then (True, index)
      else if option \<in> set ENV_REQUIRED_LONG_OPTIONS then env_loop (index + 2) (drop 1 rest)
      else if starts_with option ''--'' then env_loop (index + 1) rest
      else if starts_with option ''-'' \<and> 1 < length option then
        (case env_cluster (tl option) of
           None \<Rightarrow> (True, index)
         | Some consume \<Rightarrow>
             (if consume then env_loop (index + 2) (drop 1 rest) else env_loop (index + 1) rest))
      else (False, index))"
  by pat_completeness auto
termination
  by (relation "measure (\<lambda>(_, ws). length ws)") auto

definition env_prefix :: "string list \<Rightarrow> bool \<times> nat" where
  "env_prefix argv =
     (if argv = [] \<or> folded_name (hd argv) \<noteq> ''env'' then (False, 0) else env_loop 1 (tl argv))"

subsection \<open>Nested commands\<close>

fun backtick_end :: "nat \<Rightarrow> bool \<Rightarrow> string \<Rightarrow> nat option" where
  "backtick_end index escaped [] = None"
| "backtick_end index escaped (c # s) =
     (if escaped then backtick_end (index + 1) False s
      else if c = backslash then backtick_end (index + 1) True s
      else if c = CHR 0x60 then Some index
      else backtick_end (index + 1) False s)"

function dollar_paren_end ::
  "nat \<Rightarrow> int \<Rightarrow> quote \<Rightarrow> bool \<Rightarrow> bool \<Rightarrow> nat \<Rightarrow> string \<Rightarrow> nat option" where
  "dollar_paren_end index depth q escaped backtick quoted [] = None"
| "dollar_paren_end index depth q escaped backtick quoted (c # s) =
     (if escaped then dollar_paren_end (index + 1) depth q False backtick quoted s
      else if q = SingleQuoted then
        dollar_paren_end (index + 1) depth (if c = single_quote then Unquoted else q) False backtick quoted s
      else if c = backslash then dollar_paren_end (index + 1) depth q True backtick quoted s
      else if backtick then
        dollar_paren_end (index + 1) depth q False (c \<noteq> CHR 0x60) quoted s
      else if c = CHR 0x60 then dollar_paren_end (index + 1) depth q False True quoted s
      else if q = DoubleQuoted then
        (if c = double_quote then dollar_paren_end (index + 1) depth Unquoted False False quoted s
         else if take 2 (c # s) = ''$('' then
           dollar_paren_end (index + 2) (depth + 1) q False False (quoted + 1) (drop 1 s)
         else if c = CHR '')'' \<and> quoted \<noteq> 0 then
           dollar_paren_end (index + 1) (depth - 1) q False False (quoted - 1) s
         else dollar_paren_end (index + 1) depth q False False quoted s)
      else if c = single_quote then dollar_paren_end (index + 1) depth SingleQuoted False False quoted s
      else if c = double_quote then dollar_paren_end (index + 1) depth DoubleQuoted False False quoted s
      else if take 2 (c # s) = ''$('' then
        dollar_paren_end (index + 2) (depth + 1) q False False quoted (drop 1 s)
      else if c = CHR ''('' then dollar_paren_end (index + 1) (depth + 1) q False False quoted s
      else if c = CHR '')'' then
        (if depth - 1 = 0 then Some index
         else dollar_paren_end (index + 1) (depth - 1) q False False quoted s)
      else dollar_paren_end (index + 1) depth q False False quoted s)"
  by pat_completeness auto
termination
  by (relation "measure (\<lambda>(_, _, _, _, _, _, s). length s)") auto

lemma backtick_end_bounds:
  "backtick_end index escaped s = Some k \<Longrightarrow> index \<le> k \<and> k < index + length s"
  by (induction index escaped s rule: backtick_end.induct) (fastforce split: if_splits)+

lemma dollar_paren_end_bounds:
  "dollar_paren_end index depth q escaped backtick quoted s = Some k \<Longrightarrow> index \<le> k \<and> k < index + length s"
proof (induction "length s" arbitrary: index depth q escaped backtick quoted s rule: less_induct)
  case less
  show ?case
  proof (cases s)
    case Nil
    then show ?thesis using less.prems by simp
  next
    case (Cons c r)
    have step: "index \<le> k \<and> k < index + length s"
      if "dollar_paren_end (index + n) d q' e' b' qs' (drop (n - 1) r) = Some k" "0 < n" for n d q' e' b' qs'
      using less.hyps [OF _ that(1)] that(2) Cons by (cases "n - 1 \<le> length r") fastforce+
    show ?thesis
      using less.prems step [of 1] step [of 2] unfolding Cons dollar_paren_end.simps
      by (simp split: if_split_asm)
  qed
qed

text \<open>\<open>raw[i:j]\<close>.\<close>

definition slice :: "nat \<Rightarrow> nat \<Rightarrow> 'a list \<Rightarrow> 'a list" where
  "slice i j xs = take (j - i) (drop i xs)"

lemma length_slice: "i < j \<Longrightarrow> length (slice (i + d) j xs) \<le> length xs - (i + d)"
  by (simp add: slice_def)

lemma drop_Cons_less: "drop i xs = y # ys \<Longrightarrow> i < length xs"
  by (metis drop_eq_Nil list.distinct(1) not_le)

function payload_loop :: "string \<Rightarrow> nat \<Rightarrow> quote \<Rightarrow> bool \<Rightarrow> bool \<Rightarrow> string list" where
  "payload_loop raw i q escaped broad =
     (case drop i raw of
        [] \<Rightarrow> []
      | c # s \<Rightarrow>
          if escaped then payload_loop raw (i + 1) q False broad
          else if q = SingleQuoted then
            payload_loop raw (i + 1) (if c = single_quote then Unquoted else q) False broad
          else if c = backslash then payload_loop raw (i + 1) q True broad
          else if c = single_quote \<and> q = Unquoted then payload_loop raw (i + 1) SingleQuoted False broad
          else if c = double_quote then
            payload_loop raw (i + 1) (if q = DoubleQuoted then Unquoted else DoubleQuoted) False broad
          else
            (case (if c = CHR 0x60 then backtick_end (i + 1) False s else None) of
               Some e \<Rightarrow> slice (i + 1) e raw # payload_loop raw (e + 1) q False broad
             | None \<Rightarrow>
                 (case (if take 2 (c # s) = ''$('' then
                          dollar_paren_end (i + 2) 1 Unquoted False False 0 (drop 1 s) else None) of
                    Some e \<Rightarrow>
                      let wide = (case rfind (CHR '')'') raw of
                                    Some k \<Rightarrow> if \<not> broad \<and> e < k then [slice (i + 2) k raw] else []
                                  | None \<Rightarrow> [])
                      in slice (i + 2) e raw # wide @ payload_loop raw (e + 1) q False (broad \<or> wide \<noteq> [])
                  | None \<Rightarrow> payload_loop raw (i + 1) q False broad)))"
  by pat_completeness auto
termination
proof (relation "measure (\<lambda>(raw, i, _). length raw - i)")
qed (auto simp: drop_Cons_less dest!: backtick_end_bounds dollar_paren_end_bounds split: if_split_asm
  intro!: diff_less_mono2)

declare payload_loop.simps [simp del]

definition embedded_shell_payloads :: "string \<Rightarrow> string list" where
  "embedded_shell_payloads command = payload_loop command 0 Unquoted False False"

text \<open>\<open>_remove_shell_line_continuations\<close>: a line break outside quotes becomes a semicolon.\<close>

function remove_continuations :: "quote \<Rightarrow> string \<Rightarrow> string" where
  "remove_continuations q [] = []"
| "remove_continuations q (c # s) =
     (if q = SingleQuoted then c # remove_continuations (if c = single_quote then Unquoted else q) s
      else if q = Unquoted \<and> line_break_length (c # s) \<noteq> 0 then
        CHR '';'' # remove_continuations q (drop (line_break_length (c # s)) (c # s))
      else if c = backslash then
        (if line_break_length s \<noteq> 0 then remove_continuations q (drop (line_break_length s) s)
         else (case s of [] \<Rightarrow> [] | d # r \<Rightarrow> c # d # remove_continuations q r))
      else c # remove_continuations
             (if c = single_quote \<and> q = Unquoted then SingleQuoted
              else if c = double_quote then (if q = DoubleQuoted then Unquoted else DoubleQuoted)
              else q) s)"
  by pat_completeness auto
termination
  by (relation "measure (\<lambda>(_, s). length s)") auto

definition remove_shell_line_continuations :: "string \<Rightarrow> string" where
  "remove_shell_line_continuations command = remove_continuations Unquoted command"

subsection \<open>Sensitive words\<close>

definition literal_word_is_sensitive :: "string \<Rightarrow> bool" where
  "literal_word_is_sensitive word \<longleftrightarrow>
     is_sensitive_path word
     \<or> CHR '':'' \<in> set word
       \<and> list_ex (\<lambda>c. c \<noteq> [] \<and> is_sensitive_path c) (tl (split_on (CHR '':'') word))
     \<or> (starts_with word ''-'' \<and> 2 < length word)
       \<and> (has_sensitive_path_suffix word
          \<or> list_ex is_sensitive_path
              ([drop 2 word]
               @ (case find_from (CHR ''='') word 0 of Some k \<Rightarrow> [drop (k + 1) word] | None \<Rightarrow> [])
               @ (case find_from (CHR ''.'') word 2 of Some k \<Rightarrow> [drop k word] | None \<Rightarrow> [])))"

definition assignment_value_is_sensitive :: "string \<Rightarrow> bool" where
  "assignment_value_is_sensitive token \<longleftrightarrow>
     assignment_token token
     \<and> (case find_from (CHR ''='') token 0 of
          Some k \<Rightarrow> literal_word_is_sensitive (drop (k + 1) token) | None \<Rightarrow> False)"

definition segment_boundary :: "string \<Rightarrow> bool" where
  "segment_boundary w \<longleftrightarrow> w \<in> {''&&'', ''||'', '';'', ''|'', ''&'', ''('', '')''}"

fun command_segments :: "string list \<Rightarrow> string list list" where
  "command_segments [] = [[]]"
| "command_segments (w # ws) =
     (if segment_boundary w then [] # command_segments ws
      else (w # hd (command_segments ws)) # tl (command_segments ws))"

text \<open>Keywords, assignments and redirects before a command; \<open>None\<close> for a sensitive assignment.\<close>

function skip_prefix :: "string list \<Rightarrow> string list option" where
  "skip_prefix [] = Some []"
| "skip_prefix (w # rest) =
     (if casefold w \<in> set COMMAND_PREFIX_KEYWORDS then skip_prefix rest
      else if assignment_token w then
        (if assignment_value_is_sensitive w then None else skip_prefix rest)
      else if py_isdigit w \<and> rest \<noteq> [] \<and> is_redirect_run (hd rest) then skip_prefix (drop 2 rest)
      else if is_redirect_run w then skip_prefix (drop 1 rest)
      else Some (w # rest))"
  by pat_completeness auto
termination
  by (relation "measure length") auto

fun sensitive_assignments :: "string list \<Rightarrow> bool" where
  "sensitive_assignments [] = False"
| "sensitive_assignments (w # ws) =
     (assignment_token w \<and> (assignment_value_is_sensitive w \<or> sensitive_assignments ws))"

definition sensitive_segment :: "string list \<Rightarrow> bool" where
  "sensitive_segment segment \<longleftrightarrow>
     (case skip_prefix segment of
        None \<Rightarrow> True
      | Some rest \<Rightarrow>
          rest \<noteq> [] \<and> folded_name (hd rest) = ''env''
          \<and> sensitive_assignments (drop (snd (env_prefix rest)) rest))"

text \<open>\<open>f(words[index:])\<close> for every index.\<close>

fun tails :: "'a list \<Rightarrow> 'a list list" where
  "tails [] = []"
| "tails (x # xs) = (x # xs) # tails xs"

definition words_of :: "string \<Rightarrow> string list" where
  "words_of text =
     (case grammar_words text of
        Inr words \<Rightarrow> words
      | Inl _ \<Rightarrow> split_runs (\<lambda>c. py_space c \<or> c \<in> set ''|&;<>'') text)"

text \<open>The reason to reject a command for its own words, and the commands nested in it.\<close>

definition words_reason :: "string list \<Rightarrow> string" where
  "words_reason words =
     (if list_ex (\<lambda>ws. folded_name (hd ws) = ''env'' \<and> fst (env_prefix ws)) (tails words)
      then ''env_split_string_rejected''
      else if list_ex literal_word_is_sensitive words then ''sensitive_path''
      else if list_ex sensitive_segment (command_segments words) then ''sensitive_path''
      else [])"

definition wrapper_payloads :: "string list \<Rightarrow> string list" where
  "wrapper_payloads words =
     concat (map (\<lambda>ws. case shell_wrapper_payload ws of Some p \<Rightarrow> [p] | None \<Rightarrow> []) (tails words))"

definition nested_commands :: "string \<Rightarrow> string list" where
  "nested_commands text = embedded_shell_payloads text @ wrapper_payloads (words_of text)"

subsection \<open>A nested command is shorter\<close>

lemma remove_continuations_length: "length (remove_continuations q s) \<le> length s"
proof (induction "length s" arbitrary: q s rule: less_induct)
  case less
  show ?case
  proof (cases s)
    case (Cons c r)
    have step: "length (remove_continuations q' (drop n r)) \<le> length r - n" for q' n
      using less.hyps [of "drop n r" q'] Cons by simp
    have here: "length (remove_continuations q' r) \<le> length r" for q'
      using step [of q' 0] by simp
    have next_two: "length (remove_continuations q' t) \<le> length t" if "r = d # t" for q' d t
      using step [of q' 1] that by simp
    have skip: "length (remove_continuations q' (drop n r)) \<le> length r" for q' n
      using step [of q' n] by simp
    have cut: "length (remove_continuations q' (drop (line_break_length (c # r)) (c # r))) \<le> length r"
      if "line_break_length (c # r) \<noteq> 0" for q'
      using that skip [of q' "line_break_length (c # r) - 1"] by (cases "line_break_length (c # r)") simp_all
    have two: "length (case r of [] \<Rightarrow> [] | d # t \<Rightarrow> c # d # remove_continuations q' t) \<le> Suc (length r)" for q'
      by (cases r) (simp_all add: next_two)
    have "length (remove_continuations q (c # r)) \<le> Suc (length r)"
    proof (cases "q = Unquoted \<and> line_break_length (c # r) \<noteq> 0")
      case True
      then show ?thesis using cut [of q] by (simp add: drop_Cons')
    next
      case False
      then show ?thesis
        using here two skip [THEN le_SucI]
        unfolding remove_continuations.simps if_not_P [OF False]
        by (cases "q = SingleQuoted"; cases "c = backslash") auto
    qed
    then show ?thesis using Cons by simp
  qed simp
qed

lemma payloads_shorter: "list_all (\<lambda>p. length p < length raw) (payload_loop raw i q escaped broad)"
proof (induction "length raw - i" arbitrary: i q escaped broad rule: less_induct)
  case less
  show ?case
  proof (cases "drop i raw")
    case Nil
    then show ?thesis by (simp add: payload_loop.simps [of raw i])
  next
    case (Cons c s)
    then have i: "i < length raw" by (rule drop_Cons_less)
    have later: "list_all (\<lambda>p. length p < length raw) (payload_loop raw j q' e' b')" if "i < j" for j q' e' b'
      using less that i by simp
    have cut: "length (slice (Suc i) k raw) < length raw" "length (slice (Suc (Suc i)) k raw) < length raw" for k
      using i by (simp_all add: slice_def)
    have ends: "backtick_end (Suc i) b r = Some e \<Longrightarrow> i < e"
      "dollar_paren_end (Suc (Suc i)) d q' b b' n r = Some e \<Longrightarrow> i < e" for b d q' b' n r e
      by (auto dest!: backtick_end_bounds dollar_paren_end_bounds)
    show ?thesis
      unfolding payload_loop.simps [of raw i] Cons
      by (auto simp: later cut Let_def dest!: ends split: option.split if_split_asm)
  qed
qed

lemma payload_shorter: "p \<in> set (payload_loop raw i q escaped broad) \<Longrightarrow> length p < length raw"
  using payloads_shorter by (simp add: list_all_iff)

lemma wrapper_loop_member: "wrapper_loop ws = Some p \<Longrightarrow> p \<in> set ws"
proof (induction ws rule: wrapper_loop.induct)
  case (2 w rest)
  then show ?case
    by (auto split: if_split_asm cluster.split_asm list.split_asm dest: in_set_dropD)
qed simp

lemma tails_suffix: "ws \<in> set (tails words) \<Longrightarrow> \<exists>us. words = us @ ws"
proof (induction words)
  case (Cons w words)
  then consider "ws = w # words" | us where "words = us @ ws" by auto
  then show ?case
    by cases (metis append_Nil, metis append_Cons)
qed simp

lemma spoken_member: "w \<in> set ws \<Longrightarrow> length w \<le> spoken ws"
  by (simp add: spoken_def member_le_sum_list)

lemma casefold_Nil [simp]: "casefold [] = []"
  by (simp add: casefold_def)

lemma folded_name_Nil [simp]: "folded_name [] = []"
  by (simp add: folded_name_def path_name_def pure_def)

lemma wrapper_payload_shorter:
  assumes "p \<in> set (wrapper_payloads words)"
  shows "length p < spoken words"
proof -
  obtain ws where ws: "ws \<in> set (tails words)" "shell_wrapper_payload ws = Some p"
    using assms by (auto simp: wrapper_payloads_def split: option.split_asm)
  then have h: "ws \<noteq> []" "folded_name (hd ws) \<in> set SHELL_WRAPPERS" "wrapper_loop (tl ws) = Some p"
    by (auto simp: shell_wrapper_payload_def split: if_split_asm)
  obtain w rest where "ws = w # rest" using h(1) by (cases ws) auto
  note w = this h(2,3) [unfolded this list.sel]
  have "w \<noteq> []" using w(2) by (auto simp: SHELL_WRAPPERS_def)
  then have "length p < length w + spoken rest"
    using spoken_member [OF wrapper_loop_member [OF w(3)]] by (cases w) simp_all
  then show ?thesis using tails_suffix [OF ws(1)] w(1) by auto
qed

lemma split_runs_length: "spoken (split_runs sep s) \<le> length s"
proof (induction sep s rule: split_runs.induct)
  case (1 sep s)
  show ?case
  proof (cases "dropWhile (\<lambda>c. \<not> sep c) s")
    case Nil
    show ?thesis unfolding split_runs.simps [of sep s] Nil by simp
  next
    case (Cons c rest)
    have "length (takeWhile (\<lambda>c. \<not> sep c) s) + length (c # rest) = length s"
      using Cons by (metis length_append takeWhile_dropWhile_id)
    moreover have "length (dropWhile sep rest) \<le> length rest" by (rule length_dropWhile_le)
    ultimately show ?thesis using 1 [OF Cons] unfolding split_runs.simps [of sep s] Cons by simp
  qed
qed

lemma words_of_length: "spoken (words_of text) \<le> length text"
  by (auto simp: words_of_def grammar_words_length split_runs_length split: sum.split)

lemma nested_shorter: "n \<in> set (nested_commands t) \<Longrightarrow> length n < length t"
  using payload_shorter [of n t 0] wrapper_payload_shorter [of n "words_of t"] words_of_length [of t]
  unfolding nested_commands_def embedded_shell_payloads_def by auto

subsection \<open>The search for sensitive words\<close>

lemma stack_decreases:
  assumes "pending \<noteq> []" "\<forall>n \<in> set new. length n < length (last pending)"
  shows "(mset (map length (butlast pending @ new)), mset (map length pending)) \<in> mult less_than"
proof -
  obtain ps c where pc: "pending = ps @ [c]" using assms(1) by (cases pending rule: rev_cases) auto
  have "(mset (map length ps) + mset (map length new), mset (map length ps) + {#length c#}) \<in> mult less_than"
    using assms(2) pc by (intro one_step_implies_mult) auto
  then show ?thesis using pc by simp
qed

text \<open>
  \<open>_literal_sensitive_reason\<close>: commands wait on a stack; a command whose text has been seen
  is not looked at again.
\<close>

function literal_search :: "string list \<Rightarrow> string list \<Rightarrow> string" where
  "literal_search pending seen =
     (if pending = [] then []
      else
        let rest = butlast pending; text = remove_shell_line_continuations (last pending)
        in if text \<in> set seen then literal_search rest seen
           else if words_reason (words_of text) \<noteq> [] then words_reason (words_of text)
           else literal_search (rest @ nested_commands text) (text # seen))"
  by pat_completeness auto

termination
proof (relation "inv_image (mult less_than) (\<lambda>(pending, _). mset (map length pending))")
  show "wf (inv_image (mult less_than) (\<lambda>(pending :: string list, _ :: string list). mset (map length pending)))"
    by (simp add: wf_mult)
next
  fix pending seen rest :: "string list"
  assume "pending \<noteq> []" "rest = butlast pending"
  then show "((rest, seen), (pending, seen)) \<in> inv_image (mult less_than) (\<lambda>(pending, _). mset (map length pending))"
    using stack_decreases [of pending "[]"] by simp
next
  fix pending seen rest :: "string list" and t
  assume ne: "pending \<noteq> []" and rest: "rest = butlast pending"
    and t: "t = remove_shell_line_continuations (last pending)"
  have "length t \<le> length (last pending)"
    using t remove_continuations_length by (simp add: remove_shell_line_continuations_def)
  then have "\<forall>n \<in> set (nested_commands t). length n < length (last pending)"
    using nested_shorter by fastforce
  then show "((rest @ nested_commands t, t # seen), (pending, seen))
      \<in> inv_image (mult less_than) (\<lambda>(pending, _). mset (map length pending))"
    using stack_decreases [OF ne] rest by simp
qed

declare literal_search.simps [simp del]

definition literal_sensitive_reason :: "string \<Rightarrow> string" where
  "literal_sensitive_reason command = literal_search [command] []"

text \<open>The texts nested in a command at any depth.\<close>

inductive reaches :: "string \<Rightarrow> string \<Rightarrow> bool" where
  reaches_self: "reaches command (remove_shell_line_continuations command)"
| reaches_nested: "reaches command text \<Longrightarrow> n \<in> set (nested_commands text) \<Longrightarrow>
    reaches command (remove_shell_line_continuations n)"

definition clean :: "string \<Rightarrow> bool" where
  "clean text \<longleftrightarrow> words_reason (words_of text) = []"

lemma reaches_below:
  "reaches n t \<Longrightarrow> n \<in> set (nested_commands (remove_shell_line_continuations c)) \<Longrightarrow> reaches c t"
  by (induction rule: reaches.induct) (auto intro: reaches.intros)

text \<open>A reason that is found belongs to a text that is reached.\<close>

lemma literal_search_finds:
  "literal_search pending seen \<noteq> [] \<Longrightarrow>
     \<exists>c \<in> set pending. \<exists>t. reaches c t \<and> words_reason (words_of t) = literal_search pending seen"
proof (induction pending seen rule: literal_search.induct)
  case (1 pending seen)
  let ?c = "last pending" let ?t = "remove_shell_line_continuations ?c"
  have ne: "pending \<noteq> []" using "1.prems" by (auto simp: literal_search.simps [of pending])
  have c: "?c \<in> set pending" using ne by simp
  consider "?t \<in> set seen" | "?t \<notin> set seen" "words_reason (words_of ?t) \<noteq> []"
    | "?t \<notin> set seen" "words_reason (words_of ?t) = []" by blast
  then show ?case
  proof cases
    case 1
    then have "literal_search pending seen = literal_search (butlast pending) seen"
      by (simp add: literal_search.simps [of pending] ne Let_def)
    then show ?thesis using "1.IH"(1) [OF ne refl refl 1] "1.prems" by (auto dest: in_set_butlastD)
  next
    case 2
    then have "literal_search pending seen = words_reason (words_of ?t)"
      by (simp add: literal_search.simps [of pending] ne Let_def)
    then show ?thesis using c reaches_self by metis
  next
    case 3
    then have eq: "literal_search pending seen = literal_search (butlast pending @ nested_commands ?t) (?t # seen)"
      by (simp add: literal_search.simps [of pending] ne Let_def)
    obtain d t where d: "d \<in> set (butlast pending @ nested_commands ?t)" "reaches d t"
      "words_reason (words_of t) = literal_search pending seen"
      using "1.IH"(2) [OF ne refl refl 3(1)] 3(2) "1.prems" eq by auto
    show ?thesis
    proof (cases "d \<in> set (butlast pending)")
      case True
      then show ?thesis using d by (metis in_set_butlastD)
    next
      case False
      then show ?thesis using d c reaches_below by (metis UnE set_append)
    qed
  qed
qed

text \<open>When none is found, the texts seen are clean and closed under nesting.\<close>

definition closed_clean :: "string set \<Rightarrow> bool" where
  "closed_clean S \<longleftrightarrow>
     (\<forall>s \<in> S. clean s \<and> (\<forall>n \<in> set (nested_commands s). remove_shell_line_continuations n \<in> S))"

lemma literal_search_clears:
  "literal_search pending seen = [] \<Longrightarrow>
     \<forall>s \<in> set seen. clean s \<and> (\<forall>n \<in> set (nested_commands s).
       remove_shell_line_continuations n \<in> set seen \<union> remove_shell_line_continuations ` set pending) \<Longrightarrow>
     \<exists>S. closed_clean S \<and> set seen \<subseteq> S \<and> remove_shell_line_continuations ` set pending \<subseteq> S"
proof (induction pending seen rule: literal_search.induct)
  case (1 pending seen)
  let ?r = remove_shell_line_continuations
  let ?t = "?r (last pending)"
  show ?case
  proof (cases "pending = []")
    case True
    then show ?thesis using "1.prems"(2) by (intro exI [of _ "set seen"]) (simp add: closed_clean_def)
  next
    case ne: False
    have pend: "set pending = insert (last pending) (set (butlast pending))"
      using append_butlast_last_id [OF ne] by (metis Un_insert_right list.set(1,2) set_append sup_bot.right_neutral)
    show ?thesis
    proof (cases "?t \<in> set seen")
      case True
      have eq: "set seen \<union> ?r ` set pending = set seen \<union> ?r ` set (butlast pending)"
        by (subst pend) (use True in auto)
      have "literal_search (butlast pending) seen = []"
        using "1.prems"(1) True ne by (simp add: literal_search.simps [of pending] Let_def)
      moreover have "\<forall>s \<in> set seen. clean s \<and> (\<forall>n \<in> set (nested_commands s).
          ?r n \<in> set seen \<union> ?r ` set (butlast pending))"
        using "1.prems"(2) unfolding eq .
      ultimately obtain S where "closed_clean S" "set seen \<subseteq> S" "?r ` set (butlast pending) \<subseteq> S"
        using "1.IH"(1) [OF ne refl refl True] by blast
      then show ?thesis using True pend by (intro exI [of _ S]) auto
    next
      case False
      have clear: "words_reason (words_of ?t) = []"
        "literal_search (butlast pending @ nested_commands ?t) (?t # seen) = []"
        using "1.prems"(1) False ne by (auto simp: literal_search.simps [of pending] Let_def split: if_split_asm)
      have eq: "set seen \<union> ?r ` set pending \<subseteq> set (?t # seen) \<union> ?r ` set (butlast pending @ nested_commands ?t)"
        by (subst pend) auto
      have "\<forall>s \<in> set (?t # seen). clean s \<and> (\<forall>n \<in> set (nested_commands s).
          ?r n \<in> set (?t # seen) \<union> ?r ` set (butlast pending @ nested_commands ?t))"
      proof (intro ballI conjI)
        fix s assume s: "s \<in> set (?t # seen)"
        then consider "s = ?t" | "s \<in> set seen" by auto
        then show "clean s"
          by cases (simp add: clean_def clear(1), use "1.prems"(2) in blast)
        fix n assume n: "n \<in> set (nested_commands s)"
        from s consider "s = ?t" | "s \<in> set seen" by auto
        then show "?r n \<in> set (?t # seen) \<union> ?r ` set (butlast pending @ nested_commands ?t)"
        proof cases
          case 1
          with n show ?thesis by simp
        next
          case 2
          with "1.prems"(2) n have "?r n \<in> set seen \<union> ?r ` set pending" by blast
          then show ?thesis using eq by (rule subsetD [rotated])
        qed
      qed
      then obtain S where "closed_clean S" "set (?t # seen) \<subseteq> S"
          "?r ` set (butlast pending @ nested_commands ?t) \<subseteq> S"
        using "1.IH"(2) [OF ne refl refl False] clear by blast
      then show ?thesis using pend by (intro exI [of _ S]) auto
    qed
  qed
qed

lemma closed_clean_reached: "reaches c t \<Longrightarrow> closed_clean S \<Longrightarrow> remove_shell_line_continuations c \<in> S \<Longrightarrow> t \<in> S"
  by (induction rule: reaches.induct) (auto simp: closed_clean_def)

lemma literal_reason_iff: "literal_sensitive_reason c = [] \<longleftrightarrow> (\<forall>t. reaches c t \<longrightarrow> clean t)"
proof
  assume "literal_sensitive_reason c = []"
  then obtain S where "closed_clean S" "remove_shell_line_continuations c \<in> S"
    using literal_search_clears [of "[c]" "[]"] by (auto simp: literal_sensitive_reason_def)
  then show "\<forall>t. reaches c t \<longrightarrow> clean t"
    using closed_clean_reached by (auto simp: closed_clean_def)
next
  assume clear: "\<forall>t. reaches c t \<longrightarrow> clean t"
  show "literal_sensitive_reason c = []"
  proof (rule ccontr)
    assume "literal_sensitive_reason c \<noteq> []"
    then show False
      using literal_search_finds [of "[c]" "[]"] clear
      by (auto simp: literal_sensitive_reason_def clean_def)
  qed
qed

lemma literal_reason_values:
  "literal_sensitive_reason c \<noteq> [] \<Longrightarrow>
     literal_sensitive_reason c \<in> {''sensitive_path'', ''env_split_string_rejected''}"
  using literal_search_finds [of "[c]" "[]"]
  by (auto simp: literal_sensitive_reason_def words_reason_def split: if_split_asm)

end
