(* ===== verification/CommandPolicy.thy ===== *)
theory CommandPolicy
  imports CommandWords
begin

text \<open>
  The assessment of a shell command, \<open>pony/security/command_policy.py\<close>: allow, ask or reject,
  with a reason, a risk class, and whether it runs as a list of words or through a shell.
  The file system under the workspace root is a parameter: what \<open>resolve\<close> makes of the root
  and what \<open>lstat\<close> says of an absolute path, given as its list of parts.
\<close>

subsection \<open>Path operands\<close>

datatype inode = RegularFile | Directory | SymbolicLink | OtherNode

datatype lstat_result = Missing | LstatFails | Node inode

record workspace_fs =
  fs_root :: "string list option"
  fs_lstat :: "string list \<Rightarrow> lstat_result"

definition posix_text :: "string list \<Rightarrow> string" where
  "posix_text parts = (if parts = [] then ''.'' else join_with slash parts)"

fun walk_operand ::
  "(string list \<Rightarrow> lstat_result) \<Rightarrow> bool \<Rightarrow> bool \<Rightarrow> string list \<Rightarrow> inode \<Rightarrow> string list \<Rightarrow> string" where
  "walk_operand lstat env_template require_regular current mode [] =
     (if env_template \<and> mode \<noteq> RegularFile then ''sensitive_path''
      else if require_regular \<and> mode \<noteq> RegularFile then ''unsafe_path''
      else [])"
| "walk_operand lstat env_template require_regular current mode (part # parts) =
     (case lstat (current @ [part]) of
        Missing \<Rightarrow> if parts \<noteq> [] then ''unsafe_path'' else if env_template then ''sensitive_path'' else []
      | LstatFails \<Rightarrow> ''unsafe_path''
      | Node mode \<Rightarrow>
          if mode = SymbolicLink then ''unsafe_path''
          else if parts \<noteq> [] \<and> mode \<noteq> Directory then ''unsafe_path''
          else walk_operand lstat env_template require_regular (current @ [part]) mode parts)"

definition NUL :: char where "NUL = CHR 0x00"

text \<open>\<open>os.path.abspath\<close> of the operand: its root and its normalised parts.\<close>

definition absolute_operand :: "string list \<Rightarrow> pure_path \<Rightarrow> string \<times> string list" where
  "absolute_operand base source =
     (if path_root source \<noteq> [] then (path_root source, norm_comps True (path_parts source))
      else ([slash], norm_comps True (base @ path_parts source)))"

definition path_operand_reason :: "workspace_fs \<Rightarrow> bool \<Rightarrow> string \<Rightarrow> string" where
  "path_operand_reason fs require_regular raw =
     (if raw = [] \<or> NUL \<in> set raw then ''unsafe_path''
      else case fs_root fs of
        None \<Rightarrow> ''unsafe_path''
      | Some base \<Rightarrow>
          let source = pure raw;
              (anchor, parts) = absolute_operand base source
          in if anchor \<noteq> [slash] \<or> \<not> prefix base parts then ''outside_path''
             else
               let relative = drop (length base) parts
               in if ''..'' \<in> set (path_parts source) then ''unsafe_path''
                  else if is_sensitive_path (posix_text relative) then ''sensitive_path''
                  else (case fs_lstat fs base of
                          Node mode \<Rightarrow> walk_operand (fs_lstat fs)
                            (is_allowed_env_template_leaf (posix_text relative)) require_regular base mode relative
                        | _ \<Rightarrow> ''unsafe_path''))"

fun paths_reason :: "workspace_fs \<Rightarrow> bool \<Rightarrow> string list \<Rightarrow> string" where
  "paths_reason fs require_regular [] = []"
| "paths_reason fs require_regular (operand # operands) =
     (let reason = path_operand_reason fs require_regular operand
      in if reason \<noteq> [] then reason else paths_reason fs require_regular operands)"

subsection \<open>The read-only grammar\<close>

definition LS_OPTIONS :: "string list" where
  "LS_OPTIONS = [''-1'', ''-a'', ''-A'', ''-d'', ''-F'', ''-l'']"

definition FILE_OPTIONS :: "string list" where
  "FILE_OPTIONS = [''-b'', ''--brief'']"

definition WC_OPTIONS :: "string list" where
  "WC_OPTIONS = [''-c'', ''-l'', ''-w'']"

definition GIT_STATUS_OPTIONS :: "string list" where
  "GIT_STATUS_OPTIONS = [''--short'', ''--porcelain'', ''--porcelain=v1'', ''--branch'']"

definition AUTO_HEADS :: "string list" where
  "AUTO_HEADS = [''pwd'', ''ls'', ''stat'', ''file'', ''wc'', ''git'']"

definition INTERPRETERS :: "string list" where
  "INTERPRETERS = [''python'', ''python3'', ''node'', ''ruby'', ''perl'', ''php'']"

definition PRIVILEGED :: "string list" where
  "PRIVILEGED = [''sudo'', ''doas'', ''pkexec'']"

definition DESTRUCTIVE_HEADS :: "string list" where
  "DESTRUCTIVE_HEADS = [''shutdown'', ''reboot'', ''mount'', ''umount'', ''chown'', ''chmod'', ''kill'']"

definition git_grammar_reason :: "string list \<Rightarrow> string" where
  "git_grammar_reason args =
     (case args of
        [] \<Rightarrow> ''unknown_git_grammar''
      | subcommand # rest \<Rightarrow>
          if (subcommand = ''status'' \<and> distinct rest \<and> set rest \<subseteq> set GIT_STATUS_OPTIONS)
             \<or> (subcommand = ''rev-parse''
                 \<and> rest \<in> {[''--show-toplevel''], [''--is-inside-work-tree''], [''--abbrev-ref'', ''HEAD''], [''HEAD'']})
             \<or> (subcommand = ''branch'' \<and> rest \<in> {[''--show-current''], [''--list'']})
             \<or> (subcommand = ''worktree'' \<and> rest = [''list''])
             \<or> (subcommand = ''ls-files'' \<and> rest = [])
          then [] else ''unknown_git_grammar'')"

definition drop_option :: "string list \<Rightarrow> string list \<Rightarrow> string list" where
  "drop_option options args = (if args \<noteq> [] \<and> hd args \<in> set options then tl args else args)"

definition is_option :: "string \<Rightarrow> bool" where
  "is_option w \<longleftrightarrow> starts_with w ''-''"

definition automatic_grammar_reason :: "workspace_fs \<Rightarrow> string \<Rightarrow> string list \<Rightarrow> string" where
  "automatic_grammar_reason fs head args =
     (if head = ''pwd'' then (if args = [] then [] else ''unknown_option'')
      else if head = ''ls'' then
        (if list_ex (\<lambda>o'. o' \<notin> set LS_OPTIONS) (filter is_option args) then ''unknown_option''
         else paths_reason fs False (filter (\<lambda>w. \<not> is_option w) args))
      else if head = ''stat'' then
        (if args = [] then ''missing_path''
         else if list_ex is_option args then ''unknown_option''
         else paths_reason fs False args)
      else if head = ''file'' then
        (let args = drop_option FILE_OPTIONS args
         in if args = [] \<or> list_ex is_option args then ''unknown_option_or_missing_path''
            else paths_reason fs False args)
      else if head = ''wc'' then
        (let args = drop_option WC_OPTIONS args
         in if args = [] \<or> list_ex is_option args then ''unknown_option_or_missing_path''
            else paths_reason fs True args)
      else if head = ''git'' then git_grammar_reason args
      else ''unknown_command'')"

subsection \<open>The assessment\<close>

record assessment =
  risk_class :: string
  as_decision :: string
  as_reason :: string
  as_argv :: "string list"
  execution_mode :: string

definition mk_assessment :: "string \<Rightarrow> string \<Rightarrow> string \<Rightarrow> string list \<Rightarrow> string \<Rightarrow> assessment" where
  "mk_assessment risk decision reason argv mode =
     \<lparr>risk_class = risk, as_decision = decision, as_reason = reason, as_argv = argv, execution_mode = mode\<rparr>"

definition path_reasons :: "string list" where
  "path_reasons = [''sensitive_path'', ''unsafe_path'', ''outside_path'']"

text \<open>What a read-only command becomes once its grammar has been judged.\<close>

definition assess_read_only :: "string list option \<Rightarrow> string \<Rightarrow> string list \<Rightarrow> string \<Rightarrow> assessment" where
  "assess_read_only executables head argv reason =
     (if reason \<noteq> [] then
        (if reason \<in> set path_reasons then mk_assessment ''destructive'' ''reject'' reason argv ''argv''
         else mk_assessment ''external_effect'' ''ask'' reason argv ''argv'')
      else if (case executables of None \<Rightarrow> False | Some names \<Rightarrow> head \<notin> set names) then
        mk_assessment ''read_only'' ''ask'' ''trusted_executable_missing'' argv ''argv''
      else mk_assessment ''read_only'' ''allow'' ''proved_read_only'' argv ''argv'')"

definition assess_redirects :: "string list \<Rightarrow> assessment" where
  "assess_redirects reasons =
     (if ''sensitive_path'' \<in> set reasons then mk_assessment ''destructive'' ''reject'' ''sensitive_path'' [] ''shell''
      else if ''outside_path'' \<in> set reasons \<or> ''unsafe_path'' \<in> set reasons then
        mk_assessment ''destructive'' ''ask'' ''unsafe_redirect'' [] ''shell''
      else mk_assessment ''workspace_write'' ''ask'' ''redirect_requires_approval'' [] ''shell'')"

definition has_shell_grammar :: "shell_scan \<Rightarrow> bool" where
  "has_shell_grammar scan \<longleftrightarrow>
     sc_parse_error scan \<or> sc_operators scan \<noteq> [] \<or> sc_expansion scan \<or> sc_assignment scan
     \<or> sc_control_keyword scan"

function assess_posix ::
  "workspace_fs \<Rightarrow> string list option \<Rightarrow> nat \<Rightarrow> string \<Rightarrow> assessment res" where
  "assess_posix fs executables depth command =
     (let raw = strip command in
      bindR (scan_shell_syntax raw) (\<lambda>scan.
      let literal_reason = literal_sensitive_reason raw in
      if literal_reason \<noteq> [] then
        Inr (mk_assessment ''destructive'' ''reject'' literal_reason []
               (if has_shell_grammar scan then ''shell'' else ''argv''))
      else if sc_parse_error scan then
        Inr (mk_assessment ''external_effect'' ''ask'' ''shell_parse_error'' [] ''shell'')
      else
        bindR (shlex_split raw) (\<lambda>argv.
        if sc_redirects scan \<noteq> [] then
          (if sc_expansion scan then Inr (mk_assessment ''destructive'' ''ask'' ''dynamic_redirect'' [] ''shell'')
           else Inr (assess_redirects (map (path_operand_reason fs False \<circ> snd) (sc_redirects scan))))
        else if has_shell_grammar scan then
          Inr (mk_assessment ''external_effect'' ''ask'' ''shell_grammar_requires_approval'' [] ''shell'')
        else if argv = [] then Inr (mk_assessment ''external_effect'' ''ask'' ''empty_command'' [] ''shell'')
        else if slash \<in> set (hd argv) \<or> backslash \<in> set (hd argv) then
          Inr (mk_assessment ''external_effect'' ''ask'' ''executable_path_requires_approval'' argv ''argv'')
        else
          case shell_wrapper_payload argv of
            Some payload \<Rightarrow>
              bindR (if depth < 2 then bindR (assess_posix fs executables (depth + 1) payload) (\<lambda>a. Inr (Some a))
                     else Inr None) (\<lambda>nested.
              case nested of
                Some a \<Rightarrow>
                  if as_decision a = ''reject''
                  then Inr (mk_assessment ''destructive'' ''reject'' (as_reason a) argv ''argv'')
                  else Inr (mk_assessment ''external_effect'' ''ask'' ''shell_wrapper_requires_approval'' argv ''argv'')
              | None \<Rightarrow> Inr (mk_assessment ''external_effect'' ''ask'' ''shell_wrapper_requires_approval'' argv ''argv''))
          | None \<Rightarrow>
              let head = hd argv in
              if head \<in> set AUTO_HEADS then
                Inr (assess_read_only executables head argv (automatic_grammar_reason fs head (tl argv)))
              else if head \<in> set INTERPRETERS then
                Inr (mk_assessment ''external_effect'' ''ask'' ''interpreter_requires_approval'' argv ''argv'')
              else if head \<in> set PRIVILEGED then
                Inr (mk_assessment ''external_effect'' ''ask'' ''privileged_command_requires_approval'' argv ''argv'')
              else if head \<in> set DESTRUCTIVE_HEADS then
                Inr (mk_assessment ''destructive'' ''ask'' ''system_command_requires_approval'' argv ''argv'')
              else Inr (mk_assessment ''external_effect'' ''ask'' ''unknown_command_requires_approval'' argv ''argv''))))"
  by pat_completeness auto
termination
  by (relation "measure (\<lambda>(_, _, depth, _). 2 - depth)") auto

declare assess_posix.simps [simp del]

subsection \<open>Windows\<close>

definition POWERSHELL_ALIASES :: "string list" where
  "POWERSHELL_ALIASES = [''cat'', ''cd'', ''copy'', ''cp'', ''del'', ''dir'', ''echo'', ''gc'', ''gci'',
     ''gl'', ''ls'', ''mkdir'', ''move'', ''mv'', ''ni'', ''pwd'', ''rm'', ''ri'', ''sls'', ''type'']"

definition POWERSHELL_WRAPPERS :: "string list" where
  "POWERSHELL_WRAPPERS = [''bash'', ''cmd'', ''powershell'', ''pwsh'', ''sh'', ''wsl'', ''zsh'']"

definition windows_command_name :: "string \<Rightarrow> string" where
  "windows_command_name value =
     (let folded = casefold (nt_basename value)
      in if ends_in folded ''.exe'' then take (length folded - 4) folded else folded)"

definition windows_ads_operand :: "string \<Rightarrow> bool" where
  "windows_ads_operand raw \<longleftrightarrow>
     \<not> (starts_with raw ''$'' \<or> occurs_in ''://'' raw)
     \<and> CHR '':'' \<in> set
       (case raw of
          a # b # c # r \<Rightarrow>
            if (is_lower a \<or> is_upper a) \<and> b = CHR '':'' \<and> (c = slash \<or> c = backslash) then c # r else raw
        | _ \<Rightarrow> raw)"

definition windows_segment_reason :: "string list \<Rightarrow> string" where
  "windows_segment_reason segment =
     (if segment = [] then []
      else if windows_command_name (hd segment) \<in> set POWERSHELL_WRAPPERS then ''shell_wrapper_rejected''
      else if hd segment = ''.'' then ''dot_sourcing_rejected''
      else [])"

definition windows_literal_reason :: "string list \<Rightarrow> string" where
  "windows_literal_reason words =
     (if list_ex windows_ads_operand words then ''alternate_data_stream_rejected''
      else if list_ex literal_word_is_sensitive words then ''sensitive_path''
      else case find (\<lambda>s. windows_segment_reason s \<noteq> []) (command_segments words) of
             Some segment \<Rightarrow> windows_segment_reason segment | None \<Rightarrow> [])"

text \<open>\<open>^[A-Za-z]+-[A-Za-z][A-Za-z0-9]*$\<close>.\<close>

definition letter :: "char \<Rightarrow> bool" where "letter c \<longleftrightarrow> is_lower c \<or> is_upper c"

definition powershell_cmdlet :: "string \<Rightarrow> bool" where
  "powershell_cmdlet s \<longleftrightarrow>
     takeWhile letter s \<noteq> []
     \<and> (case dropWhile letter s of
          a # b # r \<Rightarrow> a = CHR ''-'' \<and> letter b \<and> list_all (\<lambda>c. letter c \<or> is_digit c) r
        | _ \<Rightarrow> False)"

definition windows_requires_powershell :: "string \<Rightarrow> bool" where
  "windows_requires_powershell head \<longleftrightarrow> head \<in> set POWERSHELL_ALIASES \<or> powershell_cmdlet head"

text \<open>The check of a redirect target by the rules of Windows paths is a parameter.\<close>

definition assess_windows ::
  "(string \<Rightarrow> string) \<Rightarrow> string list option \<Rightarrow> string \<Rightarrow> assessment" where
  "assess_windows target_reason executables command =
     (let scan = scan_powershell_syntax (strip command);
          words = ps_words scan;
          head = (if words = [] then [] else windows_command_name (hd words));
          shell_grammar = (ps_operators scan \<noteq> [] \<or> windows_requires_powershell head);
          literal_reason = windows_literal_reason (ps_tokens scan)
      in if ps_rejected_reason scan \<noteq> [] then
           mk_assessment ''destructive'' ''reject'' (ps_rejected_reason scan) [] ''shell''
         else if literal_reason \<noteq> [] then
           mk_assessment ''destructive'' ''reject'' literal_reason [] (if shell_grammar then ''shell'' else ''argv'')
         else if ps_parse_error scan then
           mk_assessment ''external_effect'' ''reject'' ''powershell_parse_error'' [] ''shell''
         else if ps_redirects scan \<noteq> [] then assess_redirects (map (target_reason \<circ> snd) (ps_redirects scan))
         else if shell_grammar then
           mk_assessment ''external_effect'' ''ask'' ''shell_grammar_requires_approval'' [] ''shell''
         else if words = [] then mk_assessment ''external_effect'' ''ask'' ''empty_command'' [] ''shell''
         else if slash \<in> set (hd words) \<or> backslash \<in> set (hd words) then
           mk_assessment ''external_effect'' ''ask'' ''executable_path_requires_approval'' words ''argv''
         else if head = ''git'' then assess_read_only executables head words (git_grammar_reason (tl words))
         else if head \<in> set INTERPRETERS then
           mk_assessment ''external_effect'' ''ask'' ''interpreter_requires_approval'' words ''argv''
         else if head \<in> set DESTRUCTIVE_HEADS then
           mk_assessment ''destructive'' ''ask'' ''system_command_requires_approval'' words ''argv''
         else mk_assessment ''external_effect'' ''ask'' ''unknown_command_requires_approval'' words ''argv'')"

text \<open>\<open>assess_command\<close>; the platform is given by the check of its redirect targets.\<close>

definition assess_command ::
  "(string \<Rightarrow> string) option \<Rightarrow> workspace_fs \<Rightarrow> string list option \<Rightarrow> string \<Rightarrow> assessment res" where
  "assess_command windows fs executables command =
     (case windows of
        Some target_reason \<Rightarrow> Inr (assess_windows target_reason executables command)
      | None \<Rightarrow> assess_posix fs executables 0 command)"

end
