(* ===== verification/CommandFacts.thy ===== *)
theory CommandFacts
  imports CommandPolicy
begin

text \<open>
  What the scanner of a POSIX command computes: its quoting is that of the lexer, and it sees
  no operator and no expansion exactly when a shell would take every character literally.
\<close>

subsection \<open>Literal commands\<close>

text \<open>
  Whether a shell takes a character literally: \<open>prev\<close> is the character before it.  An escaped
  line break disappears and a tilde expands at the start of a word.
\<close>

fun inert :: "char option \<Rightarrow> quoting \<Rightarrow> char \<Rightarrow> bool" where
  "inert prev (q, True) c = (c \<noteq> newline \<and> c \<noteq> creturn)"
| "inert prev (SingleQuoted, False) c = True"
| "inert prev (DoubleQuoted, False) c = (c \<noteq> CHR ''$'' \<and> c \<noteq> CHR 0x60)"
| "inert prev (Unquoted, False) c =
     (c \<noteq> newline \<and> c \<noteq> creturn \<and> c \<notin> set ONE_CHAR_SHELL_TOKENS \<and> c \<notin> set (CHR 0x60 # ''$*?[{'')
      \<and> \<not> (c = CHR ''~'' \<and> (case prev of None \<Rightarrow> True | Some p \<Rightarrow> py_space p)))"

fun literal :: "char option \<Rightarrow> quoting \<Rightarrow> string \<Rightarrow> bool" where
  "literal prev q [] = True"
| "literal prev q (c # s) = (inert prev q c \<and> literal (Some c) (quote_step q c) s)"

text \<open>No character of the command means anything to a shell but quoting.\<close>

definition literal_command :: "string \<Rightarrow> bool" where
  "literal_command s \<longleftrightarrow> literal None (Unquoted, False) s"

definition quiet :: "shell_syntax \<Rightarrow> bool" where
  "quiet x \<longleftrightarrow> sx_operators x = [] \<and> \<not> sx_expansion x"

lemma quiet_simps [simp]:
  "\<not> quiet (operator op x)" "\<not> quiet (expansion x)" "quiet empty_syntax"
  by (simp_all add: quiet_def operator_def expansion_def empty_syntax_def)

fun quoting_ok :: "quoting \<Rightarrow> bool" where
  "quoting_ok (q, escaped) = (\<not> (q = SingleQuoted \<and> escaped))"

lemma line_break_cases:
  assumes "line_break_length s \<noteq> 0"
  obtains t where "s = creturn # newline # t" "line_break_length s = 2"
  | c t where "s = c # t" "c = newline \<or> c = creturn" "line_break_length s = 1"
proof (cases s)
  case Nil
  then show ?thesis using assms by (simp add: line_break_length_def)
next
  case (Cons c t)
  show ?thesis
  proof (cases t)
    case Nil
    then show ?thesis using assms Cons that(2) by (auto simp: line_break_length_def split: if_split_asm)
  next
    case (Cons d u)
    then show ?thesis
      using assms \<open>s = c # t\<close> that by (auto simp: line_break_length_def split: if_split_asm)
  qed
qed

lemma no_line_break: "line_break_length (c # s) = 0 \<longleftrightarrow> c \<noteq> newline \<and> c \<noteq> creturn"
  by (cases s) (auto simp: line_break_length_def)

text \<open>Skipping a line break does not change the quoting.\<close>

lemma skip_break_quoting:
  assumes "line_break_length s \<noteq> 0" "q \<noteq> SingleQuoted"
  shows "quoting_after (q, False) (drop (line_break_length s) s) = quoting_after (q, False) s"
    "quoting_after (q, False) (drop (line_break_length s) s) = quoting_after (q, True) s"
proof -
  show "quoting_after (q, False) (drop (line_break_length s) s) = quoting_after (q, False) s"
    using assms by (cases q; elim line_break_cases) auto
  show "quoting_after (q, False) (drop (line_break_length s) s) = quoting_after (q, True) s"
    using assms by (cases q; elim line_break_cases) auto
qed

lemma scan_shell_quoting:
  "quoting_ok q \<Longrightarrow> fst (scan_shell prev q s x) = quoting_after q s"
proof (induction "length s" arbitrary: prev q s x rule: less_induct)
  case less
  obtain m escaped where q: "q = (m, escaped)" by (cases q)
  show ?case
  proof (cases s)
    case Nil
    then show ?thesis using q by simp
  next
    case (Cons c t)
    have next_char: "fst (scan_shell p r t y) = quoting_after r t" if "quoting_ok r" for p r y
      using less.hyps [OF _ that] Cons by simp
    have skip: "fst (scan_shell p r (drop n t) y) = quoting_after r (drop n t)" if "quoting_ok r" for p r y n
      using less.hyps [OF _ that] Cons by simp
    have two: "quoting_after (Unquoted, False) (drop 1 t) = quoting_after (Unquoted, False) t"
      if "take 2 (c # t) = ''$('' \<or> take 2 (c # t) \<in> set TWO_CHAR_SHELL_TOKENS"
      using that by (cases t) (auto simp: TWO_CHAR_SHELL_TOKENS_def quote_chars)
    have cut: "fst (scan_shell p (Unquoted, False) (drop (line_break_length s) s) y) = quoting_after (Unquoted, False) s"
      if "line_break_length s \<noteq> 0" for p y
      using less.hyps [of "drop (line_break_length s) s" "(Unquoted, False)" p y] that Cons
        skip_break_quoting(1) [OF that, of Unquoted] by simp
    show ?thesis
    proof (cases escaped)
      case True
      then show ?thesis using Cons q less.prems by (cases m) (simp_all add: next_char)
    next
      case False
      show ?thesis
      proof (cases m)
        case SingleQuoted
        then show ?thesis using Cons q False by (simp add: next_char)
      next
        case DoubleQuoted
        then show ?thesis
          using Cons q False skip_break_quoting(2) [of t DoubleQuoted]
          by (simp add: next_char skip Let_def)
      next
        case Unquoted
        consider "c = backslash" | "c = single_quote" | "c = double_quote"
          | "c \<noteq> backslash" "c \<noteq> single_quote" "c \<noteq> double_quote" by blast
        then show ?thesis
        proof cases
          case 1
          then show ?thesis
            using Cons q False Unquoted skip_break_quoting(2) [of t Unquoted]
            by (simp add: next_char skip Let_def)
        next
          case 4
          then show ?thesis
            using Cons q False Unquoted two cut
            by (simp add: next_char skip Let_def del: drop.simps)
        qed (use Cons q False Unquoted in \<open>simp_all add: next_char\<close>)
      qed
    qed
  qed
qed

lemma literal_break:
  "line_break_length t \<noteq> 0 \<Longrightarrow> \<not> literal prev (q, True) t"
  by (elim line_break_cases) auto

lemma pair_not_inert:
  "take 2 (c # t) = ''$('' \<or> take 2 (c # t) \<in> set TWO_CHAR_SHELL_TOKENS \<Longrightarrow>
     c \<in> set (CHR ''$'' # ONE_CHAR_SHELL_TOKENS)"
  by (auto simp: TWO_CHAR_SHELL_TOKENS_def ONE_CHAR_SHELL_TOKENS_def)

lemma scan_shell_quiet:
  "quoting_ok q \<Longrightarrow> (snd q \<Longrightarrow> line_break_length s = 0) \<Longrightarrow>
     quiet (snd (scan_shell prev q s x)) \<longleftrightarrow> quiet x \<and> literal prev q s"
proof (induction "length s" arbitrary: prev q s x rule: less_induct)
  case less
  obtain m escaped where q: "q = (m, escaped)" by (cases q)
  show ?case
  proof (cases s)
    case Nil
    then show ?thesis using q by simp
  next
    case (Cons c t)
    have next_char: "quiet (snd (scan_shell p (r, False) t y)) \<longleftrightarrow> quiet y \<and> literal p (r, False) t" for p r y
      using less.hyps [of t "(r, False)" p y] Cons by simp
    have next_escaped: "quiet (snd (scan_shell p (r, True) t y)) \<longleftrightarrow> quiet y \<and> literal p (r, True) t"
      if "r \<noteq> SingleQuoted" "line_break_length t = 0" for p r y
      using less.hyps [of t "(r, True)" p y] that Cons by simp
    have loud: "\<not> quiet (snd (scan_shell p (r, False) (drop n t) y))" if "\<not> quiet y" for p r y n
      using less.hyps [of "drop n t" "(r, False)" p y] that Cons by simp
    have cut: "\<not> quiet (snd (scan_shell p (Unquoted, False) (drop (line_break_length s) s) y))"
      if "line_break_length s \<noteq> 0" "\<not> quiet y" for p y
      using less.hyps [of "drop (line_break_length s) s" "(Unquoted, False)" p y] that Cons by simp
    show ?thesis
    proof (cases escaped)
      case True
      then have "m \<noteq> SingleQuoted" "c \<noteq> newline \<and> c \<noteq> creturn"
        using less.prems q Cons by (auto simp: no_line_break)
      then show ?thesis using Cons q True by (simp add: next_char)
    next
      case False
      show ?thesis
      proof (cases m)
        case SingleQuoted
        then show ?thesis using Cons q False by (simp add: next_char)
      next
        case DoubleQuoted
        have "c = double_quote \<or> c = backslash \<Longrightarrow> c \<noteq> CHR ''$'' \<and> c \<noteq> CHR 0x60"
          by (auto simp: quote_chars)
        then show ?thesis
          using Cons q False DoubleQuoted literal_break [of t "Some c" DoubleQuoted]
          by (cases "line_break_length t = 0") (auto simp: next_char next_escaped loud Let_def)
      next
        case Unquoted
        have plain: "c \<noteq> newline \<and> c \<noteq> creturn \<and> c \<notin> set ONE_CHAR_SHELL_TOKENS
            \<and> c \<notin> set (CHR 0x60 # ''$*?[{'') \<and> c \<noteq> CHR ''~''"
          if "c = backslash \<or> c = single_quote \<or> c = double_quote"
          using that by (auto simp: quote_chars ONE_CHAR_SHELL_TOKENS_def)
        consider "c = backslash" "line_break_length t = 0" | "c = backslash" "line_break_length t \<noteq> 0"
          | "c = single_quote \<or> c = double_quote"
          | "c \<noteq> backslash" "c \<noteq> single_quote" "c \<noteq> double_quote" by blast
        then show ?thesis
        proof cases
          case 1
          then show ?thesis using Cons q False Unquoted plain by (simp add: next_escaped Let_def)
        next
          case 2
          then show ?thesis
            using Cons q False Unquoted literal_break [of t "Some c" Unquoted] by (simp add: loud Let_def)
        next
          case 3
          then show ?thesis using Cons q False Unquoted plain by (auto simp: next_char)
        next
          case 4
          show ?thesis
          proof (cases "line_break_length s = 0")
            case False
            then have brk: "0 < line_break_length (c # t)" "\<not> inert prev (Unquoted, False) c"
              using Cons no_line_break [of c t] by auto
            have "\<not> quiet (snd (scan_shell prev (Unquoted, False) (c # t) x))"
              using cut [unfolded Cons] brk(1) 4 by (simp only: scan_shell.simps) (simp add: Let_def)
            then show ?thesis using brk(2) Cons q \<open>\<not> escaped\<close> Unquoted by (simp del: scan_shell.simps inert.simps)
          next
            case True
            then have one: "line_break_length (c # t) = 0" "c \<noteq> newline" "c \<noteq> creturn"
              using Cons no_line_break [of c t] by auto
            have tilde: "CHR ''~'' \<notin> set (CHR ''$'' # ONE_CHAR_SHELL_TOKENS)"
              by (simp add: ONE_CHAR_SHELL_TOKENS_def)
            consider "take 2 (c # t) = ''$(''" | "take 2 (c # t) \<noteq> ''$(''" "take 2 (c # t) \<in> set TWO_CHAR_SHELL_TOKENS"
              | "take 2 (c # t) \<noteq> ''$(''" "take 2 (c # t) \<notin> set TWO_CHAR_SHELL_TOKENS" by blast
            then show ?thesis
            proof cases
              case 1
              then show ?thesis
                using 4 Cons q \<open>\<not> escaped\<close> Unquoted one pair_not_inert [of c t] by (auto simp: loud Let_def)
            next
              case 2
              then show ?thesis
                using 4 Cons q \<open>\<not> escaped\<close> Unquoted one pair_not_inert [of c t]
                by (simp add: loud Let_def) blast
            next
              case 3
              then show ?thesis
                using 4 Cons q \<open>\<not> escaped\<close> Unquoted one by (auto simp: next_char Let_def)
            qed
          qed
        qed
      qed
    qed
  qed
qed

lemma scan_shell_command:
  obtains x where "scan_shell None (Unquoted, False) s empty_syntax = (quoting_after (Unquoted, False) s, x)"
    "quiet x \<longleftrightarrow> literal_command s"
  using scan_shell_quoting [of "(Unquoted, False)" None s empty_syntax]
    scan_shell_quiet [of "(Unquoted, False)" s None empty_syntax]
  by (cases "scan_shell None (Unquoted, False) s empty_syntax") (auto simp: literal_command_def)

lemma scan_shell_syntax_total:
  obtains scan where "scan_shell_syntax s = Inr scan"
    "sc_parse_error scan \<longleftrightarrow> \<not> closed s"
    "sc_operators scan = [] \<and> \<not> sc_expansion scan \<longleftrightarrow> literal_command s"
proof -
  obtain x where x: "scan_shell None (Unquoted, False) s empty_syntax = (quoting_after (Unquoted, False) s, x)"
    "quiet x \<longleftrightarrow> literal_command s"
    by (rule scan_shell_command)
  show thesis
  proof (cases "closed s")
    case True
    obtain ts us where ts: "shlex_split s = Inr ts" "grammar_words s = Inr us"
      using True shlex_split_total grammar_words_total by metis
    have q: "quoting_after (Unquoted, False) s = (Unquoted, False)" using True by (simp add: closed_def)
    show thesis
      using x(2) True that unfolding scan_shell_syntax_def x(1) q quiet_def
      by (cases "sx_redirect_operators x = []") (simp_all add: ts)
  next
    case False
    then have "quoting_after (Unquoted, False) s \<noteq> (Unquoted, False)" by (simp add: closed_def)
    then show thesis
      using x(2) False by (intro that) (auto simp: scan_shell_syntax_def x(1) quiet_def)
  qed
qed

end
