(* ===== verification/CommandProperties.thy ===== *)
theory CommandProperties
  imports CommandFacts
begin

text \<open>
  What the classification of a shell command guarantees: an assessment always exists and is
  well formed, what is allowed means nothing to a shell and stays inside the workspace, and
  a sensitive word is found however deeply it is nested.
\<close>

subsection \<open>The scanners\<close>


subsection \<open>Assessments\<close>

definition assessment_ok :: "assessment \<Rightarrow> bool" where
  "assessment_ok a \<longleftrightarrow>
     as_decision a \<in> {''allow'', ''ask'', ''reject''} \<and> execution_mode a \<in> {''argv'', ''shell''}
     \<and> risk_class a \<in> {''read_only'', ''workspace_write'', ''external_effect'', ''destructive''}
     \<and> as_reason a \<noteq> []
     \<and> (execution_mode a = ''shell'' \<longrightarrow> as_argv a = [])
     \<and> (execution_mode a = ''argv'' \<and> as_decision a \<noteq> ''reject'' \<longrightarrow> as_argv a \<noteq> [])
     \<and> (as_decision a = ''allow'' \<longrightarrow> risk_class a = ''read_only'' \<and> execution_mode a = ''argv'')"

lemma assessment_ok_simps [simp]:
  "argv \<noteq> [] \<Longrightarrow> assessment_ok (assess_read_only executables head argv reason)"
  "assessment_ok (assess_redirects reasons)"
  by (auto simp: assessment_ok_def assess_read_only_def assess_redirects_def mk_assessment_def)

lemma mk_assessment_ok:
  "decision \<in> {''ask'', ''reject''} \<Longrightarrow> mode \<in> {''argv'', ''shell''} \<Longrightarrow>
   risk \<in> {''read_only'', ''workspace_write'', ''external_effect'', ''destructive''} \<Longrightarrow> reason \<noteq> [] \<Longrightarrow>
   (mode = ''shell'' \<longrightarrow> argv = []) \<Longrightarrow> (mode = ''argv'' \<and> decision = ''ask'' \<longrightarrow> argv \<noteq> []) \<Longrightarrow>
   assessment_ok (mk_assessment risk decision reason argv mode)"
  by (auto simp: assessment_ok_def mk_assessment_def)

lemma assess_windows_ok: "assessment_ok (assess_windows target_reason executables command)"
  unfolding assess_windows_def Let_def by (simp add: mk_assessment_ok)

lemma assess_posix_ok: "\<exists>a. assess_posix fs executables depth command = Inr a \<and> assessment_ok a"
proof (induction "2 - depth" arbitrary: depth command rule: less_induct)
  case less
  let ?raw = "strip command" and ?result = "assess_posix fs executables depth command"
  obtain scan where scan: "scan_shell_syntax ?raw = Inr scan" "sc_parse_error scan \<longleftrightarrow> \<not> closed ?raw"
    by (rule scan_shell_syntax_total)
  note unfold = assess_posix.simps [of fs executables depth] scan(1) Let_def
  consider "literal_sensitive_reason ?raw \<noteq> []" | "literal_sensitive_reason ?raw = []" "sc_parse_error scan"
    | argv where "literal_sensitive_reason ?raw = []" "\<not> sc_parse_error scan" "shlex_split ?raw = Inr argv"
    using scan(2) shlex_split_total by blast
  then show ?case
  proof cases
    case 1
    then show ?thesis by (simp add: unfold mk_assessment_ok)
  next
    case 2
    then show ?thesis by (simp add: unfold mk_assessment_ok)
  next
    case 3
    show ?thesis
    proof (cases "shell_wrapper_payload argv")
      case None
      then show ?thesis using 3 by (simp add: unfold mk_assessment_ok)
    next
      case (Some payload)
      obtain nested where nested: "depth < 2 \<Longrightarrow> assess_posix fs executables (depth + 1) payload = Inr nested"
          "depth < 2 \<Longrightarrow> assessment_ok nested"
      proof (cases "depth < 2")
        case True
        then have "2 - (depth + 1) < 2 - depth" by simp
        from less.hyps [OF this] that show thesis by blast
      qed (use that in blast)
      then show ?thesis using 3 Some by (auto simp: unfold mk_assessment_ok assessment_ok_def [of nested])
    qed
  qed
qed

text \<open>
  C19: Every command gets an assessment, on POSIX and on Windows, however deeply shells are
  nested: no branch raises.  It is well typed for its users: the decision, the mode, the risk
  are among the known ones; a shell assessment carries no words, an assessment that may run as
  words has at least one, and only a read-only list of words is ever allowed outright.
\<close>

theorem every_command_is_assessed:
  "\<exists>a. assess_command windows fs executables command = Inr a \<and> assessment_ok a"
  using assess_windows_ok assess_posix_ok [of fs executables 0]
  by (cases windows) (simp_all add: assess_command_def)

subsection \<open>Allowed commands\<close>

text \<open>
  An operand stays in the workspace: the path it names lies under the root, is not sensitive,
  and no component below the root is a symbolic link; all but the last are directories.
\<close>

definition confined :: "workspace_fs \<Rightarrow> string \<Rightarrow> bool" where
  "confined fs operand \<longleftrightarrow>
     (\<exists>base parts. fs_root fs = Some base \<and> absolute_operand base (pure operand) = ([slash], base @ parts)
       \<and> ''..'' \<notin> set (path_parts (pure operand))
       \<and> \<not> is_sensitive_path (posix_text parts)
       \<and> (\<forall>k. 0 < k \<and> k < length parts \<longrightarrow> fs_lstat fs (base @ take k parts) = Node Directory)
       \<and> (parts \<noteq> [] \<longrightarrow> fs_lstat fs (base @ parts) = Missing
            \<or> (\<exists>mode. fs_lstat fs (base @ parts) = Node mode \<and> mode \<noteq> SymbolicLink)))"

lemma walk_operand_clear:
  "walk_operand lstat env_template regular current mode parts = [] \<Longrightarrow>
     (\<forall>k. 0 < k \<and> k < length parts \<longrightarrow> lstat (current @ take k parts) = Node Directory)
     \<and> (parts \<noteq> [] \<longrightarrow> lstat (current @ parts) = Missing
          \<or> (\<exists>m. lstat (current @ parts) = Node m \<and> m \<noteq> SymbolicLink))"
proof (induction lstat env_template regular current mode parts rule: walk_operand.induct)
  case (2 lstat env_template regular current mode part parts)
  show ?case
  proof (cases "parts = []")
    case True
    then show ?thesis using "2.prems" by (auto split: lstat_result.split_asm if_split_asm)
  next
    case False
    then have d: "lstat (current @ [part]) = Node Directory"
      "walk_operand lstat env_template regular (current @ [part]) Directory parts = []"
      using "2.prems" by (auto split: lstat_result.split_asm if_split_asm)
    have ih: "(\<forall>k. 0 < k \<and> k < length parts \<longrightarrow> lstat ((current @ [part]) @ take k parts) = Node Directory)
        \<and> (parts \<noteq> [] \<longrightarrow> lstat ((current @ [part]) @ parts) = Missing
          \<or> (\<exists>m. lstat ((current @ [part]) @ parts) = Node m \<and> m \<noteq> SymbolicLink))"
      using "2.IH" [OF d(1)] d(2) False by simp
    have "lstat (current @ take k (part # parts)) = Node Directory" if "0 < k" "k < length (part # parts)" for k
      using that ih d(1) by (cases k; cases "k = 1") (auto simp: take_Suc)
    then show ?thesis using ih False by simp
  qed
qed simp

lemma path_operand_clear:
  assumes "path_operand_reason fs regular operand = []"
  shows "confined fs operand"
proof -
  obtain base where base: "fs_root fs = Some base"
    using assms by (auto simp: path_operand_reason_def split: if_split_asm option.split_asm)
  obtain anchor parts where abs: "absolute_operand base (pure operand) = (anchor, parts)" by fastforce
  have inside: "anchor = [slash]" "prefix base parts"
    using assms base abs by (auto simp: path_operand_reason_def split: if_split_asm)
  then obtain rel where rel: "parts = base @ rel" by (auto simp: prefix_def)
  have h: "''..'' \<notin> set (path_parts (pure operand))" "\<not> is_sensitive_path (posix_text rel)"
    using assms base abs inside rel by (auto simp: path_operand_reason_def Let_def split: if_split_asm)
  obtain mode where "walk_operand (fs_lstat fs) (is_allowed_env_template_leaf (posix_text rel)) regular base mode rel = []"
    using assms base abs inside rel h
    by (auto simp: path_operand_reason_def Let_def split: if_split_asm lstat_result.split_asm)
  from walk_operand_clear [OF this] show ?thesis
    unfolding confined_def using base abs inside rel h by blast
qed

lemma paths_clear: "paths_reason fs regular ws = [] \<Longrightarrow> w \<in> set ws \<Longrightarrow> confined fs w"
  by (induction ws) (auto simp: Let_def path_operand_clear split: if_split_asm)

lemma grammar_confines:
  assumes "automatic_grammar_reason fs head args = []" "head \<noteq> ''git''" "w \<in> set args"
  shows "is_option w \<or> confined fs w"
proof -
  have "w \<in> set (drop_option options args) \<or> is_option w" if "\<forall>w \<in> set options. is_option w" for options
    using assms(3) that by (cases args) (auto simp: drop_option_def)
  moreover have "\<forall>w \<in> set FILE_OPTIONS. is_option w" "\<forall>w \<in> set WC_OPTIONS. is_option w"
    by (simp_all add: FILE_OPTIONS_def WC_OPTIONS_def is_option_def)
  ultimately show ?thesis
    using assms
    by (auto simp: automatic_grammar_reason_def Let_def split: if_split_asm dest: paths_clear)
qed

text \<open>What is allowed outright.\<close>

lemma allow_is_inert:
  assumes "assess_command None fs executables command = Inr a" "as_decision a = ''allow''"
  shows "shlex_split (strip command) = Inr (as_argv a) \<and> as_argv a \<noteq> [] \<and> execution_mode a = ''argv''
    \<and> hd (as_argv a) \<in> set AUTO_HEADS
    \<and> literal_command (strip command)
    \<and> (\<forall>t. reaches (strip command) t \<longrightarrow> words_reason (words_of t) = [])
    \<and> (if hd (as_argv a) = ''git'' then git_grammar_reason (tl (as_argv a)) = []
       else \<forall>w \<in> set (tl (as_argv a)). is_option w \<or> confined fs w)"
proof -
  let ?raw = "strip command"
  have run: "assess_posix fs executables 0 command = Inr a" using assms(1) by (simp add: assess_command_def)
  obtain scan where scan: "scan_shell_syntax ?raw = Inr scan" "sc_parse_error scan \<longleftrightarrow> \<not> closed ?raw"
      "sc_operators scan = [] \<and> \<not> sc_expansion scan \<longleftrightarrow> literal_command ?raw"
    by (rule scan_shell_syntax_total)
  note unfold = assess_posix.simps [of fs executables 0] scan(1) Let_def mk_assessment_def
  have clean: "literal_sensitive_reason ?raw = []" "\<not> sc_parse_error scan"
    using run assms(2) by (auto simp: unfold split: if_split_asm)
  obtain argv where argv: "shlex_split ?raw = Inr argv" using clean(2) scan(2) shlex_split_total by blast
  have not_wrapped: "shell_wrapper_payload argv = None"
    using run assms(2) clean argv
    by (auto simp: unfold assess_redirects_def res_simps split: if_split_asm option.split_asm)
  have h: "sc_redirects scan = []" "\<not> has_shell_grammar scan" "argv \<noteq> []" "hd argv \<in> set AUTO_HEADS"
      "a = assess_read_only executables (hd argv) argv (automatic_grammar_reason fs (hd argv) (tl argv))"
    using run assms(2) clean argv not_wrapped
    by (auto simp: unfold assess_redirects_def split: if_split_asm)
  have reason: "automatic_grammar_reason fs (hd argv) (tl argv) = []" "as_argv a = argv" "execution_mode a = ''argv''"
    using h(5) assms(2) by (auto simp: assess_read_only_def mk_assessment_def split: if_split_asm)
  have "literal_command ?raw" using h(2) scan(3) by (simp add: has_shell_grammar_def)
  moreover have "\<forall>t. reaches ?raw t \<longrightarrow> words_reason (words_of t) = []"
    using clean(1) by (simp add: literal_reason_iff clean_def)
  moreover have "hd argv = ''git'' \<Longrightarrow> git_grammar_reason (tl argv) = []"
    using reason(1) by (simp add: automatic_grammar_reason_def)
  ultimately show ?thesis
    using argv h reason grammar_confines [OF reason(1)] by auto
qed


text \<open>A workspace with one file.\<close>

definition sample_workspace :: workspace_fs where
  "sample_workspace = \<lparr>fs_root = Some [''w''],
     fs_lstat = (\<lambda>p. if p = [''w''] then Node Directory
       else if p = [''w'', ''README.md''] then Node RegularFile else Missing)\<rparr>"

lemma sample_assessment:
  "case assess_command None sample_workspace None ''wc -l README.md'' of
     Inr a \<Rightarrow> as_decision a = ''allow'' \<and> as_argv a = [''wc'', ''-l'', ''README.md''] | Inl _ \<Rightarrow> False"
  by code_simp


subsection \<open>Nested commands\<close>

text \<open>
  C9: The search through nested commands is complete.  With its stack and its set of texts
  already seen it finds a reason exactly when some text that substitutions, back quotes or
  shell wrappers nest in the command, at any depth, has a sensitive word, a sensitive
  assignment or an \<open>env\<close> that splits strings; and a command with such a text is rejected
  for that reason, before anything else is looked at.
\<close>

theorem nested_sensitive_words_are_rejected:
  "(literal_sensitive_reason (strip command) \<noteq> []
      \<longleftrightarrow> (\<exists>t. reaches (strip command) t \<and> words_reason (words_of t) \<noteq> []))
   \<and> (literal_sensitive_reason (strip command) \<noteq> [] \<longrightarrow>
        (\<exists>a. assess_command None fs executables command = Inr a \<and> as_decision a = ''reject''
           \<and> as_reason a = literal_sensitive_reason (strip command)))"
proof (intro conjI impI)
  show "literal_sensitive_reason (strip command) \<noteq> []
      \<longleftrightarrow> (\<exists>t. reaches (strip command) t \<and> words_reason (words_of t) \<noteq> [])"
    using literal_reason_iff [of "strip command"] by (auto simp: clean_def)
  assume found: "literal_sensitive_reason (strip command) \<noteq> []"
  obtain scan where "scan_shell_syntax (strip command) = Inr scan" by (rule scan_shell_syntax_total)
  then show "\<exists>a. assess_command None fs executables command = Inr a \<and> as_decision a = ''reject''
      \<and> as_reason a = literal_sensitive_reason (strip command)"
    using found by (simp add: assess_command_def assess_posix.simps [of fs executables 0] Let_def mk_assessment_def)
qed

theorem nested_sensitive_words_are_rejected_witness:
  "\<exists>t. reaches ''echo $(sh -c \"cat .env\")'' t \<and> words_reason (words_of t) \<noteq> []"
proof -
  have "strip ''echo $(sh -c \"cat .env\")'' = ''echo $(sh -c \"cat .env\")''" by code_simp
  moreover have "literal_sensitive_reason ''echo $(sh -c \"cat .env\")'' \<noteq> []" by code_simp
  ultimately show ?thesis
    using nested_sensitive_words_are_rejected [of "''echo $(sh -c \"cat .env\")''"] by simp
qed

end
