(* ===== verification/Spec2Isabelle.thy ===== *)
theory Spec2Isabelle
  imports AgentProperties ProtocolProperties CommandProperties
begin

text \<open>
  A verification development for Pony, a terminal coding agent in Python (\<open>pony/\<close>): the
  session store, the conversation protocol, compaction and context, permissions, and the
  turn of the agent that ties them together.

  \<^bold>\<open>The program.\<close>  A user types requests into a terminal; a bounded queue hands them to
  one worker thread (\<open>cli/input_queue.py\<close>).  A request starts a turn (\<open>agent/loop.py\<close>): the
  request is committed to the session, the model is asked repeatedly, its answer is decoded
  (\<open>agent/action_codec.py\<close>) into a final text, a tool call or an answer to repeat, a tool
  call runs under a permission policy (\<open>tools/permissions.py\<close>), and each pair of call and
  result is committed.  A session is one append-only file of JSON rows whose parent links
  form a tree (\<open>state/session_store.py\<close>); what the model sees is the active path of that
  tree, with older entries replaced by summaries (\<open>agent/compaction.py\<close>) when the request
  no longer fits the window (\<open>agent/model_capabilities.py\<close>, \<open>context/chunks.py\<close>).

  \<^bold>\<open>Vocabulary.\<close>  \<open>Prelude\<close> holds errors as values (\<open>err\<close>, \<open>'a res\<close>, \<open>bindR\<close>, \<open>require\<close>)
  and the string operations of Python; \<open>PyValue\<close>, \<open>Json\<close>, \<open>JsonParse\<close> and \<open>PyText\<close> hold
  dynamic values, \<open>==\<close>, truth, dict updates, \<open>json.dumps\<close>, \<open>json.loads\<close> and \<open>str\<close>.

  \<^bold>\<open>Sessions.\<close>  \<open>SessionEntry\<close> is the validation of headers and entries, \<open>SessionProjection\<close>
  the fold \<open>_apply_entry\<close> that computes the state a path projects to, \<open>SessionTree\<close> the
  parser, the tree and its incremental extension, \<open>SessionStore\<close> the operations, with the
  files as \<open>disk\<close>, the in-process cache as \<open>tree_cache\<close> and a file signature that stands for
  the inode, size and time the code compares.  \<open>TreeFacts\<close>, \<open>TreeTheorems\<close>, \<open>ProjectionFacts\<close>,
  \<open>StoreFacts\<close>, \<open>StoreEffects\<close>, \<open>StoreHistory\<close>, \<open>RuleFacts\<close> and \<open>BranchFacts\<close> prove that
  extending a tree is parsing the longer file, what each operation appends, and that every
  reachable store is coherent; \<open>SessionProperties\<close> and \<open>OperationProperties\<close> state the
  properties, and \<open>Samples\<close> a concrete session.

  \<^bold>\<open>Protocol.\<close>  \<open>Messages\<close>, \<open>ActionCodec\<close>, \<open>Permissions\<close>, \<open>Workflow\<close>, \<open>TaskState\<close>, \<open>ModelBudget\<close>
  and \<open>WorkingMemory\<close> follow the files of the same names; \<open>ProtocolProperties\<close> holds the
  transcript grammar that \<open>validate_messages\<close> is proved equal to.

  \<^bold>\<open>Context.\<close>  \<open>PonyTags\<close> is the escaping of reserved tags, \<open>ContextView\<close> the view of a
  tree, \<open>ContextChunks\<close> the allocation, \<open>CompactionPlan\<close> and \<open>Compaction\<close> the planning and the
  operation, \<open>InputQueue\<close> the queue as steps of a terminal and a worker.  \<open>ViewFacts\<close>,
  \<open>CompactionFacts\<close> and \<open>CompactionEffects\<close> lead to \<open>ContextProperties\<close>.

  \<^bold>\<open>The turn.\<close>  \<open>AgentState\<close> has the exceptions a turn can meet, the state of the agent and of
  a turn, and the monad \<open>act\<close> of state and exceptions; \<open>AgentSession\<close> the services a turn
  calls and its guarded commits; \<open>AgentLoop\<close> request building, the model call and tools;
  \<open>AgentRun\<close> the attempt loop, its ends and \<open>run_agent\<close>.  \<open>AgentFacts\<close> states the interfaces as
  locales: \<open>tracked\<close> (a reflexive and transitive relation on the state), \<open>quiet_tracked\<close> and
  \<open>turn_tracked\<close> (its laws for the services and the commits) and, in \<open>AgentMoves\<close>, \<open>run_tracked\<close>;
  a relation that satisfies them is kept by a whole turn.  They are interpreted for the moves of
  the store, for the counters of the turn and for its task (\<open>AgentMoves\<close>, \<open>AgentEnds\<close>).
  \<open>AgentBounds\<close> counts requests and tools; \<open>AgentProperties\<close> states the results.

  \<^bold>\<open>Abstractions.\<close>  A string is a list of code points below 256.  A file row is its decoded
  value with the order of keys kept; the lines of a file exist as rows and an incomplete tail.
  A lock makes the operation under it atomic.  SHA-256, the git identity of a worktree, the
  redactor, random ids, clocks and every call to a provider are parameters.  A failing file
  system is the service \<open>sv_fault\<close>.  The context manager, the tool executor, checkpoints,
  traces and reports are services of the turn, any function of the state they receive, with
  the hypothesis \<open>fair_services\<close> where a property needs that they move the store only by its
  own operations.  A float is an exact rational; durations, sleeps and previews are left out.

  \<^bold>\<open>Loops.\<close>  The attempt loop counts down an explicit bound and the measure of the code
  (\<open>attempts_left\<close>); compaction inside a request recurses at most \<open>MAX_COMPACTIONS\<close> times, a
  bound of the code.  No other loop needs fuel.

  \<^bold>\<open>Not modelled.\<close>  Saving, cloning and migrating session files, the tools and their
  processes, private files, providers, configuration, the memory notes and their ranking, the
  terminal's rendering, worktree agents and run artifacts: system calls, network and
  presentation.
\<close>

end
